(* ===== verification/Prelude.thy ===== *)
theory Prelude
  imports Main "HOL-Library.Word" "HOL-Library.Multiset"
begin

section \<open>Shared vocabulary of the model\<close>

text \<open>
  The names every theory of the development shares: the machine integers of the Rust code
  (the release build of docker/setup-build-postgresql.sh has no overflow checks, so
  addition and subtraction wrap), the identifiers that come from third-party crates and are
  only ever compared or printed (UUIDs, P-256 keys and signatures, timestamps), the shape of
  a fallible operation on a state, and the lemma collections the component proofs use.
\<close>

type_synonym u16 = "16 word"
type_synonym i16 = "16 word"
type_synonym u32 = "32 word"
type_synonym u64 = "64 word"
type_synonym i64 = "64 word"

text \<open>
  A UUID is a 128-bit value; a timestamp is the number of time units since the epoch; keys
  and signatures are carried by their canonical textual encoding. The code compares them for
  equality, orders timestamps, and prints them; it computes nothing else from them.
\<close>

type_synonym uuid = "128 word"
type_synonym datetime = int

datatype public_key = PublicKey (key_text: string)

datatype signature = Signature (signature_text: string)

text \<open>
  A Rust method \<open>fn f(&mut self, ...) -> Result<A, E>\<close> is a function from the
  state to the result and the state it leaves behind, whichever way it returns.
\<close>

type_synonym ('s, 'e, 'a) step_result = "('e + 'a) \<times> 's"

named_theorems wf_intros \<open>a component's operation keeps its well-formedness\<close>
named_theorems frame_simps \<open>what an operation leaves alone\<close>

subsection \<open>Signed readings of words\<close>

text \<open>\<open>Ord::max(0, x)\<close> on \<open>i64\<close>, read back with \<open>as u64\<close>.\<close>

definition max_zero_i64 :: "i64 \<Rightarrow> u64" where
  "max_zero_i64 x = (if sint x < 0 then 0 else x)"

text \<open>\<open>i64::abs\<close> read with \<open>as u64\<close>; the least number keeps its bits.\<close>

definition abs_u64 :: "i64 \<Rightarrow> u64" where
  "abs_u64 x = (if sint x < 0 then - x else x)"

lemma sint_of_int_in_range:
  fixes t :: int
  assumes "- (2 ^ 63) \<le> t" and "t < 2 ^ 63"
  shows "sint (of_int t :: i64) = t"
  using assms by (simp add: sint_sbintrunc' signed_take_bit_int_eq_self)

lemma sint_small:
  fixes x :: i64
  assumes "uint x < 2 ^ 63"
  shows "sint x = uint x"
proof -
  have "- (2 ^ 63) \<le> uint x" by (rule order_trans [of _ 0]) simp_all
  from sint_of_int_in_range [OF this assms] show ?thesis by simp
qed

lemma max_zero_i64_exact:
  assumes "- (2 ^ 63) \<le> t" and "t < 2 ^ 63"
  shows "uint (max_zero_i64 (of_int t)) = max 0 t"
proof (cases "t < 0")
  case True
  with assms show ?thesis
    by (simp add: max_zero_i64_def sint_of_int_in_range del: of_int_less_iff)
next
  case False
  with assms have "uint (of_int t :: i64) = t"
    by (simp add: uint_word_of_int_eq take_bit_int_eq_self)
  with False assms show ?thesis
    by (simp add: max_zero_i64_def sint_of_int_in_range)
qed

lemma word_sum_list_uint:
  "(\<Sum>x\<leftarrow>xs. f x :: 'a::len word) = of_int (\<Sum>x\<leftarrow>xs. uint (f x))"
  by (induction xs) auto

lemma word_sum_list_sint:
  "(\<Sum>x\<leftarrow>xs. f x :: 'a::len word) = of_int (\<Sum>x\<leftarrow>xs. sint (f x))"
  by (induction xs) auto

text \<open>A sum over a list depends on the list's elements only, not on their order.\<close>

lemma sum_list_map_mset:
  fixes f :: "'a \<Rightarrow> 'b::comm_monoid_add"
  shows "sum_list (map f xs) = sum_mset (image_mset f (mset xs))"
  by (simp flip: sum_mset_sum_list)

lemma in_map_filter: "y \<in> set (List.map_filter f xs) \<longleftrightarrow> (\<exists>x\<in>set xs. f x = Some y)"
  by (induction xs) (auto split: option.splits)

subsection \<open>Running a fallible step over a list, stopping at the first error\<close>

fun run_all :: "('u \<Rightarrow> 's \<Rightarrow> ('s, 'e, 'a) step_result) \<Rightarrow> 'u list \<Rightarrow> 's \<Rightarrow> 'e + 's" where
  "run_all f [] s = Inr s"
| "run_all f (u # us) s =
     (case f u s of (Inl e, _) \<Rightarrow> Inl e | (Inr _, s') \<Rightarrow> run_all f us s')"

lemma run_all_append:
  "run_all f (us @ vs) s =
     (case run_all f us s of Inl e \<Rightarrow> Inl e | Inr s' \<Rightarrow> run_all f vs s')"
  by (induction us arbitrary: s) (auto split: prod.splits sum.splits)

lemma run_all_snoc:
  "run_all f (us @ [u]) s =
     (case run_all f us s of Inl e \<Rightarrow> Inl e
      | Inr s' \<Rightarrow> (case f u s' of (Inl e, _) \<Rightarrow> Inl e | (Inr _, s'') \<Rightarrow> Inr s''))"
  by (simp add: run_all_append split: sum.splits prod.splits)

text \<open>
  The contract of an event-sourced component: one step keeps the invariant, whatever it
  returns, for every admissible update. The lemma lifts it to whole runs.
\<close>

locale guarded_steps =
  fixes step :: "'u \<Rightarrow> 's \<Rightarrow> ('s, 'e, 'a) step_result"
    and inv :: "'s \<Rightarrow> bool"
    and ok :: "'u \<Rightarrow> bool"
  assumes step_inv: "inv s \<Longrightarrow> ok u \<Longrightarrow> inv (snd (step u s))"
begin

lemma run_inv:
  assumes "run_all step us s = Inr s'" and "inv s" and "\<forall>u\<in>set us. ok u"
  shows "inv s'"
  using assms
proof (induction us arbitrary: s)
  case Nil
  then show ?case by simp
next
  case (Cons u us)
  then obtain r s1 where f: "step u s = (Inr r, s1)"
    by (cases "step u s") (auto split: sum.splits)
  from step_inv [of s u] Cons.prems f have "inv s1" by simp
  moreover from Cons.prems f have "run_all step us s1 = Inr s'" by simp
  ultimately show ?case using Cons.IH Cons.prems(3) by simp
qed

end

end
