(* ===== verification/Hash_Map.thy ===== *)
theory Hash_Map
  imports Prelude
begin

section \<open>std::collections::HashMap\<close>

text \<open>
  A \<open>HashMap\<close> is the list of its entries in the order its iterator yields them.
  The order is unspecified in Rust: insertion under a known key keeps the entry's place, a
  new entry may appear anywhere (here: last), and every theorem that looks at the entries
  holds for any order the list may have. \<open>hm_wf\<close> says that no key occurs twice.
\<close>

type_synonym ('k, 'v) hash_map = "('k \<times> 'v) list"

definition hm_empty :: "('k, 'v) hash_map" where
  "hm_empty = []"

definition hm_wf :: "('k, 'v) hash_map \<Rightarrow> bool" where
  "hm_wf m = distinct (map fst m)"

fun hm_get :: "('k, 'v) hash_map \<Rightarrow> 'k \<Rightarrow> 'v option" where
  "hm_get [] k = None"
| "hm_get ((k', v) # m) k = (if k' = k then Some v else hm_get m k)"

fun hm_insert :: "'k \<Rightarrow> 'v \<Rightarrow> ('k, 'v) hash_map \<Rightarrow> ('k, 'v) hash_map" where
  "hm_insert k v [] = [(k, v)]"
| "hm_insert k v ((k', v') # m) =
     (if k' = k then (k, v) # m else (k', v') # hm_insert k v m)"

fun hm_remove :: "'k \<Rightarrow> ('k, 'v) hash_map \<Rightarrow> ('k, 'v) hash_map" where
  "hm_remove k [] = []"
| "hm_remove k ((k', v') # m) =
     (if k' = k then m else (k', v') # hm_remove k m)"

definition hm_contains_key :: "('k, 'v) hash_map \<Rightarrow> 'k \<Rightarrow> bool" where
  "hm_contains_key m k = (hm_get m k \<noteq> None)"

definition hm_keys :: "('k, 'v) hash_map \<Rightarrow> 'k list" where
  "hm_keys m = map fst m"

definition hm_values :: "('k, 'v) hash_map \<Rightarrow> 'v list" where
  "hm_values m = map snd m"

text \<open>\<open>iter_mut\<close>: a function of key and value applied to every entry in place.\<close>

definition hm_map :: "('k \<Rightarrow> 'v \<Rightarrow> 'w) \<Rightarrow> ('k, 'v) hash_map \<Rightarrow> ('k, 'w) hash_map" where
  "hm_map f m = map (\<lambda>(k, v). (k, f k v)) m"

text \<open>\<open>collect\<close> of an iterator of pairs: later pairs overwrite earlier ones.\<close>

definition hm_collect :: "('k \<times> 'v) list \<Rightarrow> ('k, 'v) hash_map" where
  "hm_collect kvs = fold (\<lambda>(k, v). hm_insert k v) kvs hm_empty"

text \<open>\<open>entry(k).and_modify(f).or_insert(v)\<close>.\<close>

definition hm_modify_or_insert ::
  "'k \<Rightarrow> ('v \<Rightarrow> 'v) \<Rightarrow> 'v \<Rightarrow> ('k, 'v) hash_map \<Rightarrow> ('k, 'v) hash_map" where
  "hm_modify_or_insert k f v m =
     (case hm_get m k of Some x \<Rightarrow> hm_insert k (f x) m | None \<Rightarrow> hm_insert k v m)"

text \<open>A predicate that holds of every entry.\<close>

definition hm_all :: "('k \<Rightarrow> 'v \<Rightarrow> bool) \<Rightarrow> ('k, 'v) hash_map \<Rightarrow> bool" where
  "hm_all P m = list_all (\<lambda>(k, v). P k v) m"

subsection \<open>Lookup laws\<close>

lemma hm_get_empty [simp]: "hm_get hm_empty k = None"
  by (simp add: hm_empty_def)

lemma hm_get_insert [simp]:
  "hm_get (hm_insert k v m) k' = (if k' = k then Some v else hm_get m k')"
  by (induction k v m rule: hm_insert.induct) auto

lemma hm_insert_twice [simp]: "hm_insert k v (hm_insert k v' m) = hm_insert k v m"
  by (induction k v' m rule: hm_insert.induct) auto

lemma hm_get_None_iff: "hm_get m k = None \<longleftrightarrow> k \<notin> fst ` set m"
  by (induction m k rule: hm_get.induct) auto

lemma hm_get_in_set: "hm_get m k = Some v \<Longrightarrow> (k, v) \<in> set m"
  by (induction m k rule: hm_get.induct) (auto split: if_splits)

lemma hm_in_set_get: "hm_wf m \<Longrightarrow> (k, v) \<in> set m \<Longrightarrow> hm_get m k = Some v"
  by (induction m k rule: hm_get.induct) (force simp: hm_wf_def)+

lemma hm_get_remove_same [simp]: "hm_wf m \<Longrightarrow> hm_get (hm_remove k m) k = None"
  by (induction k m rule: hm_remove.induct) (auto simp: hm_wf_def hm_get_None_iff)

lemma hm_get_remove_other [simp]: "k' \<noteq> k \<Longrightarrow> hm_get (hm_remove k m) k' = hm_get m k'"
  by (induction k m rule: hm_remove.induct) auto

lemma hm_remove_subset: "set (hm_remove k m) \<subseteq> set m"
  by (induction k m rule: hm_remove.induct) auto

lemma hm_remove_absent: "hm_get m k = None \<Longrightarrow> hm_remove k m = m"
  by (induction k m rule: hm_remove.induct) (auto split: if_splits)

lemma hm_get_map [simp]: "hm_get (hm_map f m) k = map_option (f k) (hm_get m k)"
  by (induction m) (auto simp: hm_map_def)

lemma hm_contains_key_iff: "hm_contains_key m k \<longleftrightarrow> (\<exists>v. hm_get m k = Some v)"
  by (auto simp: hm_contains_key_def)

subsection \<open>Keys stay distinct\<close>

lemma hm_wf_empty [simp, wf_intros]: "hm_wf hm_empty"
  by (simp add: hm_wf_def hm_empty_def)

lemma fst_set_hm_insert: "fst ` set (hm_insert k v m) = insert k (fst ` set m)"
  by (induction k v m rule: hm_insert.induct) auto

lemma hm_wf_insert [simp, wf_intros]: "hm_wf m \<Longrightarrow> hm_wf (hm_insert k v m)"
proof (induction k v m rule: hm_insert.induct)
  case (1 k v)
  then show ?case by (simp add: hm_wf_def)
next
  case (2 k v k' v' m)
  have "k' \<notin> fst ` set (hm_insert k v m)" if "k' \<noteq> k"
    using that 2(2) by (simp add: fst_set_hm_insert hm_wf_def)
  with 2 show ?case by (auto simp: hm_wf_def)
qed

lemma hm_wf_remove [simp, wf_intros]: "hm_wf m \<Longrightarrow> hm_wf (hm_remove k m)"
proof (induction k m rule: hm_remove.induct)
  case (1 k)
  then show ?case by simp
next
  case (2 k k' v' m)
  then show ?case using hm_remove_subset [of k m] by (force simp: hm_wf_def)
qed

lemma hm_wf_map [simp, wf_intros]: "hm_wf (hm_map f m) = hm_wf m"
proof -
  have "map fst (hm_map f m) = map fst m"
    by (simp add: hm_map_def split_beta o_def)
  then show ?thesis by (simp only: hm_wf_def)
qed

lemma hm_wf_modify_or_insert [simp, wf_intros]:
  "hm_wf m \<Longrightarrow> hm_wf (hm_modify_or_insert k f v m)"
  by (simp add: hm_modify_or_insert_def split: option.splits)

lemma hm_wf_fold_insert:
  "hm_wf m \<Longrightarrow> hm_wf (fold (\<lambda>(k, v). hm_insert k v) kvs m)"
  by (induction kvs arbitrary: m) auto

lemma hm_wf_collect [simp, wf_intros]: "hm_wf (hm_collect kvs)"
  by (simp add: hm_collect_def hm_wf_fold_insert)

subsection \<open>Predicates over the entries\<close>

lemma hm_all_empty [simp]: "hm_all P hm_empty"
  by (simp add: hm_all_def hm_empty_def)

lemma hm_all_Nil [simp]: "hm_all P []"
  by (simp add: hm_all_def)

lemma hm_all_Cons [simp]: "hm_all P ((k, v) # m) \<longleftrightarrow> P k v \<and> hm_all P m"
  by (simp add: hm_all_def)

lemma hm_all_get: "hm_all P m \<Longrightarrow> hm_get m k = Some v \<Longrightarrow> P k v"
  by (induction m k rule: hm_get.induct) (auto split: if_splits)

lemma hm_all_in_set: "hm_all P m \<longleftrightarrow> (\<forall>k v. (k, v) \<in> set m \<longrightarrow> P k v)"
  by (auto simp: hm_all_def list_all_iff)

lemma hm_allI: "hm_wf m \<Longrightarrow> (\<And>k v. hm_get m k = Some v \<Longrightarrow> P k v) \<Longrightarrow> hm_all P m"
  using hm_in_set_get by (fastforce simp: hm_all_in_set)

lemma hm_all_insert [wf_intros]: "hm_all P m \<Longrightarrow> P k v \<Longrightarrow> hm_all P (hm_insert k v m)"
  by (induction k v m rule: hm_insert.induct) auto

lemma hm_all_remove [wf_intros]: "hm_all P m \<Longrightarrow> hm_all P (hm_remove k m)"
  using hm_remove_subset [of k m] by (auto simp: hm_all_in_set)

lemma hm_all_map [simp]: "hm_all P (hm_map f m) \<longleftrightarrow> hm_all (\<lambda>k v. P k (f k v)) m"
  by (induction m) (auto simp: hm_map_def)

lemma hm_all_mono: "hm_all P m \<Longrightarrow> (\<And>k v. P k v \<Longrightarrow> Q k v) \<Longrightarrow> hm_all Q m"
  by (auto simp: hm_all_in_set)

lemma hm_all_fold_insert:
  assumes "hm_all P m" and "\<forall>(k, v)\<in>set kvs. P k v"
  shows "hm_all P (fold (\<lambda>(k, v). hm_insert k v) kvs m)"
  using assms by (induction kvs arbitrary: m) (auto intro: hm_all_insert)

lemma hm_all_collect [wf_intros]: "(\<forall>(k, v)\<in>set kvs. P k v) \<Longrightarrow> hm_all P (hm_collect kvs)"
  by (simp add: hm_collect_def hm_all_fold_insert)

subsection \<open>The map contract\<close>

text \<open>
  What every client of a map relies on, independent of the entry order. The lemmas of the
  locale say how the multiset of entries, and with it any sum over the values, changes
  under an insertion or a removal: they carry the conservation laws of the ledgers.
\<close>

locale entry_map =
  fixes get :: "'m \<Rightarrow> 'k \<Rightarrow> 'v option"
    and put :: "'k \<Rightarrow> 'v \<Rightarrow> 'm \<Rightarrow> 'm"
    and del :: "'k \<Rightarrow> 'm \<Rightarrow> 'm"
    and entries :: "'m \<Rightarrow> ('k \<times> 'v) list"
    and good :: "'m \<Rightarrow> bool"
  assumes get_put: "get (put k v m) k' = (if k' = k then Some v else get m k')"
    and get_del: "good m \<Longrightarrow> get (del k m) k' = (if k' = k then None else get m k')"
    and good_put: "good m \<Longrightarrow> good (put k v m)"
    and good_del: "good m \<Longrightarrow> good (del k m)"
    and entries_get: "good m \<Longrightarrow> (k, v) \<in> set (entries m) \<longleftrightarrow> get m k = Some v"
    and entries_distinct: "good m \<Longrightarrow> distinct (entries m)"
begin

lemma set_entries: "good m \<Longrightarrow> set (entries m) = {(k, v). get m k = Some v}"
  by (auto simp: entries_get)

lemma mset_entries: "good m \<Longrightarrow> mset (entries m) = mset_set {(k, v). get m k = Some v}"
  by (metis entries_distinct mset_set_set set_entries)

lemma finite_entries: "good m \<Longrightarrow> finite {(k, v). get m k = Some v}"
  by (metis List.finite_set set_entries)

lemma entries_put_fresh:
  assumes "good m" and "get m k = None"
  shows "mset (entries (put k v m)) = add_mset (k, v) (mset (entries m))"
proof -
  have "{(k', v'). get (put k v m) k' = Some v'} = insert (k, v) {(k', v'). get m k' = Some v'}"
    using assms(2) by (auto simp: get_put split: if_splits)
  with assms show ?thesis
    by (simp add: mset_entries good_put finite_entries)
qed

lemma entries_del:
  assumes "good m" and "get m k = Some v"
  shows "mset (entries m) = add_mset (k, v) (mset (entries (del k m)))"
proof -
  have "{(k', v'). get m k' = Some v'} = insert (k, v) {(k', v'). get (del k m) k' = Some v'}"
    using assms by (auto simp: get_del split: if_splits)
  moreover have "(k, v) \<notin> {(k', v'). get (del k m) k' = Some v'}"
    using assms(1) by (simp add: get_del)
  ultimately show ?thesis using assms(1)
    by (simp add: mset_entries good_del finite_entries)
qed

lemma entries_put_known:
  assumes "good m" and "get m k = Some w"
  shows "add_mset (k, w) (mset (entries (put k v m))) = add_mset (k, v) (mset (entries m))"
proof -
  have g: "good (put k v m)" by (rule good_put [OF assms(1)])
  have "{(k', v'). get (del k m) k' = Some v'} = {(k', v'). get (del k (put k v m)) k' = Some v'}"
    using assms(1) g by (auto simp: get_del get_put)
  then have "mset (entries (del k (put k v m))) = mset (entries (del k m))"
    using assms(1) g by (simp add: mset_entries good_del)
  moreover have "mset (entries (put k v m)) = add_mset (k, v) (mset (entries (del k (put k v m))))"
    by (rule entries_del [OF g]) (simp add: get_put)
  moreover have "mset (entries m) = add_mset (k, w) (mset (entries (del k m)))"
    by (rule entries_del [OF assms])
  ultimately show ?thesis by (simp add: add_mset_commute)
qed

lemma sum_put_fresh:
  fixes f :: "'k \<times> 'v \<Rightarrow> 'b::comm_monoid_add"
  assumes "good m" and "get m k = None"
  shows "sum_list (map f (entries (put k v m))) = f (k, v) + sum_list (map f (entries m))"
  by (simp add: sum_list_map_mset entries_put_fresh [OF assms])

lemma sum_put_known:
  fixes f :: "'k \<times> 'v \<Rightarrow> 'b::comm_monoid_add"
  assumes "good m" and "get m k = Some w"
  shows "f (k, w) + sum_list (map f (entries (put k v m)))
    = f (k, v) + sum_list (map f (entries m))"
  using arg_cong [OF entries_put_known [OF assms, of v], of "\<lambda>M. sum_mset (image_mset f M)"]
  by (simp add: sum_list_map_mset)

lemma sum_del:
  fixes f :: "'k \<times> 'v \<Rightarrow> 'b::comm_monoid_add"
  assumes "good m" and "get m k = Some v"
  shows "sum_list (map f (entries m)) = f (k, v) + sum_list (map f (entries (del k m)))"
  by (simp add: sum_list_map_mset entries_del [OF assms])

lemma card_put_fresh:
  assumes "good m" and "get m k = None"
  shows "length (entries (put k v m)) = Suc (length (entries m))"
  using entries_put_fresh [OF assms, of v] by (metis size_add_mset size_mset)

lemma card_del:
  assumes "good m" and "get m k = Some v"
  shows "length (entries m) = Suc (length (entries (del k m)))"
  using entries_del [OF assms] by (metis size_add_mset size_mset)

end

lemma hm_get_remove: "hm_wf m \<Longrightarrow> hm_get (hm_remove k m) k' = (if k' = k then None else hm_get m k')"
  by simp

lemma hm_in_set_iff: "hm_wf m \<Longrightarrow> (k, v) \<in> set m \<longleftrightarrow> hm_get m k = Some v"
  using hm_get_in_set hm_in_set_get by metis

lemma hm_distinct: "hm_wf m \<Longrightarrow> distinct m"
  by (simp add: hm_wf_def distinct_map)

interpretation hm: entry_map hm_get hm_insert hm_remove "\<lambda>m. m" hm_wf
  by unfold_locales (simp_all add: hm_get_remove hm_in_set_iff hm_distinct)

end
