(* ===== verification/Rust_String.thy ===== *)
theory Rust_String
  imports Prelude
begin

section \<open>Strings: case mapping, decimal numbers, join\<close>

text \<open>
  A Rust \<open>String\<close> is its UTF-8 bytes, so \<open>len()\<close> is the length of the list.
  The code uses \<open>to_lowercase\<close> and \<open>to_uppercase\<close> to compare a string with ASCII
  literals. The only characters outside ASCII whose case mapping is an ASCII letter of those
  literals are the Kelvin sign (bytes E2 84 AA, lower case \<open>k\<close>), the long s
  (C5 BF, upper case \<open>S\<close>) and the dotless i (C4 B1, upper case \<open>I\<close>); they are
  mapped, every other byte outside ASCII is kept. A mapped string is therefore equal to an
  ASCII literal here exactly when it is in Rust, for the literals the code compares with
  (none of them holds a pair FF, FI, FL or ST, which a ligature could produce).
\<close>

definition ascii_lower :: "char \<Rightarrow> char" where
  "ascii_lower c =
     (if 65 \<le> (of_char c :: nat) \<and> (of_char c :: nat) \<le> 90
      then char_of ((of_char c :: nat) + 32) else c)"

definition ascii_upper :: "char \<Rightarrow> char" where
  "ascii_upper c =
     (if 97 \<le> (of_char c :: nat) \<and> (of_char c :: nat) \<le> 122
      then char_of ((of_char c :: nat) - 32) else c)"

function to_lowercase :: "string \<Rightarrow> string" where
  "to_lowercase s =
     (case s of [] \<Rightarrow> []
      | c # cs \<Rightarrow>
          (if take 3 s = [CHR 0xE2, CHR 0x84, CHR 0xAA]
           then CHR ''k'' # to_lowercase (drop 3 s)
           else ascii_lower c # to_lowercase cs))"
  by pat_completeness auto
termination
  by (relation "measure length") auto

function to_uppercase :: "string \<Rightarrow> string" where
  "to_uppercase s =
     (case s of [] \<Rightarrow> []
      | c # cs \<Rightarrow>
          (if take 2 s = [CHR 0xC5, CHR 0xBF] then CHR ''S'' # to_uppercase (drop 2 s)
           else if take 2 s = [CHR 0xC4, CHR 0xB1] then CHR ''I'' # to_uppercase (drop 2 s)
           else ascii_upper c # to_uppercase cs))"
  by pat_completeness auto
termination
  by (relation "measure length") auto

declare to_lowercase.simps [simp del] to_uppercase.simps [simp del]

lemma to_lowercase_Nil [simp]: "to_lowercase [] = []"
  by (subst to_lowercase.simps) simp

lemma to_lowercase_Cons [simp]:
  "to_lowercase (c # cs) =
     (if take 3 (c # cs) = [CHR 0xE2, CHR 0x84, CHR 0xAA]
      then CHR ''k'' # to_lowercase (drop 2 cs)
      else ascii_lower c # to_lowercase cs)"
  by (subst to_lowercase.simps) (simp add: numeral_eq_Suc)

lemma to_uppercase_Nil [simp]: "to_uppercase [] = []"
  by (subst to_uppercase.simps) simp

lemma to_uppercase_Cons [simp]:
  "to_uppercase (c # cs) =
     (if take 2 (c # cs) = [CHR 0xC5, CHR 0xBF] then CHR ''S'' # to_uppercase (drop 1 cs)
      else if take 2 (c # cs) = [CHR 0xC4, CHR 0xB1] then CHR ''I'' # to_uppercase (drop 1 cs)
      else ascii_upper c # to_uppercase cs)"
  by (subst to_uppercase.simps) (simp add: numeral_eq_Suc)

text \<open>An ASCII string without capitals is its own lower case; dually for capitals.\<close>

definition ascii_lower_fixed :: "char \<Rightarrow> bool" where
  "ascii_lower_fixed c = ((of_char c :: nat) < 65 \<or> 90 < (of_char c :: nat) \<and> (of_char c :: nat) < 128)"

definition ascii_upper_fixed :: "char \<Rightarrow> bool" where
  "ascii_upper_fixed c = ((of_char c :: nat) < 97 \<or> 122 < (of_char c :: nat) \<and> (of_char c :: nat) < 128)"

lemma to_lowercase_fixed: "list_all ascii_lower_fixed s \<Longrightarrow> to_lowercase s = s"
proof (induction s)
  case Nil
  then show ?case by simp
next
  case (Cons c cs)
  then have "c \<noteq> CHR 0xE2" and "ascii_lower c = c"
    by (auto simp: ascii_lower_fixed_def ascii_lower_def)
  with Cons show ?case by (simp add: numeral_3_eq_3)
qed

lemma to_uppercase_fixed: "list_all ascii_upper_fixed s \<Longrightarrow> to_uppercase s = s"
proof (induction s)
  case Nil
  then show ?case by simp
next
  case (Cons c cs)
  then have "c \<noteq> CHR 0xC5" and "c \<noteq> CHR 0xC4" and "ascii_upper c = c"
    by (auto simp: ascii_upper_fixed_def ascii_upper_def)
  with Cons show ?case by (simp add: numeral_2_eq_2)
qed

lemma kelvin_lower: "to_lowercase [CHR 0xE2, CHR 0x84, CHR 0xAA] = ''k''"
  by simp

lemma long_s_upper: "to_uppercase [CHR ''u'', CHR 0xC5, CHR 0xBF] = ''US''"
  by code_simp

subsection \<open>Decimal numbers\<close>

definition digit_char :: "nat \<Rightarrow> char" where
  "digit_char n = char_of (48 + n)"

fun show_nat :: "nat \<Rightarrow> string" where
  "show_nat n =
     (if n < 10 then [digit_char n] else show_nat (n div 10) @ [digit_char (n mod 10)])"

declare show_nat.simps [simp del]

definition u64_to_string :: "u64 \<Rightarrow> string" where
  "u64_to_string w = show_nat (unat w)"

lemma of_char_digit: "n < 10 \<Longrightarrow> of_char (digit_char n) = 48 + n"
  by (simp add: digit_char_def)

lemma digit_char_inj: "m < 10 \<Longrightarrow> n < 10 \<Longrightarrow> digit_char m = digit_char n \<Longrightarrow> m = n"
  by (metis add_left_cancel of_char_digit)

lemma show_nat_nonempty: "show_nat n \<noteq> []"
  by (subst show_nat.simps) simp

lemma show_nat_digits: "set (show_nat n) \<subseteq> digit_char ` {..<10}"
proof (induction n rule: show_nat.induct)
  case (1 n)
  then show ?case by (subst show_nat.simps) auto
qed

lemma show_nat_inj: "show_nat m = show_nat n \<Longrightarrow> m = n"
proof (induction m arbitrary: n rule: show_nat.induct)
  case (1 m)
  have "m = n" if "m < 10" "n < 10"
    using that "1.prems" by (simp add: show_nat.simps [of m] show_nat.simps [of n] digit_char_inj)
  moreover have False if "m < 10" "\<not> n < 10"
    using that "1.prems" show_nat_nonempty [of "n div 10"]
    by (simp add: show_nat.simps [of m] show_nat.simps [of n] Cons_eq_append_conv)
  moreover have False if "\<not> m < 10" "n < 10"
    using that "1.prems" show_nat_nonempty [of "m div 10"]
    by (simp add: show_nat.simps [of m] show_nat.simps [of n] append_eq_Cons_conv)
  moreover have "m = n" if "\<not> m < 10" "\<not> n < 10"
  proof -
    from that "1.prems" have "show_nat (m div 10) = show_nat (n div 10)"
      and d: "digit_char (m mod 10) = digit_char (n mod 10)"
      by (simp_all add: show_nat.simps [of m] show_nat.simps [of n])
    with that "1.IH" have "m div 10 = n div 10" by simp
    moreover from d have "m mod 10 = n mod 10" by (simp add: digit_char_inj)
    ultimately show ?thesis by (metis div_mult_mod_eq)
  qed
  ultimately show ?case by blast
qed

lemma u64_to_string_inj: "u64_to_string v = u64_to_string w \<Longrightarrow> v = w"
  unfolding u64_to_string_def word_unat_eq_iff by (rule show_nat_inj)

lemma colon_not_in_u64_string: "CHR '':'' \<notin> set (u64_to_string w)"
proof
  assume "CHR '':'' \<in> set (u64_to_string w)"
  then obtain n where "n < 10" and "CHR '':'' = digit_char n"
    using show_nat_digits [of "unat w"] by (auto simp: u64_to_string_def)
  then have "of_char CHR '':'' = 48 + n" by (simp add: of_char_digit)
  with \<open>n < 10\<close> show False by simp
qed

text \<open>
  \<open>str::parse::<u64>\<close>: an optional plus sign and at least one digit, nothing else, and
  the number fits 64 bits.
\<close>

definition digit_value :: "char \<Rightarrow> nat option" where
  "digit_value c =
     (if 48 \<le> (of_char c :: nat) \<and> (of_char c :: nat) \<le> 57 then Some (of_char c - 48) else None)"

fun parse_digits :: "nat \<Rightarrow> string \<Rightarrow> nat option" where
  "parse_digits acc [] = Some acc"
| "parse_digits acc (c # cs) =
     (case digit_value c of
        None \<Rightarrow> None
      | Some d \<Rightarrow> if acc * 10 + d < 2 ^ 64 then parse_digits (acc * 10 + d) cs else None)"

definition parse_u64 :: "string \<Rightarrow> u64 option" where
  "parse_u64 s =
     (let ds = (case s of c # cs \<Rightarrow> if c = CHR ''+'' then cs else s | [] \<Rightarrow> [])
      in if ds = [] then None else map_option of_nat (parse_digits 0 ds))"

text \<open>\<open>str::parse::<i64>\<close>: the sign may be a minus, and the range is that of \<open>i64\<close>.\<close>

definition parse_i64 :: "string \<Rightarrow> i64 option" where
  "parse_i64 s =
     (let negative = (case s of c # cs \<Rightarrow> c = CHR ''-'' | [] \<Rightarrow> False);
          ds = (case s of c # cs \<Rightarrow> if c = CHR ''+'' \<or> c = CHR ''-'' then cs else s | [] \<Rightarrow> [])
      in if ds = [] then None
         else (case parse_digits 0 ds of
                 None \<Rightarrow> None
               | Some n \<Rightarrow>
                  if negative then (if n \<le> 2 ^ 63 then Some (- of_nat n) else None)
                  else (if n < 2 ^ 63 then Some (of_nat n) else None)))"

lemma digit_value_char: "n < 10 \<Longrightarrow> digit_value (digit_char n) = Some n"
  by (simp add: digit_value_def of_char_digit)

lemma parse_digits_show:
  "n < 2 ^ 64 \<Longrightarrow> parse_digits 0 (show_nat n @ cs) = parse_digits n cs"
proof (induction n arbitrary: cs rule: show_nat.induct)
  case (1 n)
  show ?case
  proof (cases "n < 10")
    case True
    then show ?thesis by (subst show_nat.simps) (simp add: digit_value_char)
  next
    case False
    have "n div 10 * 10 + n mod 10 = n" by simp
    with False 1 show ?thesis
      by (subst show_nat.simps) (simp add: digit_value_char)
  qed
qed

lemma parse_u64_to_string [simp]: "parse_u64 (u64_to_string w) = Some w"
proof -
  have "unat w < 2 ^ 64" using unsigned_less [of w, where ?'a = nat] by simp
  then have "parse_digits 0 (u64_to_string w) = Some (unat w)"
    using parse_digits_show [of "unat w" "[]"] by (simp add: u64_to_string_def)
  moreover have "hd (u64_to_string w) \<noteq> CHR ''+''" and "u64_to_string w \<noteq> []"
  proof -
    show ne: "u64_to_string w \<noteq> []" by (simp add: u64_to_string_def show_nat_nonempty)
    then obtain n where "n < 10" and h: "hd (u64_to_string w) = digit_char n"
      using subsetD [OF show_nat_digits hd_in_set [OF ne [unfolded u64_to_string_def]]]
      by (auto simp: u64_to_string_def)
    show "hd (u64_to_string w) \<noteq> CHR ''+''"
    proof
      assume "hd (u64_to_string w) = CHR ''+''"
      with h of_char_digit [OF \<open>n < 10\<close>] have "of_char CHR ''+'' = 48 + n" by simp
      then show False by simp
    qed
  qed
  ultimately show ?thesis
    by (cases "u64_to_string w") (simp_all add: parse_u64_def)
qed

subsection \<open>str::split on a character\<close>

fun str_split :: "char \<Rightarrow> string \<Rightarrow> string list" where
  "str_split c [] = [[]]"
| "str_split c (x # xs) =
     (if x = c then [] # str_split c xs
      else (case str_split c xs of f # fs \<Rightarrow> (x # f) # fs | [] \<Rightarrow> [[x]]))"

lemma str_split_nonempty: "str_split c s \<noteq> []"
  by (induction c s rule: str_split.induct) (auto split: list.splits)

lemma str_split_no_sep: "c \<notin> set s \<Longrightarrow> str_split c s = [s]"
  by (induction s) auto

lemma str_split_append: "c \<notin> set s \<Longrightarrow> str_split c (s @ c # t) = s # str_split c t"
proof (induction s)
  case Nil
  then show ?case by simp
next
  case (Cons x s)
  then show ?case by auto
qed

subsection \<open>slice::join\<close>

fun str_join :: "string \<Rightarrow> string list \<Rightarrow> string" where
  "str_join sep [] = []"
| "str_join sep [x] = x"
| "str_join sep (x # y # ys) = x @ sep @ str_join sep (y # ys)"

text \<open>
  A separator the last item does not contain makes the last item recoverable: two joined
  strings with such last items agree on the last item and on everything before it.
\<close>

lemma last_field_unique:
  assumes "c \<notin> set n" and "c \<notin> set n'" and "m @ c # n = m' @ c # n'"
  shows "m = m' \<and> n = n'"
proof -
  from assms(3) have "rev n @ c # rev m = rev n' @ c # rev m'"
    by (metis append.assoc append_Cons append_Nil rev.simps(2) rev_append)
  then have *: "takeWhile (\<lambda>x. x \<noteq> c) (rev n @ c # rev m)
      = takeWhile (\<lambda>x. x \<noteq> c) (rev n' @ c # rev m')" by simp
  have "takeWhile (\<lambda>x. x \<noteq> c) (rev n @ c # rev m) = rev n"
    using assms(1) by (subst takeWhile_append2) auto
  moreover have "takeWhile (\<lambda>x. x \<noteq> c) (rev n' @ c # rev m') = rev n'"
    using assms(2) by (subst takeWhile_append2) auto
  ultimately have "n = n'" using * by simp
  with assms(3) show ?thesis by simp
qed

end
