(* ===== verification/Currency.thy ===== *)
theory Currency
  imports Hash_Map Rust_String
begin

section \<open>hexstody-api: currencies, addresses, transaction ids, symbols\<close>

text \<open>
  The data of hexstody-api/src/domain/currency.rs and domain/mod.rs: the currencies the
  custody understands, their addresses and transaction ids, the ticker symbols and the
  interface languages, with the conversions between them.
\<close>

subsection \<open>Tokens and currencies\<close>

record erc20_token =
  ticker :: string
  token_name :: string
  contract :: string

datatype currency = BTC | ETH | ERC20 erc20_token

text \<open>\<open>impl Display for Erc20Token\<close> and for \<open>Currency\<close>.\<close>

definition erc20_token_to_string :: "erc20_token \<Rightarrow> string" where
  "erc20_token_to_string t = ticker t"

fun currency_to_string :: "currency \<Rightarrow> string" where
  "currency_to_string BTC = ''Bitcoin''"
| "currency_to_string ETH = ''Ethereum''"
| "currency_to_string (ERC20 token) = erc20_token_to_string token @ '' ERC-20''"

definition usdt_erc20 :: currency where
  "usdt_erc20 = ERC20 \<lparr>ticker = ''USDT'', token_name = ''USDT'',
     contract = ''0xdAC17F958D2ee523a2206206994597C13D831ec7''\<rparr>"

definition crv_erc20 :: currency where
  "crv_erc20 = ERC20 \<lparr>ticker = ''CRV'', token_name = ''CRV'',
     contract = ''0xd533a949740bb3306d119cc777fa900ba034cd52''\<rparr>"

definition gtech_erc20 :: currency where
  "gtech_erc20 = ERC20 \<lparr>ticker = ''GTECH'', token_name = ''GTECH'',
     contract = ''0x866A4Da32007BA71aA6CcE9FD85454fCF48B140c''\<rparr>"

text \<open>\<open>impl FromStr for Currency\<close>; the error is the message.\<close>

definition currency_from_str :: "string \<Rightarrow> string + currency" where
  "currency_from_str s =
     (if s = ''TUSDT'' then Inr usdt_erc20
      else if s = ''TCRV'' then Inr crv_erc20
      else if s = ''TGTECH'' then Inr gtech_erc20
      else if s = ''ETH'' then Inr ETH
      else Inl (''unknown currency'' @ s))"

fun ticker_lowercase :: "currency \<Rightarrow> string" where
  "ticker_lowercase BTC = ''btc''"
| "ticker_lowercase ETH = ''eth''"
| "ticker_lowercase (ERC20 token) = to_lowercase (ticker token)"

definition supported :: "currency list" where
  "supported = [BTC, ETH, usdt_erc20, crv_erc20, gtech_erc20]"

fun is_token :: "currency \<Rightarrow> bool" where
  "is_token (ERC20 _) = True"
| "is_token _ = False"

fun as_token :: "currency \<Rightarrow> erc20_token option" where
  "as_token (ERC20 token) = Some token"
| "as_token _ = None"

definition supported_tokens :: "erc20_token list" where
  "supported_tokens = List.map_filter as_token supported"

definition default_tokens :: "erc20_token list" where
  "default_tokens =
     (let supported_tickers = [''USDT'', ''GTECH''] in
      List.map_filter
        (\<lambda>c. case c of
            ERC20 token \<Rightarrow>
              (if ticker token \<in> set supported_tickers then Some token else None)
          | _ \<Rightarrow> None)
        supported)"

definition default_currencies :: "currency list" where
  "default_currencies =
     List.map_filter
       (\<lambda>c. case c of
           ERC20 token \<Rightarrow> (if ticker token = ''CRV'' then None else Some c)
         | _ \<Rightarrow> Some c)
       supported"

text \<open>The loop over the tokens returns at the first match.\<close>

definition get_by_name :: "string \<Rightarrow> currency option" where
  "get_by_name name_orig =
     (let name = to_uppercase name_orig in
      if name = ''BTC'' then Some BTC
      else if name = ''ETH'' then Some ETH
      else map_option ERC20 (List.find (\<lambda>token. name = ticker token) supported_tokens))"

definition filter_tokens :: "currency list \<Rightarrow> erc20_token list" where
  "filter_tokens curs = List.map_filter as_token curs"

text \<open>\<open>Erc20Token::index\<close> and the order derived from it.\<close>

definition erc20_index :: "erc20_token \<Rightarrow> u16" where
  "erc20_index t =
     (if ticker t = ''USDT'' then 0
      else if ticker t = ''GTECH'' then 1
      else if ticker t = ''CRV'' then 2
      else 65535)"

datatype ordering = Less | Equal | Greater

definition u16_cmp :: "u16 \<Rightarrow> u16 \<Rightarrow> ordering" where
  "u16_cmp a b = (if a < b then Less else if a = b then Equal else Greater)"

definition erc20_cmp :: "erc20_token \<Rightarrow> erc20_token \<Rightarrow> ordering" where
  "erc20_cmp a b = u16_cmp (erc20_index a) (erc20_index b)"

text \<open>The derived \<open>Ord\<close> of \<open>Currency\<close>: by variant, then by payload.\<close>

fun currency_cmp :: "currency \<Rightarrow> currency \<Rightarrow> ordering" where
  "currency_cmp BTC BTC = Equal"
| "currency_cmp BTC _ = Less"
| "currency_cmp ETH BTC = Greater"
| "currency_cmp ETH ETH = Equal"
| "currency_cmp ETH (ERC20 _) = Less"
| "currency_cmp (ERC20 a) (ERC20 b) = erc20_cmp a b"
| "currency_cmp (ERC20 _) _ = Greater"

subsection \<open>Addresses\<close>

record btc_address =
  addr :: string

record eth_account =
  account :: string

record erc20 =
  erc20_of :: erc20_token
  erc20_account :: eth_account

datatype currency_address =
    AddrBTC btc_address
  | AddrETH eth_account
  | AddrERC20 erc20

fun address_currency :: "currency_address \<Rightarrow> currency" where
  "address_currency (AddrBTC _) = BTC"
| "address_currency (AddrETH _) = ETH"
| "address_currency (AddrERC20 e) = ERC20 (erc20_of e)"

text \<open>\<open>CurrencyAddress::address\<close>, which \<open>Display\<close> prints as well.\<close>

fun address_text :: "currency_address \<Rightarrow> string" where
  "address_text (AddrBTC v) = addr v"
| "address_text (AddrETH v) = account v"
| "address_text (AddrERC20 v) = account (erc20_account v)"

subsection \<open>Transaction ids\<close>

record btc_txid =
  btc_txid_text :: string

record eth_txid =
  eth_txid_text :: string

datatype currency_tx_id = TxBTC btc_txid | TxETH eth_txid

fun txid_currency :: "currency_tx_id \<Rightarrow> currency" where
  "txid_currency (TxBTC _) = BTC"
| "txid_currency (TxETH _) = ETH"

fun currency_tx_id_to_string :: "currency_tx_id \<Rightarrow> string" where
  "currency_tx_id_to_string (TxBTC t) = btc_txid_text t"
| "currency_tx_id_to_string (TxETH t) = eth_txid_text t"

subsection \<open>Fiat currencies and symbols\<close>

datatype symbol = SymUSD | SymRUB | SymBTC | SymETH | SymERC20 string

datatype fiat = USD | RUB

fun symbol_text :: "symbol \<Rightarrow> string" where
  "symbol_text SymUSD = ''USD''"
| "symbol_text SymRUB = ''RUB''"
| "symbol_text SymBTC = ''BTC''"
| "symbol_text SymETH = ''ETH''"
| "symbol_text (SymERC20 t) = t"

fun fiat_symbol :: "fiat \<Rightarrow> symbol" where
  "fiat_symbol USD = SymUSD"
| "fiat_symbol RUB = SymRUB"

fun fiat_from_symbol :: "symbol \<Rightarrow> fiat option" where
  "fiat_from_symbol SymUSD = Some USD"
| "fiat_from_symbol SymRUB = Some RUB"
| "fiat_from_symbol _ = None"

definition fiat_ticker :: "fiat \<Rightarrow> string" where
  "fiat_ticker f = symbol_text (fiat_symbol f)"

fun currency_symbol :: "currency \<Rightarrow> symbol" where
  "currency_symbol BTC = SymBTC"
| "currency_symbol ETH = SymETH"
| "currency_symbol (ERC20 t) = SymERC20 (ticker t)"

definition currency_ticker :: "currency \<Rightarrow> string" where
  "currency_ticker c = symbol_text (currency_symbol c)"

fun currency_from_symbol :: "symbol \<Rightarrow> currency option" where
  "currency_from_symbol SymUSD = None"
| "currency_from_symbol SymRUB = None"
| "currency_from_symbol SymBTC = Some BTC"
| "currency_from_symbol SymETH = Some ETH"
| "currency_from_symbol (SymERC20 s) =
     (if s = ''USDT'' then Some usdt_erc20
      else if s = ''CRV'' then Some crv_erc20
      else if s = ''GTECH'' then Some gtech_erc20
      else None)"

fun is_crypto :: "symbol \<Rightarrow> bool" where
  "is_crypto SymUSD = False"
| "is_crypto SymRUB = False"
| "is_crypto SymBTC = True"
| "is_crypto SymETH = True"
| "is_crypto (SymERC20 _) = True"

fun is_fiat :: "symbol \<Rightarrow> bool" where
  "is_fiat SymUSD = True"
| "is_fiat SymRUB = True"
| "is_fiat SymBTC = False"
| "is_fiat SymETH = False"
| "is_fiat (SymERC20 _) = False"

definition supported_symbols :: "symbol list" where
  "supported_symbols =
     [SymUSD, SymRUB, SymBTC, SymETH, SymERC20 ''USDT'', SymERC20 ''CRV'', SymERC20 ''GTECH'']"

definition supported_fiats :: "symbol list" where
  "supported_fiats = filter is_fiat supported_symbols"

definition supported_cryptos :: "symbol list" where
  "supported_cryptos = filter is_crypto supported_symbols"

text \<open>\<open>Symbol::exponent\<close>: the factor is a whole number, exact as an \<open>f64\<close>.\<close>

fun exponent :: "symbol \<Rightarrow> nat" where
  "exponent SymUSD = 1"
| "exponent SymRUB = 1"
| "exponent SymBTC = 100000000"
| "exponent SymETH = 1000000000000000000"
| "exponent (SymERC20 _) = 1"

subsection \<open>Languages\<close>

datatype language = English | Russian

fun to_alpha :: "language \<Rightarrow> string" where
  "to_alpha English = ''en''"
| "to_alpha Russian = ''ru''"

datatype language_error = ParseLanguageError string

definition language_from_str :: "string \<Rightarrow> language_error + language" where
  "language_from_str s =
     (if s = ''en'' then Inr English
      else if s = ''ru'' then Inr Russian
      else Inl (ParseLanguageError s))"

record email = email_text :: string

record phone_number = number :: string

record tg_name = tg_name_text :: string

subsection \<open>What the tables say\<close>

lemma map_filter_eval [simp]:
  "List.map_filter f [] = []"
  "List.map_filter f (x # xs) =
     (case f x of None \<Rightarrow> List.map_filter f xs | Some y \<Rightarrow> y # List.map_filter f xs)"
  by (simp_all add: map_filter_simps)

lemmas token_defs = usdt_erc20_def crv_erc20_def gtech_erc20_def

lemma supported_tokens_eq:
  "map ERC20 supported_tokens = [usdt_erc20, crv_erc20, gtech_erc20]"
  by (simp add: supported_tokens_def supported_def token_defs)

lemma default_currencies_eq: "default_currencies = [BTC, ETH, usdt_erc20, gtech_erc20]"
  by (simp add: default_currencies_def supported_def token_defs)

lemma default_tokens_eq: "map ERC20 default_tokens = [usdt_erc20, gtech_erc20]"
  by (simp add: default_tokens_def supported_def token_defs)

lemma supported_distinct: "distinct supported"
  by (simp add: supported_def token_defs)

lemma default_currencies_distinct: "distinct default_currencies"
  by (simp add: default_currencies_eq token_defs)

lemma default_currencies_supported: "set default_currencies \<subseteq> set supported"
  by (simp add: default_currencies_eq supported_def)

lemma crypto_or_fiat: "is_crypto s \<longleftrightarrow> \<not> is_fiat s"
  by (cases s) simp_all

lemma currency_symbol_is_crypto: "is_crypto (currency_symbol c)"
  by (cases c) simp_all

lemma currency_from_symbol_crypto: "currency_from_symbol s = Some c \<Longrightarrow> is_crypto s"
  by (cases s) simp_all

lemma currency_symbol_from_symbol:
  "currency_from_symbol s = Some c \<Longrightarrow> currency_symbol c = s"
  by (cases s) (auto simp: token_defs split: if_splits)

lemma txid_currency_not_token: "\<not> is_token (txid_currency t)"
  by (cases t) simp_all

lemma u16_cmp_refl [simp]: "u16_cmp a a = Equal"
  by (simp add: u16_cmp_def)

lemma u16_cmp_swap:
  "u16_cmp b a = (case u16_cmp a b of Less \<Rightarrow> Greater | Equal \<Rightarrow> Equal | Greater \<Rightarrow> Less)"
  by (auto simp: u16_cmp_def)

lemma erc20_cmp_swap:
  "erc20_cmp b a =
     (case erc20_cmp a b of Less \<Rightarrow> Greater | Equal \<Rightarrow> Equal | Greater \<Rightarrow> Less)"
  unfolding erc20_cmp_def by (rule u16_cmp_swap)

lemma currency_cmp_swap:
  "currency_cmp b a =
     (case currency_cmp a b of Less \<Rightarrow> Greater | Equal \<Rightarrow> Equal | Greater \<Rightarrow> Less)"
  by (cases a; cases b) (auto intro: erc20_cmp_swap)

lemma currency_cmp_trans:
  "currency_cmp a b = Less \<Longrightarrow> currency_cmp b c = Less \<Longrightarrow> currency_cmp a c = Less"
  by (cases a; cases b; cases c) (auto simp: erc20_cmp_def u16_cmp_def split: if_splits)

end
