(* ===== verification/Api_Types.thy ===== *)
theory Api_Types
  imports Currency
begin

section \<open>hexstody-api: limits, statuses, filters, requests\<close>

text \<open>
  The request and response data of hexstody-api/src/types.rs that the state machine and the
  handlers share: invites, spending limits, the statuses of change and exchange requests,
  list filters with their textual form, and the operators' signature data.
\<close>

record invite =
  invite_id :: uuid

record signature_data =
  sd_signature :: signature
  sd_nonce :: u64
  sd_public_key :: public_key

subsection \<open>Limits\<close>

datatype limit_span = Day | Week | Month

text \<open>Its derived \<open>Ord\<close> follows the order of the constructors.\<close>

fun span_rank :: "limit_span \<Rightarrow> nat" where
  "span_rank Day = 0"
| "span_rank Week = 1"
| "span_rank Month = 2"

instantiation limit_span :: linorder
begin

definition less_eq_limit_span :: "limit_span \<Rightarrow> limit_span \<Rightarrow> bool" where
  "s \<le> t \<longleftrightarrow> span_rank s \<le> span_rank t"

definition less_limit_span :: "limit_span \<Rightarrow> limit_span \<Rightarrow> bool" where
  "s < t \<longleftrightarrow> span_rank s < span_rank t"

instance
proof
  have rank: "s = t" if "span_rank s = span_rank t" for s t
    using that by (cases s; cases t) simp_all
  show "s = t" if "s \<le> t" and "t \<le> s" for s t :: limit_span
    using that rank by (simp add: less_eq_limit_span_def)
qed (auto simp: less_eq_limit_span_def less_limit_span_def)

end

record limit =
  limit_amount :: u64
  limit_span_of :: limit_span

record limit_info =
  li_limit :: limit
  li_spent :: u64

definition limit_info_default :: limit_info where
  "limit_info_default = \<lparr>li_limit = \<lparr>limit_amount = 0, limit_span_of = Day\<rparr>, li_spent = 0\<rparr>"

record limit_change_req =
  lcr_currency :: currency
  lcr_limit :: limit

datatype limit_change_status =
    LimitInProgress (lc_confirmations: i16) (lc_rejections: i16)
  | LimitCompleted
  | LimitRejected

datatype limit_change_filter = LimitAll | LimitPending | LimitFCompleted | LimitFRejected

fun limit_change_filter_to_string :: "limit_change_filter \<Rightarrow> string" where
  "limit_change_filter_to_string LimitAll = ''all''"
| "limit_change_filter_to_string LimitFCompleted = ''completed''"
| "limit_change_filter_to_string LimitFRejected = ''rejected''"
| "limit_change_filter_to_string LimitPending = ''pending''"

datatype limit_change_decision_type = LimitConfirm | LimitReject

record limit_change_response =
  lresp_id :: uuid
  lresp_user :: string
  lresp_created_at :: string
  lresp_currency :: currency
  lresp_limit :: limit
  lresp_status :: limit_change_status

record limit_change_op_response =
  lop_id :: uuid
  lop_user :: string
  lop_created_at :: string
  lop_currency :: currency
  lop_current_limit :: limit
  lop_requested_limit :: limit
  lop_status :: limit_change_status

record limit_api_resp =
  lapi_currency :: currency
  lapi_limit_info :: limit_info

record limit_confirmation_data =
  lcd_id :: uuid
  lcd_user :: string
  lcd_created_at :: string
  lcd_currency :: currency
  lcd_requested_limit :: limit

subsection \<open>Withdrawals\<close>

datatype withdrawal_request_decision_type = Confirm | Reject

datatype api_withdrawal_status =
    ApiInProgress i16
  | ApiConfirmed
  | ApiCompleted datetime currency_tx_id "u64 option" "currency_address list" "currency_address list"
  | ApiOpRejected
  | ApiNodeRejected string

datatype withdrawal_filter =
    FilterAll | FilterPending | FilterConfirmed | FilterCompleted
  | FilterOpRejected | FilterNodeRejected

fun withdrawal_filter_to_string :: "withdrawal_filter \<Rightarrow> string" where
  "withdrawal_filter_to_string FilterAll = ''all''"
| "withdrawal_filter_to_string FilterPending = ''pending''"
| "withdrawal_filter_to_string FilterConfirmed = ''confirmed''"
| "withdrawal_filter_to_string FilterCompleted = ''completed''"
| "withdrawal_filter_to_string FilterOpRejected = ''oprejected''"
| "withdrawal_filter_to_string FilterNodeRejected = ''noderejected''"

record confirmation_data =
  cd_id :: uuid
  cd_user :: string
  cd_address :: currency_address
  cd_created_at :: string
  cd_amount :: u64

record confirmed_withdrawal =
  cw_id :: uuid
  cw_user :: string
  cw_address :: currency_address
  cw_created_at :: string
  cw_amount :: u64
  cw_confirmations :: "signature_data list"
  cw_rejections :: "signature_data list"

record withdrawal_response =
  resp_id :: uuid
  resp_txid :: string
  resp_fee :: "u64 option"
  resp_input_addresses :: "currency_address list"
  resp_output_addresses :: "currency_address list"

subsection \<open>Exchange\<close>

datatype exchange_status =
    ExchangeCompleted
  | ExchangeRejected
  | ExchangeInProgress (ex_confirmations: i16) (ex_rejections: i16)

record api_exchange_order =
  aeo_user :: string
  aeo_id :: uuid
  aeo_currency_from :: currency
  aeo_currency_to :: currency
  aeo_amount_from :: u64
  aeo_amount_to :: u64
  aeo_created_at :: string
  aeo_status :: exchange_status

record exchange_confirmation_data =
  ecd_user :: string
  ecd_id :: uuid
  ecd_currency_from :: currency
  ecd_currency_to :: currency
  ecd_amount_from :: u64
  ecd_amount_to :: u64
  ecd_created_at :: string

datatype exchange_filter = ExAll | ExPending | ExFCompleted | ExFRejected

fun exchange_filter_to_string :: "exchange_filter \<Rightarrow> string" where
  "exchange_filter_to_string ExAll = ''all''"
| "exchange_filter_to_string ExFCompleted = ''completed''"
| "exchange_filter_to_string ExFRejected = ''rejected''"
| "exchange_filter_to_string ExPending = ''pending''"

text \<open>\<open>impl FromUriParam<Query, &str> for ExchangeFilter\<close>: anything unknown is \<open>All\<close>.\<close>

definition exchange_filter_from_uri :: "string \<Rightarrow> exchange_filter" where
  "exchange_filter_from_uri filt =
     (let s = to_lowercase filt in
      if s = ''all'' then ExAll
      else if s = ''completed'' then ExFCompleted
      else if s = ''rejected'' then ExFRejected
      else if s = ''pending'' then ExPending
      else ExAll)"

lemma exchange_filter_roundtrip:
  "exchange_filter_from_uri (exchange_filter_to_string f) = f"
  by (cases f)
    (simp_all add: exchange_filter_from_uri_def to_lowercase_fixed ascii_lower_fixed_def Let_def
      del: to_lowercase_Cons)

subsection \<open>Quorum arithmetic\<close>

text \<open>
  The vote counters are \<open>i16\<close>. As long as fewer than \<open>2 ^ 15\<close> votes are counted
  their signed reading is the number of votes.
\<close>

lemma sint_of_nat_i16: "n < 2 ^ 15 \<Longrightarrow> sint (of_nat n :: i16) = int n"
  by (simp add: signed_of_nat signed_take_bit_int_eq_self)

lemma sint_of_int_i16: "- (2 ^ 15) \<le> i \<Longrightarrow> i < 2 ^ 15 \<Longrightarrow> sint (of_int i :: i16) = i"
  by (simp add: sint_sbintrunc' signed_take_bit_int_eq_self)

end
