(* ===== verification/Transaction.thy ===== *)
theory Transaction
  imports Api_Types
begin

section \<open>Transactions of the ledgers and the BTC events they come from\<close>

text \<open>
  hexstody-db/src/state/transaction.rs, hexstody-db/src/update/btc.rs and
  hexstody-btc-api/src/events.rs: the transactions a user's currency account and the
  exchange wallet keep, the events the BTC module emits, and the two loops both ledgers run
  over their transaction list (replace the record of the same output, drop a cancelled one).
  \<open>bitcoin::Txid\<close> and \<open>bitcoin::Address\<close> are carried by their text.
\<close>

subsection \<open>Events\<close>

datatype tx_direction = Deposit | Withdraw

record tx_update =
  tu_direction :: tx_direction
  tu_txid :: string
  tu_vout :: u32
  tu_address :: string
  tu_amount :: u64
  tu_confirmations :: u64
  tu_timestamp :: u64
  tu_conflicts :: "string list"
  tu_fee :: "u64 option"

record tx_cancel =
  tc_direction :: tx_direction
  tc_txid :: string
  tc_vout :: u32
  tc_address :: string
  tc_amount :: u64
  tc_timestamp :: u64
  tc_conflicts :: "string list"

datatype btc_event = EvUpdate tx_update | EvCancel tx_cancel

record btc_events =
  ev_height :: u64
  ev_hash :: string
  ev_events :: "btc_event list"

subsection \<open>Transactions\<close>

record btc_transaction =
  bt_txid :: string
  bt_vout :: u32
  bt_address :: string
  bt_confirmations :: u64
  bt_amount :: i64
  bt_timestamp :: datetime
  bt_conflicts :: "string list"
  bt_fee :: "u64 option"

record eth_transaction =
  et_block_number :: string
  et_time_stamp :: string
  et_hash :: string
  et_from :: string
  et_to :: string
  et_value :: i64
  et_token_name :: string
  et_gas :: string
  et_gas_price :: string
  et_contract_address :: string
  et_confirmations :: i64
  et_addr :: string

datatype transaction = TrBtc btc_transaction | TrEth eth_transaction

fun tx_amount :: "transaction \<Rightarrow> i64" where
  "tx_amount (TrBtc t) = bt_amount t"
| "tx_amount (TrEth t) = et_value t"

fun is_finalized :: "transaction \<Rightarrow> bool" where
  "is_finalized (TrBtc t) = (bt_confirmations t > 3)"
| "is_finalized (TrEth t) = (sint (et_confirmations t) > 3)"

fun is_withdraw :: "transaction \<Rightarrow> bool" where
  "is_withdraw (TrBtc t) = (sint (bt_amount t) < 0)"
| "is_withdraw (TrEth t) = (et_from t = et_addr t)"

fun is_conflicted :: "transaction \<Rightarrow> bool" where
  "is_conflicted (TrBtc t) = (bt_confirmations t = 0 \<and> bt_conflicts t \<noteq> [])"
| "is_conflicted (TrEth t) = (sint (et_confirmations t) < 0)"

text \<open>The two implementations of the trait \<open>SameBtcTx\<close>.\<close>

definition same_btc_tx :: "btc_transaction \<Rightarrow> btc_transaction \<Rightarrow> bool" where
  "same_btc_tx t other = (bt_txid t = bt_txid other \<and> bt_vout t = bt_vout other)"

definition same_btc_tx_cancel :: "btc_transaction \<Rightarrow> tx_cancel \<Rightarrow> bool" where
  "same_btc_tx_cancel t other = (bt_txid t = tc_txid other \<and> bt_vout t = tc_vout other)"

text \<open>
  \<open>impl From<TxUpdate> for BtcTransaction\<close>. The conversion of the UNIX timestamp is
  chrono's (\<open>NaiveDateTime::from_timestamp\<close>, which panics out of its range): a
  parameter, \<open>None\<close> for the panic.
\<close>

definition btc_transaction_of_update ::
  "(i64 \<Rightarrow> datetime option) \<Rightarrow> tx_update \<Rightarrow> btc_transaction option" where
  "btc_transaction_of_update from_timestamp val =
     (case from_timestamp (tu_timestamp val) of
        None \<Rightarrow> None
      | Some ts \<Rightarrow> Some
         \<lparr>bt_txid = tu_txid val,
          bt_vout = tu_vout val,
          bt_address = tu_address val,
          bt_confirmations = tu_confirmations val,
          bt_amount = (case tu_direction val of
             Deposit \<Rightarrow> tu_amount val
           | Withdraw \<Rightarrow> - (tu_amount val)),
          bt_timestamp = ts,
          bt_conflicts = tu_conflicts val,
          bt_fee = tu_fee val\<rparr>)"

subsection \<open>The loops over a transaction list\<close>

text \<open>
  The loop that overwrites the first record of the same output and returns; \<open>None\<close>
  when it runs to the end of the list.
\<close>

fun replace_btc_tx :: "btc_transaction \<Rightarrow> transaction list \<Rightarrow> transaction list option" where
  "replace_btc_tx upd_tx [] = None"
| "replace_btc_tx upd_tx (tx # txs) =
     (case tx of
        TrBtc btc_tx \<Rightarrow>
          (if same_btc_tx btc_tx upd_tx then Some (TrBtc upd_tx # txs)
           else map_option (Cons tx) (replace_btc_tx upd_tx txs))
      | _ \<Rightarrow> map_option (Cons tx) (replace_btc_tx upd_tx txs))"

text \<open>The loop that finds the index of the first cancelled record.\<close>

fun find_cancelled :: "tx_cancel \<Rightarrow> nat \<Rightarrow> transaction list \<Rightarrow> nat option" where
  "find_cancelled upd_tx i [] = None"
| "find_cancelled upd_tx i (tx # txs) =
     (case tx of
        TrBtc btc_tx \<Rightarrow>
          (if same_btc_tx_cancel btc_tx upd_tx then Some i
           else find_cancelled upd_tx (Suc i) txs)
      | _ \<Rightarrow> find_cancelled upd_tx (Suc i) txs)"

text \<open>\<open>Vec::remove(i)\<close> for an index in range.\<close>

definition vec_remove :: "nat \<Rightarrow> 'a list \<Rightarrow> 'a list" where
  "vec_remove i xs = take i xs @ drop (Suc i) xs"

subsection \<open>The outputs a list describes\<close>

text \<open>A BTC record is identified by its transaction id and output number.\<close>

fun btc_key :: "transaction \<Rightarrow> (string \<times> u32) option" where
  "btc_key (TrBtc t) = Some (bt_txid t, bt_vout t)"
| "btc_key (TrEth _) = None"

definition btc_keys :: "transaction list \<Rightarrow> (string \<times> u32) list" where
  "btc_keys txs = List.map_filter btc_key txs"

lemma btc_keys_simps [simp]:
  "btc_keys [] = []"
  "btc_keys (TrBtc t # txs) = (bt_txid t, bt_vout t) # btc_keys txs"
  "btc_keys (TrEth e # txs) = btc_keys txs"
  by (simp_all add: btc_keys_def)

lemma btc_keys_append [simp]: "btc_keys (xs @ ys) = btc_keys xs @ btc_keys ys"
proof (induction xs)
  case Nil
  then show ?case by simp
next
  case (Cons x xs)
  then show ?case by (cases x) simp_all
qed

lemma replace_btc_tx_None_iff:
  "replace_btc_tx u txs = None \<longleftrightarrow> (bt_txid u, bt_vout u) \<notin> set (btc_keys txs)"
  by (induction u txs rule: replace_btc_tx.induct)
    (auto simp: same_btc_tx_def split: transaction.splits)

lemma replace_btc_tx_keys: "replace_btc_tx u txs = Some txs' \<Longrightarrow> btc_keys txs' = btc_keys txs"
  by (induction u txs arbitrary: txs' rule: replace_btc_tx.induct)
    (auto simp: same_btc_tx_def split: transaction.splits if_splits)

lemma replace_btc_tx_split:
  assumes "replace_btc_tx u txs = Some txs'"
  shows "\<exists>xs t ys. txs = xs @ TrBtc t # ys \<and> txs' = xs @ TrBtc u # ys \<and> same_btc_tx t u
    \<and> (bt_txid u, bt_vout u) \<notin> set (btc_keys xs)"
  using assms
proof (induction txs arbitrary: txs')
  case Nil
  then show ?case by simp
next
  case (Cons tx txs)
  show ?case
  proof (cases "\<exists>t. tx = TrBtc t \<and> same_btc_tx t u")
    case True
    then obtain t where t: "tx = TrBtc t" "same_btc_tx t u" by blast
    with Cons.prems have "txs' = TrBtc u # txs" by simp
    with t show ?thesis by (intro exI [of _ "[]"] exI [of _ t] exI [of _ txs]) simp
  next
    case False
    with Cons.prems obtain zs where zs: "replace_btc_tx u txs = Some zs" and txs': "txs' = tx # zs"
      by (auto split: transaction.splits if_splits)
    from Cons.IH [OF zs] obtain xs t ys where "txs = xs @ TrBtc t # ys" "zs = xs @ TrBtc u # ys"
      and "same_btc_tx t u" "(bt_txid u, bt_vout u) \<notin> set (btc_keys xs)"
      by blast
    with txs' False show ?thesis
      by (intro exI [of _ "tx # xs"] exI [of _ t] exI [of _ ys])
        (cases tx; auto simp: same_btc_tx_def)
  qed
qed

lemma find_cancelled_split:
  assumes "find_cancelled c n txs = Some i"
  shows "\<exists>xs t ys. txs = xs @ TrBtc t # ys \<and> i = n + length xs \<and> same_btc_tx_cancel t c
    \<and> (tc_txid c, tc_vout c) \<notin> set (btc_keys xs)"
  using assms
proof (induction txs arbitrary: n)
  case Nil
  then show ?case by simp
next
  case (Cons tx txs)
  show ?case
  proof (cases "\<exists>t. tx = TrBtc t \<and> same_btc_tx_cancel t c")
    case True
    with Cons.prems show ?thesis by (intro exI [of _ "[]"]) auto
  next
    case False
    with Cons.prems have *: "find_cancelled c (Suc n) txs = Some i"
      by (auto split: transaction.splits if_splits)
    from Cons.IH [OF *] obtain xs t ys where "txs = xs @ TrBtc t # ys" "i = Suc n + length xs"
      and "same_btc_tx_cancel t c" "(tc_txid c, tc_vout c) \<notin> set (btc_keys xs)"
      by blast
    with False show ?thesis
      by (intro exI [of _ "tx # xs"] exI [of _ t] exI [of _ ys])
        (cases tx; auto simp: same_btc_tx_cancel_def)
  qed
qed

lemma find_cancelled_None_iff:
  "find_cancelled c n txs = None \<longleftrightarrow> (tc_txid c, tc_vout c) \<notin> set (btc_keys txs)"
  by (induction c n txs rule: find_cancelled.induct)
    (auto simp: same_btc_tx_cancel_def split: transaction.splits)

lemma vec_remove_middle [simp]: "vec_remove (length xs) (xs @ y # ys) = xs @ ys"
  by (simp add: vec_remove_def)

end
