(* ===== verification/Withdraw.thy ===== *)
theory Withdraw
  imports Transaction
begin

section \<open>Withdrawal requests\<close>

text \<open>
  hexstody-db/src/state/withdraw.rs and update/withdrawal.rs: a withdrawal request, the
  operators' decisions on it, its status, and the conversions to and from the API's data.
\<close>

abbreviation REQUIRED_NUMBER_OF_CONFIRMATIONS :: i16 where
  "REQUIRED_NUMBER_OF_CONFIRMATIONS \<equiv> 2"

datatype withdrawal_request_type = UnderLimit | OverLimit

record withdrawal_request_info =
  wri_id :: uuid
  wri_user :: string
  wri_address :: currency_address
  wri_amount :: u64
  wri_request_type :: withdrawal_request_type

record withdrawal_request_decision_info =
  wdi_user_id :: string
  wdi_currency :: currency
  wdi_request_id :: uuid
  wdi_url :: string
  wdi_signature :: signature
  wdi_nonce :: u64
  wdi_public_key :: public_key
  wdi_decision_type :: withdrawal_request_decision_type

record withdrawal_request_decision =
  wd_url :: string
  wd_signature :: signature
  wd_nonce :: u64
  wd_public_key :: public_key

record withdraw_complete_info =
  wci_id :: uuid
  wci_confirmed_at :: datetime
  wci_txid :: currency_tx_id
  wci_fee :: "u64 option"
  wci_input_addresses :: "currency_address list"
  wci_output_addresses :: "currency_address list"
  wci_request_type :: withdrawal_request_type

record withdrawal_reject_info =
  wrj_id :: uuid
  wrj_reason :: string

datatype withdrawal_request_status =
    InProgress i16
  | Confirmed
  | Completed datetime currency_tx_id (completed_fee: "u64 option")
      "currency_address list" "currency_address list"
  | OpRejected
  | NodeRejected string

record withdrawal_request =
  wr_id :: uuid
  wr_user :: string
  wr_address :: currency_address
  wr_created_at :: datetime
  wr_amount :: u64
  wr_status :: withdrawal_request_status
  wr_confirmations :: "withdrawal_request_decision list"
  wr_rejections :: "withdrawal_request_decision list"
  wr_request_type :: withdrawal_request_type

subsection \<open>Conversions\<close>

definition decision_info_of ::
  "confirmation_data \<Rightarrow> signature_data \<Rightarrow> withdrawal_request_decision_type \<Rightarrow> string
   \<Rightarrow> withdrawal_request_decision_info" where
  "decision_info_of cd sd dt url =
     \<lparr>wdi_user_id = cd_user cd,
      wdi_currency = address_currency (cd_address cd),
      wdi_request_id = cd_id cd,
      wdi_url = url,
      wdi_signature = sd_signature sd,
      wdi_nonce = sd_nonce sd,
      wdi_public_key = sd_public_key sd,
      wdi_decision_type = dt\<rparr>"

definition decision_of_info :: "withdrawal_request_decision_info \<Rightarrow> withdrawal_request_decision" where
  "decision_of_info info =
     \<lparr>wd_url = wdi_url info,
      wd_signature = wdi_signature info,
      wd_nonce = wdi_nonce info,
      wd_public_key = wdi_public_key info\<rparr>"

definition signature_data_of_decision :: "withdrawal_request_decision \<Rightarrow> signature_data" where
  "signature_data_of_decision wrd =
     \<lparr>sd_signature = wd_signature wrd,
      sd_nonce = wd_nonce wrd,
      sd_public_key = wd_public_key wrd\<rparr>"

definition withdrawal_request_of ::
  "datetime \<Rightarrow> withdrawal_request_info \<Rightarrow> withdrawal_request" where
  "withdrawal_request_of ts info =
     \<lparr>wr_id = wri_id info,
      wr_user = wri_user info,
      wr_address = wri_address info,
      wr_created_at = ts,
      wr_amount = wri_amount info,
      wr_status = InProgress 0,
      wr_confirmations = [],
      wr_rejections = [],
      wr_request_type = wri_request_type info\<rparr>"

fun api_status :: "withdrawal_request_status \<Rightarrow> api_withdrawal_status" where
  "api_status (InProgress n) = ApiInProgress n"
| "api_status Confirmed = ApiConfirmed"
| "api_status (Completed confirmed_at txid fee input_addresses output_addresses) =
     ApiCompleted confirmed_at txid fee input_addresses output_addresses"
| "api_status OpRejected = ApiOpRejected"
| "api_status (NodeRejected reason) = ApiNodeRejected reason"

subsection \<open>Queries on a request\<close>

definition wr_is_rejected :: "withdrawal_request \<Rightarrow> bool" where
  "wr_is_rejected w =
     (case wr_status w of
        OpRejected \<Rightarrow> True
      | NodeRejected _ \<Rightarrow> True
      | _ \<Rightarrow> False)"

definition wr_fee :: "withdrawal_request \<Rightarrow> u64 option" where
  "wr_fee w =
     (case wr_status w of
        Completed _ _ fee _ _ \<Rightarrow> fee
      | _ \<Rightarrow> None)"

definition wr_matches_filter :: "withdrawal_request \<Rightarrow> withdrawal_filter \<Rightarrow> bool" where
  "wr_matches_filter w f =
     (if f = FilterAll then True
      else (case wr_status w of
         InProgress _ \<Rightarrow> f = FilterPending
       | Confirmed \<Rightarrow> f = FilterConfirmed
       | Completed _ _ _ _ _ \<Rightarrow> f = FilterCompleted
       | OpRejected \<Rightarrow> f = FilterOpRejected
       | NodeRejected _ \<Rightarrow> f = FilterNodeRejected))"

subsection \<open>A decision on a request\<close>

text \<open>
  \<open>State::with_withdrawal_request_decision\<close> from the point where the request has been
  found: the status it checks, the keys it compares, the vote it records. The error names
  carry what the code puts into them.
\<close>

datatype decision_error =
    ConfirmationDuplicate uuid public_key
  | RejectionDuplicate uuid public_key
  | AlreadyConfirmed uuid
  | AlreadyRejected uuid

definition keys_of :: "withdrawal_request_decision list \<Rightarrow> public_key list" where
  "keys_of ds = map wd_public_key ds"

definition retain_other_keys ::
  "public_key \<Rightarrow> withdrawal_request_decision list \<Rightarrow> withdrawal_request_decision list" where
  "retain_other_keys k ds = filter (\<lambda>x. wd_public_key x \<noteq> k) ds"

definition decide_request ::
  "withdrawal_request_decision_info \<Rightarrow> withdrawal_request
   \<Rightarrow> (withdrawal_request, decision_error, uuid option) step_result" where
  "decide_request d w =
     (let k = wdi_public_key d;
          is_confirmed_by_this_key = k \<in> set (keys_of (wr_confirmations w));
          is_rejected_by_this_key = k \<in> set (keys_of (wr_rejections w))
      in case wr_status w of
         Completed _ _ _ _ _ \<Rightarrow> (Inl (AlreadyConfirmed (wr_id w)), w)
       | Confirmed \<Rightarrow> (Inl (AlreadyConfirmed (wr_id w)), w)
       | OpRejected \<Rightarrow> (Inl (AlreadyRejected (wr_id w)), w)
       | NodeRejected _ \<Rightarrow> (Inl (AlreadyRejected (wr_id w)), w)
       | InProgress n \<Rightarrow>
          (case wdi_decision_type d of
             Confirm \<Rightarrow>
               (if is_confirmed_by_this_key
                then (Inl (ConfirmationDuplicate (wdi_request_id d) k), w)
                else
                 (let rejections' = (if is_rejected_by_this_key
                                     then retain_other_keys k (wr_rejections w)
                                     else wr_rejections w);
                      w' = w\<lparr>wr_rejections := rejections',
                              wr_confirmations := wr_confirmations w @ [decision_of_info d]\<rparr>;
                      m = (if is_rejected_by_this_key then 2 else 1)
                  in if n = REQUIRED_NUMBER_OF_CONFIRMATIONS - m
                     then (Inr (Some (wr_id w)), w'\<lparr>wr_status := Confirmed\<rparr>)
                     else (Inr None, w'\<lparr>wr_status := InProgress (n + m)\<rparr>)))
           | Reject \<Rightarrow>
               (if is_rejected_by_this_key
                then (Inl (RejectionDuplicate (wdi_request_id d) k), w)
                else
                 (let confirmations' = (if is_confirmed_by_this_key
                                        then retain_other_keys k (wr_confirmations w)
                                        else wr_confirmations w);
                      w' = w\<lparr>wr_confirmations := confirmations',
                              wr_rejections := wr_rejections w @ [decision_of_info d]\<rparr>;
                      m = (if is_confirmed_by_this_key then 2 else 1)
                  in if n = m - REQUIRED_NUMBER_OF_CONFIRMATIONS
                     then (Inr None, w'\<lparr>wr_status := OpRejected\<rparr>)
                     else (Inr None, w'\<lparr>wr_status := InProgress (n - m)\<rparr>)))))"

subsection \<open>What the recorded votes say\<close>

definition net_votes :: "withdrawal_request \<Rightarrow> int" where
  "net_votes w = int (length (wr_confirmations w)) - int (length (wr_rejections w))"

definition total_votes :: "withdrawal_request \<Rightarrow> nat" where
  "total_votes w = length (wr_confirmations w) + length (wr_rejections w)"

text \<open>
  No key votes twice on a side, none votes on both, and the status is what the counter says:
  in progress it holds the net vote, a confirmed request has the net vote 2 and one rejected
  by the operators the net vote -2 (as \<open>i16\<close>).
\<close>

definition votes_wf :: "withdrawal_request \<Rightarrow> bool" where
  "votes_wf w \<longleftrightarrow>
     distinct (keys_of (wr_confirmations w)) \<and>
     distinct (keys_of (wr_rejections w)) \<and>
     set (keys_of (wr_confirmations w)) \<inter> set (keys_of (wr_rejections w)) = {} \<and>
     (case wr_status w of
        InProgress n \<Rightarrow> n = of_int (net_votes w)
      | Confirmed \<Rightarrow> of_int (net_votes w) = (2 :: i16)
      | OpRejected \<Rightarrow> of_int (net_votes w) = (- 2 :: i16)
      | _ \<Rightarrow> True)"

lemma keys_of_simps [simp]:
  "keys_of [] = []"
  "keys_of (ds @ [d]) = keys_of ds @ [wd_public_key d]"
  "length (keys_of ds) = length ds"
  by (simp_all add: keys_of_def)

lemma wd_public_key_of_info [simp]: "wd_public_key (decision_of_info d) = wdi_public_key d"
  by (simp add: decision_of_info_def)

lemma keys_of_retain [simp]: "keys_of (retain_other_keys k ds) = filter (\<lambda>x. x \<noteq> k) (keys_of ds)"
  by (induction ds) (auto simp: retain_other_keys_def keys_of_def)

lemma length_filter_remove_distinct:
  "distinct xs \<Longrightarrow> k \<in> set xs \<Longrightarrow> Suc (length (filter (\<lambda>x. x \<noteq> k) xs)) = length xs"
proof (induction xs)
  case Nil
  then show ?case by simp
next
  case (Cons x xs)
  show ?case
  proof (cases "x = k")
    case True
    with Cons.prems have "filter (\<lambda>x. x \<noteq> k) xs = xs" by (auto simp: filter_id_conv)
    with True show ?thesis by simp
  next
    case False
    with Cons show ?thesis by auto
  qed
qed

lemma length_retain:
  assumes "distinct (keys_of ds)" and "k \<in> set (keys_of ds)"
  shows "int (length (retain_other_keys k ds)) = int (length ds) - 1"
proof -
  have "length (retain_other_keys k ds) = length (filter (\<lambda>x. x \<noteq> k) (keys_of ds))"
    by (metis keys_of_retain keys_of_simps(3))
  then show ?thesis using length_filter_remove_distinct [OF assms] by simp
qed

subsection \<open>The poll a request stands for\<close>

text \<open>
  The abstract specification: a poll among the operators. A vote moves its key to one side
  and is refused when the key is there already or the poll is closed; the poll closes when
  the vote makes the balance exactly two either way.
\<close>

datatype verdict = Open | Accepted | Refused | Settled

record poll =
  poll_yes :: "public_key set"
  poll_no :: "public_key set"
  poll_verdict :: verdict

definition poll_balance :: "poll \<Rightarrow> int" where
  "poll_balance p = int (card (poll_yes p)) - int (card (poll_no p))"

definition poll_step ::
  "public_key \<Rightarrow> withdrawal_request_decision_type \<Rightarrow> poll \<Rightarrow> poll option" where
  "poll_step k dt p =
     (if poll_verdict p \<noteq> Open then None
      else (case dt of
         Confirm \<Rightarrow>
           (if k \<in> poll_yes p then None
            else (let q = p\<lparr>poll_yes := insert k (poll_yes p), poll_no := poll_no p - {k}\<rparr>
                  in Some (q\<lparr>poll_verdict := (if poll_balance q = 2 then Accepted else Open)\<rparr>)))
       | Reject \<Rightarrow>
           (if k \<in> poll_no p then None
            else (let q = p\<lparr>poll_yes := poll_yes p - {k}, poll_no := insert k (poll_no p)\<rparr>
                  in Some (q\<lparr>poll_verdict := (if poll_balance q = - 2 then Refused else Open)\<rparr>)))))"

fun verdict_of :: "withdrawal_request_status \<Rightarrow> verdict" where
  "verdict_of (InProgress _) = Open"
| "verdict_of Confirmed = Accepted"
| "verdict_of OpRejected = Refused"
| "verdict_of (Completed _ _ _ _ _) = Settled"
| "verdict_of (NodeRejected _) = Settled"

definition poll_of :: "withdrawal_request \<Rightarrow> poll" where
  "poll_of w =
     \<lparr>poll_yes = set (keys_of (wr_confirmations w)),
      poll_no = set (keys_of (wr_rejections w)),
      poll_verdict = verdict_of (wr_status w)\<rparr>"

lemma poll_of_sel [simp]:
  "poll_yes (poll_of w) = set (keys_of (wr_confirmations w))"
  "poll_no (poll_of w) = set (keys_of (wr_rejections w))"
  "poll_verdict (poll_of w) = verdict_of (wr_status w)"
  by (simp_all add: poll_of_def)

lemma poll_balance_distinct:
  assumes "distinct (keys_of (wr_confirmations w))" and "distinct (keys_of (wr_rejections w))"
  shows "poll_balance (poll_of w) = net_votes w"
  using assms by (simp add: poll_balance_def net_votes_def distinct_card)

lemma i16_eq_iff:
  assumes "- (2 ^ 15) \<le> a" and "a < 2 ^ 15" and "- (2 ^ 15) \<le> b" and "b < 2 ^ 15"
  shows "(of_int a :: i16) = of_int b \<longleftrightarrow> a = b"
  using assms sint_of_int_i16 by metis

subsection \<open>One vote, whichever side\<close>

definition cast_confirm ::
  "withdrawal_request_decision_info \<Rightarrow> withdrawal_request \<Rightarrow> withdrawal_request" where
  "cast_confirm d w = w\<lparr>
     wr_rejections := retain_other_keys (wdi_public_key d) (wr_rejections w),
     wr_confirmations := wr_confirmations w @ [decision_of_info d]\<rparr>"

definition cast_reject ::
  "withdrawal_request_decision_info \<Rightarrow> withdrawal_request \<Rightarrow> withdrawal_request" where
  "cast_reject d w = w\<lparr>
     wr_confirmations := retain_other_keys (wdi_public_key d) (wr_confirmations w),
     wr_rejections := wr_rejections w @ [decision_of_info d]\<rparr>"

text \<open>How far a vote moves the balance: a key that changes sides counts twice.\<close>

definition swing :: "public_key \<Rightarrow> withdrawal_request_decision list \<Rightarrow> int" where
  "swing k opposite = (if k \<in> set (keys_of opposite) then 2 else 1)"

lemma retain_other_keys_id: "k \<notin> set (keys_of ds) \<Longrightarrow> retain_other_keys k ds = ds"
  by (auto simp: retain_other_keys_def keys_of_def filter_id_conv)

lemma cast_sel [simp]:
  "wr_status (cast_confirm d w) = wr_status w"
  "wr_status (cast_reject d w) = wr_status w"
  "wr_id (cast_confirm d w) = wr_id w"
  "wr_id (cast_reject d w) = wr_id w"
  by (simp_all add: cast_confirm_def cast_reject_def)

lemma decide_confirm_eq:
  assumes "wr_status w = InProgress n" and "wdi_decision_type d = Confirm"
    and "wdi_public_key d \<notin> set (keys_of (wr_confirmations w))"
  shows "decide_request d w =
    (let m = of_int (swing (wdi_public_key d) (wr_rejections w)) in
     if n = REQUIRED_NUMBER_OF_CONFIRMATIONS - m
     then (Inr (Some (wr_id w)), (cast_confirm d w)\<lparr>wr_status := Confirmed\<rparr>)
     else (Inr None, (cast_confirm d w)\<lparr>wr_status := InProgress (n + m)\<rparr>))"
  using assms
  by (simp add: decide_request_def cast_confirm_def swing_def retain_other_keys_id)

lemma decide_reject_eq:
  assumes "wr_status w = InProgress n" and "wdi_decision_type d = Reject"
    and "wdi_public_key d \<notin> set (keys_of (wr_rejections w))"
  shows "decide_request d w =
    (let m = of_int (swing (wdi_public_key d) (wr_confirmations w)) in
     if n = m - REQUIRED_NUMBER_OF_CONFIRMATIONS
     then (Inr None, (cast_reject d w)\<lparr>wr_status := OpRejected\<rparr>)
     else (Inr None, (cast_reject d w)\<lparr>wr_status := InProgress (n - m)\<rparr>))"
  using assms
  by (simp add: decide_request_def cast_reject_def swing_def retain_other_keys_id)

text \<open>A refused decision leaves the request alone.\<close>

lemma decide_error_unchanged: "decide_request d w = (Inl e, w') \<Longrightarrow> w' = w"
  by (auto simp: decide_request_def Let_def split: withdrawal_request_status.splits
      withdrawal_request_decision_type.splits if_splits)

lemma decide_error_cases:
  "(\<exists>e. fst (decide_request d w) = Inl e) \<longleftrightarrow>
     (case wr_status w of
        InProgress _ \<Rightarrow>
          (case wdi_decision_type d of
             Confirm \<Rightarrow> wdi_public_key d \<in> set (keys_of (wr_confirmations w))
           | Reject \<Rightarrow> wdi_public_key d \<in> set (keys_of (wr_rejections w)))
      | _ \<Rightarrow> True)"
  by (auto simp: decide_request_def Let_def split: withdrawal_request_status.splits
      withdrawal_request_decision_type.splits)

lemma length_retain_swing:
  assumes "distinct (keys_of ds)"
  shows "int (length (retain_other_keys k ds)) = int (length ds) + 1 - swing k ds"
  using assms by (auto simp: swing_def length_retain retain_other_keys_id)

lemma net_votes_cast:
  assumes "votes_wf w"
  shows "net_votes (cast_confirm d w) = net_votes w + swing (wdi_public_key d) (wr_rejections w)"
    and "net_votes (cast_reject d w) = net_votes w - swing (wdi_public_key d) (wr_confirmations w)"
  using assms
  by (simp_all add: net_votes_def cast_confirm_def cast_reject_def votes_wf_def length_retain_swing)

lemma net_votes_status [simp]: "net_votes (w\<lparr>wr_status := st\<rparr>) = net_votes w"
  by (simp add: net_votes_def)

lemma votes_wf_cast:
  assumes "votes_wf w" and "wr_status w = InProgress n"
  shows "wdi_public_key d \<notin> set (keys_of (wr_confirmations w)) \<Longrightarrow>
      of_int (net_votes (cast_confirm d w)) = x \<Longrightarrow>
      votes_wf ((cast_confirm d w)\<lparr>wr_status := (if x = 2 then Confirmed else InProgress x)\<rparr>)"
    and "wdi_public_key d \<notin> set (keys_of (wr_rejections w)) \<Longrightarrow>
      of_int (net_votes (cast_reject d w)) = x \<Longrightarrow>
      votes_wf ((cast_reject d w)\<lparr>wr_status := (if x = - 2 then OpRejected else InProgress x)\<rparr>)"
  using assms by (auto simp: votes_wf_def cast_confirm_def cast_reject_def net_votes_def)

lemma votes_wf_new: "votes_wf (withdrawal_request_of ts info)"
  by (simp add: votes_wf_def withdrawal_request_of_def net_votes_def)

lemma net_votes_in_progress: "votes_wf w \<Longrightarrow> wr_status w = InProgress n \<Longrightarrow> of_int (net_votes w) = n"
  by (simp add: votes_wf_def)

lemma confirm_outcome:
  assumes wf: "votes_wf w" and st: "wr_status w = InProgress n"
    and dt: "wdi_decision_type d = Confirm"
    and k: "wdi_public_key d \<notin> set (keys_of (wr_confirmations w))"
  defines "x \<equiv> of_int (net_votes (cast_confirm d w)) :: i16"
  shows "decide_request d w =
    (Inr (if x = 2 then Some (wr_id w) else None),
     (cast_confirm d w)\<lparr>wr_status := (if x = 2 then Confirmed else InProgress x)\<rparr>)"
proof -
  have x: "x = n + of_int (swing (wdi_public_key d) (wr_rejections w))"
    by (simp add: x_def net_votes_cast [OF wf] flip: net_votes_in_progress [OF wf st])
  then have "n = 2 - of_int (swing (wdi_public_key d) (wr_rejections w)) \<longleftrightarrow> x = 2"
    by (simp add: eq_diff_eq)
  with x show ?thesis by (simp add: decide_confirm_eq [OF st dt k] Let_def)
qed

lemma reject_outcome:
  assumes wf: "votes_wf w" and st: "wr_status w = InProgress n"
    and dt: "wdi_decision_type d = Reject"
    and k: "wdi_public_key d \<notin> set (keys_of (wr_rejections w))"
  defines "x \<equiv> of_int (net_votes (cast_reject d w)) :: i16"
  shows "decide_request d w =
    (Inr None, (cast_reject d w)\<lparr>wr_status := (if x = - 2 then OpRejected else InProgress x)\<rparr>)"
proof -
  have x: "x = n - of_int (swing (wdi_public_key d) (wr_confirmations w))"
    by (simp add: x_def net_votes_cast [OF wf] flip: net_votes_in_progress [OF wf st])
  then have "n = of_int (swing (wdi_public_key d) (wr_confirmations w)) - 2 \<longleftrightarrow> x = - 2"
    by (simp add: diff_eq_eq)
  with x show ?thesis by (simp add: decide_reject_eq [OF st dt k] Let_def)
qed

lemma votes_wf_decide:
  assumes wf: "votes_wf w"
  shows "votes_wf (snd (decide_request d w))"
proof (cases "\<exists>e. fst (decide_request d w) = Inl e")
  case True
  then obtain e w' where "decide_request d w = (Inl e, w')"
    by (cases "decide_request d w") auto
  with wf decide_error_unchanged show ?thesis by fastforce
next
  case False
  then obtain n where st: "wr_status w = InProgress n"
    by (auto simp: decide_error_cases split: withdrawal_request_status.splits)
  show ?thesis
  proof (cases "wdi_decision_type d")
    case Confirm
    with False st have k: "wdi_public_key d \<notin> set (keys_of (wr_confirmations w))"
      by (simp add: decide_error_cases)
    show ?thesis
      by (simp only: confirm_outcome [OF wf st Confirm k] snd_conv)
        (rule votes_wf_cast(1) [OF wf st k refl])
  next
    case Reject
    with False st have k: "wdi_public_key d \<notin> set (keys_of (wr_rejections w))"
      by (simp add: decide_error_cases)
    show ?thesis
      by (simp only: reject_outcome [OF wf st Reject k] snd_conv)
        (rule votes_wf_cast(2) [OF wf st k refl])
  qed
qed

subsection \<open>The request refines the poll\<close>

lemma distinct_keys_cast:
  assumes "votes_wf w"
  shows "wdi_public_key d \<notin> set (keys_of (wr_confirmations w)) \<Longrightarrow>
      distinct (keys_of (wr_confirmations (cast_confirm d w))) \<and>
      distinct (keys_of (wr_rejections (cast_confirm d w)))"
    and "wdi_public_key d \<notin> set (keys_of (wr_rejections w)) \<Longrightarrow>
      distinct (keys_of (wr_confirmations (cast_reject d w))) \<and>
      distinct (keys_of (wr_rejections (cast_reject d w)))"
  using assms by (simp_all add: votes_wf_def cast_confirm_def cast_reject_def)

lemma poll_balance_cast:
  assumes "votes_wf w"
  shows "wdi_public_key d \<notin> set (keys_of (wr_confirmations w)) \<Longrightarrow>
      poll_balance (poll_of (cast_confirm d w)) = net_votes (cast_confirm d w)"
    and "wdi_public_key d \<notin> set (keys_of (wr_rejections w)) \<Longrightarrow>
      poll_balance (poll_of (cast_reject d w)) = net_votes (cast_reject d w)"
  using distinct_keys_cast [OF assms] by (simp_all add: poll_balance_distinct)

lemma net_votes_bounds:
  assumes "total_votes w + 1 < 2 ^ 15"
  shows "- (2 ^ 15) \<le> net_votes (cast_confirm d w)" and "net_votes (cast_confirm d w) < 2 ^ 15"
    and "- (2 ^ 15) \<le> net_votes (cast_reject d w)" and "net_votes (cast_reject d w) < 2 ^ 15"
proof -
  have "length (retain_other_keys k ds) \<le> length ds" for k ds
    by (simp add: retain_other_keys_def)
  from this [of "wdi_public_key d" "wr_confirmations w"]
    this [of "wdi_public_key d" "wr_rejections w"] assms
  show "- (2 ^ 15) \<le> net_votes (cast_confirm d w)" "net_votes (cast_confirm d w) < 2 ^ 15"
    "- (2 ^ 15) \<le> net_votes (cast_reject d w)" "net_votes (cast_reject d w) < 2 ^ 15"
    by (simp_all add: net_votes_def total_votes_def cast_confirm_def cast_reject_def)
qed

lemma set_keys_cast:
  "set (keys_of (wr_confirmations (cast_confirm d w))) =
     insert (wdi_public_key d) (set (keys_of (wr_confirmations w)))"
  "set (keys_of (wr_rejections (cast_confirm d w))) =
     set (keys_of (wr_rejections w)) - {wdi_public_key d}"
  "set (keys_of (wr_rejections (cast_reject d w))) =
     insert (wdi_public_key d) (set (keys_of (wr_rejections w)))"
  "set (keys_of (wr_confirmations (cast_reject d w))) =
     set (keys_of (wr_confirmations w)) - {wdi_public_key d}"
  by (auto simp: cast_confirm_def cast_reject_def)

lemma poll_step_confirm:
  assumes wf: "votes_wf w" and st: "wr_status w = InProgress n"
    and k: "wdi_public_key d \<notin> set (keys_of (wr_confirmations w))"
    and small: "total_votes w + 1 < 2 ^ 15"
  defines "x \<equiv> of_int (net_votes (cast_confirm d w)) :: i16"
  shows "poll_step (wdi_public_key d) Confirm (poll_of w) =
    Some (poll_of ((cast_confirm d w)\<lparr>wr_status := (if x = 2 then Confirmed else InProgress x)\<rparr>))"
proof -
  have b: "x = 2 \<longleftrightarrow> net_votes (cast_confirm d w) = 2"
    using i16_eq_iff [OF net_votes_bounds(1,2) [OF small], of 2] by (simp add: x_def)
  have "poll_balance (\<lparr>poll_yes = insert (wdi_public_key d) (set (keys_of (wr_confirmations w))),
      poll_no = set (keys_of (wr_rejections w)) - {wdi_public_key d}, poll_verdict = Open\<rparr>)
      = net_votes (cast_confirm d w)"
    using poll_balance_cast(1) [OF wf k] by (simp add: poll_balance_def set_keys_cast)
  with st k b show ?thesis
    by (simp add: poll_step_def poll_of_def set_keys_cast)
qed

lemma poll_step_reject:
  assumes wf: "votes_wf w" and st: "wr_status w = InProgress n"
    and k: "wdi_public_key d \<notin> set (keys_of (wr_rejections w))"
    and small: "total_votes w + 1 < 2 ^ 15"
  defines "x \<equiv> of_int (net_votes (cast_reject d w)) :: i16"
  shows "poll_step (wdi_public_key d) Reject (poll_of w) =
    Some (poll_of ((cast_reject d w)\<lparr>wr_status := (if x = - 2 then OpRejected else InProgress x)\<rparr>))"
proof -
  have b: "x = - 2 \<longleftrightarrow> net_votes (cast_reject d w) = - 2"
    using i16_eq_iff [OF net_votes_bounds(3,4) [OF small], of "- 2"] by (simp add: x_def)
  have "poll_balance (\<lparr>poll_yes = set (keys_of (wr_confirmations w)) - {wdi_public_key d},
      poll_no = insert (wdi_public_key d) (set (keys_of (wr_rejections w))), poll_verdict = Open\<rparr>)
      = net_votes (cast_reject d w)"
    using poll_balance_cast(2) [OF wf k] by (simp add: poll_balance_def set_keys_cast)
  with st k b show ?thesis
    by (simp add: poll_step_def poll_of_def set_keys_cast)
qed

lemma poll_step_refused:
  assumes "decide_request d w = (Inl e, w')"
  shows "poll_step (wdi_public_key d) (wdi_decision_type d) (poll_of w) = None"
proof -
  from assms have "\<exists>e. fst (decide_request d w) = Inl e" by simp
  then show ?thesis
    by (cases "wr_status w") (auto simp: decide_error_cases poll_step_def
        split: withdrawal_request_decision_type.splits)
qed

text \<open>
  Property C3. A withdrawal request implements the operators' poll: a vote the code refuses
  is one the poll refuses, and leaves the request as it is; a vote it accepts moves the
  abstract poll by one step, and the id is returned (the withdrawal goes to the node)
  exactly when the request becomes confirmed.
\<close>

theorem decide_request_refines_poll:
  assumes wf: "votes_wf w" and small: "total_votes w + 1 < 2 ^ 15"
  shows "case decide_request d w of
      (Inl _, w') \<Rightarrow> w' = w \<and>
        poll_step (wdi_public_key d) (wdi_decision_type d) (poll_of w) = None
    | (Inr r, w') \<Rightarrow>
        poll_step (wdi_public_key d) (wdi_decision_type d) (poll_of w) = Some (poll_of w') \<and>
        r = (if wr_status w' = Confirmed then Some (wr_id w) else None)"
proof (cases "\<exists>e. fst (decide_request d w) = Inl e")
  case True
  then obtain e w' where "decide_request d w = (Inl e, w')"
    by (cases "decide_request d w") auto
  with decide_error_unchanged poll_step_refused show ?thesis by simp
next
  case False
  then obtain n where st: "wr_status w = InProgress n"
    by (auto simp: decide_error_cases split: withdrawal_request_status.splits)
  show ?thesis
  proof (cases "wdi_decision_type d")
    case Confirm
    with False st have k: "wdi_public_key d \<notin> set (keys_of (wr_confirmations w))"
      by (simp add: decide_error_cases)
    from poll_step_confirm [OF wf st k small] show ?thesis
      by (simp add: confirm_outcome [OF wf st Confirm k] Confirm)
  next
    case Reject
    with False st have k: "wdi_public_key d \<notin> set (keys_of (wr_rejections w))"
      by (simp add: decide_error_cases)
    from poll_step_reject [OF wf st k small] show ?thesis
      by (simp add: reject_outcome [OF wf st Reject k] Reject)
  qed
qed

definition example_request :: withdrawal_request where
  "example_request = withdrawal_request_of 0
     \<lparr>wri_id = 7, wri_user = ''Alice'', wri_address = AddrBTC \<lparr>addr = ''bc1q''\<rparr>,
      wri_amount = 1, wri_request_type = OverLimit\<rparr>"

definition example_decision ::
  "string \<Rightarrow> withdrawal_request_decision_type \<Rightarrow> withdrawal_request_decision_info" where
  "example_decision k dt =
     \<lparr>wdi_user_id = ''Alice'', wdi_currency = BTC, wdi_request_id = 7, wdi_url = ''u'',
      wdi_signature = Signature ''s'', wdi_nonce = 0, wdi_public_key = PublicKey k,
      wdi_decision_type = dt\<rparr>"

lemmas example_request_simps = example_request_def example_decision_def
  withdrawal_request_of_def decide_request_def decision_of_info_def Let_def
  keys_of_def retain_other_keys_def

theorem decide_request_refines_poll_witness:
  "votes_wf example_request \<and> total_votes example_request + 1 < 2 ^ 15 \<and>
   poll_step (PublicKey ''a'') Confirm (poll_of example_request) =
     Some (poll_of (snd (decide_request (example_decision ''a'' Confirm) example_request)))"
proof -
  have wf: "votes_wf example_request"
    unfolding example_request_def by (rule votes_wf_new)
  have small: "total_votes example_request + 1 < 2 ^ 15"
    by (simp add: total_votes_def example_request_simps)
  from decide_request_refines_poll [OF wf small, of "example_decision ''a'' Confirm"] wf small
  show ?thesis by (simp add: example_request_simps)
qed

text \<open>
  A request the operators confirmed carries the confirmations of at least two different keys,
  none of which also rejects it, and exactly two more confirmations than rejections.
\<close>

lemma confirmed_by_two_keys:
  assumes "votes_wf w" and "wr_status w = Confirmed" and "total_votes w < 2 ^ 15"
  shows "2 \<le> card (set (keys_of (wr_confirmations w)) - set (keys_of (wr_rejections w)))
    \<and> card (set (keys_of (wr_confirmations w))) = card (set (keys_of (wr_rejections w))) + 2"
proof -
  from assms(1) have d: "distinct (keys_of (wr_confirmations w))"
    "distinct (keys_of (wr_rejections w))"
    and disj: "set (keys_of (wr_confirmations w)) \<inter> set (keys_of (wr_rejections w)) = {}"
    by (simp_all add: votes_wf_def)
  from assms(1,2) have "of_int (net_votes w) = (of_int 2 :: i16)" by (simp add: votes_wf_def)
  moreover have "- (2 ^ 15) \<le> net_votes w" "net_votes w < 2 ^ 15"
    using assms(3) by (simp_all add: net_votes_def total_votes_def)
  ultimately have "net_votes w = 2" using i16_eq_iff [of "net_votes w" 2] by simp
  then have "card (set (keys_of (wr_confirmations w))) = card (set (keys_of (wr_rejections w))) + 2"
    using d by (simp add: net_votes_def distinct_card)
  with disj show ?thesis by (simp add: Diff_triv)
qed

subsection \<open>A key that changes sides can overshoot the quorum\<close>

text \<open>
  The code compares the counter with the quorum for equality. A vote that changes sides
  moves it by two, so the balance can pass from 1 to 3 without the request being confirmed.
\<close>

definition decide_all ::
  "withdrawal_request_decision_info list \<Rightarrow> withdrawal_request \<Rightarrow> decision_error + withdrawal_request" where
  "decide_all = run_all decide_request"

text \<open>
  Property C23. Any three operators a, b, c can bring about the overshoot: a confirms, c
  rejects, b confirms, c changes to confirm. All four votes are accepted, all three
  operators confirm and none rejects, and the request is still in progress, with counter 3.
\<close>

theorem quorum_overshoot:
  assumes "distinct [a, b, c]" and "wr_status w = InProgress 0"
    and "wr_confirmations w = []" and "wr_rejections w = []"
  shows "\<exists>w'. decide_all
      [d\<lparr>wdi_public_key := a, wdi_decision_type := Confirm\<rparr>,
       d\<lparr>wdi_public_key := c, wdi_decision_type := Reject\<rparr>,
       d\<lparr>wdi_public_key := b, wdi_decision_type := Confirm\<rparr>,
       d\<lparr>wdi_public_key := c, wdi_decision_type := Confirm\<rparr>] w = Inr w'
    \<and> keys_of (wr_confirmations w') = [a, b, c] \<and> wr_rejections w' = []
    \<and> wr_status w' = InProgress 3"
  using assms
  by (simp add: decide_all_def decide_request_def decision_of_info_def Let_def
      keys_of_def retain_other_keys_def) blast

theorem quorum_overshoot_witness:
  "\<exists>w'. decide_all
      [example_decision ''a'' Confirm, example_decision ''c'' Reject,
       example_decision ''b'' Confirm, example_decision ''c'' Confirm] example_request = Inr w'
    \<and> keys_of (wr_confirmations w') = [PublicKey ''a'', PublicKey ''b'', PublicKey ''c'']
    \<and> wr_rejections w' = [] \<and> wr_status w' = InProgress 3"
  using quorum_overshoot [of "PublicKey ''a''" "PublicKey ''b''" "PublicKey ''c''"
      example_request "example_decision ''a'' Confirm"]
  by (simp add: example_decision_def example_request_def withdrawal_request_of_def)

text \<open>
  Once past the quorum, confirmations no longer confirm: from a balance of 2 or
  more (and below the counter's range) every accepted confirmation leaves the request in
  progress, with a larger balance.
\<close>

lemma past_quorum_confirm_stays_open:
  assumes wf: "votes_wf w" and st: "wr_status w = InProgress n" and over: "2 \<le> net_votes w"
    and small: "total_votes w + 1 < 2 ^ 15" and dt: "wdi_decision_type d = Confirm"
    and k: "wdi_public_key d \<notin> set (keys_of (wr_confirmations w))"
  shows "\<exists>w' n'. decide_request d w = (Inr None, w') \<and> wr_status w' = InProgress n'
    \<and> net_votes w < net_votes w'"
proof -
  have net: "net_votes w < net_votes (cast_confirm d w)"
    by (simp add: net_votes_cast(1) [OF wf] swing_def)
  with over have "(of_int (net_votes (cast_confirm d w)) :: i16) \<noteq> of_int 2"
    using i16_eq_iff [OF net_votes_bounds(1,2) [OF small], of 2] by simp
  with net show ?thesis
    by (simp add: confirm_outcome [OF wf st dt k])
qed

lemma past_quorum_confirm_stays_open_witness:
  "\<exists>w w' n'. wr_status w = InProgress 3 \<and>
     decide_request (example_decision ''d'' Confirm) w = (Inr None, w') \<and>
     wr_status w' = InProgress n' \<and> net_votes w < net_votes w'"
proof -
  define w where "w = example_request\<lparr>wr_status := InProgress 3, wr_confirmations :=
    map (\<lambda>k. decision_of_info (example_decision k Confirm)) [''a'', ''b'', ''c'']\<rparr>"
  have wf: "votes_wf w"
    by (simp add: w_def votes_wf_def net_votes_def example_request_simps)
  have "\<exists>w' n'. decide_request (example_decision ''d'' Confirm) w = (Inr None, w')
    \<and> wr_status w' = InProgress n' \<and> net_votes w < net_votes w'"
    by (rule past_quorum_confirm_stays_open [OF wf, of 3])
      (simp_all add: w_def net_votes_def total_votes_def example_request_simps)
  moreover have "wr_status w = InProgress 3" by (simp add: w_def)
  ultimately show ?thesis by blast
qed

end
