(* ===== verification/Limit_Change.thy ===== *)
theory Limit_Change
  imports Api_Types
begin

section \<open>Limit change requests\<close>

text \<open>
  hexstody-db/src/update/limit.rs and the part of \<open>State::with_limit_change_decision\<close>
  (hexstody-db/src/state/mod.rs) that runs on the request once it has been found: the vote it
  records and the status it leaves. At most one request per user and currency exists; it
  lives in the user's map, keyed by the currency.
\<close>

record limit_cancel_data =
  lcan_id :: uuid
  lcan_user :: string
  lcan_currency :: currency

record limit_change_upd =
  lcu_user :: string
  lcu_currency :: currency
  lcu_limit :: limit

record limit_change_data =
  lc_id :: uuid
  lc_user :: string
  lc_created_at :: string
  lc_status :: limit_change_status
  lc_currency :: currency
  lc_limit :: limit
  lc_confirms :: "signature_data list"
  lc_rejects :: "signature_data list"

record limit_change_decision =
  ld_id :: uuid
  ld_user :: string
  ld_currency :: currency
  ld_created_at :: string
  ld_requested_limit :: limit
  ld_url :: string
  ld_signature :: signature
  ld_nonce :: u64
  ld_public_key :: public_key
  ld_decision_type :: limit_change_decision_type

definition limit_change_response_of :: "limit_change_data \<Rightarrow> limit_change_response" where
  "limit_change_response_of d =
     \<lparr>lresp_id = lc_id d, lresp_user = lc_user d, lresp_created_at = lc_created_at d,
      lresp_currency = lc_currency d, lresp_limit = lc_limit d, lresp_status = lc_status d\<rparr>"

definition limit_change_decision_of ::
  "limit_confirmation_data \<Rightarrow> signature_data \<Rightarrow> limit_change_decision_type \<Rightarrow> string
   \<Rightarrow> limit_change_decision" where
  "limit_change_decision_of cd sd dt url =
     \<lparr>ld_id = lcd_id cd,
      ld_user = lcd_user cd,
      ld_currency = lcd_currency cd,
      ld_created_at = lcd_created_at cd,
      ld_requested_limit = lcd_requested_limit cd,
      ld_url = url,
      ld_signature = sd_signature sd,
      ld_nonce = sd_nonce sd,
      ld_public_key = sd_public_key sd,
      ld_decision_type = dt\<rparr>"

subsection \<open>Queries on a request\<close>

definition signers :: "signature_data list \<Rightarrow> public_key list" where
  "signers sds = map sd_public_key sds"

definition lc_has_confirmed :: "limit_change_data \<Rightarrow> public_key \<Rightarrow> bool" where
  "lc_has_confirmed d pubkey = list_ex (\<lambda>sd. sd_public_key sd = pubkey) (lc_confirms d)"

definition lc_has_rejected :: "limit_change_data \<Rightarrow> public_key \<Rightarrow> bool" where
  "lc_has_rejected d pubkey = list_ex (\<lambda>sd. sd_public_key sd = pubkey) (lc_rejects d)"

definition lc_has_already_signed :: "limit_change_data \<Rightarrow> public_key \<Rightarrow> bool" where
  "lc_has_already_signed d pubkey =
     (let confirmed = list_ex (\<lambda>sd. sd_public_key sd = pubkey) (lc_confirms d) in
      if confirmed then confirmed
      else list_ex (\<lambda>sd. sd_public_key sd = pubkey) (lc_rejects d))"

definition lc_matches_filter :: "limit_change_data \<Rightarrow> limit_change_filter \<Rightarrow> bool" where
  "lc_matches_filter d f =
     (if f = LimitAll then True
      else (case lc_status d of
         LimitInProgress _ _ \<Rightarrow> f = LimitPending
       | LimitCompleted \<Rightarrow> f = LimitFCompleted
       | LimitRejected \<Rightarrow> f = LimitFRejected))"

subsection \<open>A decision on a request\<close>

text \<open>
  What becomes of the request: it stays in the map with new votes, or it is removed, with
  its limit taken over or not. \<open>LimitAlreadyConfirmed\<close> is what the code answers to a
  repeated vote on either side.
\<close>

datatype limit_vote =
    LimitVoteConfirmedError
  | LimitVoteRejectedError
  | LimitStays limit_change_data
  | LimitGranted
  | LimitRefused

definition decide_limit :: "limit_change_decision \<Rightarrow> limit_change_data \<Rightarrow> limit_vote" where
  "decide_limit lcd req =
     (let sdata = \<lparr>sd_signature = ld_signature lcd, sd_nonce = ld_nonce lcd,
                   sd_public_key = ld_public_key lcd\<rparr>
      in case lc_status req of
           LimitCompleted \<Rightarrow> LimitVoteConfirmedError
         | LimitRejected \<Rightarrow> LimitVoteRejectedError
         | LimitInProgress confirmations rejections \<Rightarrow>
            (case ld_decision_type lcd of
               LimitConfirm \<Rightarrow>
                 (if lc_has_confirmed req (ld_public_key lcd) then LimitVoteConfirmedError
                  else (let req' = req\<lparr>lc_confirms := lc_confirms req @ [sdata]\<rparr>
                        in if 2 \<le> sint (confirmations + 1 - rejections) then LimitGranted
                           else LimitStays (req'\<lparr>lc_status :=
                             LimitInProgress (confirmations + 1) rejections\<rparr>)))
             | LimitReject \<Rightarrow>
                 (if lc_has_rejected req (ld_public_key lcd) then LimitVoteConfirmedError
                  else (let req' = req\<lparr>lc_rejects := lc_rejects req @ [sdata]\<rparr>
                        in if 2 \<le> sint (rejections + 1 - confirmations) then LimitRefused
                           else LimitStays (req'\<lparr>lc_status :=
                             LimitInProgress confirmations (rejections + 1)\<rparr>)))))"

subsection \<open>What a stored request looks like\<close>

text \<open>
  A request in the map is in progress, its counters are the numbers of votes, and no key
  has voted twice on the same side.
\<close>

definition limit_change_wf :: "limit_change_data \<Rightarrow> bool" where
  "limit_change_wf d \<longleftrightarrow>
     lc_status d = LimitInProgress (of_nat (length (lc_confirms d))) (of_nat (length (lc_rejects d))) \<and>
     distinct (signers (lc_confirms d)) \<and> distinct (signers (lc_rejects d))"

definition limit_votes :: "limit_change_data \<Rightarrow> nat" where
  "limit_votes d = length (lc_confirms d) + length (lc_rejects d)"

lemma signers_simps [simp]:
  "signers [] = []"
  "signers (xs @ [x]) = signers xs @ [sd_public_key x]"
  "length (signers xs) = length xs"
  by (simp_all add: signers_def)

lemma list_ex_signer:
  "list_ex (\<lambda>sd. sd_public_key sd = k) sds \<longleftrightarrow> k \<in> set (signers sds)"
  by (auto simp: list_ex_iff signers_def)

lemmas limit_signer_simps = lc_has_confirmed_def lc_has_rejected_def list_ex_signer

lemma lc_has_already_signed_iff:
  "lc_has_already_signed d k \<longleftrightarrow> lc_has_confirmed d k \<or> lc_has_rejected d k"
  by (simp add: lc_has_already_signed_def lc_has_confirmed_def lc_has_rejected_def Let_def)

text \<open>A stored request never answers "already rejected", and its errors are repeated votes.\<close>

lemma decide_limit_cases:
  assumes "limit_change_wf d"
  shows "decide_limit lcd d \<noteq> LimitVoteRejectedError"
    and "decide_limit lcd d = LimitVoteConfirmedError \<longleftrightarrow>
      (case ld_decision_type lcd of
         LimitConfirm \<Rightarrow> ld_public_key lcd \<in> set (signers (lc_confirms d))
       | LimitReject \<Rightarrow> ld_public_key lcd \<in> set (signers (lc_rejects d)))"
  using assms
  by (auto simp: decide_limit_def limit_change_wf_def Let_def limit_signer_simps
      split: limit_change_decision_type.splits)

lemma limit_change_wf_stays:
  assumes "limit_change_wf d" and "decide_limit lcd d = LimitStays d'"
  shows "limit_change_wf d'"
  using assms
  by (auto simp: decide_limit_def limit_change_wf_def Let_def limit_signer_simps
      split: limit_change_decision_type.splits if_splits)

lemma decide_limit_stays_meta:
  assumes "decide_limit lcd d = LimitStays d'"
  shows "lc_id d' = lc_id d" "lc_user d' = lc_user d" "lc_currency d' = lc_currency d"
    "lc_limit d' = lc_limit d" "lc_created_at d' = lc_created_at d"
  using assms
  by (auto simp: decide_limit_def Let_def
      split: limit_change_status.splits limit_change_decision_type.splits if_splits)

lemma vote_difference_i16:
  assumes "m + n + 1 < 2 ^ 15"
  shows "sint (of_nat m + 1 - of_nat n :: i16) = int m + 1 - int n"
proof -
  have eq: "(of_nat m + 1 - of_nat n :: i16) = of_int (int m + 1 - int n)" by simp
  have "- (2 ^ 15) \<le> int m + 1 - int n" using assms by simp
  moreover have "int m + 1 - int n < 2 ^ 15" using assms by simp
  ultimately show ?thesis unfolding eq by (rule sint_of_int_i16)
qed

text \<open>The request ends on the vote that gives its side two more votes than the other.\<close>

lemma decide_limit_granted_iff:
  assumes "limit_change_wf d" and small: "limit_votes d + 1 < 2 ^ 15"
  shows "decide_limit lcd d = LimitGranted \<longleftrightarrow>
    ld_decision_type lcd = LimitConfirm \<and> ld_public_key lcd \<notin> set (signers (lc_confirms d)) \<and>
    length (lc_rejects d) + 1 \<le> length (lc_confirms d)"
proof -
  have "sint (of_nat (length (lc_confirms d)) + 1 - of_nat (length (lc_rejects d)) :: i16)
      = int (length (lc_confirms d)) + 1 - int (length (lc_rejects d))"
    using small by (intro vote_difference_i16) (simp add: limit_votes_def)
  with assms(1) show ?thesis
    by (auto simp: decide_limit_def limit_change_wf_def Let_def limit_signer_simps
        split: limit_change_decision_type.splits)
qed

lemma decide_limit_refused_iff:
  assumes "limit_change_wf d" and small: "limit_votes d + 1 < 2 ^ 15"
  shows "decide_limit lcd d = LimitRefused \<longleftrightarrow>
    ld_decision_type lcd = LimitReject \<and> ld_public_key lcd \<notin> set (signers (lc_rejects d)) \<and>
    length (lc_confirms d) + 1 \<le> length (lc_rejects d)"
proof -
  have "sint (of_nat (length (lc_rejects d)) + 1 - of_nat (length (lc_confirms d)) :: i16)
      = int (length (lc_rejects d)) + 1 - int (length (lc_confirms d))"
    using small by (intro vote_difference_i16) (simp add: limit_votes_def)
  with assms(1) show ?thesis
    by (auto simp: decide_limit_def limit_change_wf_def Let_def limit_signer_simps
        split: limit_change_decision_type.splits)
qed

end
