(* ===== verification/Exchange.thy ===== *)
theory Exchange
  imports Transaction
begin

section \<open>Exchange orders and the exchange wallet\<close>

text \<open>
  hexstody-db/src/state/exchange.rs: a user's exchange order, the operators' decision on it,
  and the wallet that takes the other side of every completed order. The decision itself is
  the part of \<open>State::apply_exchange_decision\<close> that runs on the order once found.
\<close>

record exchange_order_upd =
  eu_id :: uuid
  eu_user :: string
  eu_currency_from :: currency
  eu_currency_to :: currency
  eu_amount_from :: u64
  eu_amount_to :: u64
  eu_created_at :: string

record exchange_order =
  eo_id :: uuid
  eo_user :: string
  eo_currency_from :: currency
  eo_currency_to :: currency
  eo_amount_from :: u64
  eo_amount_to :: u64
  eo_status :: exchange_status
  eo_created_at :: string
  eo_confirms :: "signature_data list"
  eo_rejects :: "signature_data list"

definition eo_is_finalized :: "exchange_order \<Rightarrow> bool" where
  "eo_is_finalized eo = (eo_status eo = ExchangeCompleted)"

definition eo_is_rejected :: "exchange_order \<Rightarrow> bool" where
  "eo_is_rejected eo = (eo_status eo = ExchangeRejected)"

definition eo_is_pending :: "exchange_order \<Rightarrow> bool" where
  "eo_is_pending eo = (case eo_status eo of ExchangeInProgress _ _ \<Rightarrow> True | _ \<Rightarrow> False)"

definition eo_has_confirmed :: "exchange_order \<Rightarrow> public_key \<Rightarrow> bool" where
  "eo_has_confirmed eo pubkey = list_ex (\<lambda>sd. sd_public_key sd = pubkey) (eo_confirms eo)"

definition eo_has_rejected :: "exchange_order \<Rightarrow> public_key \<Rightarrow> bool" where
  "eo_has_rejected eo pubkey = list_ex (\<lambda>sd. sd_public_key sd = pubkey) (eo_rejects eo)"

definition into_exchange_upd :: "exchange_order \<Rightarrow> exchange_order_upd" where
  "into_exchange_upd eo =
     \<lparr>eu_id = eo_id eo, eu_user = eo_user eo,
      eu_currency_from = eo_currency_from eo, eu_currency_to = eo_currency_to eo,
      eu_amount_from = eo_amount_from eo, eu_amount_to = eo_amount_to eo,
      eu_created_at = eo_created_at eo\<rparr>"

definition api_order_of :: "exchange_order \<Rightarrow> api_exchange_order" where
  "api_order_of eo =
     \<lparr>aeo_user = eo_user eo, aeo_id = eo_id eo,
      aeo_currency_from = eo_currency_from eo, aeo_currency_to = eo_currency_to eo,
      aeo_amount_from = eo_amount_from eo, aeo_amount_to = eo_amount_to eo,
      aeo_created_at = eo_created_at eo, aeo_status = eo_status eo\<rparr>"

datatype exchange_decision_type = ExConfirm | ExReject

record exchange_decision =
  ed_user :: string
  ed_id :: uuid
  ed_currency_from :: currency
  ed_currency_to :: currency
  ed_amount_from :: u64
  ed_amount_to :: u64
  ed_url :: string
  ed_signature :: signature
  ed_nonce :: u64
  ed_public_key :: public_key
  ed_decision :: exchange_decision_type

definition exchange_decision_of ::
  "exchange_confirmation_data \<Rightarrow> signature_data \<Rightarrow> exchange_decision_type \<Rightarrow> string
   \<Rightarrow> exchange_decision" where
  "exchange_decision_of cd sd dt url =
     \<lparr>ed_user = ecd_user cd,
      ed_id = ecd_id cd,
      ed_currency_from = ecd_currency_from cd,
      ed_currency_to = ecd_currency_to cd,
      ed_amount_from = ecd_amount_from cd,
      ed_amount_to = ecd_amount_to cd,
      ed_url = url,
      ed_signature = sd_signature sd,
      ed_nonce = sd_nonce sd,
      ed_public_key = sd_public_key sd,
      ed_decision = dt\<rparr>"

subsection \<open>A decision on an order\<close>

abbreviation EXCHANGE_NUMBER_OF_CONFIRMATIONS :: i16 where
  "EXCHANGE_NUMBER_OF_CONFIRMATIONS \<equiv> 1"

datatype exchange_error = ExchangeAlreadyConfirmedError | ExchangeAlreadyRejectedError

text \<open>
  The result says whether the order was completed, so that it has to be processed by the
  wallet. A rejection records its signature among the confirmations, as the code does.
\<close>

definition decide_exchange ::
  "exchange_decision \<Rightarrow> exchange_order \<Rightarrow> (exchange_order, exchange_error, bool) step_result" where
  "decide_exchange req ex =
     (let sdata = \<lparr>sd_signature = ed_signature req, sd_nonce = ed_nonce req,
                   sd_public_key = ed_public_key req\<rparr>
      in case eo_status ex of
           ExchangeCompleted \<Rightarrow> (Inl ExchangeAlreadyConfirmedError, ex)
         | ExchangeRejected \<Rightarrow> (Inl ExchangeAlreadyRejectedError, ex)
         | ExchangeInProgress confirmations rejections \<Rightarrow>
            (case ed_decision req of
               ExConfirm \<Rightarrow>
                 (if eo_has_confirmed ex (ed_public_key req)
                  then (Inl ExchangeAlreadyConfirmedError, ex)
                  else (let ex' = ex\<lparr>eo_confirms := eo_confirms ex @ [sdata]\<rparr>
                        in if sint EXCHANGE_NUMBER_OF_CONFIRMATIONS
                              \<le> sint (confirmations + 1 - rejections)
                           then (Inr True, ex'\<lparr>eo_status := ExchangeCompleted\<rparr>)
                           else (Inr False, ex'\<lparr>eo_status :=
                             ExchangeInProgress (confirmations + 1) rejections\<rparr>)))
             | ExReject \<Rightarrow>
                 (if eo_has_rejected ex (ed_public_key req)
                  then (Inl ExchangeAlreadyRejectedError, ex)
                  else (let ex' = ex\<lparr>eo_confirms := eo_confirms ex @ [sdata]\<rparr>
                        in if sint EXCHANGE_NUMBER_OF_CONFIRMATIONS
                              \<le> sint (rejections + 1 - confirmations)
                           then (Inr False, ex'\<lparr>eo_status := ExchangeRejected\<rparr>)
                           else (Inr False, ex'\<lparr>eo_status :=
                             ExchangeInProgress confirmations (rejections + 1)\<rparr>)))))"

text \<open>
  A stored order has no votes while it is in progress: the first decision ends it. The list
  of rejections is never written.
\<close>

definition exchange_order_wf :: "exchange_order \<Rightarrow> bool" where
  "exchange_order_wf ex \<longleftrightarrow> eo_rejects ex = [] \<and>
     (case eo_status ex of
        ExchangeInProgress c r \<Rightarrow> c = 0 \<and> r = 0 \<and> eo_confirms ex = []
      | _ \<Rightarrow> length (eo_confirms ex) = 1)"

lemma decide_exchange_error:
  "decide_exchange req ex = (Inl e, ex') \<Longrightarrow> ex' = ex"
  by (auto simp: decide_exchange_def Let_def
      split: exchange_status.splits exchange_decision_type.splits if_splits)

lemma decide_exchange_wf:
  assumes "exchange_order_wf ex"
  shows "decide_exchange req ex =
    (let ex' = ex\<lparr>eo_confirms := [\<lparr>sd_signature = ed_signature req, sd_nonce = ed_nonce req,
                                  sd_public_key = ed_public_key req\<rparr>]\<rparr>
     in case eo_status ex of
        ExchangeCompleted \<Rightarrow> (Inl ExchangeAlreadyConfirmedError, ex)
      | ExchangeRejected \<Rightarrow> (Inl ExchangeAlreadyRejectedError, ex)
      | ExchangeInProgress _ _ \<Rightarrow>
         (case ed_decision req of
            ExConfirm \<Rightarrow> (Inr True, ex'\<lparr>eo_status := ExchangeCompleted\<rparr>)
          | ExReject \<Rightarrow> (Inr False, ex'\<lparr>eo_status := ExchangeRejected\<rparr>)))"
  using assms
  by (auto simp: decide_exchange_def exchange_order_wf_def eo_has_confirmed_def
      eo_has_rejected_def Let_def
      split: exchange_status.splits exchange_decision_type.splits)

lemma exchange_order_wf_decide:
  "exchange_order_wf ex \<Longrightarrow> exchange_order_wf (snd (decide_exchange req ex))"
  by (subst decide_exchange_wf)
    (auto simp: exchange_order_wf_def Let_def
      split: exchange_status.splits exchange_decision_type.splits)

lemma decide_exchange_meta:
  assumes "decide_exchange req ex = (r, ex')"
  shows "eo_id ex' = eo_id ex" "eo_user ex' = eo_user ex"
    "eo_currency_from ex' = eo_currency_from ex" "eo_currency_to ex' = eo_currency_to ex"
    "eo_amount_from ex' = eo_amount_from ex" "eo_amount_to ex' = eo_amount_to ex"
    "eo_created_at ex' = eo_created_at ex"
  using assms
  by (auto simp: decide_exchange_def Let_def
      split: exchange_status.splits exchange_decision_type.splits if_splits)

subsection \<open>The exchange wallet\<close>

record exchange_state =
  es_exchanges :: "(uuid, exchange_order_upd) hash_map"
  es_addresses :: "(currency, currency_address) hash_map"
  es_deposits :: "transaction list"
  es_balances :: "(currency, i64) hash_map"

definition exchange_state_new :: exchange_state where
  "exchange_state_new =
     \<lparr>es_exchanges = hm_empty, es_addresses = hm_empty, es_deposits = [],
      es_balances = hm_collect (map (\<lambda>c. (c, 0)) supported)\<rparr>"

definition process_order :: "exchange_order_upd \<Rightarrow> exchange_state \<Rightarrow> exchange_state" where
  "process_order order es =
     (let es1 = es\<lparr>es_exchanges := hm_insert (eu_id order) order (es_exchanges es)\<rparr>;
          es2 = es1\<lparr>es_balances := hm_modify_or_insert (eu_currency_from order)
                      (\<lambda>v. v + eu_amount_from order) (eu_amount_from order) (es_balances es1)\<rparr>
      in es2\<lparr>es_balances := hm_modify_or_insert (eu_currency_to order)
               (\<lambda>v. v - eu_amount_to order) (eu_amount_to order) (es_balances es2)\<rparr>)"

definition process_incoming_btc_tx :: "btc_transaction \<Rightarrow> exchange_state \<Rightarrow> exchange_state" where
  "process_incoming_btc_tx upd_tx es =
     (if 0 \<le> sint (bt_amount upd_tx)
      then (case replace_btc_tx upd_tx (es_deposits es) of
              Some deposits' \<Rightarrow> es\<lparr>es_deposits := deposits'\<rparr>
            | None \<Rightarrow>
                es\<lparr>es_balances := hm_modify_or_insert BTC
                     (\<lambda>v. v + bt_amount upd_tx) (bt_amount upd_tx) (es_balances es),
                   es_deposits := es_deposits es @ [TrBtc upd_tx]\<rparr>)
      else es)"

definition exchange_cancel_btc_tx :: "tx_cancel \<Rightarrow> exchange_state \<Rightarrow> exchange_state" where
  "exchange_cancel_btc_tx canceled_tx es =
     (case find_cancelled canceled_tx 0 (es_deposits es) of
        Some i \<Rightarrow>
          es\<lparr>es_deposits := vec_remove i (es_deposits es),
             es_balances := hm_modify_or_insert BTC
               (\<lambda>v. v - tc_amount canceled_tx) (- (tc_amount canceled_tx)) (es_balances es)\<rparr>
      | None \<Rightarrow> es)"

subsection \<open>What the wallet keeps\<close>

text \<open>
  Keys are distinct, an order is stored under its own id and an address under its currency, deposits are non-negative and
  describe distinct outputs, and every supported currency has a balance.
\<close>

definition exchange_state_wf :: "exchange_state \<Rightarrow> bool" where
  "exchange_state_wf es \<longleftrightarrow>
     hm_wf (es_exchanges es) \<and> hm_wf (es_addresses es) \<and> hm_wf (es_balances es) \<and>
     hm_all (\<lambda>k order. eu_id order = k) (es_exchanges es) \<and>
     hm_all (\<lambda>c a. address_currency a = c) (es_addresses es) \<and>
     distinct (btc_keys (es_deposits es)) \<and>
     list_all (\<lambda>tx. 0 \<le> sint (tx_amount tx)) (es_deposits es) \<and>
     list_all (hm_contains_key (es_balances es)) supported"

lemma hm_contains_key_insert [simp]:
  "hm_contains_key (hm_insert k v m) k' \<longleftrightarrow> k' = k \<or> hm_contains_key m k'"
  by (auto simp: hm_contains_key_def)

lemma hm_contains_key_modify [simp]:
  "hm_contains_key (hm_modify_or_insert k f v m) k' \<longleftrightarrow> k' = k \<or> hm_contains_key m k'"
  by (auto simp: hm_modify_or_insert_def split: option.splits)

lemma list_all_contains_modify:
  "list_all (hm_contains_key m) cs \<Longrightarrow> list_all (hm_contains_key (hm_modify_or_insert k f v m)) cs"
  by (auto simp: list_all_iff)

lemma hm_collect_supported:
  "hm_get (hm_collect (map (\<lambda>c. (c, v)) supported)) c = (if c \<in> set supported then Some v else None)"
  by (simp add: hm_collect_def supported_def token_defs hm_empty_def)

lemma exchange_state_wf_new [wf_intros]: "exchange_state_wf exchange_state_new"
  by (auto simp: exchange_state_wf_def exchange_state_new_def hm_contains_key_def
      hm_collect_supported list_all_iff)

lemma exchange_state_wf_process_order [wf_intros]:
  "exchange_state_wf es \<Longrightarrow> exchange_state_wf (process_order order es)"
  by (simp add: exchange_state_wf_def process_order_def Let_def hm_all_insert
      list_all_contains_modify)

lemma exchange_state_wf_incoming [wf_intros]:
  assumes "exchange_state_wf es"
  shows "exchange_state_wf (process_incoming_btc_tx tx es)"
proof (cases "replace_btc_tx tx (es_deposits es)")
  case None
  then have "(bt_txid tx, bt_vout tx) \<notin> set (btc_keys (es_deposits es))"
    by (simp add: replace_btc_tx_None_iff)
  with assms None show ?thesis
    by (simp add: exchange_state_wf_def process_incoming_btc_tx_def list_all_contains_modify)
next
  case (Some ds)
  from replace_btc_tx_split [OF this] obtain xs t ys where
    "es_deposits es = xs @ TrBtc t # ys" and "ds = xs @ TrBtc tx # ys" by blast
  with assms Some replace_btc_tx_keys [OF Some] show ?thesis
    by (simp add: exchange_state_wf_def process_incoming_btc_tx_def)
qed

lemma exchange_state_wf_cancel [wf_intros]:
  assumes "exchange_state_wf es"
  shows "exchange_state_wf (exchange_cancel_btc_tx c es)"
proof (cases "find_cancelled c 0 (es_deposits es)")
  case None
  with assms show ?thesis by (simp add: exchange_cancel_btc_tx_def)
next
  case (Some i)
  from find_cancelled_split [OF this] obtain xs t ys where
    "es_deposits es = xs @ TrBtc t # ys" and "i = length xs" by auto
  with assms Some show ?thesis
    by (simp add: exchange_state_wf_def exchange_cancel_btc_tx_def list_all_contains_modify)
qed

subsection \<open>The audit of the running balances\<close>

text \<open>
  The wallet keeps its balances by adding and subtracting as it goes. What they should be is
  the sum of what it has on record: deposits in, the sold side of every order in, the bought
  side out.
\<close>

definition es_balance :: "exchange_state \<Rightarrow> currency \<Rightarrow> i64" where
  "es_balance es c = (case hm_get (es_balances es) c of Some v \<Rightarrow> v | None \<Rightarrow> 0)"

definition order_effect :: "currency \<Rightarrow> exchange_order_upd \<Rightarrow> i64" where
  "order_effect c order =
     (if eu_currency_from order = c then eu_amount_from order else 0)
     - (if eu_currency_to order = c then eu_amount_to order else 0)"

definition es_booked :: "exchange_state \<Rightarrow> currency \<Rightarrow> i64" where
  "es_booked es c =
     (if c = BTC then \<Sum>tx\<leftarrow>es_deposits es. tx_amount tx else 0)
     + (\<Sum>(k, order)\<leftarrow>es_exchanges es. order_effect c order)"

lemma es_balance_modify:
  "(case hm_get (hm_modify_or_insert k (\<lambda>v. v + a) a m) c of Some v \<Rightarrow> v | None \<Rightarrow> 0) =
   (case hm_get m c of Some v \<Rightarrow> v | None \<Rightarrow> (0 :: i64)) + (if c = k then a else 0)"
  by (auto simp: hm_modify_or_insert_def split: option.splits)

lemma es_balance_modify_diff:
  assumes "hm_contains_key m k"
  shows "(case hm_get (hm_modify_or_insert k (\<lambda>v. v - a) b m) c of Some v \<Rightarrow> v | None \<Rightarrow> 0) =
   (case hm_get m c of Some v \<Rightarrow> v | None \<Rightarrow> (0 :: i64)) - (if c = k then a else 0)"
  using assms by (auto simp: hm_modify_or_insert_def hm_contains_key_def split: option.splits)

lemma es_balance_process_order:
  assumes "hm_contains_key (es_balances es) (eu_currency_to order)"
  shows "es_balance (process_order order es) c = es_balance es c + order_effect c order"
  using assms
  by (simp add: es_balance_def process_order_def Let_def es_balance_modify_diff es_balance_modify
      order_effect_def)

lemma es_booked_process_order:
  assumes "exchange_state_wf es" and "hm_get (es_exchanges es) (eu_id order) = None"
  shows "es_booked (process_order order es) c = es_booked es c + order_effect c order"
proof -
  have "hm_wf (es_exchanges es)" using assms(1) by (simp add: exchange_state_wf_def)
  from hm.sum_put_fresh [OF this assms(2), of "\<lambda>(k, order). order_effect c order" order]
  show ?thesis by (simp add: es_booked_def process_order_def Let_def)
qed

lemma es_audit_incoming:
  assumes "exchange_state_wf es"
    and same: "\<And>t. TrBtc t \<in> set (es_deposits es) \<Longrightarrow> same_btc_tx t tx \<Longrightarrow> bt_amount t = bt_amount tx"
  shows "es_balance (process_incoming_btc_tx tx es) c - es_booked (process_incoming_btc_tx tx es) c
    = es_balance es c - es_booked es c"
proof (cases "replace_btc_tx tx (es_deposits es)")
  case None
  then show ?thesis
    by (simp add: process_incoming_btc_tx_def es_balance_def es_booked_def es_balance_modify)
next
  case (Some ds)
  from replace_btc_tx_split [OF this] obtain xs t ys where
    "es_deposits es = xs @ TrBtc t # ys" "ds = xs @ TrBtc tx # ys" "same_btc_tx t tx" by blast
  moreover from this have "bt_amount t = bt_amount tx" by (simp add: same)
  ultimately show ?thesis using Some
    by (simp add: process_incoming_btc_tx_def es_balance_def es_booked_def)
qed

lemma es_audit_cancel:
  assumes "exchange_state_wf es"
    and same: "\<And>t. TrBtc t \<in> set (es_deposits es) \<Longrightarrow> same_btc_tx_cancel t x \<Longrightarrow> bt_amount t = tc_amount x"
  shows "es_balance (exchange_cancel_btc_tx x es) c - es_booked (exchange_cancel_btc_tx x es) c
    = es_balance es c - es_booked es c"
proof (cases "find_cancelled x 0 (es_deposits es)")
  case None
  then show ?thesis by (simp add: exchange_cancel_btc_tx_def)
next
  case (Some i)
  from find_cancelled_split [OF this] obtain xs t ys where
    "es_deposits es = xs @ TrBtc t # ys" "i = length xs" "same_btc_tx_cancel t x" by auto
  moreover from this have "bt_amount t = tc_amount x" by (simp add: same)
  moreover have "hm_contains_key (es_balances es) BTC"
    using assms(1) by (simp add: exchange_state_wf_def supported_def)
  ultimately show ?thesis using Some
    by (simp add: exchange_cancel_btc_tx_def es_balance_def es_booked_def es_balance_modify_diff)
qed

end
