(* ===== verification/User.thy ===== *)
theory User
  imports Withdraw Limit_Change Exchange
begin

section \<open>Users and their currency accounts\<close>

text \<open>
  hexstody-db/src/state/user.rs, with the sign-up data of update/signup.rs: what the state
  keeps of a user, one account per currency, the two balances computed from an account, and
  the operations on its transaction list.
\<close>

datatype signup_auth = Password string | Lightning

record signup_info =
  su_username :: string
  su_invite :: invite
  su_auth :: signup_auth

record user_config =
  ucf_language :: language
  ucf_email :: "email option"
  ucf_phone :: "phone_number option"
  ucf_tg_name :: "tg_name option"

definition user_config_default :: user_config where
  "user_config_default =
     \<lparr>ucf_language = English, ucf_email = None, ucf_phone = None, ucf_tg_name = None\<rparr>"

record user_currency_info =
  uci_currency :: currency
  uci_deposit_info :: "currency_address list"
  uci_transactions :: "transaction list"
  uci_withdrawals :: "(uuid, withdrawal_request) hash_map"
  uci_exchanges :: "(uuid, exchange_order) hash_map"
  uci_incoming :: "(uuid, u64) hash_map"
  uci_limit_info :: limit_info

record user_info =
  ui_username :: string
  ui_invite :: invite
  ui_auth :: signup_auth
  ui_created_at :: datetime
  ui_withdrawal_ids :: "uuid set"
  ui_completed_ids :: "uuid set"
  ui_currencies :: "(currency, user_currency_info) hash_map"
  ui_limit_changes :: "(currency, limit_change_data) hash_map"
  ui_config :: user_config
  ui_public_key :: "public_key option"

definition user_currency_info_new :: "currency \<Rightarrow> user_currency_info" where
  "user_currency_info_new c =
     \<lparr>uci_currency = c, uci_deposit_info = [], uci_transactions = [],
      uci_withdrawals = hm_empty, uci_exchanges = hm_empty, uci_incoming = hm_empty,
      uci_limit_info = limit_info_default\<rparr>"

definition user_info_new :: "string \<Rightarrow> invite \<Rightarrow> signup_auth \<Rightarrow> datetime \<Rightarrow> user_info" where
  "user_info_new username invt auth created_at =
     \<lparr>ui_username = username, ui_invite = invt, ui_auth = auth, ui_created_at = created_at,
      ui_withdrawal_ids = {}, ui_completed_ids = {},
      ui_currencies = hm_collect (map (\<lambda>c. (c, user_currency_info_new c)) default_currencies),
      ui_limit_changes = hm_empty, ui_config = user_config_default, ui_public_key = None\<rparr>"

definition user_info_of_signup :: "datetime \<Rightarrow> signup_info \<Rightarrow> user_info" where
  "user_info_of_signup ts info = user_info_new (su_username info) (su_invite info) (su_auth info) ts"

subsection \<open>Balances of an account\<close>

definition unconfirmed_transactions :: "user_currency_info \<Rightarrow> transaction list" where
  "unconfirmed_transactions ci =
     List.map_filter (\<lambda>t. if is_conflicted t then None else Some t) (uci_transactions ci)"

text \<open>
  The parts both balances subtract and add: withdrawals that are not rejected with their
  fees, incoming exchanges, and outgoing exchanges that are not rejected. The sums are over
  \<open>u64\<close> and wrap; the casts to \<open>i64\<close> and back keep the bits.
\<close>

definition pending_withdrawals :: "user_currency_info \<Rightarrow> u64" where
  "pending_withdrawals ci =
     (\<Sum>(k, w)\<leftarrow>uci_withdrawals ci.
        if wr_is_rejected w then 0
        else wr_amount w + (case wr_fee w of Some f \<Rightarrow> f | None \<Rightarrow> 0))"

definition incoming_exchanges :: "user_currency_info \<Rightarrow> u64" where
  "incoming_exchanges ci = (\<Sum>v\<leftarrow>hm_values (uci_incoming ci). v)"

definition outgoing_exchanges :: "user_currency_info \<Rightarrow> u64" where
  "outgoing_exchanges ci =
     sum_list (List.map_filter
       (\<lambda>v. if eo_is_rejected v then None else Some (eo_amount_from v))
       (hm_values (uci_exchanges ci)))"

definition balance :: "user_currency_info \<Rightarrow> u64" where
  "balance ci =
     (let tx_sum = sum_list (List.map_filter
            (\<lambda>t. if is_conflicted t then None else Some (tx_amount t)) (uci_transactions ci));
          val = incoming_exchanges ci - pending_withdrawals ci - outgoing_exchanges ci
      in max_zero_i64 (tx_sum + val))"

definition finalized_balance :: "user_currency_info \<Rightarrow> u64" where
  "finalized_balance ci =
     (let tx_sum = sum_list (List.map_filter
            (\<lambda>t. if is_finalized t then Some (tx_amount t) else None) (uci_transactions ci));
          val = incoming_exchanges ci - pending_withdrawals ci - outgoing_exchanges ci
      in max_zero_i64 (tx_sum + val))"

subsection \<open>Queries\<close>

definition uci_has_address :: "user_currency_info \<Rightarrow> currency_address \<Rightarrow> bool" where
  "uci_has_address ci address = (List.find (\<lambda>a. a = address) (uci_deposit_info ci) \<noteq> None)"

definition has_address :: "user_info \<Rightarrow> currency_address \<Rightarrow> bool" where
  "has_address u address =
     (case hm_get (ui_currencies u) (address_currency address) of
        Some cur_info \<Rightarrow> uci_has_address cur_info address
      | None \<Rightarrow> False)"

text \<open>\<open>Iterator::find_map\<close>.\<close>

fun find_map :: "('a \<Rightarrow> 'b option) \<Rightarrow> 'a list \<Rightarrow> 'b option" where
  "find_map f [] = None"
| "find_map f (x # xs) = (case f x of Some y \<Rightarrow> Some y | None \<Rightarrow> find_map f xs)"

definition uci_find_completed :: "user_currency_info \<Rightarrow> currency_tx_id \<Rightarrow> uuid option" where
  "uci_find_completed ci req_txid =
     (if txid_currency req_txid = uci_currency ci
      then find_map (\<lambda>(k, req).
             case wr_status req of
               Completed _ txid _ _ _ \<Rightarrow> (if req_txid = txid then Some (wr_id req) else None)
             | _ \<Rightarrow> None) (uci_withdrawals ci)
      else None)"

definition find_completed_request :: "user_info \<Rightarrow> currency_tx_id \<Rightarrow> uuid option" where
  "find_completed_request u txid =
     (case hm_get (ui_currencies u) (txid_currency txid) of
        Some cur_info \<Rightarrow> uci_find_completed cur_info txid
      | None \<Rightarrow> None)"

definition exchange_matches :: "exchange_filter \<Rightarrow> exchange_order \<Rightarrow> api_exchange_order option" where
  "exchange_matches f eo =
     (case f of
        ExAll \<Rightarrow> Some (api_order_of eo)
      | ExFCompleted \<Rightarrow> (if eo_is_finalized eo then Some (api_order_of eo) else None)
      | ExFRejected \<Rightarrow> (if eo_is_rejected eo then Some (api_order_of eo) else None)
      | ExPending \<Rightarrow> (if eo_is_pending eo then Some (api_order_of eo) else None))"

definition user_exchange_requests :: "user_info \<Rightarrow> exchange_filter \<Rightarrow> api_exchange_order list" where
  "user_exchange_requests u f =
     concat (map (\<lambda>c. List.map_filter (exchange_matches f) (hm_values (uci_exchanges c)))
       (hm_values (ui_currencies u)))"

subsection \<open>BTC transactions of an account\<close>

definition update_btc_tx :: "btc_transaction \<Rightarrow> user_currency_info \<Rightarrow> user_currency_info" where
  "update_btc_tx upd_tx ci =
     (if 0 \<le> sint (bt_amount upd_tx)
      then (case replace_btc_tx upd_tx (uci_transactions ci) of
              Some txs \<Rightarrow> ci\<lparr>uci_transactions := txs\<rparr>
            | None \<Rightarrow> ci\<lparr>uci_transactions := uci_transactions ci @ [TrBtc upd_tx]\<rparr>)
      else ci)"

definition user_cancel_btc_tx :: "tx_cancel \<Rightarrow> user_currency_info \<Rightarrow> user_currency_info" where
  "user_cancel_btc_tx upd_tx ci =
     (case find_cancelled upd_tx 0 (uci_transactions ci) of
        Some i \<Rightarrow> ci\<lparr>uci_transactions := vec_remove i (uci_transactions ci)\<rparr>
      | None \<Rightarrow> ci)"

subsection \<open>Well-formed accounts and users\<close>

text \<open>
  An account is stored under its currency, in its user's map; what it holds is stored under
  its own id and names its owner and currency; deposits are non-negative and describe
  distinct outputs; every request has the votes its status says.
\<close>

definition account_wf :: "string \<Rightarrow> currency \<Rightarrow> user_currency_info \<Rightarrow> bool" where
  "account_wf name c ci \<longleftrightarrow>
     uci_currency ci = c \<and>
     distinct (uci_deposit_info ci) \<and>
     list_all (\<lambda>a. address_currency a = c) (uci_deposit_info ci) \<and>
     distinct (btc_keys (uci_transactions ci)) \<and>
     list_all (\<lambda>tx. 0 \<le> sint (tx_amount tx)) (uci_transactions ci) \<and>
     hm_wf (uci_withdrawals ci) \<and>
     hm_all (\<lambda>k w. wr_id w = k \<and> wr_user w = name \<and> address_currency (wr_address w) = c \<and>
       votes_wf w) (uci_withdrawals ci) \<and>
     hm_wf (uci_exchanges ci) \<and>
     hm_all (\<lambda>k eo. eo_id eo = k \<and> eo_user eo = name \<and> eo_currency_from eo = c \<and>
       exchange_order_wf eo) (uci_exchanges ci) \<and>
     hm_wf (uci_incoming ci)"

definition user_wf :: "string \<Rightarrow> user_info \<Rightarrow> bool" where
  "user_wf name u \<longleftrightarrow>
     ui_username u = name \<and>
     hm_wf (ui_currencies u) \<and> hm_all (account_wf name) (ui_currencies u) \<and>
     hm_contains_key (ui_currencies u) BTC \<and> hm_contains_key (ui_currencies u) ETH \<and>
     hm_wf (ui_limit_changes u) \<and>
     hm_all (\<lambda>c d. lc_currency d = c \<and> lc_user d = name \<and> limit_change_wf d \<and>
       hm_contains_key (ui_currencies u) c) (ui_limit_changes u)"

lemma account_wf_new [wf_intros]: "account_wf name c (user_currency_info_new c)"
  by (simp add: account_wf_def user_currency_info_new_def)

lemma default_account:
  "hm_get (ui_currencies (user_info_new n i a t)) c =
     (if c \<in> set default_currencies then Some (user_currency_info_new c) else None)"
  by (simp add: user_info_new_def default_currencies_eq hm_collect_def hm_empty_def token_defs)

lemma user_wf_new [wf_intros]: "user_wf n (user_info_new n i a t)"
proof -
  have "hm_contains_key (ui_currencies (user_info_new n i a t)) c"
    if "c \<in> set default_currencies" for c
    using that by (simp add: hm_contains_key_def default_account)
  then show ?thesis
    by (auto simp: user_wf_def user_info_new_def default_currencies_eq
        intro!: hm_all_collect account_wf_new)
qed

text \<open>Replacing one account of a user by another well-formed one.\<close>

lemma user_wf_put_account:
  assumes "user_wf name u" and "account_wf name c ci"
  shows "user_wf name (u\<lparr>ui_currencies := hm_insert c ci (ui_currencies u)\<rparr>)"
  using assms by (auto simp: user_wf_def intro: hm_all_insert elim!: hm_all_mono)

lemma account_of_wf:
  "user_wf name u \<Longrightarrow> hm_get (ui_currencies u) c = Some ci \<Longrightarrow> account_wf name c ci"
  by (auto simp: user_wf_def dest: hm_all_get)

lemma limit_change_of_wf:
  "user_wf name u \<Longrightarrow> hm_get (ui_limit_changes u) c = Some d \<Longrightarrow>
     limit_change_wf d \<and> lc_currency d = c \<and> lc_user d = name \<and> hm_contains_key (ui_currencies u) c"
  by (auto simp: user_wf_def dest: hm_all_get)

subsection \<open>The transaction list\<close>

lemma account_wf_update_btc_tx [wf_intros]:
  assumes "account_wf name c ci"
  shows "account_wf name c (update_btc_tx tx ci)"
proof (cases "replace_btc_tx tx (uci_transactions ci)")
  case None
  then have "(bt_txid tx, bt_vout tx) \<notin> set (btc_keys (uci_transactions ci))"
    by (simp add: replace_btc_tx_None_iff)
  with assms None show ?thesis by (simp add: account_wf_def update_btc_tx_def)
next
  case (Some ds)
  from replace_btc_tx_split [OF this] obtain xs t ys where
    "uci_transactions ci = xs @ TrBtc t # ys" and "ds = xs @ TrBtc tx # ys" by blast
  with assms Some replace_btc_tx_keys [OF Some] show ?thesis
    by (simp add: account_wf_def update_btc_tx_def)
qed

lemma account_wf_cancel_btc_tx [wf_intros]:
  assumes "account_wf name c ci"
  shows "account_wf name c (user_cancel_btc_tx x ci)"
proof (cases "find_cancelled x 0 (uci_transactions ci)")
  case None
  with assms show ?thesis by (simp add: user_cancel_btc_tx_def)
next
  case (Some i)
  from find_cancelled_split [OF this] obtain xs t ys where
    "uci_transactions ci = xs @ TrBtc t # ys" and "i = length xs" by auto
  with assms Some show ?thesis by (simp add: account_wf_def user_cancel_btc_tx_def)
qed

lemma update_btc_tx_idem: "update_btc_tx tx (update_btc_tx tx ci) = update_btc_tx tx ci"
proof (cases "0 \<le> sint (bt_amount tx)")
  case False
  then show ?thesis by (simp add: update_btc_tx_def)
next
  case pos: True
  have self: "replace_btc_tx tx (xs @ TrBtc tx # ys) = Some (xs @ TrBtc tx # ys)"
    if "(bt_txid tx, bt_vout tx) \<notin> set (btc_keys xs)" for xs ys
    using that
  proof (induction xs)
    case Nil
    then show ?case by (simp add: same_btc_tx_def)
  next
    case (Cons x xs)
    then show ?case by (cases x) (auto simp: same_btc_tx_def)
  qed
  show ?thesis
  proof (cases "replace_btc_tx tx (uci_transactions ci)")
    case None
    then have "(bt_txid tx, bt_vout tx) \<notin> set (btc_keys (uci_transactions ci))"
      by (simp add: replace_btc_tx_None_iff)
    with self [of "uci_transactions ci" "[]"] pos None show ?thesis
      by (simp add: update_btc_tx_def)
  next
    case (Some ds)
    from replace_btc_tx_split [OF this] obtain xs t ys where
      "ds = xs @ TrBtc tx # ys" "(bt_txid tx, bt_vout tx) \<notin> set (btc_keys xs)" by blast
    with self pos Some show ?thesis by (simp add: update_btc_tx_def)
  qed
qed

lemma cancel_after_fresh_update:
  assumes "0 \<le> sint (bt_amount tx)" and "same_btc_tx_cancel tx x"
    and "(bt_txid tx, bt_vout tx) \<notin> set (btc_keys (uci_transactions ci))"
  shows "user_cancel_btc_tx x (update_btc_tx tx ci) = ci"
proof -
  have up: "update_btc_tx tx ci = ci\<lparr>uci_transactions := uci_transactions ci @ [TrBtc tx]\<rparr>"
    using assms(1,3) by (simp add: update_btc_tx_def flip: replace_btc_tx_None_iff)
  have key: "tc_txid x = bt_txid tx" "tc_vout x = bt_vout tx"
    using assms(2) by (simp_all add: same_btc_tx_cancel_def)
  have find: "find_cancelled x n (txs @ [TrBtc tx]) = Some (n + length txs)"
    if "(bt_txid tx, bt_vout tx) \<notin> set (btc_keys txs)" for n txs
    using that assms(2) key
  proof (induction txs arbitrary: n)
    case Nil
    then show ?case by simp
  next
    case (Cons t txs)
    then show ?case by (cases t) (auto simp: same_btc_tx_cancel_def)
  qed
  show ?thesis
    using find [OF assms(3), of 0] vec_remove_middle [of "uci_transactions ci" "TrBtc tx" "[]"]
    by (simp add: user_cancel_btc_tx_def up)
qed

subsection \<open>What the balances are worth\<close>

lemma sum_map_filter:
  "sum_list (List.map_filter (\<lambda>t. if P t then None else Some (f t)) xs) =
     (\<Sum>t\<leftarrow>xs. if P t then 0 else (f t :: 'b::monoid_add))"
  "sum_list (List.map_filter (\<lambda>t. if P t then Some (f t) else None) xs) =
     (\<Sum>t\<leftarrow>xs. if P t then f t else 0)"
  by (induction xs) auto

definition tx_total :: "(transaction \<Rightarrow> bool) \<Rightarrow> user_currency_info \<Rightarrow> int" where
  "tx_total P ci = (\<Sum>t\<leftarrow>uci_transactions ci. if P t then sint (tx_amount t) else 0)"

definition reserved :: "withdrawal_request \<Rightarrow> int" where
  "reserved w =
     (if wr_is_rejected w then 0
      else uint (wr_amount w) + (case wr_fee w of Some f \<Rightarrow> uint f | None \<Rightarrow> 0))"

definition sold :: "exchange_order \<Rightarrow> int" where
  "sold eo = (if eo_is_rejected eo then 0 else uint (eo_amount_from eo))"

text \<open>The exact worth of an account, in whole numbers, counting the transactions of a kind.\<close>

definition funds :: "(transaction \<Rightarrow> bool) \<Rightarrow> user_currency_info \<Rightarrow> int" where
  "funds P ci =
     tx_total P ci + (\<Sum>(k, v)\<leftarrow>uci_incoming ci. uint v)
     - (\<Sum>(k, w)\<leftarrow>uci_withdrawals ci. reserved w)
     - (\<Sum>(k, eo)\<leftarrow>uci_exchanges ci. sold eo)"

lemma pending_withdrawals_word:
  "pending_withdrawals ci = of_int (\<Sum>(k, w)\<leftarrow>uci_withdrawals ci. reserved w)"
proof -
  have *: "(if wr_is_rejected w then 0
      else wr_amount w + (case wr_fee w of Some f \<Rightarrow> f | None \<Rightarrow> 0)) = of_int (reserved w)" for w
    by (simp add: reserved_def split: option.splits)
  have "(\<Sum>(k, w)\<leftarrow>m. of_int (reserved w)) = (of_int (\<Sum>(k, w)\<leftarrow>m. reserved w) :: u64)"
    for m :: "(uuid, withdrawal_request) hash_map"
    by (induction m) auto
  then show ?thesis unfolding pending_withdrawals_def * by simp
qed

lemma incoming_word: "incoming_exchanges ci = of_int (\<Sum>(k, v)\<leftarrow>uci_incoming ci. uint v)"
proof -
  have "(\<Sum>v\<leftarrow>hm_values m. v) = of_int (\<Sum>(k, v)\<leftarrow>m. uint v)" for m :: "(uuid, u64) hash_map"
    by (induction m) (auto simp: hm_values_def)
  then show ?thesis by (simp add: incoming_exchanges_def)
qed

lemma outgoing_word: "outgoing_exchanges ci = of_int (\<Sum>(k, eo)\<leftarrow>uci_exchanges ci. sold eo)"
proof -
  have "(\<Sum>eo\<leftarrow>hm_values m. if eo_is_rejected eo then 0 else eo_amount_from eo) =
      of_int (\<Sum>(k, eo)\<leftarrow>m. sold eo)" for m :: "(uuid, exchange_order) hash_map"
    by (induction m) (auto simp: hm_values_def sold_def)
  then show ?thesis by (simp add: outgoing_exchanges_def sum_map_filter)
qed

lemma tx_total_word:
  "(\<Sum>t\<leftarrow>uci_transactions ci. if P t then tx_amount t else 0) = of_int (tx_total P ci)"
  "(\<Sum>t\<leftarrow>uci_transactions ci. if P t then 0 else tx_amount t) = of_int (tx_total (\<lambda>t. \<not> P t) ci)"
proof -
  have "(\<Sum>t\<leftarrow>xs. if P t then tx_amount t else 0) =
      of_int (\<Sum>t\<leftarrow>xs. if P t then sint (tx_amount t) else 0)"
    and "(\<Sum>t\<leftarrow>xs. if P t then 0 else tx_amount t) =
      of_int (\<Sum>t\<leftarrow>xs. if \<not> P t then sint (tx_amount t) else 0)" for xs
    by (induction xs) auto
  then show "(\<Sum>t\<leftarrow>uci_transactions ci. if P t then tx_amount t else 0) = of_int (tx_total P ci)"
    and "(\<Sum>t\<leftarrow>uci_transactions ci. if P t then 0 else tx_amount t) = of_int (tx_total (\<lambda>t. \<not> P t) ci)"
    by (simp_all add: tx_total_def)
qed

lemmas balance_words = sum_map_filter tx_total_word pending_withdrawals_word incoming_word outgoing_word

lemma balance_word: "balance ci = max_zero_i64 (of_int (funds (\<lambda>t. \<not> is_conflicted t) ci))"
  by (simp add: balance_def balance_words funds_def Let_def algebra_simps)

lemma finalized_balance_word: "finalized_balance ci = max_zero_i64 (of_int (funds is_finalized ci))"
  by (simp add: finalized_balance_def balance_words funds_def Let_def algebra_simps)

text \<open>The worth of an account does not depend on the order its maps yield their entries in.\<close>

lemma funds_order:
  assumes "mset (uci_transactions a) = mset (uci_transactions b)"
    and "mset (uci_withdrawals a) = mset (uci_withdrawals b)"
    and "mset (uci_exchanges a) = mset (uci_exchanges b)"
    and "mset (uci_incoming a) = mset (uci_incoming b)"
  shows "funds P a = funds P b"
  using assms by (simp add: funds_def tx_total_def sum_list_map_mset)

lemma finalized_not_conflicted: "is_finalized t \<Longrightarrow> \<not> is_conflicted t"
  by (cases t) (auto simp: word_less_nat_alt)

lemma tx_total_mono:
  assumes "list_all (\<lambda>tx. 0 \<le> sint (tx_amount tx)) (uci_transactions ci)"
    and "\<And>t. P t \<Longrightarrow> Q t"
  shows "tx_total P ci \<le> tx_total Q ci"
proof -
  have "(\<Sum>t\<leftarrow>xs. if P t then sint (tx_amount t) else 0) \<le> (\<Sum>t\<leftarrow>xs. if Q t then sint (tx_amount t) else 0)"
    if "list_all (\<lambda>tx. 0 \<le> sint (tx_amount tx)) xs" for xs
    using that assms(2) by (induction xs) (auto intro: add_mono simp: add_increasing)
  with assms(1) show ?thesis by (simp add: tx_total_def)
qed

lemma funds_finalized_le:
  "account_wf name c ci \<Longrightarrow> funds is_finalized ci \<le> funds (\<lambda>t. \<not> is_conflicted t) ci"
  using tx_total_mono [of ci is_finalized "\<lambda>t. \<not> is_conflicted t"] finalized_not_conflicted
  by (auto simp: funds_def account_wf_def)

lemma reserved_nonneg: "0 \<le> reserved w"
  by (simp add: reserved_def split: option.splits)

text \<open>A new entry of a map changes the worth by its own amount.\<close>

lemma funds_new_withdrawal:
  assumes "hm_wf (uci_withdrawals ci)" and "hm_get (uci_withdrawals ci) k = None"
  shows "funds P (ci\<lparr>uci_withdrawals := hm_insert k w (uci_withdrawals ci)\<rparr>) = funds P ci - reserved w"
  using hm.sum_put_fresh [OF assms, of "\<lambda>(k, w). reserved w" w]
  by (simp add: funds_def tx_total_def)

lemma funds_new_exchange:
  assumes "hm_wf (uci_exchanges ci)" and "hm_get (uci_exchanges ci) k = None"
  shows "funds P (ci\<lparr>uci_exchanges := hm_insert k eo (uci_exchanges ci)\<rparr>) = funds P ci - sold eo"
  using hm.sum_put_fresh [OF assms, of "\<lambda>(k, eo). sold eo" eo]
  by (simp add: funds_def tx_total_def)

lemma funds_new_incoming:
  assumes "hm_wf (uci_incoming ci)" and "hm_get (uci_incoming ci) k = None"
  shows "funds P (ci\<lparr>uci_incoming := hm_insert k v (uci_incoming ci)\<rparr>) = funds P ci + uint v"
  using hm.sum_put_fresh [OF assms, of "\<lambda>(k, v). uint v" v]
  by (simp add: funds_def tx_total_def)

lemma funds_known_exchange:
  assumes "hm_wf (uci_exchanges ci)" and "hm_get (uci_exchanges ci) k = Some eo"
  shows "funds P (ci\<lparr>uci_exchanges := hm_insert k eo' (uci_exchanges ci)\<rparr>)
    = funds P ci + sold eo - sold eo'"
  using hm.sum_put_known [OF assms, of "\<lambda>(k, eo). sold eo" eo']
  by (simp add: funds_def tx_total_def)

lemma funds_known_withdrawal:
  assumes "hm_wf (uci_withdrawals ci)" and "hm_get (uci_withdrawals ci) k = Some w"
  shows "funds P (ci\<lparr>uci_withdrawals := hm_insert k w' (uci_withdrawals ci)\<rparr>)
    = funds P ci + reserved w - reserved w'"
  using hm.sum_put_known [OF assms, of "\<lambda>(k, w). reserved w" w']
  by (simp add: funds_def tx_total_def)

subsection \<open>The balance is the worth, or zero\<close>

text \<open>
  Property C13. As long as the worth of an account fits an i64, the balance the code computes
  with wrapping u64 and i64 sums is exactly that worth, and zero when it is negative.
\<close>

theorem balance_exact:
  assumes "- (2 ^ 63) \<le> funds (\<lambda>t. \<not> is_conflicted t) ci"
    and "funds (\<lambda>t. \<not> is_conflicted t) ci < 2 ^ 63"
  shows "uint (balance ci) = max 0 (funds (\<lambda>t. \<not> is_conflicted t) ci)"
  unfolding balance_word by (rule max_zero_i64_exact [OF assms])

definition example_deposit :: "u64 \<Rightarrow> i64 \<Rightarrow> btc_transaction" where
  "example_deposit confs amount =
     \<lparr>bt_txid = ''t1'', bt_vout = 0, bt_address = ''bc1q'', bt_confirmations = confs,
      bt_amount = amount, bt_timestamp = 0, bt_conflicts = [], bt_fee = None\<rparr>"

text \<open>An account that received 5 in an unconfirmed deposit and asked to withdraw 1.\<close>

definition example_account :: user_currency_info where
  "example_account =
     (user_currency_info_new BTC)
       \<lparr>uci_transactions := [TrBtc (example_deposit 1 5)],
        uci_withdrawals := hm_insert 7 example_request hm_empty\<rparr>"

lemmas example_account_simps = example_account_def example_deposit_def example_request_def
  user_currency_info_new_def funds_def tx_total_def reserved_def sold_def
  withdrawal_request_of_def wr_is_rejected_def wr_fee_def hm_empty_def

lemma example_funds:
  "funds (\<lambda>t. \<not> is_conflicted t) example_account = 4"
  "funds is_finalized example_account = - 1"
  by (simp_all add: example_account_simps)

lemma example_account_wf: "account_wf ''Alice'' BTC example_account"
proof -
  have "votes_wf example_request" unfolding example_request_def by (rule votes_wf_new)
  then show ?thesis
    by (simp add: account_wf_def example_account_def user_currency_info_new_def hm_empty_def
        example_deposit_def hm_wf_def)
      (simp add: example_request_def withdrawal_request_of_def)
qed

theorem balance_exact_witness: "uint (balance example_account) = 4"
  using balance_exact [of example_account] by (simp add: example_funds)

text \<open>
  Property C21. The finalized balance never exceeds the balance: a transaction that counts as
  final is not conflicted, and deposits are not negative.
\<close>

theorem finalized_balance_le:
  assumes wf: "account_wf name c ci"
    and lo: "- (2 ^ 63) \<le> funds is_finalized ci"
    and hi: "funds (\<lambda>t. \<not> is_conflicted t) ci < 2 ^ 63"
  shows "finalized_balance ci \<le> balance ci"
proof -
  note le = funds_finalized_le [OF wf]
  have "uint (finalized_balance ci) = max 0 (funds is_finalized ci)"
    unfolding finalized_balance_word using lo hi le by (intro max_zero_i64_exact) auto
  moreover have "uint (balance ci) = max 0 (funds (\<lambda>t. \<not> is_conflicted t) ci)"
    unfolding balance_word using lo hi le by (intro max_zero_i64_exact) auto
  ultimately show ?thesis using le by (simp add: word_le_def)
qed

theorem finalized_balance_le_witness: "finalized_balance example_account \<le> balance example_account"
  by (rule finalized_balance_le [OF example_account_wf]) (simp_all add: example_funds)

text \<open>
  Both balances depend only on which transactions, withdrawals and exchanges
  the account holds, not on the order a hash map yields them in.
\<close>

lemma balance_order_independent:
  assumes "mset (uci_transactions a) = mset (uci_transactions b)"
    and "mset (uci_withdrawals a) = mset (uci_withdrawals b)"
    and "mset (uci_exchanges a) = mset (uci_exchanges b)"
    and "mset (uci_incoming a) = mset (uci_incoming b)"
  shows "balance a = balance b \<and> finalized_balance a = finalized_balance b"
  using funds_order [OF assms] by (simp add: balance_word finalized_balance_word)

lemma balance_order_independent_witness:
  "balance (example_account\<lparr>uci_incoming := [(1, 2), (3, 4)]\<rparr>) =
   balance (example_account\<lparr>uci_incoming := [(3, 4), (1, 2)]\<rparr>)"
  using balance_order_independent
    [of "example_account\<lparr>uci_incoming := [(1, 2), (3, 4)]\<rparr>"
        "example_account\<lparr>uci_incoming := [(3, 4), (1, 2)]\<rparr>"]
  by simp

text \<open>
  Property C22. An account's list of deposits follows the node's reports: a report about an
  unknown output that is later cancelled leaves no trace, and reporting the same thing twice
  is reporting it once.
\<close>

theorem btc_report_then_cancel:
  assumes "0 \<le> sint (bt_amount tx)" and "same_btc_tx_cancel tx x"
    and "(bt_txid tx, bt_vout tx) \<notin> set (btc_keys (uci_transactions ci))"
  shows "user_cancel_btc_tx x (update_btc_tx tx (update_btc_tx tx ci)) = ci"
  using cancel_after_fresh_update [OF assms] by (simp add: update_btc_tx_idem)

theorem btc_report_then_cancel_witness:
  "user_cancel_btc_tx
     \<lparr>tc_direction = Deposit, tc_txid = ''t1'', tc_vout = 0, tc_address = ''bc1q'',
      tc_amount = 5, tc_timestamp = 0, tc_conflicts = []\<rparr>
     (update_btc_tx (example_deposit 1 5) (update_btc_tx (example_deposit 1 5)
       (user_currency_info_new BTC))) = user_currency_info_new BTC"
  by (rule btc_report_then_cancel)
    (simp_all add: example_deposit_def same_btc_tx_cancel_def user_currency_info_new_def)

end
