(* ===== verification/Update.thy ===== *)
theory Update
  imports User
begin

section \<open>The state and its updates\<close>

text \<open>
  hexstody-db/src/state (network.rs, btc.rs, the \<open>State\<close> struct and \<open>StateUpdateErr\<close> of
  mod.rs) and hexstody-db/src/update: the state the custody keeps in memory, the events that
  change it, and the textual tags under which the database stores the events.
\<close>

subsection \<open>Networks and the BTC chain state\<close>

datatype network = Mainnet | Testnet | Regtest

text \<open>The network type of the \<open>bitcoin\<close> crate, as far as the code uses it.\<close>

datatype btc_network = BtcBitcoin | BtcTestnet | BtcRegtest

fun network_btc :: "network \<Rightarrow> btc_network" where
  "network_btc Mainnet = BtcBitcoin"
| "network_btc Testnet = BtcTestnet"
| "network_btc Regtest = BtcRegtest"

fun network_to_string :: "network \<Rightarrow> string" where
  "network_to_string Mainnet = ''mainnet''"
| "network_to_string Testnet = ''testnet''"
| "network_to_string Regtest = ''regtest''"

datatype unknown_network = UnknownNetwork string

definition network_from_str :: "string \<Rightarrow> unknown_network + network" where
  "network_from_str s =
     (let l = to_lowercase s in
      if l = ''mainnet'' then Inr Mainnet
      else if l = ''testnet'' then Inr Testnet
      else if l = ''regtest'' then Inr Regtest
      else Inl (UnknownNetwork s))"

lemma network_roundtrip: "network_from_str (network_to_string n) = Inr n"
  by (cases n)
    (simp_all add: network_from_str_def to_lowercase_fixed ascii_lower_fixed_def Let_def
      del: to_lowercase_Cons)

record btc_state =
  bs_height :: u64
  bs_block_hash :: string

text \<open>The hash of the genesis block comes from the \<open>bitcoin\<close> crate.\<close>

definition btc_state_new :: "(btc_network \<Rightarrow> string) \<Rightarrow> btc_network \<Rightarrow> btc_state" where
  "btc_state_new genesis_hash n = \<lparr>bs_height = 0, bs_block_hash = genesis_hash n\<rparr>"

subsection \<open>The state\<close>

record invite_rec =
  ir_invite :: invite
  ir_invitor :: string
  ir_label :: string

record state =
  st_users :: "(string, user_info) hash_map"
  st_last_changed :: datetime
  st_btc_state :: btc_state
  st_invites :: "(invite, invite_rec) hash_map"
  st_exchange :: exchange_state

definition state_new :: "(btc_network \<Rightarrow> string) \<Rightarrow> datetime \<Rightarrow> network \<Rightarrow> state" where
  "state_new genesis_hash now n =
     \<lparr>st_users = hm_empty, st_last_changed = now,
      st_btc_state = btc_state_new genesis_hash (network_btc n),
      st_invites = hm_empty, st_exchange = exchange_state_new\<rparr>"

datatype state_update_err =
    UserAlreadyExists string
  | UserNotFound string
  | UserMissingCurrency string currency
  | DepositAddressAlreadyAllocated string currency_address
  | WithdrawalRequestNotFound string uuid
  | WithdrawalRequestConfirmationDuplicate uuid public_key
  | WithdrawalRequestRejectionDuplicate uuid public_key
  | WithdrawalRequestAlreadyConfirmed uuid
  | WithdrawalRequestAlreadyRejected uuid
  | TokenAlreadyEnabled erc20_token
  | TokenAlreadyDisabled erc20_token
  | TokenNonZeroBalance erc20_token
  | TokenEnableFail erc20_token string
  | InviteAlreadyExist
  | InviteNotFound
  | LimitChangeNotFound
  | LimitAlreadySigned
  | LimitAlreadyConfirmed
  | LimitAlreadyRejected
  | LimitOverflow
  | InsufficientFunds string currency
  | UserMissingExchange string currency
  | ExchangeAlreadySigned
  | ExchangeAlreadyConfirmed
  | ExchangeAlreadyRejected

subsection \<open>Events\<close>

record best_btc_block =
  bb_height :: u64
  bb_block_hash :: string

record deposit_address =
  da_user_id :: string
  da_address :: currency_address

datatype token_action = Enable | Disable

record token_update =
  tku_user :: string
  tku_token :: erc20_token
  tku_action :: token_action

record set_language_upd =
  sl_user :: string
  sl_language :: language

text \<open>\<open>Option<Result<T, ()>>\<close>: absent, set to a value, or cleared.\<close>

record config_update =
  cu_user :: string
  cu_email :: "(unit + email) option"
  cu_phone :: "(unit + phone_number) option"
  cu_tg_name :: "(unit + tg_name) option"

record password_change_upd =
  pc_user :: string
  pc_new_password :: string

record set_public_key_upd =
  spk_user :: string
  spk_public_key :: "public_key option"

datatype update_body =
    Signup signup_info
  | Snapshot state
  | CreateWithdrawalRequest withdrawal_request_info
  | WithdrawalRequestDecision withdrawal_request_decision_info
  | WithdrawalRequestComplete withdraw_complete_info
  | WithdrawalRequestNodeRejected withdrawal_reject_info
  | DepositAddress deposit_address
  | BestBtcBlock best_btc_block
  | UpdateBtcTx btc_transaction
  | CancelBtcTx tx_cancel
  | UpdateTokens token_update
  | GenInvite invite_rec
  | LimitsChangeRequest limit_change_upd
  | CancelLimitChange limit_cancel_data
  | LimitChangeDecision limit_change_decision
  | ClearLimits limit_span
  | SetLanguage set_language_upd
  | ConfigUpdate config_update
  | PasswordChange password_change_upd
  | SetPublicKey set_public_key_upd
  | ExchangeRequest exchange_order_upd
  | ExchangeDecision exchange_decision
  | ExchangeAddress currency_address

record state_update =
  su_created :: datetime
  su_body :: update_body

datatype update_result =
    WithdrawConfirmed uuid
  | WithdrawalUnderlimit withdrawal_request

subsection \<open>Tags\<close>

datatype update_tag =
    TagSignup | TagSnapshot | TagCreateWithdrawalRequest | TagWithdrawalRequestDecision
  | TagWithdrawalRequestConfirm | TagWithdrawalRequestNodeRejected | TagDepositAddress
  | TagBestBtcBlock | TagUpdateBtcTx | TagCancelBtcTx | TagUpdateTokens | TagGenInvite
  | TagLimitsChangeRequest | TagCancelLimitChange | TagLimitChangeDecision | TagClearLimits
  | TagSetLanguage | TagConfigUpdate | TagPasswordChange | TagSetPublicKey
  | TagExchangeRequest | TagExchangeDecision | TagExchangeAddress

fun body_tag :: "update_body \<Rightarrow> update_tag" where
  "body_tag (Signup _) = TagSignup"
| "body_tag (Snapshot _) = TagSnapshot"
| "body_tag (CreateWithdrawalRequest _) = TagCreateWithdrawalRequest"
| "body_tag (WithdrawalRequestDecision _) = TagWithdrawalRequestDecision"
| "body_tag (WithdrawalRequestComplete _) = TagWithdrawalRequestConfirm"
| "body_tag (WithdrawalRequestNodeRejected _) = TagWithdrawalRequestNodeRejected"
| "body_tag (DepositAddress _) = TagDepositAddress"
| "body_tag (BestBtcBlock _) = TagBestBtcBlock"
| "body_tag (UpdateBtcTx _) = TagUpdateBtcTx"
| "body_tag (CancelBtcTx _) = TagCancelBtcTx"
| "body_tag (UpdateTokens _) = TagUpdateTokens"
| "body_tag (GenInvite _) = TagGenInvite"
| "body_tag (LimitsChangeRequest _) = TagLimitsChangeRequest"
| "body_tag (CancelLimitChange _) = TagCancelLimitChange"
| "body_tag (LimitChangeDecision _) = TagLimitChangeDecision"
| "body_tag (ClearLimits _) = TagClearLimits"
| "body_tag (SetLanguage _) = TagSetLanguage"
| "body_tag (ConfigUpdate _) = TagConfigUpdate"
| "body_tag (PasswordChange _) = TagPasswordChange"
| "body_tag (SetPublicKey _) = TagSetPublicKey"
| "body_tag (ExchangeRequest _) = TagExchangeRequest"
| "body_tag (ExchangeDecision _) = TagExchangeDecision"
| "body_tag (ExchangeAddress _) = TagExchangeAddress"

fun tag_to_string :: "update_tag \<Rightarrow> string" where
  "tag_to_string TagSignup = ''signup''"
| "tag_to_string TagSnapshot = ''snapshot''"
| "tag_to_string TagCreateWithdrawalRequest = ''withdrawal request''"
| "tag_to_string TagWithdrawalRequestDecision = ''withdrawal request decision''"
| "tag_to_string TagWithdrawalRequestConfirm = ''withdrawal request confirm''"
| "tag_to_string TagWithdrawalRequestNodeRejected = ''withdrawal request node rejected''"
| "tag_to_string TagDepositAddress = ''deposit address''"
| "tag_to_string TagBestBtcBlock = ''best btc block''"
| "tag_to_string TagUpdateBtcTx = ''update btc tx''"
| "tag_to_string TagCancelBtcTx = ''cancel btc tx''"
| "tag_to_string TagUpdateTokens = ''update tokens''"
| "tag_to_string TagGenInvite = ''gen invite''"
| "tag_to_string TagLimitsChangeRequest = ''limits change req''"
| "tag_to_string TagCancelLimitChange = ''cancel limits change''"
| "tag_to_string TagLimitChangeDecision = ''limit change decision''"
| "tag_to_string TagClearLimits = ''clear limits''"
| "tag_to_string TagSetLanguage = ''set language''"
| "tag_to_string TagConfigUpdate = ''user config update''"
| "tag_to_string TagPasswordChange = ''password change''"
| "tag_to_string TagSetPublicKey = ''set public key''"
| "tag_to_string TagExchangeRequest = ''exchange request''"
| "tag_to_string TagExchangeDecision = ''exchange decision''"
| "tag_to_string TagExchangeAddress = ''exchange address''"

datatype unknown_update_tag = UnknownUpdateTag string

text \<open>The match of \<open>FromStr\<close>, read from top to bottom.\<close>

definition tag_table :: "(string \<times> update_tag) list" where
  "tag_table =
     [(''signup'', TagSignup),
      (''snapshot'', TagSnapshot),
      (''withdrawal request'', TagCreateWithdrawalRequest),
      (''withdrawal request decision'', TagWithdrawalRequestDecision),
      (''withdrawal request confirm'', TagWithdrawalRequestConfirm),
      (''withdrawal request node rejected'', TagWithdrawalRequestNodeRejected),
      (''deposit address'', TagDepositAddress),
      (''best btc block'', TagBestBtcBlock),
      (''update btc tx'', TagUpdateBtcTx),
      (''cancel btc tx'', TagCancelBtcTx),
      (''update tokens'', TagUpdateTokens),
      (''gen invite'', TagGenInvite),
      (''limits change req'', TagLimitsChangeRequest),
      (''cancel limits change'', TagCancelLimitChange),
      (''limit change decision'', TagLimitChangeDecision),
      (''clear limits'', TagClearLimits),
      (''set language'', TagSetLanguage),
      (''user config update'', TagConfigUpdate),
      (''password change'', TagPasswordChange),
      (''set public key'', TagSetPublicKey),
      (''exchange request'', TagExchangeRequest),
      (''exchange decision'', TagExchangeDecision),
      (''exchange address'', TagExchangeAddress)]"

definition tag_from_str :: "string \<Rightarrow> unknown_update_tag + update_tag" where
  "tag_from_str s =
     (case map_of tag_table (to_lowercase s) of
        Some t \<Rightarrow> Inr t
      | None \<Rightarrow> Inl (UnknownUpdateTag s))"

lemma tag_lowercase: "to_lowercase (tag_to_string t) = tag_to_string t"
  by (rule to_lowercase_fixed) (cases t; simp add: ascii_lower_fixed_def)

lemma tag_in_table: "map_of tag_table (tag_to_string t) = Some t"
  by (cases t) (simp_all add: tag_table_def)

lemma tag_of_text:
  assumes "map_of tag_table l = Some t"
  shows "tag_to_string t = l"
  using map_of_SomeD [OF assms] by (auto simp: tag_table_def)

lemma tag_to_string_inverse: "tag_from_str (tag_to_string t) = Inr t"
  by (simp add: tag_from_str_def tag_lowercase tag_in_table)

text \<open>
  A stored tag is read back as the tag it was written from, and two tags never
  share a text; what is read is always the lower-case form of the input.
\<close>

lemma update_tag_roundtrip:
  "tag_from_str (tag_to_string t) = Inr t \<and>
   (tag_to_string t = tag_to_string t' \<longleftrightarrow> t = t') \<and>
   (tag_from_str s = Inr t \<longleftrightarrow> to_lowercase s = tag_to_string t)"
proof (intro conjI)
  show "tag_from_str (tag_to_string t) = Inr t"
    by (rule tag_to_string_inverse)
  show "tag_to_string t = tag_to_string t' \<longleftrightarrow> t = t'"
    by (metis option.inject tag_in_table)
  show "tag_from_str s = Inr t \<longleftrightarrow> to_lowercase s = tag_to_string t"
  proof
    assume "tag_from_str s = Inr t"
    then have "map_of tag_table (to_lowercase s) = Some t"
      by (cases "map_of tag_table (to_lowercase s)") (simp_all add: tag_from_str_def)
    then show "to_lowercase s = tag_to_string t" by (rule tag_of_text [symmetric])
  next
    assume "to_lowercase s = tag_to_string t"
    then show "tag_from_str s = Inr t" by (simp only: tag_from_str_def tag_in_table option.case)
  qed
qed

end
