(* ===== verification/State.thy ===== *)
theory State
  imports Update
begin

section \<open>The state machine\<close>

text \<open>
  \<open>impl State\<close> of hexstody-db/src/state/mod.rs: one definition per handler, each a
  function from the state to the result and the state it leaves, and \<open>apply_update\<close>,
  which runs the handler of an event. A value reached through \<open>get_mut\<close> is read with
  \<open>hm_get\<close> and written back under its key.
\<close>

subsection \<open>Writing back\<close>

definition put_user :: "string \<Rightarrow> user_info \<Rightarrow> state \<Rightarrow> state" where
  "put_user uid u s = s\<lparr>st_users := hm_insert uid u (st_users s)\<rparr>"

definition put_account :: "currency \<Rightarrow> user_currency_info \<Rightarrow> user_info \<Rightarrow> user_info" where
  "put_account c ci u = u\<lparr>ui_currencies := hm_insert c ci (ui_currencies u)\<rparr>"

lemma put_simps [simp]:
  "hm_get (st_users (put_user uid u s)) uid' = (if uid' = uid then Some u else hm_get (st_users s) uid')"
  "hm_get (ui_currencies (put_account c ci u)) c' =
     (if c' = c then Some ci else hm_get (ui_currencies u) c')"
  "put_user uid u (put_user uid u' s) = put_user uid u s"
  "put_account c ci (put_account c ci' u) = put_account c ci u"
  by (simp_all add: put_user_def put_account_def)

lemma put_frame [simp]:
  "st_last_changed (put_user uid u s) = st_last_changed s"
  "st_btc_state (put_user uid u s) = st_btc_state s"
  "st_invites (put_user uid u s) = st_invites s"
  "st_exchange (put_user uid u s) = st_exchange s"
  "ui_username (put_account c ci u) = ui_username u"
  "ui_limit_changes (put_account c ci u) = ui_limit_changes u"
  "ui_invite (put_account c ci u) = ui_invite u"
  "ui_auth (put_account c ci u) = ui_auth u"
  "ui_config (put_account c ci u) = ui_config u"
  "ui_public_key (put_account c ci u) = ui_public_key u"
  by (simp_all add: put_user_def put_account_def)

subsection \<open>Lookups\<close>

definition find_user_address :: "state \<Rightarrow> currency_address \<Rightarrow> string option" where
  "find_user_address s address =
     map_option fst (List.find (\<lambda>(uid, user). has_address user address) (st_users s))"

definition is_exchange_address :: "state \<Rightarrow> currency_address \<Rightarrow> bool" where
  "is_exchange_address s address =
     (case hm_get (es_addresses (st_exchange s)) (address_currency address) of
        Some a \<Rightarrow> address_text a = address_text address
      | None \<Rightarrow> False)"

definition get_user_by_id :: "state \<Rightarrow> string \<Rightarrow> user_info option" where
  "get_user_by_id s username = hm_get (st_users s) username"

definition find_withdrawal_by_tx_id :: "state \<Rightarrow> currency_tx_id \<Rightarrow> uuid option" where
  "find_withdrawal_by_tx_id s txid =
     find_map (\<lambda>(uid, user). find_completed_request user txid) (st_users s)"

subsection \<open>Sign-up\<close>

definition with_signup ::
  "datetime \<Rightarrow> signup_info \<Rightarrow> state \<Rightarrow> (state, state_update_err, unit) step_result" where
  "with_signup timestamp signup s =
     (let invt = su_invite signup in
      if hm_contains_key (st_users s) (su_username signup)
      then (Inl (UserAlreadyExists (su_username signup)), s)
      else if \<not> hm_contains_key (st_invites s) invt then (Inl InviteNotFound, s)
      else (let u = user_info_of_signup timestamp signup;
                s1 = put_user (ui_username u) u s
            in (Inr (), s1\<lparr>st_invites := hm_remove invt (st_invites s1)\<rparr>)))"

subsection \<open>Withdrawals\<close>

definition with_new_withdrawal_request ::
  "datetime \<Rightarrow> withdrawal_request_info \<Rightarrow> state
   \<Rightarrow> (state, state_update_err, update_result option) step_result" where
  "with_new_withdrawal_request timestamp info s =
     (let w = withdrawal_request_of timestamp info in
      case hm_get (st_users s) (wr_user w) of
        None \<Rightarrow> (Inl (UserNotFound (wr_user w)), s)
      | Some user \<Rightarrow>
         (let c = address_currency (wr_address w) in
          case hm_get (ui_currencies user) c of
            None \<Rightarrow> (Inl (UserMissingCurrency (wr_user w) c), s)
          | Some ci \<Rightarrow>
             (let ci' = ci\<lparr>uci_withdrawals := hm_insert (wri_id info) w (uci_withdrawals ci)\<rparr>;
                  s' = put_user (wr_user w) (put_account c ci' user) s
              in case wr_request_type w of
                   UnderLimit \<Rightarrow>
                     (if limit_amount (li_limit (uci_limit_info ci))
                           < li_spent (uci_limit_info ci) + wr_amount w
                      then (Inl LimitOverflow, s)
                      else (Inr (Some (WithdrawalUnderlimit w)), s'))
                 | OverLimit \<Rightarrow> (Inr None, s'))))"

text \<open>The path to the request a decision names: its user, account and the request itself.\<close>

definition get_withdrawal_request_by_decision_info ::
  "withdrawal_request_decision_info \<Rightarrow> state
   \<Rightarrow> state_update_err + (user_info \<times> user_currency_info \<times> withdrawal_request)" where
  "get_withdrawal_request_by_decision_info d s =
     (case hm_get (st_users s) (wdi_user_id d) of
        None \<Rightarrow> Inl (UserNotFound (wdi_user_id d))
      | Some user \<Rightarrow>
         (case hm_get (ui_currencies user) (wdi_currency d) of
            None \<Rightarrow> Inl (UserMissingCurrency (wdi_user_id d) (wdi_currency d))
          | Some ci \<Rightarrow>
             (case hm_get (uci_withdrawals ci) (wdi_request_id d) of
                None \<Rightarrow> Inl (WithdrawalRequestNotFound (wdi_user_id d) (wdi_request_id d))
              | Some w \<Rightarrow> Inr (user, ci, w))))"

fun decision_err :: "decision_error \<Rightarrow> state_update_err" where
  "decision_err (ConfirmationDuplicate i k) = WithdrawalRequestConfirmationDuplicate i k"
| "decision_err (RejectionDuplicate i k) = WithdrawalRequestRejectionDuplicate i k"
| "decision_err (AlreadyConfirmed i) = WithdrawalRequestAlreadyConfirmed i"
| "decision_err (AlreadyRejected i) = WithdrawalRequestAlreadyRejected i"

definition with_withdrawal_request_decision ::
  "withdrawal_request_decision_info \<Rightarrow> state
   \<Rightarrow> (state, state_update_err, uuid option) step_result" where
  "with_withdrawal_request_decision d s =
     (case get_withdrawal_request_by_decision_info d s of
        Inl e \<Rightarrow> (Inl e, s)
      | Inr (user, ci, w) \<Rightarrow>
         (case decide_request d w of
            (Inl e, _) \<Rightarrow> (Inl (decision_err e), s)
          | (Inr r, w') \<Rightarrow>
             (let ci' = ci\<lparr>uci_withdrawals :=
                          hm_insert (wdi_request_id d) w' (uci_withdrawals ci)\<rparr>
              in (Inr r, put_user (wdi_user_id d) (put_account (wdi_currency d) ci' user) s))))"

text \<open>The three nested loops that write a status into every request with the id.\<close>

definition set_withdrawal_status ::
  "uuid \<Rightarrow> withdrawal_request_status \<Rightarrow> user_currency_info \<Rightarrow> user_currency_info" where
  "set_withdrawal_status i st ci =
     ci\<lparr>uci_withdrawals :=
         hm_map (\<lambda>k w. if k = i then w\<lparr>wr_status := st\<rparr> else w) (uci_withdrawals ci)\<rparr>"

definition map_accounts :: "(user_currency_info \<Rightarrow> user_currency_info) \<Rightarrow> state \<Rightarrow> state" where
  "map_accounts f s =
     s\<lparr>st_users := hm_map (\<lambda>uid u. u\<lparr>ui_currencies := hm_map (\<lambda>c ci. f ci) (ui_currencies u)\<rparr>)
                  (st_users s)\<rparr>"

definition set_withdrawal_request_completed ::
  "withdraw_complete_info \<Rightarrow> state \<Rightarrow> (state, state_update_err, unit) step_result" where
  "set_withdrawal_request_completed info s =
     (Inr (), map_accounts (set_withdrawal_status (wci_id info)
        (Completed (wci_confirmed_at info) (wci_txid info) (wci_fee info)
           (wci_input_addresses info) (wci_output_addresses info))) s)"

definition set_withdrawal_request_node_rejected ::
  "withdrawal_reject_info \<Rightarrow> state \<Rightarrow> (state, state_update_err, unit) step_result" where
  "set_withdrawal_request_node_rejected info s =
     (Inr (), map_accounts (set_withdrawal_status (wrj_id info) (NodeRejected (wrj_reason info))) s)"

text \<open>All requests, under their ids; a request by its id.\<close>

definition all_withdrawal_entries :: "state \<Rightarrow> (uuid \<times> withdrawal_request) list" where
  "all_withdrawal_entries s =
     concat (map (\<lambda>user. concat (map uci_withdrawals (hm_values (ui_currencies user))))
       (hm_values (st_users s)))"

definition withdrawal_requests :: "state \<Rightarrow> (uuid, withdrawal_request) hash_map" where
  "withdrawal_requests s =
     fold (\<lambda>(req_id, req) result. hm_insert req_id req result) (all_withdrawal_entries s) hm_empty"

definition get_withdrawal_request :: "state \<Rightarrow> uuid \<Rightarrow> withdrawal_request option" where
  "get_withdrawal_request s i =
     find_map (\<lambda>(req_id, req). if req_id = i then Some req else None) (all_withdrawal_entries s)"

subsection \<open>Deposits\<close>

definition with_deposit_address ::
  "deposit_address \<Rightarrow> state \<Rightarrow> (state, state_update_err, unit) step_result" where
  "with_deposit_address dep s =
     (let uid = da_user_id dep in
      case hm_get (st_users s) uid of
        None \<Rightarrow> (Inl (UserNotFound uid), s)
      | Some user \<Rightarrow>
         (let c = address_currency (da_address dep) in
          case hm_get (ui_currencies user) c of
            None \<Rightarrow> (Inl (UserMissingCurrency uid c), s)
          | Some info \<Rightarrow>
             (if da_address dep \<in> set (uci_deposit_info info)
              then (Inl (DepositAddressAlreadyAllocated uid (da_address dep)), s)
              else (Inr (), put_user uid (put_account c
                (info\<lparr>uci_deposit_info := uci_deposit_info info @ [da_address dep]\<rparr>) user) s))))"

definition with_btc_tx_update ::
  "btc_transaction \<Rightarrow> state \<Rightarrow> (state, state_update_err, unit) step_result" where
  "with_btc_tx_update tx s =
     (let address = AddrBTC \<lparr>addr = bt_address tx\<rparr> in
      if is_exchange_address s address
      then (Inr (), s\<lparr>st_exchange := process_incoming_btc_tx tx (st_exchange s)\<rparr>)
      else (case find_user_address s address of
              Some user_id \<Rightarrow>
               (case hm_get (st_users s) user_id of
                  Some user \<Rightarrow>
                   (case hm_get (ui_currencies user) BTC of
                      Some ci \<Rightarrow>
                        (Inr (), put_user user_id (put_account BTC (update_btc_tx tx ci) user) s)
                    | None \<Rightarrow> (Inl (UserMissingCurrency user_id BTC), s))
                | None \<Rightarrow> (Inl (UserNotFound user_id), s))
            | None \<Rightarrow> (Inr (), s)))"

text \<open>
  A cancelled transaction is taken out of its owner's deposits, and a completed withdrawal
  it paid for is marked as rejected by the node. The second result is never an error, so
  the first one is dropped.
\<close>

definition with_btc_tx_cancel ::
  "tx_cancel \<Rightarrow> state \<Rightarrow> (state, state_update_err, unit) step_result" where
  "with_btc_tx_cancel tx s =
     (let address = AddrBTC \<lparr>addr = tc_address tx\<rparr> in
      if is_exchange_address s address
      then (Inr (), s\<lparr>st_exchange := exchange_cancel_btc_tx tx (st_exchange s)\<rparr>)
      else
       (let (res1, s1) =
              (case find_user_address s address of
                 Some user_id \<Rightarrow>
                  (case hm_get (st_users s) user_id of
                     Some user \<Rightarrow>
                      (case hm_get (ui_currencies user) BTC of
                         Some ci \<Rightarrow>
                           (Inr (), put_user user_id
                                      (put_account BTC (user_cancel_btc_tx tx ci) user) s)
                       | None \<Rightarrow> (Inl (UserMissingCurrency user_id BTC), s))
                   | None \<Rightarrow> (Inl (UserNotFound user_id), s))
               | None \<Rightarrow> (Inr (), s));
            txid = TxBTC \<lparr>btc_txid_text = tc_txid tx\<rparr>;
            (res2, s2) =
              (case find_withdrawal_by_tx_id s1 txid of
                 Some rid \<Rightarrow> set_withdrawal_request_node_rejected
                   \<lparr>wrj_id = rid, wrj_reason = ''Tx canceled''\<rparr> s1
               | None \<Rightarrow> (Inr (), s1))
        in (case (res1, res2) of (Inl e, Inl _) \<Rightarrow> Inl e | _ \<Rightarrow> Inr (), s2)))"

subsection \<open>Tokens and invites\<close>

definition update_tokens ::
  "token_update \<Rightarrow> state \<Rightarrow> (state, state_update_err, unit) step_result" where
  "update_tokens upd s =
     (let uid = tku_user upd; token = tku_token upd in
      case hm_get (st_users s) uid of
        None \<Rightarrow> (Inl (UserNotFound uid), s)
      | Some u \<Rightarrow>
         (let cur = ERC20 token in
          case tku_action upd of
            Enable \<Rightarrow>
              (if hm_contains_key (ui_currencies u) cur
               then (Inl (TokenAlreadyEnabled token), s)
               else (Inr (), put_user uid (put_account cur (user_currency_info_new cur) u) s))
          | Disable \<Rightarrow>
              (case hm_get (ui_currencies u) cur of
                 Some info \<Rightarrow>
                   (if 0 < balance info then (Inl (TokenNonZeroBalance token), s)
                    else (Inr (), put_user uid
                      (u\<lparr>ui_currencies := hm_remove cur (ui_currencies u),
                         ui_limit_changes := hm_remove cur (ui_limit_changes u)\<rparr>) s))
               | None \<Rightarrow> (Inl (TokenAlreadyDisabled token), s))))"

definition gen_invite :: "invite_rec \<Rightarrow> state \<Rightarrow> (state, state_update_err, unit) step_result" where
  "gen_invite req s =
     (let invt = ir_invite req in
      case hm_get (st_invites s) invt of
        Some _ \<Rightarrow> (Inl InviteAlreadyExist, s)
      | None \<Rightarrow> (Inr (), s\<lparr>st_invites := hm_insert invt req (st_invites s)\<rparr>))"

subsection \<open>Limits\<close>

text \<open>
  The request gets a fresh id and the current time when it is applied: both are arguments
  here.
\<close>

definition insert_limits_req ::
  "uuid \<Rightarrow> string \<Rightarrow> limit_change_upd \<Rightarrow> state \<Rightarrow> (state, state_update_err, unit) step_result" where
  "insert_limits_req new_id now req s =
     (let cur = lcu_currency req in
      case hm_get (st_users s) (lcu_user req) of
        None \<Rightarrow> (Inl (UserNotFound (lcu_user req)), s)
      | Some usr \<Rightarrow>
         (case hm_get (ui_currencies usr) cur of
            None \<Rightarrow> (Inl (UserMissingCurrency (lcu_user req) cur), s)
          | Some _ \<Rightarrow>
             (let data = \<lparr>lc_id = new_id, lc_user = ui_username usr, lc_created_at = now,
                          lc_status = LimitInProgress 0 0, lc_currency = cur,
                          lc_limit = lcu_limit req, lc_confirms = [], lc_rejects = []\<rparr>
              in (Inr (), put_user (lcu_user req)
                   (usr\<lparr>ui_limit_changes := hm_insert cur data (ui_limit_changes usr)\<rparr>) s))))"

definition cancel_limit_change ::
  "limit_cancel_data \<Rightarrow> state \<Rightarrow> (state, state_update_err, unit) step_result" where
  "cancel_limit_change req s =
     (case hm_get (st_users s) (lcan_user req) of
        Some usr \<Rightarrow> (Inr (), put_user (lcan_user req)
          (usr\<lparr>ui_limit_changes := hm_remove (lcan_currency req) (ui_limit_changes usr)\<rparr>) s)
      | None \<Rightarrow> (Inl (UserNotFound (lcan_user req)), s))"

text \<open>What a granted request does to the account, if it is there.\<close>

definition grant_limit :: "currency \<Rightarrow> limit \<Rightarrow> user_info \<Rightarrow> user_info" where
  "grant_limit c l u =
     (case hm_get (ui_currencies u) c of
        Some ci \<Rightarrow> put_account c (ci\<lparr>uci_limit_info := \<lparr>li_limit = l, li_spent = 0\<rparr>\<rparr>) u
      | None \<Rightarrow> u)"

definition drop_limit_change :: "currency \<Rightarrow> user_info \<Rightarrow> user_info" where
  "drop_limit_change c u = u\<lparr>ui_limit_changes := hm_remove c (ui_limit_changes u)\<rparr>"

definition with_limit_change_decision ::
  "limit_change_decision \<Rightarrow> state \<Rightarrow> (state, state_update_err, unit) step_result" where
  "with_limit_change_decision lcd s =
     (let uid = ld_user lcd; c = ld_currency lcd in
      case hm_get (st_users s) uid of
        None \<Rightarrow> (Inl (UserNotFound uid), s)
      | Some usr \<Rightarrow>
         (case hm_get (ui_limit_changes usr) c of
            None \<Rightarrow> (Inl LimitChangeNotFound, s)
          | Some req \<Rightarrow>
             (case decide_limit lcd req of
                LimitVoteConfirmedError \<Rightarrow> (Inl LimitAlreadyConfirmed, s)
              | LimitVoteRejectedError \<Rightarrow> (Inl LimitAlreadyRejected, s)
              | LimitGranted \<Rightarrow> (Inr (), put_user uid
                  (drop_limit_change c (grant_limit c (ld_requested_limit lcd) usr)) s)
              | LimitRefused \<Rightarrow> (Inr (), put_user uid (drop_limit_change c usr) s)
              | LimitStays req' \<Rightarrow> (Inr (), put_user uid
                  (usr\<lparr>ui_limit_changes := hm_insert c req' (ui_limit_changes usr)\<rparr>) s))))"

definition clear_spent :: "limit_span \<Rightarrow> user_currency_info \<Rightarrow> user_currency_info" where
  "clear_spent span ci =
     (if limit_span_of (li_limit (uci_limit_info ci)) = span
      then ci\<lparr>uci_limit_info := (uci_limit_info ci)\<lparr>li_spent := 0\<rparr>\<rparr>
      else ci)"

definition clear_limits :: "limit_span \<Rightarrow> state \<Rightarrow> (state, state_update_err, unit) step_result" where
  "clear_limits span s = (Inr (), map_accounts (clear_spent span) s)"

subsection \<open>User settings\<close>

definition with_user_info ::
  "string \<Rightarrow> (user_info \<Rightarrow> user_info) \<Rightarrow> state \<Rightarrow> (state, state_update_err, unit) step_result" where
  "with_user_info uid f s =
     (case hm_get (st_users s) uid of
        Some uinfo \<Rightarrow> (Inr (), put_user uid (f uinfo) s)
      | None \<Rightarrow> (Inl (UserNotFound uid), s))"

definition set_language ::
  "set_language_upd \<Rightarrow> state \<Rightarrow> (state, state_update_err, unit) step_result" where
  "set_language req = with_user_info (sl_user req)
     (\<lambda>u. u\<lparr>ui_config := (ui_config u)\<lparr>ucf_language := sl_language req\<rparr>\<rparr>)"

fun ok :: "'e + 'a \<Rightarrow> 'a option" where
  "ok (Inr a) = Some a"
| "ok (Inl _) = None"

definition apply_config :: "config_update \<Rightarrow> user_config \<Rightarrow> user_config" where
  "apply_config req cfg =
     (let cfg1 = (case cu_email req of Some e \<Rightarrow> cfg\<lparr>ucf_email := ok e\<rparr> | None \<Rightarrow> cfg);
          cfg2 = (case cu_phone req of Some p \<Rightarrow> cfg1\<lparr>ucf_phone := ok p\<rparr> | None \<Rightarrow> cfg1)
      in case cu_tg_name req of Some t \<Rightarrow> cfg2\<lparr>ucf_tg_name := ok t\<rparr> | None \<Rightarrow> cfg2)"

definition update_user_config ::
  "config_update \<Rightarrow> state \<Rightarrow> (state, state_update_err, unit) step_result" where
  "update_user_config req = with_user_info (cu_user req)
     (\<lambda>u. u\<lparr>ui_config := apply_config req (ui_config u)\<rparr>)"

definition change_password ::
  "password_change_upd \<Rightarrow> state \<Rightarrow> (state, state_update_err, unit) step_result" where
  "change_password req = with_user_info (pc_user req)
     (\<lambda>u. u\<lparr>ui_auth := Password (pc_new_password req)\<rparr>)"

definition set_user_public_key ::
  "set_public_key_upd \<Rightarrow> state \<Rightarrow> (state, state_update_err, unit) step_result" where
  "set_user_public_key req = with_user_info (spk_user req)
     (\<lambda>u. u\<lparr>ui_public_key := spk_public_key req\<rparr>)"

subsection \<open>Exchange\<close>

definition add_exchange_request ::
  "exchange_order_upd \<Rightarrow> state \<Rightarrow> (state, state_update_err, unit) step_result" where
  "add_exchange_request req s =
     (let uid = eu_user req; c = eu_currency_from req in
      case hm_get (st_users s) uid of
        None \<Rightarrow> (Inl (UserNotFound uid), s)
      | Some uinfo \<Rightarrow>
         (case hm_get (ui_currencies uinfo) c of
            None \<Rightarrow> (Inl (UserMissingCurrency uid c), s)
          | Some cinfo \<Rightarrow>
             (if balance cinfo < eu_amount_from req then (Inl (InsufficientFunds uid c), s)
              else (let order = \<lparr>eo_id = eu_id req, eo_user = uid, eo_currency_from = c,
                                 eo_currency_to = eu_currency_to req,
                                 eo_amount_from = eu_amount_from req,
                                 eo_amount_to = eu_amount_to req,
                                 eo_status = ExchangeInProgress 0 0,
                                 eo_created_at = eu_created_at req,
                                 eo_confirms = [], eo_rejects = []\<rparr>;
                        cinfo' = cinfo\<lparr>uci_exchanges :=
                                   hm_insert (eu_id req) order (uci_exchanges cinfo)\<rparr>
                    in (Inr (), put_user uid (put_account c cinfo' uinfo) s)))))"

fun exchange_err :: "exchange_error \<Rightarrow> state_update_err" where
  "exchange_err ExchangeAlreadyConfirmedError = ExchangeAlreadyConfirmed"
| "exchange_err ExchangeAlreadyRejectedError = ExchangeAlreadyRejected"

definition apply_exchange_decision ::
  "exchange_decision \<Rightarrow> state \<Rightarrow> (state, state_update_err, bool) step_result" where
  "apply_exchange_decision req s =
     (let uid = ed_user req; c = ed_currency_from req in
      case hm_get (st_users s) uid of
        None \<Rightarrow> (Inl (UserNotFound uid), s)
      | Some uinfo \<Rightarrow>
         (case hm_get (ui_currencies uinfo) c of
            None \<Rightarrow> (Inl (UserMissingCurrency uid c), s)
          | Some cinfo \<Rightarrow>
             (case hm_get (uci_exchanges cinfo) (ed_id req) of
                None \<Rightarrow> (Inl (UserMissingExchange uid c), s)
              | Some exchange \<Rightarrow>
                 (case decide_exchange req exchange of
                    (Inl e, _) \<Rightarrow> (Inl (exchange_err e), s)
                  | (Inr b, exchange') \<Rightarrow>
                     (let cinfo' = cinfo\<lparr>uci_exchanges :=
                                     hm_insert (ed_id req) exchange' (uci_exchanges cinfo)\<rparr>;
                          s1 = put_user uid (put_account c cinfo' uinfo) s
                      in (Inr b, if b then s1\<lparr>st_exchange :=
                                   process_order (into_exchange_upd exchange') (st_exchange s1)\<rparr>
                                 else s1))))))"

definition add_incoming_exchange ::
  "exchange_decision \<Rightarrow> state \<Rightarrow> (state, state_update_err, unit) step_result" where
  "add_incoming_exchange req s =
     (case hm_get (st_users s) (ed_user req) of
        None \<Rightarrow> (Inl (UserNotFound (ed_user req)), s)
      | Some uinfo \<Rightarrow>
         (case hm_get (ui_currencies uinfo) (ed_currency_to req) of
            None \<Rightarrow> (Inl (UserMissingCurrency (ed_user req) (ed_currency_to req)), s)
          | Some cinfo \<Rightarrow>
             (let cinfo' = cinfo\<lparr>uci_incoming :=
                             hm_insert (ed_id req) (ed_amount_to req) (uci_incoming cinfo)\<rparr>
              in (Inr (), put_user (ed_user req)
                    (put_account (ed_currency_to req) cinfo' uinfo) s))))"

definition state_exchange_requests :: "state \<Rightarrow> exchange_filter \<Rightarrow> api_exchange_order list" where
  "state_exchange_requests s f =
     concat (map (\<lambda>u. user_exchange_requests u f) (hm_values (st_users s)))"

definition set_exchange_address ::
  "currency_address \<Rightarrow> state \<Rightarrow> (state, state_update_err, unit) step_result" where
  "set_exchange_address req s =
     (Inr (), s\<lparr>st_exchange := (st_exchange s)\<lparr>es_addresses :=
        hm_insert (address_currency req) req (es_addresses (st_exchange s))\<rparr>\<rparr>)"

subsection \<open>Applying an event\<close>

text \<open>
  The handlers that return nothing: on success the time of the change is recorded, an error
  returns with the state as the handler left it (the operator \<open>?\<close>).
\<close>

definition touch ::
  "datetime \<Rightarrow> (state, state_update_err, 'a) step_result
   \<Rightarrow> (state, state_update_err, 'a) step_result" where
  "touch created r =
     (case r of (Inl e, s) \<Rightarrow> (Inl e, s)
      | (Inr a, s) \<Rightarrow> (Inr a, s\<lparr>st_last_changed := created\<rparr>))"

definition quiet ::
  "(state, state_update_err, unit) step_result
   \<Rightarrow> (state, state_update_err, update_result option) step_result" where
  "quiet r = (case r of (Inl e, s) \<Rightarrow> (Inl e, s) | (Inr _, s) \<Rightarrow> (Inr None, s))"

definition with_exchange_decision ::
  "exchange_decision \<Rightarrow> state \<Rightarrow> (state, state_update_err, unit) step_result" where
  "with_exchange_decision req s =
     (case apply_exchange_decision req s of
        (Inl e, s1) \<Rightarrow> (Inl e, s1)
      | (Inr b, s1) \<Rightarrow> (if b then add_incoming_exchange req s1 else (Inr (), s1)))"

text \<open>What the machine supplies to one event: a random id and the current time as text.\<close>

type_synonym env = "uuid \<times> string"

definition handle_body ::
  "env \<Rightarrow> datetime \<Rightarrow> update_body \<Rightarrow> state
   \<Rightarrow> (state, state_update_err, update_result option) step_result" where
  "handle_body env created body s =
     (case body of
        Signup info \<Rightarrow> quiet (with_signup created info s)
      | Snapshot snapshot \<Rightarrow> (Inr None, snapshot)
      | CreateWithdrawalRequest info \<Rightarrow> with_new_withdrawal_request created info s
      | WithdrawalRequestDecision d \<Rightarrow>
          (case with_withdrawal_request_decision d s of
             (Inl e, s1) \<Rightarrow> (Inl e, s1)
           | (Inr r, s1) \<Rightarrow> (Inr (map_option WithdrawConfirmed r), s1))
      | WithdrawalRequestComplete info \<Rightarrow> quiet (set_withdrawal_request_completed info s)
      | WithdrawalRequestNodeRejected info \<Rightarrow> quiet (set_withdrawal_request_node_rejected info s)
      | DepositAddress dep \<Rightarrow> quiet (with_deposit_address dep s)
      | BestBtcBlock btc \<Rightarrow>
          (Inr None, s\<lparr>st_btc_state :=
             \<lparr>bs_height = bb_height btc, bs_block_hash = bb_block_hash btc\<rparr>\<rparr>)
      | UpdateBtcTx tx \<Rightarrow> quiet (with_btc_tx_update tx s)
      | CancelBtcTx tx \<Rightarrow> quiet (with_btc_tx_cancel tx s)
      | UpdateTokens upd \<Rightarrow> quiet (update_tokens upd s)
      | GenInvite req \<Rightarrow> quiet (gen_invite req s)
      | LimitsChangeRequest req \<Rightarrow> quiet (insert_limits_req (fst env) (snd env) req s)
      | CancelLimitChange req \<Rightarrow> quiet (cancel_limit_change req s)
      | LimitChangeDecision lcd \<Rightarrow> quiet (with_limit_change_decision lcd s)
      | ClearLimits span \<Rightarrow> quiet (clear_limits span s)
      | SetLanguage req \<Rightarrow> quiet (set_language req s)
      | ConfigUpdate req \<Rightarrow> quiet (update_user_config req s)
      | PasswordChange req \<Rightarrow> quiet (change_password req s)
      | SetPublicKey req \<Rightarrow> quiet (set_user_public_key req s)
      | ExchangeRequest req \<Rightarrow> quiet (add_exchange_request req s)
      | ExchangeDecision req \<Rightarrow> quiet (with_exchange_decision req s)
      | ExchangeAddress req \<Rightarrow> quiet (set_exchange_address req s))"

definition apply_update ::
  "env \<times> state_update \<Rightarrow> state \<Rightarrow> (state, state_update_err, update_result option) step_result" where
  "apply_update eu s =
     (let u = snd eu in touch (su_created u) (handle_body (fst eu) (su_created u) (su_body u) s))"

definition collect ::
  "(btc_network \<Rightarrow> string) \<Rightarrow> datetime \<Rightarrow> network \<Rightarrow> (env \<times> state_update) list
   \<Rightarrow> state_update_err + state" where
  "collect genesis_hash now n updates = run_all apply_update updates (state_new genesis_hash now n)"

end
