(* ===== verification/State_Invariants.thy ===== *)
theory State_Invariants
  imports State
begin

section \<open>What every event keeps\<close>

text \<open>
  The well-formedness of the state and its preservation by every handler, the atomicity of
  errors, and the isolation of users from each other's events.
\<close>

definition state_wf :: "state \<Rightarrow> bool" where
  "state_wf s \<longleftrightarrow>
     hm_wf (st_users s) \<and> hm_all user_wf (st_users s) \<and>
     hm_wf (st_invites s) \<and> hm_all (\<lambda>i r. ir_invite r = i) (st_invites s) \<and>
     exchange_state_wf (st_exchange s)"

text \<open>A snapshot replaces the state, so it has to be well-formed itself.\<close>

definition event_ok :: "env \<times> state_update \<Rightarrow> bool" where
  "event_ok eu = (case su_body (snd eu) of Snapshot s \<Rightarrow> state_wf s | _ \<Rightarrow> True)"

lemma state_wf_new: "state_wf (state_new g now n)"
  by (simp add: state_wf_def state_new_def exchange_state_wf_new)

lemma user_of_wf: "state_wf s \<Longrightarrow> hm_get (st_users s) uid = Some u \<Longrightarrow> user_wf uid u"
  by (auto simp: state_wf_def dest: hm_all_get)

lemma state_wf_put_user: "state_wf s \<Longrightarrow> user_wf uid u \<Longrightarrow> state_wf (put_user uid u s)"
  by (simp add: state_wf_def put_user_def hm_all_insert)

lemma user_wf_put: "user_wf n u \<Longrightarrow> account_wf n c ci \<Longrightarrow> user_wf n (put_account c ci u)"
  unfolding put_account_def by (rule user_wf_put_account)

text \<open>The step almost every handler ends with: one account of one user is replaced.\<close>

lemma state_wf_account:
  assumes "state_wf s" and "hm_get (st_users s) uid = Some u"
    and "hm_get (ui_currencies u) c = Some ci"
    and "account_wf uid c ci \<Longrightarrow> account_wf uid c ci'"
  shows "state_wf (put_user uid (put_account c ci' u) s)"
proof -
  have u: "user_wf uid u" by (rule user_of_wf [OF assms(1,2)])
  from account_of_wf [OF this assms(3)] assms(4) have "account_wf uid c ci'" by blast
  with u assms(1) show ?thesis by (intro state_wf_put_user user_wf_put)
qed

lemma state_wf_map_accounts:
  assumes "state_wf s" and f: "\<And>n c ci. account_wf n c ci \<Longrightarrow> account_wf n c (f ci)"
  shows "state_wf (map_accounts f s)"
proof -
  have "user_wf n (u\<lparr>ui_currencies := hm_map (\<lambda>c. f) (ui_currencies u)\<rparr>)" if "user_wf n u" for n u
    using that f by (auto simp: user_wf_def hm_contains_key_def elim!: hm_all_mono)
  with assms(1) show ?thesis
    by (auto simp: state_wf_def map_accounts_def elim!: hm_all_mono)
qed

subsection \<open>The handlers keep the state well-formed\<close>

lemma wf_signup: "state_wf s \<Longrightarrow> state_wf (snd (with_signup ts info s))"
  using user_wf_new
  by (auto simp: with_signup_def Let_def user_info_of_signup_def state_wf_def put_user_def
      user_info_new_def intro!: hm_all_insert hm_all_remove)

lemma account_wf_new_withdrawal:
  assumes "account_wf n c ci" and "wr_user w = n" and "address_currency (wr_address w) = c"
    and "wr_id w = i" and "votes_wf w"
  shows "account_wf n c (ci\<lparr>uci_withdrawals := hm_insert i w (uci_withdrawals ci)\<rparr>)"
  using assms by (simp add: account_wf_def hm_all_insert)

lemma wf_new_withdrawal:
  assumes "state_wf s"
  shows "state_wf (snd (with_new_withdrawal_request ts info s))"
proof -
  let ?w = "withdrawal_request_of ts info"
  have w: "wr_id ?w = wri_id info" by (simp add: withdrawal_request_of_def)
  have "state_wf (put_user (wr_user ?w) (put_account (address_currency (wr_address ?w))
      (ci\<lparr>uci_withdrawals := hm_insert (wri_id info) ?w (uci_withdrawals ci)\<rparr>) u) s)"
    if "hm_get (st_users s) (wr_user ?w) = Some u"
      and "hm_get (ui_currencies u) (address_currency (wr_address ?w)) = Some ci" for u ci
    by (rule state_wf_account [OF assms that])
      (rule account_wf_new_withdrawal; simp add: w votes_wf_new)
  with assms show ?thesis
    by (auto simp: with_new_withdrawal_request_def Let_def
        split: option.splits withdrawal_request_type.splits)
qed

lemma decide_request_meta:
  "wr_id (snd (decide_request d w)) = wr_id w \<and> wr_user (snd (decide_request d w)) = wr_user w
   \<and> wr_address (snd (decide_request d w)) = wr_address w
   \<and> wr_amount (snd (decide_request d w)) = wr_amount w"
  by (auto simp: decide_request_def Let_def
      split: withdrawal_request_status.splits withdrawal_request_decision_type.splits)

lemma withdrawal_of_wf:
  "account_wf n c ci \<Longrightarrow> hm_get (uci_withdrawals ci) i = Some w \<Longrightarrow>
     wr_id w = i \<and> wr_user w = n \<and> address_currency (wr_address w) = c \<and> votes_wf w"
  by (auto simp: account_wf_def dest: hm_all_get)

lemma exchange_of_wf:
  "account_wf n c ci \<Longrightarrow> hm_get (uci_exchanges ci) i = Some eo \<Longrightarrow>
     eo_id eo = i \<and> eo_user eo = n \<and> eo_currency_from eo = c \<and> exchange_order_wf eo"
  by (auto simp: account_wf_def dest: hm_all_get)

lemma account_wf_decision:
  assumes "account_wf n c ci" and "hm_get (uci_withdrawals ci) i = Some w"
    and "w' = snd (decide_request d w)"
  shows "account_wf n c (ci\<lparr>uci_withdrawals := hm_insert i w' (uci_withdrawals ci)\<rparr>)"
  using withdrawal_of_wf [OF assms(1,2)] assms(1,3) decide_request_meta [of d w]
  by (intro account_wf_new_withdrawal) (auto intro: votes_wf_decide)

lemma decision_path:
  assumes "get_withdrawal_request_by_decision_info d s = Inr (u, ci, w)"
  shows "hm_get (st_users s) (wdi_user_id d) = Some u"
    and "hm_get (ui_currencies u) (wdi_currency d) = Some ci"
    and "hm_get (uci_withdrawals ci) (wdi_request_id d) = Some w"
  using assms
  by (auto simp: get_withdrawal_request_by_decision_info_def split: option.splits)

lemma wf_decision:
  assumes "state_wf s"
  shows "state_wf (snd (with_withdrawal_request_decision d s))"
proof (cases "get_withdrawal_request_by_decision_info d s")
  case (Inl e)
  with assms show ?thesis by (simp add: with_withdrawal_request_decision_def)
next
  case (Inr p)
  obtain u ci w where p: "p = (u, ci, w)" by (cases p) auto
  note path = decision_path [OF Inr [unfolded p]]
  have "state_wf (put_user (wdi_user_id d) (put_account (wdi_currency d)
      (ci\<lparr>uci_withdrawals := hm_insert (wdi_request_id d) (snd (decide_request d w))
         (uci_withdrawals ci)\<rparr>) u) s)"
    by (rule state_wf_account [OF assms path(1,2)]) (rule account_wf_decision [OF _ path(3) refl])
  with Inr p assms show ?thesis
    by (cases "decide_request d w")
      (auto simp: with_withdrawal_request_decision_def Let_def split: sum.splits)
qed

lemma account_wf_set_status:
  assumes "account_wf n c ci"
    and st: "\<And>w. votes_wf w \<Longrightarrow> votes_wf (w\<lparr>wr_status := st\<rparr>)"
  shows "account_wf n c (set_withdrawal_status i st ci)"
  using assms by (auto simp: account_wf_def set_withdrawal_status_def elim!: hm_all_mono)

lemma votes_wf_settled:
  "votes_wf w \<Longrightarrow> votes_wf (w\<lparr>wr_status := Completed t x f as bs\<rparr>)"
  "votes_wf w \<Longrightarrow> votes_wf (w\<lparr>wr_status := NodeRejected r\<rparr>)"
  by (simp_all add: votes_wf_def)

lemma wf_completed: "state_wf s \<Longrightarrow> state_wf (snd (set_withdrawal_request_completed info s))"
  unfolding set_withdrawal_request_completed_def snd_conv
  by (rule state_wf_map_accounts) (auto intro: account_wf_set_status votes_wf_settled)

lemma wf_node_rejected: "state_wf s \<Longrightarrow> state_wf (snd (set_withdrawal_request_node_rejected info s))"
  unfolding set_withdrawal_request_node_rejected_def snd_conv
  by (rule state_wf_map_accounts) (auto intro: account_wf_set_status votes_wf_settled)

lemma wf_deposit_address:
  assumes "state_wf s"
  shows "state_wf (snd (with_deposit_address dep s))"
proof -
  let ?c = "address_currency (da_address dep)"
  have "state_wf (put_user (da_user_id dep) (put_account ?c
      (ci\<lparr>uci_deposit_info := uci_deposit_info ci @ [da_address dep]\<rparr>) u) s)"
    if "hm_get (st_users s) (da_user_id dep) = Some u" and "hm_get (ui_currencies u) ?c = Some ci"
      and "da_address dep \<notin> set (uci_deposit_info ci)" for u ci
    by (rule state_wf_account [OF assms that(1,2)]) (use that(3) in \<open>simp add: account_wf_def\<close>)
  with assms show ?thesis by (auto simp: with_deposit_address_def Let_def split: option.splits)
qed

lemma state_wf_exchange: "state_wf s \<Longrightarrow> exchange_state_wf es \<Longrightarrow> state_wf (s\<lparr>st_exchange := es\<rparr>)"
  by (simp add: state_wf_def)

lemma exchange_wf_of_state: "state_wf s \<Longrightarrow> exchange_state_wf (st_exchange s)"
  by (simp add: state_wf_def)

lemma wf_btc_update:
  assumes "state_wf s"
  shows "state_wf (snd (with_btc_tx_update tx s))"
proof -
  have "state_wf (put_user uid (put_account BTC (update_btc_tx tx ci) u) s)"
    if "hm_get (st_users s) uid = Some u" and "hm_get (ui_currencies u) BTC = Some ci" for uid u ci
    by (rule state_wf_account [OF assms that]) (rule account_wf_update_btc_tx)
  with assms show ?thesis
    by (auto simp: with_btc_tx_update_def Let_def state_wf_exchange exchange_wf_of_state
        exchange_state_wf_incoming split: option.splits)
qed

text \<open>The first half of a cancellation, as a definition of its own for the proofs.\<close>

definition cancel_deposit :: "tx_cancel \<Rightarrow> state \<Rightarrow> (state, state_update_err, unit) step_result" where
  "cancel_deposit tx s =
     (case find_user_address s (AddrBTC \<lparr>addr = tc_address tx\<rparr>) of
        Some user_id \<Rightarrow>
         (case hm_get (st_users s) user_id of
            Some user \<Rightarrow>
             (case hm_get (ui_currencies user) BTC of
                Some ci \<Rightarrow>
                  (Inr (), put_user user_id (put_account BTC (user_cancel_btc_tx tx ci) user) s)
              | None \<Rightarrow> (Inl (UserMissingCurrency user_id BTC), s))
          | None \<Rightarrow> (Inl (UserNotFound user_id), s))
      | None \<Rightarrow> (Inr (), s))"

definition reject_paid :: "tx_cancel \<Rightarrow> state \<Rightarrow> state" where
  "reject_paid tx s =
     (case find_withdrawal_by_tx_id s (TxBTC \<lparr>btc_txid_text = tc_txid tx\<rparr>) of
        Some rid \<Rightarrow> map_accounts (set_withdrawal_status rid (NodeRejected ''Tx canceled'')) s
      | None \<Rightarrow> s)"

lemma with_btc_tx_cancel_eq:
  "with_btc_tx_cancel tx s =
    (if is_exchange_address s (AddrBTC \<lparr>addr = tc_address tx\<rparr>)
     then (Inr (), s\<lparr>st_exchange := exchange_cancel_btc_tx tx (st_exchange s)\<rparr>)
     else (Inr (), reject_paid tx (snd (cancel_deposit tx s))))"
  unfolding with_btc_tx_cancel_def Let_def cancel_deposit_def [symmetric] reject_paid_def
  by (cases "fst (cancel_deposit tx s)";
      cases "find_withdrawal_by_tx_id (snd (cancel_deposit tx s))
        (TxBTC \<lparr>btc_txid_text = tc_txid tx\<rparr>)")
    (simp_all add: set_withdrawal_request_node_rejected_def split_beta)

lemma wf_btc_cancel:
  assumes "state_wf s"
  shows "state_wf (snd (with_btc_tx_cancel tx s))"
proof -
  have "state_wf (put_user uid (put_account BTC (user_cancel_btc_tx tx ci) u) s)"
    if "hm_get (st_users s) uid = Some u" and "hm_get (ui_currencies u) BTC = Some ci" for uid u ci
    by (rule state_wf_account [OF assms that]) (rule account_wf_cancel_btc_tx)
  with assms have "state_wf (snd (cancel_deposit tx s))"
    by (auto simp: cancel_deposit_def split: option.splits)
  then have "state_wf (reject_paid tx (snd (cancel_deposit tx s)))"
    unfolding reject_paid_def
    by (auto split: option.splits
        intro!: state_wf_map_accounts account_wf_set_status votes_wf_settled)
  with assms show ?thesis
    by (auto simp: with_btc_tx_cancel_eq state_wf_exchange exchange_wf_of_state
        exchange_state_wf_cancel)
qed

lemma user_wf_disable:
  assumes "user_wf n u"
  shows "user_wf n (u\<lparr>ui_currencies := hm_remove (ERC20 t) (ui_currencies u),
    ui_limit_changes := hm_remove (ERC20 t) (ui_limit_changes u)\<rparr>)"
proof -
  from assms have cur: "hm_wf (ui_currencies u)" and lim: "hm_wf (ui_limit_changes u)"
    and all: "hm_all (\<lambda>c d. lc_currency d = c \<and> lc_user d = n \<and> limit_change_wf d \<and>
      hm_contains_key (ui_currencies u) c) (ui_limit_changes u)"
    by (simp_all add: user_wf_def)
  have "hm_all (\<lambda>c d. lc_currency d = c \<and> lc_user d = n \<and> limit_change_wf d \<and>
      hm_contains_key (hm_remove (ERC20 t) (ui_currencies u)) c)
      (hm_remove (ERC20 t) (ui_limit_changes u))"
    by (rule hm_allI)
      (use lim cur in \<open>auto simp: hm_contains_key_def hm_get_remove split: if_splits
        dest: hm_all_get [OF all]\<close>)
  with assms show ?thesis by (auto simp: user_wf_def hm_contains_key_def intro: hm_all_remove)
qed

lemma wf_tokens:
  assumes "state_wf s"
  shows "state_wf (snd (update_tokens upd s))"
proof -
  have "state_wf (put_user uid (put_account c (user_currency_info_new c) u) s)"
    if "hm_get (st_users s) uid = Some u" for uid u c
    by (intro state_wf_put_user [OF assms] user_wf_put user_of_wf [OF assms that] account_wf_new)
  moreover have "state_wf (put_user uid (u\<lparr>ui_currencies := hm_remove (ERC20 t) (ui_currencies u),
      ui_limit_changes := hm_remove (ERC20 t) (ui_limit_changes u)\<rparr>) s)"
    if "hm_get (st_users s) uid = Some u" for uid u t
    by (intro state_wf_put_user [OF assms] user_wf_disable user_of_wf [OF assms that])
  ultimately show ?thesis using assms
    by (auto simp: update_tokens_def Let_def split: option.splits token_action.splits)
qed

lemma wf_gen_invite: "state_wf s \<Longrightarrow> state_wf (snd (gen_invite req s))"
  by (auto simp: gen_invite_def Let_def state_wf_def intro: hm_all_insert split: option.splits)

lemma user_wf_put_limit_change:
  assumes "user_wf n u" and "limit_change_wf d" and "lc_currency d = c" and "lc_user d = n"
    and "hm_contains_key (ui_currencies u) c"
  shows "user_wf n (u\<lparr>ui_limit_changes := hm_insert c d (ui_limit_changes u)\<rparr>)"
  using assms by (simp add: user_wf_def hm_all_insert)

lemma wf_insert_limits:
  assumes "state_wf s"
  shows "state_wf (snd (insert_limits_req i now req s))"
proof -
  have "user_wf uid (usr\<lparr>ui_limit_changes := hm_insert c
      \<lparr>lc_id = i, lc_user = ui_username usr, lc_created_at = now, lc_status = LimitInProgress 0 0,
       lc_currency = c, lc_limit = l, lc_confirms = [], lc_rejects = []\<rparr> (ui_limit_changes usr)\<rparr>)"
    if "hm_get (st_users s) uid = Some usr" and "hm_get (ui_currencies usr) c = Some ci" for uid usr c l ci
  proof -
    have "user_wf uid usr" by (rule user_of_wf [OF assms that(1)])
    with that(2) show ?thesis
      by (intro user_wf_put_limit_change)
        (auto simp: limit_change_wf_def hm_contains_key_def user_wf_def)
  qed
  with assms show ?thesis
    by (auto simp: insert_limits_req_def Let_def intro: state_wf_put_user split: option.splits)
qed

lemma user_wf_drop_limit_change: "user_wf n u \<Longrightarrow> user_wf n (drop_limit_change c u)"
  by (simp add: user_wf_def drop_limit_change_def hm_all_remove)

lemma wf_cancel_limit:
  assumes "state_wf s"
  shows "state_wf (snd (cancel_limit_change req s))"
  using assms
  by (auto simp: cancel_limit_change_def intro!: state_wf_put_user
      user_wf_drop_limit_change [unfolded drop_limit_change_def] user_of_wf split: option.splits)

lemma account_wf_limit_info: "account_wf n c ci \<Longrightarrow> account_wf n c (ci\<lparr>uci_limit_info := l\<rparr>)"
  by (simp add: account_wf_def)

lemma user_wf_grant: "user_wf n u \<Longrightarrow> user_wf n (grant_limit c l u)"
  by (auto simp: grant_limit_def split: option.splits
      intro: user_wf_put account_wf_limit_info account_of_wf)

lemma wf_limit_decision:
  assumes "state_wf s"
  shows "state_wf (snd (with_limit_change_decision lcd s))"
proof (cases "hm_get (st_users s) (ld_user lcd)")
  case None
  with assms show ?thesis by (simp add: with_limit_change_decision_def)
next
  case (Some usr)
  note u = user_of_wf [OF assms Some]
  show ?thesis
  proof (cases "hm_get (ui_limit_changes usr) (ld_currency lcd)")
    case None
    with Some assms show ?thesis by (simp add: with_limit_change_decision_def)
  next
    case req: (Some req)
    note r = limit_change_of_wf [OF u req]
    have "user_wf (ld_user lcd) (usr\<lparr>ui_limit_changes :=
        hm_insert (ld_currency lcd) req' (ui_limit_changes usr)\<rparr>)"
      if "decide_limit lcd req = LimitStays req'" for req'
      using r limit_change_wf_stays [OF _ that] decide_limit_stays_meta [OF that]
      by (intro user_wf_put_limit_change u) simp_all
    with assms u Some req show ?thesis
      by (auto simp: with_limit_change_decision_def Let_def split: limit_vote.splits
          intro!: state_wf_put_user user_wf_drop_limit_change user_wf_grant)
  qed
qed

lemma wf_clear_limits: "state_wf s \<Longrightarrow> state_wf (snd (clear_limits span s))"
  unfolding clear_limits_def snd_conv
  by (rule state_wf_map_accounts) (auto simp: clear_spent_def account_wf_limit_info)

lemma wf_user_info:
  assumes "state_wf s" and "\<And>u. user_wf uid u \<Longrightarrow> user_wf uid (f u)"
  shows "state_wf (snd (with_user_info uid f s))"
  using assms(1)
  by (auto simp: with_user_info_def intro!: state_wf_put_user assms(2) intro: user_of_wf
      split: option.splits)

lemma wf_settings:
  assumes "state_wf s"
  shows "state_wf (snd (set_language a s))" "state_wf (snd (update_user_config b s))"
    "state_wf (snd (change_password p s))" "state_wf (snd (set_user_public_key k s))"
  using assms
  by (auto simp: set_language_def update_user_config_def change_password_def
      set_user_public_key_def user_wf_def intro!: wf_user_info)

lemma account_wf_put_exchange:
  assumes "account_wf n c ci" and "eo_id eo = i" and "eo_user eo = n" and "eo_currency_from eo = c"
    and "exchange_order_wf eo"
  shows "account_wf n c (ci\<lparr>uci_exchanges := hm_insert i eo (uci_exchanges ci)\<rparr>)"
  using assms by (simp add: account_wf_def hm_all_insert)

lemma wf_exchange_request:
  assumes "state_wf s"
  shows "state_wf (snd (add_exchange_request req s))"
proof -
  have "state_wf (put_user (eu_user req) (put_account (eu_currency_from req)
      (ci\<lparr>uci_exchanges := hm_insert (eu_id req) eo (uci_exchanges ci)\<rparr>) u) s)"
    if "hm_get (st_users s) (eu_user req) = Some u"
      and "hm_get (ui_currencies u) (eu_currency_from req) = Some ci"
      and "eo_id eo = eu_id req" "eo_user eo = eu_user req"
        "eo_currency_from eo = eu_currency_from req" "exchange_order_wf eo" for u ci eo
    by (rule state_wf_account [OF assms that(1,2)]) (rule account_wf_put_exchange [OF _ that(3-6)])
  with assms show ?thesis
    by (auto simp: add_exchange_request_def Let_def exchange_order_wf_def split: option.splits)
qed

lemma wf_apply_exchange:
  assumes "state_wf s"
  shows "state_wf (snd (apply_exchange_decision req s))"
proof -
  have "state_wf (put_user (ed_user req) (put_account (ed_currency_from req)
      (ci\<lparr>uci_exchanges := hm_insert (ed_id req) eo' (uci_exchanges ci)\<rparr>) u) s)"
    if "hm_get (st_users s) (ed_user req) = Some u"
      and "hm_get (ui_currencies u) (ed_currency_from req) = Some ci"
      and ex: "hm_get (uci_exchanges ci) (ed_id req) = Some eo"
      and d: "decide_exchange req eo = (Inr b, eo')" for u ci eo eo' b
  proof (rule state_wf_account [OF assms that(1,2)])
    assume "account_wf (ed_user req) (ed_currency_from req) ci"
    from exchange_of_wf [OF this ex] this exchange_order_wf_decide [of eo req]
      decide_exchange_meta [OF d] d
    show "account_wf (ed_user req) (ed_currency_from req)
        (ci\<lparr>uci_exchanges := hm_insert (ed_id req) eo' (uci_exchanges ci)\<rparr>)"
      by (intro account_wf_put_exchange) auto
  qed
  with assms show ?thesis
    by (auto simp: apply_exchange_decision_def Let_def put_user_def
        intro!: state_wf_exchange exchange_state_wf_process_order
        dest: exchange_wf_of_state split: option.splits prod.splits sum.splits)
qed

lemma wf_incoming_exchange:
  assumes "state_wf s"
  shows "state_wf (snd (add_incoming_exchange req s))"
proof -
  have "state_wf (put_user (ed_user req) (put_account (ed_currency_to req)
      (ci\<lparr>uci_incoming := hm_insert (ed_id req) (ed_amount_to req) (uci_incoming ci)\<rparr>) u) s)"
    if "hm_get (st_users s) (ed_user req) = Some u"
      and "hm_get (ui_currencies u) (ed_currency_to req) = Some ci" for u ci
    by (rule state_wf_account [OF assms that]) (simp add: account_wf_def)
  with assms show ?thesis
    by (auto simp: add_incoming_exchange_def Let_def split: option.splits)
qed

lemma wf_exchange_decision:
  assumes "state_wf s"
  shows "state_wf (snd (with_exchange_decision req s))"
  using wf_apply_exchange [OF assms, of req] wf_incoming_exchange
  by (auto simp: with_exchange_decision_def split: prod.splits sum.splits)

lemma wf_exchange_address: "state_wf s \<Longrightarrow> state_wf (snd (set_exchange_address req s))"
  by (auto simp: set_exchange_address_def state_wf_def exchange_state_wf_def intro: hm_all_insert)

lemmas handler_wf = wf_signup wf_new_withdrawal wf_decision wf_completed wf_node_rejected
  wf_deposit_address wf_btc_update wf_btc_cancel wf_tokens wf_gen_invite wf_insert_limits
  wf_cancel_limit wf_limit_decision wf_clear_limits wf_settings wf_exchange_request
  wf_exchange_decision wf_exchange_address

lemma snd_quiet [simp]: "snd (quiet r) = snd r"
  by (simp add: quiet_def split: prod.splits sum.splits)

lemma state_wf_touch: "state_wf (snd r) \<Longrightarrow> state_wf (snd (touch t r))"
  by (auto simp: touch_def state_wf_def split: prod.splits sum.splits)

lemma handle_body_wf:
  assumes "state_wf s" and "case body of Snapshot x \<Rightarrow> state_wf x | _ \<Rightarrow> True"
  shows "state_wf (snd (handle_body env t body s))"
proof (cases body)
  case (WithdrawalRequestDecision d)
  have "snd (handle_body env t body s) = snd (with_withdrawal_request_decision d s)"
    by (simp add: handle_body_def WithdrawalRequestDecision split: prod.splits sum.splits)
  with wf_decision [OF assms(1)] show ?thesis by simp
next
  case (BestBtcBlock b)
  with assms(1) show ?thesis by (simp add: handle_body_def state_wf_def)
qed (use assms in \<open>simp_all add: handle_body_def handler_wf\<close>)

interpretation event: guarded_steps apply_update state_wf event_ok
proof unfold_locales
  fix s :: state and eu :: "env \<times> state_update"
  assume "state_wf s" and "event_ok eu"
  then have "state_wf (snd (handle_body (fst eu) (su_created (snd eu)) (su_body (snd eu)) s))"
    by (intro handle_body_wf) (simp_all add: event_ok_def)
  then show "state_wf (snd (apply_update eu s))"
    unfolding apply_update_def Let_def by (rule state_wf_touch)
qed

end
