(* ===== verification/State_Properties.thy ===== *)
theory State_Properties
  imports State_Invariants
begin

section \<open>Properties of the state machine\<close>

text \<open>
  What the events as a whole guarantee: reachable states are well-formed, errors change
  nothing, an event of one user touches no other user, invites are used once, and the
  functional behaviour of the deposit, token and limit handlers.
\<close>

subsection \<open>A small history\<close>

definition example_invite :: invite where
  "example_invite = \<lparr>invite_id = 1\<rparr>"

definition example_env :: env where
  "example_env = (9, ''2022-06-08'')"

definition example_event :: "update_body \<Rightarrow> env \<times> state_update" where
  "example_event b = (example_env, \<lparr>su_created = 100, su_body = b\<rparr>)"

definition example_history :: "(env \<times> state_update) list" where
  "example_history = map example_event
     [GenInvite \<lparr>ir_invite = example_invite, ir_invitor = ''op'', ir_label = ''l''\<rparr>,
      Signup \<lparr>su_username = ''Alice'', su_invite = example_invite, su_auth = Lightning\<rparr>]"

text \<open>The state it leads to: Alice is known, the invite is gone.\<close>

definition alice :: user_info where
  "alice = user_info_new ''Alice'' example_invite Lightning 100"

definition alice_state :: state where
  "alice_state = (state_new (\<lambda>_. ''g'') 0 Regtest)
     \<lparr>st_users := [(''Alice'', alice)], st_last_changed := 100\<rparr>"

lemma example_history_runs: "collect (\<lambda>_. ''g'') 0 Regtest example_history = Inr alice_state"
  by (simp add: collect_def example_history_def example_event_def apply_update_def Let_def
      handle_body_def gen_invite_def state_new_def hm_empty_def quiet_def touch_def
      with_signup_def hm_contains_key_def put_user_def user_info_of_signup_def alice_state_def
      alice_def user_info_new_def example_invite_def)

lemma example_history_ok: "\<forall>eu\<in>set example_history. event_ok eu"
  by (simp add: example_history_def example_event_def event_ok_def)

lemma alice_state_wf: "state_wf alice_state"
  using event.run_inv [OF example_history_runs [unfolded collect_def] state_wf_new example_history_ok] .

lemma alice_account:
  "hm_get (st_users alice_state) uid = (if uid = ''Alice'' then Some alice else None)"
  "hm_get (ui_currencies alice) c =
     (if c \<in> set default_currencies then Some (user_currency_info_new c) else None)"
  by (simp_all add: alice_state_def alice_def default_account)

subsection \<open>Reachable states\<close>

text \<open>
  Property C4. Every state collected from a history of events is well-formed: users,
  accounts, requests and orders are stored under their own names, currencies and ids, the
  votes recorded on each request are the ones its status counts, deposits are distinct and
  non-negative, and pending limit changes belong to accounts that exist.
\<close>

theorem collect_well_formed:
  assumes "collect genesis_hash now n us = Inr s" and "\<forall>eu\<in>set us. event_ok eu"
  shows "state_wf s"
  using event.run_inv [OF _ state_wf_new assms(2)] assms(1) by (simp add: collect_def)

theorem collect_well_formed_witness: "state_wf alice_state"
  by (rule collect_well_formed [OF example_history_runs example_history_ok])

lemma find_map_Some:
  "find_map f xs = Some y \<Longrightarrow> \<exists>x\<in>set xs. f x = Some y"
  by (induction xs) (auto split: option.splits)

lemma withdrawal_entry_wf:
  assumes "state_wf s" and "(i, w) \<in> set (all_withdrawal_entries s)"
  shows "wr_id w = i \<and> votes_wf w"
proof -
  from assms(2) obtain u ci where "u \<in> set (hm_values (st_users s))"
    and "ci \<in> set (hm_values (ui_currencies u))" and w: "(i, w) \<in> set (uci_withdrawals ci)"
    by (auto simp: all_withdrawal_entries_def)
  then obtain uid c where "(uid, u) \<in> set (st_users s)" and ci: "(c, ci) \<in> set (ui_currencies u)"
    by (auto simp: hm_values_def)
  with assms(1) have "user_wf uid u" by (auto simp: state_wf_def hm_all_in_set)
  with ci have "account_wf uid c ci" by (auto simp: user_wf_def hm_all_in_set)
  with w show ?thesis by (auto simp: account_wf_def hm_all_in_set)
qed

text \<open>A longer history: Alice asks for a withdrawal over her limit, two operators confirm it.\<close>

definition quorum_events :: "(env \<times> state_update) list" where
  "quorum_events = map example_event
     [CreateWithdrawalRequest \<lparr>wri_id = 7, wri_user = ''Alice'',
        wri_address = AddrBTC \<lparr>addr = ''bc1q''\<rparr>, wri_amount = 1, wri_request_type = OverLimit\<rparr>,
      WithdrawalRequestDecision (example_decision ''a'' Confirm),
      WithdrawalRequestDecision (example_decision ''b'' Confirm)]"

definition quorum_request :: withdrawal_request where
  "quorum_request = (withdrawal_request_of 100
     \<lparr>wri_id = 7, wri_user = ''Alice'', wri_address = AddrBTC \<lparr>addr = ''bc1q''\<rparr>,
      wri_amount = 1, wri_request_type = OverLimit\<rparr>)
     \<lparr>wr_status := Confirmed,
      wr_confirmations := [decision_of_info (example_decision ''a'' Confirm),
                           decision_of_info (example_decision ''b'' Confirm)]\<rparr>"

definition quorum_state :: state where
  "quorum_state = put_user ''Alice'' (put_account BTC
     ((user_currency_info_new BTC)\<lparr>uci_withdrawals := [(7, quorum_request)]\<rparr>) alice) alice_state"

lemma put_user_last_changed [simp]:
  "(put_user uid u s)\<lparr>st_last_changed := t\<rparr> = put_user uid u (s\<lparr>st_last_changed := t\<rparr>)"
  by (simp add: put_user_def)

lemma alice_state_last_changed [simp]: "alice_state\<lparr>st_last_changed := 100\<rparr> = alice_state"
  by (simp add: alice_state_def)

lemma alice_btc: "BTC \<in> set default_currencies"
  by (simp add: default_currencies_eq)

lemma quorum_history_runs:
  "collect (\<lambda>_. ''g'') 0 Regtest (example_history @ quorum_events) = Inr quorum_state"
proof -
  have "run_all apply_update quorum_events alice_state = Inr quorum_state"
    by (simp add: quorum_events_def example_event_def apply_update_def Let_def handle_body_def
        with_new_withdrawal_request_def withdrawal_request_of_def alice_account alice_btc touch_def
        with_withdrawal_request_decision_def get_withdrawal_request_by_decision_info_def
        example_decision_def decide_request_def decision_of_info_def user_currency_info_new_def
        hm_empty_def keys_of_def quorum_state_def quorum_request_def)
  with example_history_runs show ?thesis by (simp add: collect_def run_all_append)
qed

text \<open>
  Property C9. In every state collected from a history, a withdrawal request found as
  confirmed carries the confirmations of at least two different operator keys that do not
  reject it, and exactly two more confirmations than rejections.
\<close>

theorem confirmed_withdrawals_have_quorum:
  assumes "collect genesis_hash now n us = Inr s" and "\<forall>eu\<in>set us. event_ok eu"
    and "get_withdrawal_request s i = Some w" and "wr_status w = Confirmed"
    and "total_votes w < 2 ^ 15"
  shows "2 \<le> card (set (keys_of (wr_confirmations w)) - set (keys_of (wr_rejections w)))
    \<and> card (set (keys_of (wr_confirmations w))) = card (set (keys_of (wr_rejections w))) + 2"
proof -
  have wf: "state_wf s"
    using event.run_inv [OF _ state_wf_new assms(2)] assms(1) by (simp add: collect_def)
  from assms(3) have "(i, w) \<in> set (all_withdrawal_entries s)"
    by (auto simp: get_withdrawal_request_def dest!: find_map_Some split: if_splits)
  with wf have "votes_wf w" by (simp add: withdrawal_entry_wf)
  with assms(4,5) show ?thesis by (intro confirmed_by_two_keys)
qed

theorem confirmed_withdrawals_have_quorum_witness:
  "2 \<le> card (set (keys_of (wr_confirmations quorum_request))
            - set (keys_of (wr_rejections quorum_request)))"
proof -
  have ok: "\<forall>eu\<in>set (example_history @ quorum_events). event_ok eu"
    by (auto simp: example_history_def quorum_events_def example_event_def event_ok_def)
  have "get_withdrawal_request quorum_state 7 = Some quorum_request"
    by (simp add: get_withdrawal_request_def all_withdrawal_entries_def quorum_state_def hm_values_def
        put_user_def put_account_def alice_state_def alice_def user_info_new_def default_currencies_eq
        hm_collect_def hm_empty_def token_defs)
  moreover have "wr_status quorum_request = Confirmed" and "total_votes quorum_request < 2 ^ 15"
    by (simp_all add: quorum_request_def total_votes_def withdrawal_request_of_def)
  ultimately show ?thesis
    using confirmed_withdrawals_have_quorum [OF quorum_history_runs ok] by blast
qed

subsection \<open>Errors\<close>

lemma handler_error:
  "with_signup t a s = (Inl e, s') \<Longrightarrow> s' = s"
  "with_new_withdrawal_request t b s = (Inl e, s') \<Longrightarrow> s' = s"
  "with_withdrawal_request_decision d s = (Inl e, s') \<Longrightarrow> s' = s"
  "set_withdrawal_request_completed f s = (Inl e, s') \<Longrightarrow> s' = s"
  "set_withdrawal_request_node_rejected g s = (Inl e, s') \<Longrightarrow> s' = s"
  "with_deposit_address h s = (Inl e, s') \<Longrightarrow> s' = s"
  "with_btc_tx_update i s = (Inl e, s') \<Longrightarrow> s' = s"
  "with_btc_tx_cancel j s = (Inl e, s') \<Longrightarrow> s' = s"
  "update_tokens k s = (Inl e, s') \<Longrightarrow> s' = s"
  "gen_invite l s = (Inl e, s') \<Longrightarrow> s' = s"
  "insert_limits_req u now m s = (Inl e, s') \<Longrightarrow> s' = s"
  "cancel_limit_change n s = (Inl e, s') \<Longrightarrow> s' = s"
  "with_limit_change_decision p s = (Inl e, s') \<Longrightarrow> s' = s"
  "clear_limits q s = (Inl e, s') \<Longrightarrow> s' = s"
  "with_user_info uid f' s = (Inl e, s') \<Longrightarrow> s' = s"
  "add_exchange_request r s = (Inl e, s') \<Longrightarrow> s' = s"
  "apply_exchange_decision x s = (Inl e, s') \<Longrightarrow> s' = s"
  "add_incoming_exchange x s = (Inl e, s') \<Longrightarrow> s' = s"
  "set_exchange_address y s = (Inl e, s') \<Longrightarrow> s' = s"
  by (auto simp: with_signup_def with_new_withdrawal_request_def
      with_withdrawal_request_decision_def set_withdrawal_request_completed_def
      set_withdrawal_request_node_rejected_def with_deposit_address_def with_btc_tx_update_def
      with_btc_tx_cancel_eq update_tokens_def gen_invite_def insert_limits_req_def
      cancel_limit_change_def with_limit_change_decision_def clear_limits_def with_user_info_def
      add_exchange_request_def apply_exchange_decision_def add_incoming_exchange_def
      set_exchange_address_def Let_def
      split: if_splits option.splits sum.splits prod.splits token_action.splits limit_vote.splits
        withdrawal_request_type.splits)

lemma setting_error:
  "set_language a s = (Inl e, s') \<Longrightarrow> s' = s"
  "update_user_config b s = (Inl e, s') \<Longrightarrow> s' = s"
  "change_password p s = (Inl e, s') \<Longrightarrow> s' = s"
  "set_user_public_key k s = (Inl e, s') \<Longrightarrow> s' = s"
  by (simp_all add: set_language_def update_user_config_def change_password_def
      set_user_public_key_def handler_error(15))

lemma quiet_error: "quiet r = (Inl e, s') \<longleftrightarrow> r = (Inl e, s')"
  by (auto simp: quiet_def split: prod.splits sum.splits)

lemma touch_error: "touch t r = (Inl e, s') \<longleftrightarrow> r = (Inl e, s')"
  by (auto simp: touch_def split: prod.splits sum.splits)

lemma exchange_decision_error:
  assumes "with_exchange_decision d s = (Inl e, s')"
  shows "s' = s \<or> apply_exchange_decision d s = (Inr True, s')
    \<and> add_incoming_exchange d s' = (Inl e, s')"
  using assms
  by (auto simp: with_exchange_decision_def split: prod.splits sum.splits if_splits
      dest: handler_error(17,18))

text \<open>
  Property C20. An event that is refused leaves the state as it was, in every field, with one
  exception: an exchange decision whose target account is missing. That one fails only after
  the order has been completed, and leaves the completed order behind.
\<close>

theorem error_leaves_state:
  assumes "apply_update (env, u) s = (Inl e, s')"
  shows "s' = s \<or> (\<exists>d. su_body u = ExchangeDecision d \<and>
    apply_exchange_decision d s = (Inr True, s') \<and> add_incoming_exchange d s' = (Inl e, s'))"
proof -
  from assms have h: "handle_body env (su_created u) (su_body u) s = (Inl e, s')"
    by (simp add: apply_update_def touch_error Let_def)
  show ?thesis
  proof (cases "su_body u")
    case (WithdrawalRequestDecision d)
    with h have "with_withdrawal_request_decision d s = (Inl e, s')"
      by (auto simp: handle_body_def split: prod.splits sum.splits)
    then show ?thesis by (simp add: handler_error)
  next
    case (ExchangeDecision d)
    with h exchange_decision_error [of d s e s'] show ?thesis
      by (simp add: handle_body_def quiet_error)
  qed (use h in \<open>auto simp: handle_body_def quiet_error dest: handler_error setting_error\<close>)
qed

definition bob_cancels :: state_update where
  "bob_cancels = \<lparr>su_created = 100,
     su_body = CancelLimitChange \<lparr>lcan_id = 0, lcan_user = ''Bob'', lcan_currency = BTC\<rparr>\<rparr>"

theorem error_leaves_state_witness:
  "snd (apply_update (example_env, bob_cancels) alice_state) = alice_state"
proof -
  have "fst (apply_update (example_env, bob_cancels) alice_state) = Inl (UserNotFound ''Bob'')"
    by (simp add: bob_cancels_def apply_update_def handle_body_def cancel_limit_change_def
        alice_account quiet_def touch_def)
  then have "apply_update (example_env, bob_cancels) alice_state =
      (Inl (UserNotFound ''Bob''), snd (apply_update (example_env, bob_cancels) alice_state))"
    by (simp add: prod_eq_iff)
  from error_leaves_state [OF this] show ?thesis by (simp add: bob_cancels_def)
qed

text \<open>
  The exception, for any order that can be completed: confirming an order whose
  target currency the user does not hold is answered with an error, and the order is
  completed all the same - the wallet has booked it, and the user is not credited.
\<close>

lemma failed_exchange_completes_order:
  assumes "state_wf s" and "hm_get (st_users s) (ed_user d) = Some u"
    and "hm_get (ui_currencies u) (ed_currency_from d) = Some ci"
    and "hm_get (uci_exchanges ci) (ed_id d) = Some eo" and "eo_is_pending eo"
    and "ed_decision d = ExConfirm"
    and "hm_get (ui_currencies u) (ed_currency_to d) = None"
  shows "fst (with_exchange_decision d s) = Inl (UserMissingCurrency (ed_user d) (ed_currency_to d))
    \<and> st_exchange (snd (with_exchange_decision d s)) =
        process_order (into_exchange_upd eo) (st_exchange s)
    \<and> (\<exists>u' ci' eo'. hm_get (st_users (snd (with_exchange_decision d s))) (ed_user d) = Some u'
        \<and> hm_get (ui_currencies u') (ed_currency_from d) = Some ci'
        \<and> hm_get (uci_exchanges ci') (ed_id d) = Some eo' \<and> eo_status eo' = ExchangeCompleted
        \<and> hm_get (ui_currencies u') (ed_currency_to d) = None)"
proof -
  have "exchange_order_wf eo"
    using account_of_wf [OF user_of_wf [OF assms(1,2)] assms(3)] assms(4)
    by (simp add: exchange_of_wf)
  with assms(5,6) obtain eo' where d: "decide_exchange d eo = (Inr True, eo')"
    and st: "eo_status eo' = ExchangeCompleted"
    by (auto simp: decide_exchange_wf eo_is_pending_def Let_def split: exchange_status.splits)
  have "into_exchange_upd eo' = into_exchange_upd eo"
    using decide_exchange_meta [OF d] by (simp add: into_exchange_upd_def)
  moreover have ne: "ed_currency_to d \<noteq> ed_currency_from d" using assms(3,7) by auto
  ultimately have "with_exchange_decision d s =
      (Inl (UserMissingCurrency (ed_user d) (ed_currency_to d)),
       (put_user (ed_user d) (put_account (ed_currency_from d)
          (ci\<lparr>uci_exchanges := hm_insert (ed_id d) eo' (uci_exchanges ci)\<rparr>) u) s)
        \<lparr>st_exchange := process_order (into_exchange_upd eo) (st_exchange s)\<rparr>)"
    using assms(2,3,4,7) d
    by (simp add: with_exchange_decision_def apply_exchange_decision_def add_incoming_exchange_def
        Let_def)
  with st ne assms(7) show ?thesis by simp
qed

text \<open>Alice has asked to sell for CRV, a token that is not among the default currencies.\<close>

definition crv_order :: exchange_order_upd where
  "crv_order = \<lparr>eu_id = 5, eu_user = ''Alice'', eu_currency_from = BTC, eu_currency_to = crv_erc20,
     eu_amount_from = 0, eu_amount_to = 3, eu_created_at = ''now''\<rparr>"

definition crv_pending :: exchange_order where
  "crv_pending = \<lparr>eo_id = 5, eo_user = ''Alice'', eo_currency_from = BTC,
     eo_currency_to = crv_erc20, eo_amount_from = 0, eo_amount_to = 3,
     eo_status = ExchangeInProgress 0 0, eo_created_at = ''now'', eo_confirms = [], eo_rejects = []\<rparr>"

definition crv_account :: user_currency_info where
  "crv_account = (user_currency_info_new BTC)\<lparr>uci_exchanges := [(5, crv_pending)]\<rparr>"

definition crv_state :: state where
  "crv_state = put_user ''Alice'' (put_account BTC crv_account alice) alice_state"

definition crv_decision :: exchange_decision where
  "crv_decision = \<lparr>ed_user = ''Alice'', ed_id = 5, ed_currency_from = BTC,
     ed_currency_to = crv_erc20, ed_amount_from = 0, ed_amount_to = 3, ed_url = ''u'',
     ed_signature = Signature ''s'', ed_nonce = 1, ed_public_key = PublicKey ''a'',
     ed_decision = ExConfirm\<rparr>"

lemma crv_state_wf: "state_wf crv_state"
proof -
  have "snd (add_exchange_request crv_order alice_state) = crv_state"
    by (simp add: add_exchange_request_def crv_order_def Let_def alice_account alice_btc
        crv_state_def crv_account_def crv_pending_def user_currency_info_new_def hm_empty_def
        balance_def)
  with wf_exchange_request [OF alice_state_wf, of crv_order] show ?thesis by simp
qed

lemma crv_missing: "hm_get (ui_currencies alice) crv_erc20 = None"
  by (simp add: alice_account default_currencies_eq token_defs)

lemma crv_facts:
  "ed_user crv_decision = ''Alice''" "ed_currency_from crv_decision = BTC"
  "ed_currency_to crv_decision = crv_erc20" "ed_id crv_decision = 5"
  "ed_decision crv_decision = ExConfirm"
  "hm_get (uci_exchanges crv_account) 5 = Some crv_pending" "eo_is_pending crv_pending"
  "hm_get (st_users crv_state) ''Alice'' = Some (put_account BTC crv_account alice)"
  "crv_erc20 \<noteq> BTC"
  by (simp_all add: crv_decision_def crv_account_def crv_pending_def eo_is_pending_def
      crv_state_def token_defs)

lemma failed_exchange_completes_order_witness:
  "fst (with_exchange_decision crv_decision crv_state) =
     Inl (UserMissingCurrency ''Alice'' crv_erc20) \<and>
   st_exchange (snd (with_exchange_decision crv_decision crv_state)) =
     process_order (into_exchange_upd crv_pending) (st_exchange crv_state)"
  using failed_exchange_completes_order [OF crv_state_wf,
      of crv_decision "put_account BTC crv_account alice" crv_account crv_pending]
  by (simp add: crv_facts crv_missing)

end
