(* ===== verification/Conservation.thy ===== *)
theory Conservation
  imports State_Properties
begin

section \<open>What an exchange moves\<close>

text \<open>
  An order reserves the sold amount in the user's account, a decision completes or rejects
  it. Counted together - what the user owns, what the user's pending orders hold, and what
  the exchange wallet has - nothing is created or lost, as long as the decision names the
  order's target currency and amount.
\<close>

subsection \<open>What a user and the wallet own\<close>

definition pending_out :: "user_currency_info \<Rightarrow> int" where
  "pending_out ci = (\<Sum>(k, eo)\<leftarrow>uci_exchanges ci.
     if eo_is_pending eo then uint (eo_amount_from eo) else 0)"

definition settled :: "user_currency_info \<Rightarrow> int" where
  "settled ci = funds (\<lambda>t. \<not> is_conflicted t) ci + pending_out ci"

definition user_settled :: "user_info \<Rightarrow> currency \<Rightarrow> int" where
  "user_settled u c = (case hm_get (ui_currencies u) c of Some ci \<Rightarrow> settled ci | None \<Rightarrow> 0)"

definition system_total :: "state \<Rightarrow> string \<Rightarrow> currency \<Rightarrow> i64" where
  "system_total s uid c =
     of_int (case hm_get (st_users s) uid of Some u \<Rightarrow> user_settled u c | None \<Rightarrow> 0)
     + es_balance (st_exchange s) c"

text \<open>The sold side of an order that is completed, for good.\<close>

definition completed_out :: "exchange_order \<Rightarrow> int" where
  "completed_out eo = (if eo_is_finalized eo then uint (eo_amount_from eo) else 0)"

lemma sold_split:
  "sold eo = (if eo_is_pending eo then uint (eo_amount_from eo) else 0) + completed_out eo"
  by (simp add: sold_def completed_out_def eo_is_pending_def eo_is_finalized_def
      eo_is_rejected_def split: exchange_status.splits)

lemma settled_new_exchange:
  assumes "hm_wf (uci_exchanges ci)" and "hm_get (uci_exchanges ci) k = None"
  shows "settled (ci\<lparr>uci_exchanges := hm_insert k eo (uci_exchanges ci)\<rparr>)
    = settled ci - completed_out eo"
  using hm.sum_put_fresh [OF assms,
      of "\<lambda>(k, eo). if eo_is_pending eo then uint (eo_amount_from eo) else 0" eo]
  by (simp add: settled_def pending_out_def funds_new_exchange [OF assms] sold_split)

lemma settled_known_exchange:
  assumes "hm_wf (uci_exchanges ci)" and "hm_get (uci_exchanges ci) k = Some eo"
  shows "settled (ci\<lparr>uci_exchanges := hm_insert k eo' (uci_exchanges ci)\<rparr>)
    = settled ci + completed_out eo - completed_out eo'"
  using hm.sum_put_known [OF assms,
      of "\<lambda>(k, eo). if eo_is_pending eo then uint (eo_amount_from eo) else 0" eo']
  by (simp add: settled_def pending_out_def funds_known_exchange [OF assms] sold_split)

lemma settled_new_incoming:
  assumes "hm_wf (uci_incoming ci)" and "hm_get (uci_incoming ci) k = None"
  shows "settled (ci\<lparr>uci_incoming := hm_insert k v (uci_incoming ci)\<rparr>) = settled ci + uint v"
  by (simp add: settled_def pending_out_def funds_new_incoming [OF assms])

lemma user_settled_put [simp]:
  "user_settled (put_account c ci u) c' = (if c' = c then settled ci else user_settled u c')"
  by (simp add: user_settled_def)

lemma user_settled_account: "hm_get (ui_currencies u) c = Some ci \<Longrightarrow> user_settled u c = settled ci"
  by (simp add: user_settled_def)

lemma system_total_put [simp]:
  "system_total (put_user uid u s) uid c = of_int (user_settled u c) + es_balance (st_exchange s) c"
  by (simp add: system_total_def)

lemma system_total_user:
  "hm_get (st_users s) uid = Some u \<Longrightarrow>
     system_total s uid c = of_int (user_settled u c) + es_balance (st_exchange s) c"
  by (simp add: system_total_def)

subsection \<open>Asking for an exchange\<close>

lemma add_exchange_request_result:
  assumes "add_exchange_request req s = (Inr (), s')" and "hm_get (st_users s) (eu_user req) = Some u"
    and "hm_get (ui_currencies u) (eu_currency_from req) = Some ci"
  shows "eu_amount_from req \<le> balance ci \<and>
    (\<exists>order. eo_status order = ExchangeInProgress 0 0 \<and> eo_amount_from order = eu_amount_from req
      \<and> s' = put_user (eu_user req) (put_account (eu_currency_from req)
          (ci\<lparr>uci_exchanges := hm_insert (eu_id req) order (uci_exchanges ci)\<rparr>) u) s)"
proof -
  let ?order = "\<lparr>eo_id = eu_id req, eo_user = eu_user req, eo_currency_from = eu_currency_from req,
     eo_currency_to = eu_currency_to req, eo_amount_from = eu_amount_from req,
     eo_amount_to = eu_amount_to req, eo_status = ExchangeInProgress 0 0,
     eo_created_at = eu_created_at req, eo_confirms = [], eo_rejects = []\<rparr>"
  have "eu_amount_from req \<le> balance ci \<and> s' = put_user (eu_user req)
      (put_account (eu_currency_from req)
        (ci\<lparr>uci_exchanges := hm_insert (eu_id req) ?order (uci_exchanges ci)\<rparr>) u) s"
    using assms by (auto simp: add_exchange_request_def Let_def not_less split: if_splits)
  then show ?thesis by (intro conjI exI [of _ ?order]) simp_all
qed

lemma account_maps_wf:
  assumes "state_wf s" and "hm_get (st_users s) uid = Some u"
    and "hm_get (ui_currencies u) c = Some ci"
  shows "hm_wf (uci_exchanges ci)" and "hm_wf (uci_incoming ci)"
    and "\<And>k eo. hm_get (uci_exchanges ci) k = Some eo \<Longrightarrow> exchange_order_wf eo"
proof -
  have a: "account_wf uid c ci" by (rule account_of_wf [OF user_of_wf [OF assms(1,2)] assms(3)])
  then show "hm_wf (uci_exchanges ci)" and "hm_wf (uci_incoming ci)"
    by (simp_all add: account_wf_def)
  show "exchange_order_wf eo" if "hm_get (uci_exchanges ci) k = Some eo" for k eo
    using exchange_of_wf [OF a that] by simp
qed

text \<open>
  Property C25. A request for an exchange is accepted only when the account's balance covers
  the sold amount. It then takes exactly that amount off the balance, so that it cannot be
  spent twice, and changes nothing that the user and the wallet own together, in any
  currency.
\<close>

theorem exchange_request_reserves:
  assumes "state_wf s" and "hm_get (st_users s) (eu_user req) = Some u"
    and "hm_get (ui_currencies u) (eu_currency_from req) = Some ci"
    and "hm_get (uci_exchanges ci) (eu_id req) = None"
    and "- (2 ^ 63) \<le> funds (\<lambda>t. \<not> is_conflicted t) ci"
    and "funds (\<lambda>t. \<not> is_conflicted t) ci < 2 ^ 63"
    and "add_exchange_request req s = (Inr (), s')"
  shows "eu_amount_from req \<le> balance ci
    \<and> (\<exists>u' ci'. hm_get (st_users s') (eu_user req) = Some u'
        \<and> hm_get (ui_currencies u') (eu_currency_from req) = Some ci'
        \<and> uint (balance ci') = uint (balance ci) - uint (eu_amount_from req))
    \<and> system_total s' (eu_user req) c = system_total s (eu_user req) c"
proof -
  let ?f = "funds (\<lambda>t. \<not> is_conflicted t)"
  from add_exchange_request_result [OF assms(7,2,3)] obtain order where
    le: "eu_amount_from req \<le> balance ci" and st: "eo_status order = ExchangeInProgress 0 0"
    and am: "eo_amount_from order = eu_amount_from req"
    and s': "s' = put_user (eu_user req) (put_account (eu_currency_from req)
      (ci\<lparr>uci_exchanges := hm_insert (eu_id req) order (uci_exchanges ci)\<rparr>) u) s"
    by blast
  define ci' where "ci' = ci\<lparr>uci_exchanges := hm_insert (eu_id req) order (uci_exchanges ci)\<rparr>"
  note wf = account_maps_wf(1) [OF assms(1-3)]
  have sold: "sold order = uint (eu_amount_from req)"
    by (simp add: sold_def eo_is_rejected_def st am)
  have b: "uint (balance ci) = max 0 (?f ci)"
    unfolding balance_word by (rule max_zero_i64_exact [OF assms(5,6)])
  have f': "?f ci' = ?f ci - uint (eu_amount_from req)"
    unfolding ci'_def by (simp add: funds_new_exchange [OF wf assms(4)] sold)
  have le': "uint (eu_amount_from req) \<le> uint (balance ci)" using le by (simp add: word_le_def)
  moreover have "0 \<le> uint (eu_amount_from req)" by simp
  ultimately have "- (2 ^ 63) \<le> ?f ci'" and "?f ci' < 2 ^ 63"
    using assms(5,6) b f' by linarith+
  then have "uint (balance ci') = max 0 (?f ci')"
    unfolding balance_word by (rule max_zero_i64_exact)
  then have bal: "uint (balance ci') = uint (balance ci) - uint (eu_amount_from req)"
    using f' b le' uint_ge_0 [of "eu_amount_from req"] by (auto simp: max_def split: if_splits)
  have "completed_out order = 0" by (simp add: completed_out_def eo_is_finalized_def st)
  then have "settled ci' = settled ci"
    unfolding ci'_def by (simp add: settled_new_exchange [OF wf assms(4)])
  then have tot: "system_total s' (eu_user req) c = system_total s (eu_user req) c"
    unfolding s' ci'_def [symmetric]
    by (simp add: system_total_user [OF assms(2)] user_settled_account [OF assms(3)])
  from bal have "hm_get (st_users s') (eu_user req) = Some (put_account (eu_currency_from req) ci' u)"
    and "hm_get (ui_currencies (put_account (eu_currency_from req) ci' u)) (eu_currency_from req) = Some ci'"
    by (simp_all add: s' ci'_def)
  with le bal tot show ?thesis by blast
qed

text \<open>Alice holds a confirmed deposit of 5 and sells 3 of it for 7 ETH units.\<close>

definition rich_account :: user_currency_info where
  "rich_account = (user_currency_info_new BTC)\<lparr>uci_transactions := [TrBtc (example_deposit 9 5)]\<rparr>"

definition rich_state :: state where
  "rich_state = put_user ''Alice'' (put_account BTC rich_account alice) alice_state"

definition sell_order :: exchange_order_upd where
  "sell_order = \<lparr>eu_id = 5, eu_user = ''Alice'', eu_currency_from = BTC, eu_currency_to = ETH,
     eu_amount_from = 3, eu_amount_to = 7, eu_created_at = ''now''\<rparr>"

definition sell_pending :: exchange_order where
  "sell_pending = \<lparr>eo_id = 5, eo_user = ''Alice'', eo_currency_from = BTC, eo_currency_to = ETH,
     eo_amount_from = 3, eo_amount_to = 7, eo_status = ExchangeInProgress 0 0,
     eo_created_at = ''now'', eo_confirms = [], eo_rejects = []\<rparr>"

definition sell_state :: state where
  "sell_state = put_user ''Alice'' (put_account BTC
     (rich_account\<lparr>uci_exchanges := [(5, sell_pending)]\<rparr>) alice) alice_state"

lemma rich_facts:
  "hm_get (st_users rich_state) ''Alice'' = Some (put_account BTC rich_account alice)"
  "uci_exchanges rich_account = []" "uci_incoming rich_account = []"
  by (simp_all add: rich_state_def rich_account_def user_currency_info_new_def hm_empty_def)

lemma rich_funds: "funds (\<lambda>t. \<not> is_conflicted t) rich_account = 5"
  by (simp add: rich_account_def example_account_simps)

lemma rich_state_wf: "state_wf rich_state"
  unfolding rich_state_def
proof (rule state_wf_account [OF alice_state_wf])
  show "hm_get (st_users alice_state) ''Alice'' = Some alice"
    and "hm_get (ui_currencies alice) BTC = Some (user_currency_info_new BTC)"
    by (simp_all add: alice_account alice_btc)
  show "account_wf ''Alice'' BTC rich_account"
    by (simp add: account_wf_def rich_account_def user_currency_info_new_def example_deposit_def)
qed

lemma rich_balance: "balance rich_account = 5"
  by (simp add: balance_word rich_funds max_zero_i64_def)

lemma sell_runs: "add_exchange_request sell_order rich_state = (Inr (), sell_state)"
  by (simp add: add_exchange_request_def sell_order_def Let_def rich_facts rich_balance)
    (simp add: sell_state_def rich_state_def sell_pending_def)

theorem exchange_request_reserves_witness:
  "(\<exists>u' ci'. hm_get (st_users sell_state) ''Alice'' = Some u'
     \<and> hm_get (ui_currencies u') BTC = Some ci' \<and> uint (balance ci') = 2)
   \<and> system_total sell_state ''Alice'' BTC = system_total rich_state ''Alice'' BTC"
  using exchange_request_reserves [OF rich_state_wf, of sell_order "put_account BTC rich_account alice"
      rich_account sell_state BTC] sell_runs
  by (simp add: rich_facts rich_funds rich_balance sell_order_def)

subsection \<open>Deciding on an exchange\<close>

lemma decide_exchange_outcome:
  assumes "exchange_order_wf eo" and "decide_exchange d eo = (Inr b, eo')"
  shows "eo_is_pending eo \<and> completed_out eo = 0 \<and> (b \<longleftrightarrow> ed_decision d = ExConfirm) \<and>
    completed_out eo' = (if b then uint (eo_amount_from eo) else 0)"
  using assms
  by (auto simp: decide_exchange_wf Let_def eo_is_pending_def completed_out_def eo_is_finalized_def
      split: exchange_status.splits exchange_decision_type.splits)

lemma apply_exchange_decision_result:
  assumes "state_wf s" and "hm_get (st_users s) (ed_user d) = Some u"
    and "hm_get (ui_currencies u) (ed_currency_from d) = Some ci"
    and "hm_get (uci_exchanges ci) (ed_id d) = Some eo"
    and "apply_exchange_decision d s = (Inr b, s1)"
  shows "\<exists>ci1. (b \<longleftrightarrow> ed_decision d = ExConfirm)
    \<and> settled ci1 = settled ci - (if b then uint (eo_amount_from eo) else 0)
    \<and> uci_incoming ci1 = uci_incoming ci
    \<and> hm_get (st_users s1) (ed_user d) = Some (put_account (ed_currency_from d) ci1 u)
    \<and> st_exchange s1 = (if b then process_order (into_exchange_upd eo) (st_exchange s)
                        else st_exchange s)"
proof -
  note wf = account_maps_wf [OF assms(1-3)]
  from assms(2-5) obtain eo' where d: "decide_exchange d eo = (Inr b, eo')"
    and s1: "s1 = (let s0 = put_user (ed_user d) (put_account (ed_currency_from d)
        (ci\<lparr>uci_exchanges := hm_insert (ed_id d) eo' (uci_exchanges ci)\<rparr>) u) s
      in if b then s0\<lparr>st_exchange := process_order (into_exchange_upd eo') (st_exchange s0)\<rparr> else s0)"
    by (auto simp: apply_exchange_decision_def Let_def split: prod.splits sum.splits)
  define ci1 where "ci1 = ci\<lparr>uci_exchanges := hm_insert (ed_id d) eo' (uci_exchanges ci)\<rparr>"
  note out = decide_exchange_outcome [OF wf(3) [OF assms(4)] d]
  have "into_exchange_upd eo' = into_exchange_upd eo"
    using decide_exchange_meta [OF d] by (simp add: into_exchange_upd_def)
  with s1 have "hm_get (st_users s1) (ed_user d) = Some (put_account (ed_currency_from d) ci1 u)"
    and "st_exchange s1 = (if b then process_order (into_exchange_upd eo) (st_exchange s)
        else st_exchange s)"
    by (simp_all add: ci1_def Let_def)
  moreover have "settled ci1 = settled ci - (if b then uint (eo_amount_from eo) else 0)"
    unfolding ci1_def using out by (simp add: settled_known_exchange [OF wf(1) assms(4)])
  moreover have "uci_incoming ci1 = uci_incoming ci" by (simp add: ci1_def)
  ultimately show ?thesis using out by blast
qed

lemma order_effect_into:
  "order_effect c (into_exchange_upd eo) =
     (if eo_currency_from eo = c then eo_amount_from eo else 0)
     - (if eo_currency_to eo = c then eo_amount_to eo else 0)"
  by (simp add: order_effect_def into_exchange_upd_def)


definition sell_decision :: exchange_decision where
  "sell_decision = \<lparr>ed_user = ''Alice'', ed_id = 5, ed_currency_from = BTC, ed_currency_to = ETH,
     ed_amount_from = 3, ed_amount_to = 7, ed_url = ''u'', ed_signature = Signature ''s'',
     ed_nonce = 1, ed_public_key = PublicKey ''a'', ed_decision = ExConfirm\<rparr>"

lemma sell_state_wf: "state_wf sell_state"
  using wf_exchange_request [OF rich_state_wf, of sell_order] by (simp add: sell_runs)

definition sell_account :: user_currency_info where
  "sell_account = rich_account\<lparr>uci_exchanges := [(5, sell_pending)]\<rparr>"

lemma sell_facts:
  "hm_get (st_users sell_state) ''Alice'' = Some (put_account BTC sell_account alice)"
  "hm_get (uci_exchanges sell_account) 5 = Some sell_pending"
  "hm_get (ui_currencies (put_account BTC sell_account alice)) BTC = Some sell_account"
  "hm_get (ui_currencies alice) ETH = Some (user_currency_info_new ETH)"
  "uci_incoming (user_currency_info_new ETH) = []"
  "hm_contains_key (es_balances (st_exchange sell_state)) ETH"
  by (simp_all add: sell_state_def sell_account_def alice_account default_currencies_eq
      user_currency_info_new_def hm_empty_def)
    (simp add: alice_state_def state_new_def exchange_state_new_def hm_contains_key_def
      hm_collect_def hm_empty_def supported_def token_defs)

lemma sell_decision_facts:
  "ed_user sell_decision = ''Alice''" "ed_id sell_decision = 5" "ed_currency_from sell_decision = BTC"
  "ed_currency_to sell_decision = ETH" "ed_amount_to sell_decision = 7"
  "ed_decision sell_decision = ExConfirm" "eo_currency_to sell_pending = ETH"
  "eo_amount_to sell_pending = 7"
  by (simp_all add: sell_decision_def sell_pending_def)

lemma sell_decision_runs: "fst (with_exchange_decision sell_decision sell_state) = Inr ()"
proof -
  obtain eo' where "decide_exchange sell_decision sell_pending = (Inr True, eo')"
    by (simp add: decide_exchange_def sell_pending_def sell_decision_def eo_has_confirmed_def Let_def)
  then show ?thesis
    by (simp add: with_exchange_decision_def apply_exchange_decision_def Let_def sell_facts
        sell_decision_facts add_incoming_exchange_def)
qed


end
