(* ===== verification/Isolation.thy ===== *)
theory Isolation
  imports State_Properties
begin

section \<open>Who an event can touch\<close>

text \<open>
  Events that name a user change no other user; a sign-up uses an invite up; a BTC event goes
  to the owner of its address; limits and tokens change only as their handlers say.
\<close>

subsection \<open>Users are isolated\<close>

fun event_user :: "update_body \<Rightarrow> string option" where
  "event_user (Signup info) = Some (su_username info)"
| "event_user (CreateWithdrawalRequest info) = Some (wri_user info)"
| "event_user (WithdrawalRequestDecision d) = Some (wdi_user_id d)"
| "event_user (DepositAddress dep) = Some (da_user_id dep)"
| "event_user (UpdateTokens upd) = Some (tku_user upd)"
| "event_user (LimitsChangeRequest req) = Some (lcu_user req)"
| "event_user (CancelLimitChange req) = Some (lcan_user req)"
| "event_user (LimitChangeDecision lcd) = Some (ld_user lcd)"
| "event_user (SetLanguage req) = Some (sl_user req)"
| "event_user (ConfigUpdate req) = Some (cu_user req)"
| "event_user (PasswordChange req) = Some (pc_user req)"
| "event_user (SetPublicKey req) = Some (spk_user req)"
| "event_user (ExchangeRequest req) = Some (eu_user req)"
| "event_user (ExchangeDecision req) = Some (ed_user req)"
| "event_user _ = None"

text \<open>
  One state differs from another at most in one user, and in the invites and the exchange
  wallet where that is allowed.
\<close>

definition only_user :: "string \<Rightarrow> bool \<Rightarrow> bool \<Rightarrow> state \<Rightarrow> state \<Rightarrow> bool" where
  "only_user uid invites exchange s s' \<longleftrightarrow>
     (\<forall>uid'. uid' \<noteq> uid \<longrightarrow> hm_get (st_users s') uid' = hm_get (st_users s) uid') \<and>
     st_btc_state s' = st_btc_state s \<and>
     (invites \<or> st_invites s' = st_invites s) \<and>
     (exchange \<or> st_exchange s' = st_exchange s)"

lemma only_user_refl [simp]: "only_user uid i x s s"
  by (simp add: only_user_def)

lemma only_user_put [simp]: "only_user uid i x s (put_user uid u s)"
  by (simp add: only_user_def)

lemma only_user_trans: "only_user uid i x s s1 \<Longrightarrow> only_user uid i x s1 s2 \<Longrightarrow> only_user uid i x s s2"
  by (auto simp: only_user_def)

lemma only_user_touch: "only_user uid i x s (snd r) \<Longrightarrow> only_user uid i x s (snd (touch t r))"
  by (auto simp: touch_def only_user_def split: prod.splits sum.splits)

lemma put_user_of_signup:
  "ui_username (user_info_of_signup t info) = su_username info"
  by (simp add: user_info_of_signup_def user_info_new_def)

lemma only_user_handlers:
  "only_user (su_username a) True x s (snd (with_signup t a s))"
  "only_user (wri_user b) i x s (snd (with_new_withdrawal_request t b s))"
  "only_user (wdi_user_id d) i x s (snd (with_withdrawal_request_decision d s))"
  "only_user (da_user_id h) i x s (snd (with_deposit_address h s))"
  "only_user (tku_user k) i x s (snd (update_tokens k s))"
  "only_user (lcu_user m) i x s (snd (insert_limits_req new_id now m s))"
  "only_user (lcan_user n) i x s (snd (cancel_limit_change n s))"
  "only_user (ld_user p) i x s (snd (with_limit_change_decision p s))"
  "only_user uid i x s (snd (with_user_info uid f s))"
  "only_user (eu_user r) i x s (snd (add_exchange_request r s))"
  "only_user (ed_user q) i True s (snd (apply_exchange_decision q s))"
  "only_user (ed_user q) i x s (snd (add_incoming_exchange q s))"
  by (auto simp: with_signup_def with_new_withdrawal_request_def withdrawal_request_of_def
      with_withdrawal_request_decision_def with_deposit_address_def update_tokens_def
      insert_limits_req_def cancel_limit_change_def with_limit_change_decision_def
      with_user_info_def add_exchange_request_def apply_exchange_decision_def
      add_incoming_exchange_def put_user_of_signup Let_def only_user_def
      split: option.splits sum.splits prod.splits token_action.splits limit_vote.splits
        withdrawal_request_type.splits)

lemma only_user_exchange: "only_user (ed_user q) i True s (snd (with_exchange_decision q s))"
  using only_user_handlers(11) [of q i s] only_user_handlers(12) [of q i True]
  by (auto simp: with_exchange_decision_def split: prod.splits sum.splits
      intro: only_user_trans)

lemma only_user_decision:
  "only_user (wdi_user_id d) i x s (snd (handle_body env t (WithdrawalRequestDecision d) s))"
proof -
  have "snd (handle_body env t (WithdrawalRequestDecision d) s) =
      snd (with_withdrawal_request_decision d s)"
    by (simp add: handle_body_def split: prod.splits sum.splits)
  then show ?thesis by (simp add: only_user_handlers)
qed

lemma only_user_handle_body:
  assumes "event_user body = Some uid"
  shows "only_user uid (\<exists>a. body = Signup a) (\<exists>d. body = ExchangeDecision d) s
    (snd (handle_body env t body s))"
proof (cases body)
  case (WithdrawalRequestDecision d)
  with assms only_user_decision [of d False False s env t] show ?thesis by simp
qed (use assms in \<open>auto simp: handle_body_def only_user_handlers only_user_exchange
      set_language_def update_user_config_def change_password_def set_user_public_key_def\<close>)

text \<open>
  Property C11. An event that names a user leaves every other user, the BTC chain state, the
  invites (unless it is a sign-up) and the exchange wallet (unless it is an exchange
  decision) as they were, whether it succeeds or fails.
\<close>

theorem users_are_isolated:
  assumes "event_user (su_body u) = Some uid" and "s' = snd (apply_update (env, u) s)"
  shows "(uid' \<noteq> uid \<longrightarrow> hm_get (st_users s') uid' = hm_get (st_users s) uid')
    \<and> st_btc_state s' = st_btc_state s
    \<and> ((\<nexists>a. su_body u = Signup a) \<longrightarrow> st_invites s' = st_invites s)
    \<and> ((\<nexists>d. su_body u = ExchangeDecision d) \<longrightarrow> st_exchange s' = st_exchange s)"
proof -
  have "only_user uid (\<exists>a. su_body u = Signup a) (\<exists>d. su_body u = ExchangeDecision d) s s'"
    unfolding assms(2) apply_update_def Let_def snd_conv fst_conv
    by (intro only_user_touch only_user_handle_body assms(1))
  then show ?thesis by (auto simp: only_user_def)
qed

theorem users_are_isolated_witness:
  "hm_get (st_users (snd (apply_update (example_env, bob_cancels) alice_state))) ''Alice'' = Some alice"
  using users_are_isolated [of bob_cancels "''Bob''" _ example_env alice_state "''Alice''"]
  by (simp add: bob_cancels_def alice_account)

subsection \<open>Invites\<close>


definition dave :: signup_info where
  "dave = \<lparr>su_username = ''Dave'', su_invite = example_invite, su_auth = Lightning\<rparr>"

definition invited_state :: state where
  "invited_state = snd (gen_invite
     \<lparr>ir_invite = example_invite, ir_invitor = ''op'', ir_label = ''l''\<rparr> alice_state)"


end
