(* ===== verification/Spending.thy ===== *)
theory Spending
  imports Isolation
begin

section \<open>Limits, tokens, deposits: what the handlers do\<close>

text \<open>
  The functional behaviour of the handlers that move limits and tokens and route BTC
  deposits, and what the histories make of the spending limits.
\<close>

subsection \<open>An invariant of all accounts\<close>

definition all_accounts :: "(user_currency_info \<Rightarrow> bool) \<Rightarrow> state \<Rightarrow> bool" where
  "all_accounts P s = hm_all (\<lambda>uid u. hm_all (\<lambda>c ci. P ci) (ui_currencies u)) (st_users s)"

definition unspent :: "user_currency_info \<Rightarrow> bool" where
  "unspent ci \<longleftrightarrow> li_spent (uci_limit_info ci) = 0"

lemma all_accountsD:
  "all_accounts P s \<Longrightarrow> hm_get (st_users s) uid = Some u \<Longrightarrow>
     hm_get (ui_currencies u) c = Some ci \<Longrightarrow> P ci"
  unfolding all_accounts_def by (drule (1) hm_all_get) (drule (1) hm_all_get)

lemma all_accounts_put:
  assumes "all_accounts P s" and "hm_get (st_users s) uid = Some u" and "P ci"
  shows "all_accounts P (put_user uid (put_account c ci u) s)"
  using assms hm_all_get [OF assms(1) [unfolded all_accounts_def] assms(2)]
  by (simp add: all_accounts_def put_user_def put_account_def hm_all_insert)

lemma all_accounts_same:
  assumes "all_accounts P s" and "hm_get (st_users s) uid = Some u"
    and "ui_currencies u' = ui_currencies u"
  shows "all_accounts P (put_user uid u' s)"
  using assms hm_all_get [OF assms(1) [unfolded all_accounts_def] assms(2)]
  by (simp add: all_accounts_def put_user_def hm_all_insert)

lemma all_accounts_remove:
  assumes "all_accounts P s" and "hm_get (st_users s) uid = Some u"
    and "ui_currencies u' = hm_remove c (ui_currencies u)"
  shows "all_accounts P (put_user uid u' s)"
  using assms hm_all_get [OF assms(1) [unfolded all_accounts_def] assms(2)]
  by (simp add: all_accounts_def put_user_def hm_all_insert hm_all_remove)

lemma all_accounts_map:
  assumes "all_accounts P s" and "\<And>ci. P ci \<Longrightarrow> P (f ci)"
  shows "all_accounts P (map_accounts f s)"
  using assms by (auto simp: all_accounts_def map_accounts_def elim!: hm_all_mono)

lemma all_accounts_frame [simp]:
  "all_accounts P (s\<lparr>st_exchange := e\<rparr>) = all_accounts P s"
  "all_accounts P (s\<lparr>st_last_changed := t\<rparr>) = all_accounts P s"
  "all_accounts P (s\<lparr>st_btc_state := b\<rparr>) = all_accounts P s"
  "all_accounts P (s\<lparr>st_invites := i\<rparr>) = all_accounts P s"
  by (simp_all add: all_accounts_def)

text \<open>No handler writes anything but zero into the amount spent.\<close>

lemma unspent_new [simp]: "unspent (user_currency_info_new c)"
  by (simp add: unspent_def user_currency_info_new_def limit_info_default_def)

lemma unspent_updates [simp]:
  "unspent (ci\<lparr>uci_withdrawals := w\<rparr>) = unspent ci"
  "unspent (ci\<lparr>uci_deposit_info := d\<rparr>) = unspent ci"
  "unspent (ci\<lparr>uci_exchanges := e\<rparr>) = unspent ci"
  "unspent (ci\<lparr>uci_incoming := i\<rparr>) = unspent ci"
  "unspent (update_btc_tx tx ci) = unspent ci"
  "unspent (user_cancel_btc_tx x ci) = unspent ci"
  "unspent (set_withdrawal_status k st ci) = unspent ci"
  "unspent (ci\<lparr>uci_limit_info := \<lparr>li_limit = l, li_spent = 0\<rparr>\<rparr>)"
  by (auto simp: unspent_def update_btc_tx_def user_cancel_btc_tx_def set_withdrawal_status_def
      split: option.splits)

lemma unspent_clear: "unspent ci \<Longrightarrow> unspent (clear_spent span ci)"
  by (simp add: unspent_def clear_spent_def)

lemma unspent_account:
  assumes "all_accounts unspent s" and "hm_get (st_users s) uid = Some u"
    and "hm_get (ui_currencies u) c = Some ci" and "unspent ci \<Longrightarrow> unspent ci'"
  shows "all_accounts unspent (put_user uid (put_account c ci' u) s)"
  using assms by (intro all_accounts_put) (auto dest: all_accountsD)

lemma unspent_signup: "all_accounts unspent s \<Longrightarrow> all_accounts unspent (snd (with_signup t a s))"
  by (auto simp: with_signup_def Let_def all_accounts_def put_user_def user_info_of_signup_def
      user_info_new_def intro!: hm_all_insert hm_all_collect)

lemma unspent_withdrawals:
  assumes "all_accounts unspent s"
  shows "all_accounts unspent (snd (with_new_withdrawal_request t b s))"
    and "all_accounts unspent (snd (with_deposit_address h s))"
    and "all_accounts unspent (snd (with_withdrawal_request_decision d s))"
proof -
  show "all_accounts unspent (snd (with_new_withdrawal_request t b s))"
    and "all_accounts unspent (snd (with_deposit_address h s))"
    using assms
    by (auto simp: with_new_withdrawal_request_def with_deposit_address_def Let_def
        split: option.splits withdrawal_request_type.splits intro: unspent_account)
  have "all_accounts unspent (put_user (wdi_user_id d) (put_account (wdi_currency d)
      (ci\<lparr>uci_withdrawals := ws\<rparr>) u) s)"
    if "get_withdrawal_request_by_decision_info d s = Inr (u, ci, w)" for u ci w ws
    by (rule unspent_account [OF assms decision_path(1,2) [OF that]]) simp
  with assms show "all_accounts unspent (snd (with_withdrawal_request_decision d s))"
    by (auto simp: with_withdrawal_request_decision_def Let_def split: sum.splits prod.splits)
qed

lemma unspent_maps:
  assumes "all_accounts unspent s"
  shows "all_accounts unspent (snd (set_withdrawal_request_completed f s))"
    and "all_accounts unspent (snd (set_withdrawal_request_node_rejected g s))"
    and "all_accounts unspent (snd (clear_limits q s))"
  using assms
  by (auto simp: set_withdrawal_request_completed_def set_withdrawal_request_node_rejected_def
      clear_limits_def intro!: all_accounts_map intro: unspent_clear)

lemma unspent_btc:
  assumes "all_accounts unspent s"
  shows "all_accounts unspent (snd (with_btc_tx_update i s))"
    and "all_accounts unspent (snd (with_btc_tx_cancel j s))"
proof -
  show "all_accounts unspent (snd (with_btc_tx_update i s))"
    using assms
    by (auto simp: with_btc_tx_update_def Let_def split: option.splits
        intro: unspent_account)
  have "all_accounts unspent (snd (cancel_deposit j s))"
    using assms by (auto simp: cancel_deposit_def split: option.splits intro: unspent_account)
  then have "all_accounts unspent (reject_paid j (snd (cancel_deposit j s)))"
    by (auto simp: reject_paid_def split: option.splits intro!: all_accounts_map)
  with assms show "all_accounts unspent (snd (with_btc_tx_cancel j s))"
    by (auto simp: with_btc_tx_cancel_eq)
qed

lemma unspent_tokens: "all_accounts unspent s \<Longrightarrow> all_accounts unspent (snd (update_tokens k s))"
  by (auto simp: update_tokens_def Let_def split: option.splits token_action.splits
      intro: all_accounts_put all_accounts_remove)

lemma unspent_limits:
  assumes "all_accounts unspent s"
  shows "all_accounts unspent (snd (insert_limits_req new_id now m s))"
    and "all_accounts unspent (snd (cancel_limit_change n s))"
    and "all_accounts unspent (snd (with_limit_change_decision p s))"
proof -
  show "all_accounts unspent (snd (insert_limits_req new_id now m s))"
    and "all_accounts unspent (snd (cancel_limit_change n s))"
    using assms
    by (auto simp: insert_limits_req_def cancel_limit_change_def Let_def split: option.splits
        intro: all_accounts_same)
  have "all_accounts unspent (put_user uid (drop_limit_change c (grant_limit c l u)) s)"
    if "hm_get (st_users s) uid = Some u" for uid c l u
  proof (cases "hm_get (ui_currencies u) c")
    case None
    then show ?thesis
      by (intro all_accounts_same [OF assms that]) (simp add: grant_limit_def drop_limit_change_def)
  next
    case (Some ci)
    let ?ci = "ci\<lparr>uci_limit_info := \<lparr>li_limit = l, li_spent = 0\<rparr>\<rparr>"
    have a: "all_accounts unspent (put_user uid (put_account c ?ci u) s)"
      by (intro all_accounts_put [OF assms that]) simp
    from Some have "all_accounts unspent (put_user uid (drop_limit_change c (grant_limit c l u))
        (put_user uid (put_account c ?ci u) s))"
      by (intro all_accounts_same [OF a]) (simp_all add: grant_limit_def drop_limit_change_def)
    then show ?thesis by simp
  qed
  with assms show "all_accounts unspent (snd (with_limit_change_decision p s))"
    by (auto simp: with_limit_change_decision_def Let_def drop_limit_change_def
        split: option.splits limit_vote.splits intro: all_accounts_same)
qed

lemma unspent_settings:
  assumes "all_accounts unspent s" and "\<And>u. ui_currencies (f u) = ui_currencies u"
  shows "all_accounts unspent (snd (with_user_info uid f s))"
  using assms by (auto simp: with_user_info_def split: option.splits intro: all_accounts_same)

lemma unspent_exchange:
  assumes "all_accounts unspent s"
  shows "all_accounts unspent (snd (add_exchange_request r s))"
    and "all_accounts unspent (snd (apply_exchange_decision x s))"
    and "all_accounts unspent (snd (add_incoming_exchange x s))"
  using assms
  by (auto simp: add_exchange_request_def apply_exchange_decision_def add_incoming_exchange_def
      Let_def split: option.splits sum.splits prod.splits intro: unspent_account)

subsection \<open>Limits never fill up\<close>

definition no_snapshot :: "env \<times> state_update \<Rightarrow> bool" where
  "no_snapshot eu = (case su_body (snd eu) of Snapshot _ \<Rightarrow> False | _ \<Rightarrow> True)"

lemma all_accounts_touch:
  "all_accounts P (snd r) \<Longrightarrow> all_accounts P (snd (touch t r))"
  by (auto simp: touch_def split: prod.splits sum.splits)

lemma unspent_handle_body:
  assumes "all_accounts unspent s" and "case body of Snapshot _ \<Rightarrow> False | _ \<Rightarrow> True"
  shows "all_accounts unspent (snd (handle_body env t body s))"
proof (cases body)
  case (WithdrawalRequestDecision d)
  have "snd (handle_body env t body s) = snd (with_withdrawal_request_decision d s)"
    by (simp add: handle_body_def WithdrawalRequestDecision split: prod.splits sum.splits)
  with unspent_withdrawals(3) [OF assms(1)] show ?thesis by simp
next
  case (ExchangeDecision d)
  have "all_accounts unspent (snd (with_exchange_decision d s))"
    using unspent_exchange(2) [OF assms(1), of d] unspent_exchange(3) [of _ d]
    by (auto simp: with_exchange_decision_def split: prod.splits sum.splits)
  then show ?thesis by (simp add: handle_body_def ExchangeDecision)
next
  case (GenInvite r)
  with assms(1) show ?thesis
    by (auto simp: handle_body_def gen_invite_def Let_def split: option.splits)
qed (use assms in \<open>simp_all add: handle_body_def unspent_signup unspent_withdrawals unspent_maps
    unspent_btc unspent_tokens unspent_limits unspent_exchange unspent_settings set_language_def
    update_user_config_def change_password_def set_user_public_key_def set_exchange_address_def\<close>)

interpretation spending: guarded_steps apply_update "all_accounts unspent" no_snapshot
proof unfold_locales
  fix s :: state and eu :: "env \<times> state_update"
  assume "all_accounts unspent s" and "no_snapshot eu"
  then have "all_accounts unspent
      (snd (handle_body (fst eu) (su_created (snd eu)) (su_body (snd eu)) s))"
    by (intro unspent_handle_body) (simp_all add: no_snapshot_def)
  then show "all_accounts unspent (snd (apply_update eu s))"
    unfolding apply_update_def Let_def by (rule all_accounts_touch)
qed

text \<open>
  Property C26. Whatever happened before - withdrawals, exchanges, limit changes - every
  account has spent nothing of its limit: no event ever adds to the amount spent. A
  withdrawal under the limit is therefore refused only when it alone exceeds the limit, never
  because of earlier ones.
\<close>

theorem limit_is_per_request:
  assumes "collect genesis_hash now n us = Inr s" and "\<forall>eu\<in>set us. no_snapshot eu"
    and "hm_get (st_users s) (wri_user info) = Some u"
    and "hm_get (ui_currencies u) (address_currency (wri_address info)) = Some ci"
    and "wri_request_type info = UnderLimit"
  shows "li_spent (uci_limit_info ci) = 0 \<and>
    (fst (with_new_withdrawal_request t info s) = Inl LimitOverflow
      \<longleftrightarrow> limit_amount (li_limit (uci_limit_info ci)) < wri_amount info)"
proof -
  have "all_accounts unspent (state_new genesis_hash now n)"
    by (simp add: all_accounts_def state_new_def)
  from spending.run_inv [OF assms(1) [unfolded collect_def] this assms(2)]
  have "unspent ci" using assms(3,4) by (rule all_accountsD)
  with assms(3-5) show ?thesis
    by (simp add: unspent_def with_new_withdrawal_request_def Let_def withdrawal_request_of_def)
qed

theorem limit_is_per_request_witness:
  "fst (with_new_withdrawal_request 5
     \<lparr>wri_id = 8, wri_user = ''Alice'', wri_address = AddrBTC \<lparr>addr = ''bc1q''\<rparr>,
      wri_amount = 1, wri_request_type = UnderLimit\<rparr> alice_state) = Inl LimitOverflow"
proof -
  have "\<forall>eu\<in>set example_history. no_snapshot eu"
    by (simp add: example_history_def example_event_def no_snapshot_def)
  from limit_is_per_request [OF example_history_runs this, of
      "\<lparr>wri_id = 8, wri_user = ''Alice'', wri_address = AddrBTC \<lparr>addr = ''bc1q''\<rparr>,
        wri_amount = 1, wri_request_type = UnderLimit\<rparr>" alice "user_currency_info_new BTC" 5]
  show ?thesis
    by (simp add: alice_account alice_btc user_currency_info_new_def limit_info_default_def)
qed

subsection \<open>Tokens\<close>

text \<open>
  A token is switched off exactly when the user has an account for it and its
  balance is zero. Then the account and a pending change of its limit are gone, and every
  other account and pending change is as before.
\<close>

lemma disable_needs_zero_balance:
  assumes "state_wf s" and "hm_get (st_users s) (tku_user upd) = Some u"
    and "tku_action upd = Disable"
  shows "(fst (update_tokens upd s) = Inr () \<longleftrightarrow>
      (\<exists>ci. hm_get (ui_currencies u) (ERC20 (tku_token upd)) = Some ci \<and> balance ci = 0))
    \<and> (fst (update_tokens upd s) = Inr () \<longrightarrow>
      (\<exists>u'. hm_get (st_users (snd (update_tokens upd s))) (tku_user upd) = Some u'
        \<and> (\<forall>c. hm_get (ui_currencies u') c =
              (if c = ERC20 (tku_token upd) then None else hm_get (ui_currencies u) c))
        \<and> (\<forall>c. hm_get (ui_limit_changes u') c =
              (if c = ERC20 (tku_token upd) then None else hm_get (ui_limit_changes u) c))))"
proof -
  from user_of_wf [OF assms(1,2)] have wf: "hm_wf (ui_currencies u)" "hm_wf (ui_limit_changes u)"
    by (simp_all add: user_wf_def)
  show ?thesis
  proof (cases "hm_get (ui_currencies u) (ERC20 (tku_token upd))")
    case None
    with assms(2,3) show ?thesis by (simp add: update_tokens_def Let_def)
  next
    case (Some ci)
    show ?thesis
    proof (cases "0 < balance ci")
      case True
      with assms(2,3) Some show ?thesis by (auto simp: update_tokens_def Let_def)
    next
      case False
      then have "balance ci = 0" by (simp add: word_gt_0)
      with assms(2,3) Some wf show ?thesis by (simp add: update_tokens_def Let_def)
    qed
  qed
qed

lemma disable_needs_zero_balance_example:
  "\<exists>t. usdt_erc20 = ERC20 t \<and>
     fst (update_tokens \<lparr>tku_user = ''Alice'', tku_token = t, tku_action = Disable\<rparr> alice_state) = Inr ()"
proof -
  obtain t where t: "usdt_erc20 = ERC20 t" by (simp add: usdt_erc20_def)
  have "balance (user_currency_info_new c) = 0" for c
    by (simp add: balance_word funds_def tx_total_def user_currency_info_new_def hm_empty_def
        max_zero_i64_def)
  moreover have "hm_get (ui_currencies alice) (ERC20 t) = Some (user_currency_info_new (ERC20 t))"
    by (simp add: alice_account default_currencies_eq t [symmetric])
  ultimately have "fst (update_tokens
      \<lparr>tku_user = ''Alice'', tku_token = t, tku_action = Disable\<rparr> alice_state) = Inr ()"
    using disable_needs_zero_balance [OF alice_state_wf,
        of "\<lparr>tku_user = ''Alice'', tku_token = t, tku_action = Disable\<rparr>" alice]
    by (simp add: alice_account)
  with t show ?thesis by blast
qed

subsection \<open>Limit changes\<close>

lemma grant_limit_account:
  assumes "hm_get (ui_currencies u) c = Some ci"
  shows "hm_get (ui_currencies (drop_limit_change c (grant_limit c l u))) c =
      Some (ci\<lparr>uci_limit_info := \<lparr>li_limit = l, li_spent = 0\<rparr>\<rparr>)"
  using assms by (simp add: grant_limit_def drop_limit_change_def)

text \<open>
  Property C27. A vote changes the limit of an account exactly when it is a confirmation by a
  key that has not confirmed yet and gives the pending request two more confirmations than
  rejections. The account then has the limit the vote names, with nothing spent, and the
  request is gone; any other vote leaves the account's limit as it was.
\<close>

theorem limit_changes_by_quorum:
  assumes "state_wf s" and "hm_get (st_users s) (ld_user lcd) = Some u"
    and "hm_get (ui_currencies u) (ld_currency lcd) = Some ci"
    and "hm_get (ui_limit_changes u) (ld_currency lcd) = Some req"
    and "limit_votes req + 1 < 2 ^ 15"
    and "quorum = (ld_decision_type lcd = LimitConfirm \<and>
      ld_public_key lcd \<notin> set (signers (lc_confirms req)) \<and>
      length (lc_rejects req) + 1 \<le> length (lc_confirms req))"
  shows "\<exists>u' ci'. hm_get (st_users (snd (with_limit_change_decision lcd s))) (ld_user lcd) = Some u'
    \<and> hm_get (ui_currencies u') (ld_currency lcd) = Some ci'
    \<and> uci_limit_info ci' = (if quorum then \<lparr>li_limit = ld_requested_limit lcd, li_spent = 0\<rparr>
                            else uci_limit_info ci)
    \<and> (quorum \<longrightarrow> hm_get (ui_limit_changes u') (ld_currency lcd) = None)"
proof -
  note u = user_of_wf [OF assms(1,2)]
  note r = limit_change_of_wf [OF u assms(4)]
  have wf: "hm_wf (ui_limit_changes u)" using u by (simp add: user_wf_def)
  have g: "decide_limit lcd req = LimitGranted \<longleftrightarrow> quorum"
    unfolding assms(6) using r assms(5) by (intro decide_limit_granted_iff) simp_all
  show ?thesis
  proof (cases quorum)
    case True
    with g have "decide_limit lcd req = LimitGranted" by simp
    with assms(2,4) have "with_limit_change_decision lcd s = (Inr (), put_user (ld_user lcd)
        (drop_limit_change (ld_currency lcd)
          (grant_limit (ld_currency lcd) (ld_requested_limit lcd) u)) s)"
      by (simp add: with_limit_change_decision_def Let_def)
    moreover have "hm_get (ui_limit_changes (drop_limit_change (ld_currency lcd)
        (grant_limit (ld_currency lcd) (ld_requested_limit lcd) u))) (ld_currency lcd) = None"
      using wf by (simp add: drop_limit_change_def grant_limit_def split: option.splits)
    ultimately show ?thesis using True grant_limit_account [OF assms(3)] by simp
  next
    case False
    with g assms(2-4) show ?thesis
      by (cases "decide_limit lcd req")
        (simp_all add: with_limit_change_decision_def drop_limit_change_def Let_def)
  qed
qed

text \<open>Alice asked for a new limit, and one operator has confirmed it.\<close>

definition pending_limit :: limit_change_data where
  "pending_limit = \<lparr>lc_id = 3, lc_user = ''Alice'', lc_created_at = ''now'',
     lc_status = LimitInProgress 1 0, lc_currency = BTC,
     lc_limit = \<lparr>limit_amount = 50, limit_span_of = Week\<rparr>,
     lc_confirms = [\<lparr>sd_signature = Signature ''s'', sd_nonce = 0, sd_public_key = PublicKey ''a''\<rparr>],
     lc_rejects = []\<rparr>"

definition limit_user :: user_info where
  "limit_user = alice\<lparr>ui_limit_changes := [(BTC, pending_limit)]\<rparr>"

definition limit_state :: state where
  "limit_state = put_user ''Alice'' limit_user alice_state"

definition second_vote :: limit_change_decision where
  "second_vote = \<lparr>ld_id = 3, ld_user = ''Alice'', ld_currency = BTC, ld_created_at = ''now'',
     ld_requested_limit = \<lparr>limit_amount = 50, limit_span_of = Week\<rparr>, ld_url = ''u'',
     ld_signature = Signature ''t'', ld_nonce = 1, ld_public_key = PublicKey ''b'',
     ld_decision_type = LimitConfirm\<rparr>"

lemma limit_facts:
  "ui_currencies limit_user = ui_currencies alice"
  "ui_limit_changes limit_user = [(BTC, pending_limit)]"
  "hm_get (st_users limit_state) ''Alice'' = Some limit_user"
  by (simp_all add: limit_user_def limit_state_def)

lemma limit_state_wf: "state_wf limit_state"
  unfolding limit_state_def
proof (rule state_wf_put_user [OF alice_state_wf])
  have "user_wf ''Alice'' alice" by (rule user_of_wf [OF alice_state_wf]) (simp add: alice_account)
  moreover have "ui_limit_changes alice = []"
    by (simp add: alice_def user_info_new_def hm_empty_def)
  ultimately show "user_wf ''Alice'' limit_user"
    using user_wf_put_limit_change [of "''Alice''" alice pending_limit BTC]
    by (simp add: limit_user_def limit_change_wf_def pending_limit_def hm_contains_key_def
        alice_account alice_btc signers_def)
qed

theorem limit_changes_by_quorum_witness:
  "\<exists>u' ci'. hm_get (st_users (snd (with_limit_change_decision second_vote limit_state))) ''Alice'' = Some u'
    \<and> hm_get (ui_currencies u') BTC = Some ci' \<and> limit_amount (li_limit (uci_limit_info ci')) = 50"
proof -
  have f: "ld_user second_vote = ''Alice''" "ld_currency second_vote = BTC"
      "limit_amount (ld_requested_limit second_vote) = 50"
      "ld_decision_type second_vote = LimitConfirm" "ld_public_key second_vote = PublicKey ''b''"
      "length (lc_rejects pending_limit) = 0" "length (lc_confirms pending_limit) = 1"
      "signers (lc_confirms pending_limit) = [PublicKey ''a'']" "limit_votes pending_limit = 1"
    by (simp_all add: second_vote_def pending_limit_def signers_def limit_votes_def)
  from limit_changes_by_quorum [OF limit_state_wf, of second_vote limit_user
      "user_currency_info_new BTC" pending_limit True]
  obtain u' ci' where
    "hm_get (st_users (snd (with_limit_change_decision second_vote limit_state))) ''Alice'' = Some u'"
    and "hm_get (ui_currencies u') BTC = Some ci'"
    and eq: "uci_limit_info ci' = \<lparr>li_limit = ld_requested_limit second_vote, li_spent = 0\<rparr>"
    by (auto simp: f limit_facts alice_account alice_btc)
  moreover have "limit_amount (li_limit (uci_limit_info ci')) = 50"
    unfolding eq limit_info.select_convs by (rule f(3))
  ultimately show ?thesis by blast
qed

subsection \<open>Deposits reach their owner\<close>

lemma find_unique:
  assumes "(k, v) \<in> set xs" and "P v" and "\<forall>(k', v')\<in>set xs. P v' \<longrightarrow> k' = k"
  shows "map_option fst (List.find (\<lambda>(k, v). P v) xs) = Some k"
  using assms
proof (induction xs)
  case Nil
  then show ?case by simp
next
  case (Cons x xs)
  obtain k' v' where x: "x = (k', v')" by (cases x)
  show ?case
  proof (cases "P v'")
    case True
    with Cons.prems(3) x show ?thesis by simp
  next
    case False
    with Cons x show ?thesis by auto
  qed
qed

lemma find_user_address_unique:
  assumes "state_wf s" and "hm_get (st_users s) uid = Some u" and "has_address u a"
    and "\<forall>uid' u'. hm_get (st_users s) uid' = Some u' \<longrightarrow> has_address u' a \<longrightarrow> uid' = uid"
  shows "find_user_address s a = Some uid"
proof -
  have wf: "hm_wf (st_users s)" using assms(1) by (simp add: state_wf_def)
  have "\<forall>(uid', u')\<in>set (st_users s). has_address u' a \<longrightarrow> uid' = uid"
    using assms(4) hm_in_set_get [OF wf] by blast
  then show ?thesis
    unfolding find_user_address_def
    by (rule find_unique [where P = "\<lambda>u. has_address u a", OF hm_get_in_set [OF assms(2)] assms(3)])
qed

text \<open>
  Property C15. A BTC transaction to an address that belongs to one user, and not to the
  exchange wallet, is recorded in that user's BTC account and nowhere else, whatever order
  the users are visited in. The handler never fails.
\<close>

theorem btc_deposit_reaches_owner:
  assumes "state_wf s" and "hm_get (st_users s) uid = Some u"
    and "has_address u (AddrBTC \<lparr>addr = bt_address tx\<rparr>)"
    and "\<forall>uid' u'. hm_get (st_users s) uid' = Some u' \<longrightarrow>
      has_address u' (AddrBTC \<lparr>addr = bt_address tx\<rparr>) \<longrightarrow> uid' = uid"
    and "\<not> is_exchange_address s (AddrBTC \<lparr>addr = bt_address tx\<rparr>)"
  shows "\<exists>ci. hm_get (ui_currencies u) BTC = Some ci \<and> with_btc_tx_update tx s =
    (Inr (), put_user uid (put_account BTC (update_btc_tx tx ci) u) s)"
proof -
  from assms(3) obtain ci where "hm_get (ui_currencies u) BTC = Some ci"
    by (auto simp: has_address_def split: option.splits)
  moreover have "find_user_address s (AddrBTC \<lparr>addr = bt_address tx\<rparr>) = Some uid"
    by (rule find_user_address_unique [OF assms(1-4)])
  ultimately show ?thesis using assms(2,5) by (simp add: with_btc_tx_update_def)
qed

definition address_account :: user_currency_info where
  "address_account = (user_currency_info_new BTC)\<lparr>uci_deposit_info := [AddrBTC \<lparr>addr = ''bc1q''\<rparr>]\<rparr>"

definition address_state :: state where
  "address_state = put_user ''Alice'' (put_account BTC address_account alice) alice_state"

theorem btc_deposit_reaches_owner_witness:
  "\<exists>ci. with_btc_tx_update (example_deposit 1 5) address_state = (Inr (), put_user ''Alice''
     (put_account BTC (update_btc_tx (example_deposit 1 5) ci) (put_account BTC address_account alice))
     address_state)"
proof -
  have wf: "state_wf address_state"
    unfolding address_state_def
    by (rule state_wf_account [OF alice_state_wf, of _ _ _ "user_currency_info_new BTC"])
      (simp_all add: alice_account alice_btc account_wf_def address_account_def
        user_currency_info_new_def)
  have users: "hm_get (st_users address_state) uid =
      (if uid = ''Alice'' then Some (put_account BTC address_account alice) else None)" for uid
    by (simp add: address_state_def alice_account)
  have addr: "has_address (put_account BTC address_account alice)
      (AddrBTC \<lparr>addr = bt_address (example_deposit 1 5)\<rparr>)"
    by (simp add: has_address_def uci_has_address_def address_account_def example_deposit_def)
  have own: "hm_get (st_users address_state) ''Alice'' = Some (put_account BTC address_account alice)"
    and uniq: "\<forall>uid' u'. hm_get (st_users address_state) uid' = Some u' \<longrightarrow>
      has_address u' (AddrBTC \<lparr>addr = bt_address (example_deposit 1 5)\<rparr>) \<longrightarrow> uid' = ''Alice''"
    by (simp_all add: users)
  have "\<not> is_exchange_address address_state (AddrBTC \<lparr>addr = bt_address (example_deposit 1 5)\<rparr>)"
    by (simp add: is_exchange_address_def address_state_def alice_state_def state_new_def
        exchange_state_new_def hm_empty_def)
  from btc_deposit_reaches_owner [OF wf own addr uniq this] show ?thesis by blast
qed

end
