(* ===== verification/Store.thy ===== *)
theory Store
  imports Spending
begin

section \<open>The table of updates and the worker that writes it\<close>

text \<open>
  hexstody-db/src/queries.rs, \<open>UpdateTag::from_tag\<close> of update/mod.rs, and
  \<open>update_worker\<close> of hexstody-db/src/lib.rs. The database is the list of rows of the
  table \<open>updates\<close>, in the order they were inserted. What comes from outside is a
  parameter: serde_json's two directions (\<open>to_value\<close> for the payload of an update,
  \<open>from_value\<close> at the payload type of a tag, the constructor applied), PostgreSQL's
  \<open>order by created desc\<close>, and whether a statement reaches the database. Error
  values carry no message of serde_json or sqlx.
\<close>

subsection \<open>Rows\<close>

record 'json row =
  row_created :: datetime
  row_version :: i16
  row_tag :: string
  row_body :: 'json

datatype update_body_error =
    UnknownTag unknown_update_tag
  | Deserialize u16 update_tag
  | UnexpectedVersion u16

datatype store_error =
    DatabaseError
  | UpdateBodyError update_body_error
  | EncodingError
  | StateInvalid state_update_err

abbreviation CURRENT_BODY_VERSION :: u16 where
  "CURRENT_BODY_VERSION \<equiv> 0"

definition from_tag ::
  "(update_tag \<Rightarrow> 'json \<Rightarrow> update_body option) \<Rightarrow> string \<Rightarrow> u16 \<Rightarrow> 'json
   \<Rightarrow> update_body_error + update_body" where
  "from_tag from_value tag version value =
     (case tag_from_str tag of
        Inl e \<Rightarrow> Inl (UnknownTag e)
      | Inr t \<Rightarrow>
          (if version \<noteq> CURRENT_BODY_VERSION then Inl (UnexpectedVersion version)
           else (case from_value t value of
                   Some body \<Rightarrow> Inr body
                 | None \<Rightarrow> Inl (Deserialize version t))))"

subsection \<open>Reading the history\<close>

text \<open>The loop over the rows, newest first: it stops after a snapshot.\<close>

fun parse_rows ::
  "(update_tag \<Rightarrow> 'json \<Rightarrow> update_body option) \<Rightarrow> 'json row list
   \<Rightarrow> store_error + state_update list" where
  "parse_rows from_value [] = Inr []"
| "parse_rows from_value (r # rs) =
     (case from_tag from_value (row_tag r) (row_version r) (row_body r) of
        Inl e \<Rightarrow> Inl (UpdateBodyError e)
      | Inr body \<Rightarrow>
         (let item = \<lparr>su_created = row_created r, su_body = body\<rparr> in
          if body_tag body = TagSnapshot then Inr [item]
          else (case parse_rows from_value rs of
                  Inl e \<Rightarrow> Inl e
                | Inr items \<Rightarrow> Inr (item # items))))"

definition query_updates ::
  "(update_tag \<Rightarrow> 'json \<Rightarrow> update_body option) \<Rightarrow> ('json row list \<Rightarrow> 'json row list)
   \<Rightarrow> bool \<Rightarrow> 'json row list \<Rightarrow> store_error + state_update list" where
  "query_updates from_value order_desc reachable db =
     (if reachable then parse_rows from_value (order_desc db) else Inl DatabaseError)"

text \<open>
  Replaying calls the same handlers, which ask the machine for ids and times again:
  \<open>env_at i\<close> is what the i-th replayed event gets.
\<close>

definition with_envs :: "(nat \<Rightarrow> env) \<Rightarrow> state_update list \<Rightarrow> (env \<times> state_update) list" where
  "with_envs env_at us = map (\<lambda>(i, u). (env_at i, u)) (enumerate 0 us)"

definition query_state ::
  "(update_tag \<Rightarrow> 'json \<Rightarrow> update_body option) \<Rightarrow> ('json row list \<Rightarrow> 'json row list)
   \<Rightarrow> (nat \<Rightarrow> env) \<Rightarrow> (btc_network \<Rightarrow> string) \<Rightarrow> datetime \<Rightarrow> network \<Rightarrow> bool \<Rightarrow> 'json row list
   \<Rightarrow> store_error + state" where
  "query_state from_value order_desc env_at genesis_hash now n reachable db =
     (case query_updates from_value order_desc reachable db of
        Inl e \<Rightarrow> Inl e
      | Inr updates \<Rightarrow>
         (case collect genesis_hash now n (with_envs env_at (rev updates)) of
            Inl e \<Rightarrow> Inl (StateInvalid e)
          | Inr s \<Rightarrow> Inr s))"

subsection \<open>Writing\<close>

definition insert_update ::
  "(update_body \<Rightarrow> 'json option) \<Rightarrow> bool \<Rightarrow> datetime \<Rightarrow> update_body \<Rightarrow> datetime option
   \<Rightarrow> 'json row list \<Rightarrow> store_error + 'json row list" where
  "insert_update to_value reachable utc_now upd timestamp db =
     (let now = (case timestamp of Some t \<Rightarrow> t | None \<Rightarrow> utc_now);
          tag = tag_to_string (body_tag upd)
      in case to_value upd of
           None \<Rightarrow> Inl EncodingError
         | Some body \<Rightarrow>
             (if reachable
              then Inr (db @ [\<lparr>row_created = now, row_version = CURRENT_BODY_VERSION,
                               row_tag = tag, row_body = body\<rparr>])
              else Inl DatabaseError))"

text \<open>
  One turn of the worker's loop: the update is applied to a copy, stored, and only then does
  the copy become the state. What it sends on and whether it notifies are its output.
\<close>

record 'json worker =
  wk_state :: state
  wk_db :: "'json row list"

definition worker_step ::
  "(update_body \<Rightarrow> 'json option) \<Rightarrow> bool \<Rightarrow> env \<times> state_update \<Rightarrow> 'json worker
   \<Rightarrow> (update_result option \<times> bool) \<times> 'json worker" where
  "worker_step to_value reachable eu w =
     (let i = snd eu in
      case apply_update eu (wk_state w) of
        (Inr res, copy_state) \<Rightarrow>
          (case insert_update to_value reachable (su_created i) (su_body i) (Some (su_created i))
                  (wk_db w) of
             Inr db' \<Rightarrow> ((res, True), \<lparr>wk_state = copy_state, wk_db = db'\<rparr>)
           | Inl _ \<Rightarrow> ((None, False), w))
      | (Inl _, _) \<Rightarrow> ((None, False), w))"

text \<open>A run of the worker; each update comes with whether the database was reachable.\<close>

fun worker_run ::
  "(update_body \<Rightarrow> 'json option) \<Rightarrow> (bool \<times> env \<times> state_update) list \<Rightarrow> 'json worker
   \<Rightarrow> 'json worker" where
  "worker_run to_value [] w = w"
| "worker_run to_value ((reachable, eu) # eus) w =
     worker_run to_value eus (snd (worker_step to_value reachable eu w))"

subsection \<open>One turn is all or nothing\<close>

lemma worker_step_cases:
  obtains (kept) "worker_step to_value reachable (env, u) w = ((None, False), w)"
  | (stored) res s' v where "apply_update (env, u) (wk_state w) = (Inr res, s')"
      and "to_value (su_body u) = Some v" and "reachable"
      and "worker_step to_value reachable (env, u) w = ((res, True),
        \<lparr>wk_state = s', wk_db = wk_db w @ [\<lparr>row_created = su_created u,
           row_version = CURRENT_BODY_VERSION, row_tag = tag_to_string (body_tag (su_body u)),
           row_body = v\<rparr>]\<rparr>)"
proof (cases "apply_update (env, u) (wk_state w)")
  case (Pair r s')
  show thesis
  proof (cases r)
    case (Inl e)
    with Pair show thesis by (intro kept) (simp add: worker_step_def)
  next
    case (Inr res)
    show thesis
    proof (cases "to_value (su_body u)")
      case None
      with Pair Inr show thesis
        by (intro kept) (simp add: worker_step_def insert_update_def Let_def)
    next
      case (Some v)
      show thesis
      proof (cases reachable)
        case True
        with Pair Inr Some show thesis
          by (intro stored [of res s' v]) (simp_all add: worker_step_def insert_update_def Let_def)
      next
        case False
        with Pair Inr Some show thesis
          by (intro kept) (simp add: worker_step_def insert_update_def Let_def)
      qed
    qed
  qed
qed

text \<open>
  Property C28. The worker is atomic: it either leaves the state and the table alone and sends
  nothing, or it has applied the update completely and stored exactly one row for it. It
  keeps the old state exactly when the update is refused, cannot be encoded or cannot be
  stored - also where the handler itself would have left half of its work behind.
\<close>

theorem worker_step_atomic:
  "(let (out, w') = worker_step to_value reachable (env, u) w;
        r = apply_update (env, u) (wk_state w)
    in if (\<exists>a. fst r = Inr a) \<and> to_value (su_body u) \<noteq> None \<and> reachable
       then fst r = Inr (fst out) \<and> snd out \<and> wk_state w' = snd r
         \<and> (\<exists>v. to_value (su_body u) = Some v \<and> wk_db w' = wk_db w @
             [\<lparr>row_created = su_created u, row_version = 0,
               row_tag = tag_to_string (body_tag (su_body u)), row_body = v\<rparr>])
       else out = (None, False) \<and> w' = w)"
proof (cases "apply_update (env, u) (wk_state w)")
  case (Pair r s')
  then show ?thesis
    by (cases r; cases "to_value (su_body u)"; cases reachable)
      (simp_all add: worker_step_def insert_update_def Let_def)
qed

end
