(* ===== verification/Replay.thy ===== *)
theory Replay
  imports Store
begin

section \<open>Reading the history back gives the state\<close>

text \<open>
  The state the worker keeps in memory and the one \<open>query_state\<close> rebuilds from the
  table are the same, up to what the handlers take from the machine when they run: the id
  and the creation time of a limit change request, and the time of the last change.
\<close>

subsection \<open>Forgetting ids and times\<close>

definition erase_change :: "limit_change_data \<Rightarrow> limit_change_data" where
  "erase_change d = d\<lparr>lc_id := 0, lc_created_at := []\<rparr>"

definition erase_user :: "user_info \<Rightarrow> user_info" where
  "erase_user u = u\<lparr>ui_limit_changes := hm_map (\<lambda>c. erase_change) (ui_limit_changes u)\<rparr>"

definition erase :: "state \<Rightarrow> state" where
  "erase s = s\<lparr>st_users := hm_map (\<lambda>uid. erase_user) (st_users s), st_last_changed := 0\<rparr>"

text \<open>A handler that does not look at them: it does the same on the erased state.\<close>

definition blind :: "(state \<Rightarrow> (state, state_update_err, 'a) step_result) \<Rightarrow> bool" where
  "blind h \<longleftrightarrow> (\<forall>s. fst (h (erase s)) = fst (h s) \<and> erase (snd (h (erase s))) = erase (snd (h s)))"

named_theorems erase_simps \<open>erasing commutes with the parts of a handler\<close>

lemma hm_map_insert [erase_simps]:
  "hm_map (\<lambda>k. f) (hm_insert k v m) = hm_insert k (f v) (hm_map (\<lambda>k. f) m)"
  by (induction k v m rule: hm_insert.induct) (auto simp: hm_map_def)

lemma hm_map_remove [erase_simps]:
  "hm_map (\<lambda>k. f) (hm_remove k m) = hm_remove k (hm_map (\<lambda>k. f) m)"
  by (induction k m rule: hm_remove.induct) (auto simp: hm_map_def)

lemma hm_map_twice [erase_simps]: "hm_map f (hm_map g m) = hm_map (\<lambda>k v. f k (g k v)) m"
  by (simp add: hm_map_def split_beta)

lemma hm_map_contains [erase_simps]: "hm_contains_key (hm_map f m) k = hm_contains_key m k"
  by (simp add: hm_contains_key_def)

lemma erase_change_idem [erase_simps]: "erase_change (erase_change d) = erase_change d"
  by (simp add: erase_change_def)

lemma erase_user_idem [erase_simps]: "erase_user (erase_user u) = erase_user u"
  by (simp add: erase_user_def erase_simps)

lemma erase_idem [erase_simps]: "erase (erase s) = erase s"
  by (simp add: erase_def erase_simps)

lemma erase_user_sel [erase_simps]:
  "ui_currencies (erase_user u) = ui_currencies u"
  "ui_username (erase_user u) = ui_username u"
  "ui_config (erase_user u) = ui_config u"
  "ui_limit_changes (erase_user u) = hm_map (\<lambda>c. erase_change) (ui_limit_changes u)"
  by (simp_all add: erase_user_def)

lemma erase_user_upd [erase_simps]:
  "erase_user (u\<lparr>ui_currencies := cs\<rparr>) = (erase_user u)\<lparr>ui_currencies := cs\<rparr>"
  "erase_user (u\<lparr>ui_config := g\<rparr>) = (erase_user u)\<lparr>ui_config := g\<rparr>"
  "erase_user (u\<lparr>ui_auth := a\<rparr>) = (erase_user u)\<lparr>ui_auth := a\<rparr>"
  "erase_user (u\<lparr>ui_public_key := k\<rparr>) = (erase_user u)\<lparr>ui_public_key := k\<rparr>"
  "erase_user (u\<lparr>ui_limit_changes := m\<rparr>) = u\<lparr>ui_limit_changes := hm_map (\<lambda>c. erase_change) m\<rparr>"
  "erase_user (put_account c ci u) = put_account c ci (erase_user u)"
  "(erase_user u)\<lparr>ui_limit_changes := m\<rparr> = u\<lparr>ui_limit_changes := m\<rparr>"
  "(erase_user u)\<lparr>ui_currencies := cs, ui_limit_changes := m\<rparr> =
     u\<lparr>ui_currencies := cs, ui_limit_changes := m\<rparr>"
  by (simp_all add: erase_user_def put_account_def)

lemma erase_sel [erase_simps]:
  "st_users (erase s) = hm_map (\<lambda>uid. erase_user) (st_users s)"
  "st_invites (erase s) = st_invites s"
  "st_exchange (erase s) = st_exchange s"
  "st_btc_state (erase s) = st_btc_state s"
  by (simp_all add: erase_def)

lemma erase_put [erase_simps]:
  "erase (put_user uid u (erase s)) = erase (put_user uid u s)"
  "erase (put_user uid (erase_user u) s) = erase (put_user uid u s)"
  by (simp_all add: erase_def put_user_def erase_simps)

lemma erase_upd [erase_simps]:
  "erase ((erase s)\<lparr>st_exchange := e\<rparr>) = erase (s\<lparr>st_exchange := e\<rparr>)"
  "erase ((erase s)\<lparr>st_invites := i\<rparr>) = erase (s\<lparr>st_invites := i\<rparr>)"
  "erase ((erase s)\<lparr>st_btc_state := b\<rparr>) = erase (s\<lparr>st_btc_state := b\<rparr>)"
  "erase (s\<lparr>st_last_changed := t\<rparr>) = erase s"
  by (simp_all add: erase_def erase_simps)

lemma erase_eq_iff:
  "erase s = erase s' \<longleftrightarrow> hm_map (\<lambda>uid. erase_user) (st_users s) = hm_map (\<lambda>uid. erase_user) (st_users s')
    \<and> st_btc_state s = st_btc_state s' \<and> st_invites s = st_invites s' \<and> st_exchange s = st_exchange s'"
  by (cases s; cases s') (auto simp: erase_def)

subsection \<open>The handlers are blind to them\<close>

lemma blindI:
  "(\<And>s. fst (h (erase s)) = fst (h s)) \<Longrightarrow> (\<And>s. erase (snd (h (erase s))) = erase (snd (h s))) \<Longrightarrow> blind h"
  by (simp add: blind_def)

lemma blind_signup: "blind (with_signup t a)"
  by (rule blindI)
    (auto simp: with_signup_def Let_def erase_simps erase_eq_iff put_user_def)

lemma blind_new_withdrawal: "blind (with_new_withdrawal_request t b)"
  by (rule blindI)
    (auto simp: with_new_withdrawal_request_def Let_def erase_simps erase_eq_iff put_user_def
      split: option.splits withdrawal_request_type.splits)

lemma blind_deposit_address: "blind (with_deposit_address h)"
  by (rule blindI)
    (auto simp: with_deposit_address_def Let_def erase_simps erase_eq_iff put_user_def
      split: option.splits)

lemma blind_tokens: "blind (update_tokens k)"
  by (rule blindI)
    (auto simp: update_tokens_def Let_def erase_simps erase_eq_iff put_user_def
      split: option.splits token_action.splits)

lemma blind_gen_invite: "blind (gen_invite l)"
  by (rule blindI) (auto simp: gen_invite_def Let_def erase_simps split: option.splits)

lemma blind_cancel_limit: "blind (cancel_limit_change n)"
  by (rule blindI)
    (auto simp: cancel_limit_change_def Let_def erase_simps erase_eq_iff put_user_def
      split: option.splits)

lemma blind_user_info:
  "(\<And>u. erase_user (f (erase_user u)) = erase_user (f u)) \<Longrightarrow> blind (with_user_info uid f)"
  by (rule blindI)
    (auto simp: with_user_info_def erase_simps erase_eq_iff put_user_def split: option.splits)

lemma blind_settings:
  "blind (set_language a)" "blind (update_user_config b)" "blind (change_password p)"
  "blind (set_user_public_key k)"
  unfolding set_language_def update_user_config_def change_password_def set_user_public_key_def
  by (rule blind_user_info; simp add: erase_simps)+

lemma get_decision_info_erase:
  "get_withdrawal_request_by_decision_info d (erase s) =
    (case get_withdrawal_request_by_decision_info d s of
       Inl e \<Rightarrow> Inl e | Inr (u, ci, w) \<Rightarrow> Inr (erase_user u, ci, w))"
  by (auto simp: get_withdrawal_request_by_decision_info_def erase_simps split: option.splits)

lemma blind_decision: "blind (with_withdrawal_request_decision d)"
  by (rule blindI)
    (auto simp: with_withdrawal_request_decision_def get_decision_info_erase Let_def erase_simps
      erase_eq_iff put_user_def split: sum.splits prod.splits)

lemma erase_map_accounts [erase_simps]: "erase (map_accounts f (erase s)) = erase (map_accounts f s)"
  by (simp add: erase_eq_iff map_accounts_def erase_simps)

lemma blind_maps:
  "blind (set_withdrawal_request_completed f)" "blind (set_withdrawal_request_node_rejected g)"
  "blind (clear_limits q)"
  by (simp_all add: blind_def set_withdrawal_request_completed_def
      set_withdrawal_request_node_rejected_def clear_limits_def erase_simps)

lemma has_address_erase [erase_simps]: "has_address (erase_user u) a = has_address u a"
  by (simp add: has_address_def erase_simps)

lemma find_user_address_erase [erase_simps]: "find_user_address (erase s) a = find_user_address s a"
proof -
  have "map_option fst (List.find (\<lambda>(uid, u). has_address u a) (hm_map (\<lambda>uid. erase_user) m)) =
      map_option fst (List.find (\<lambda>(uid, u). has_address u a) m)" for m
    by (induction m) (auto simp: hm_map_def erase_simps)
  then show ?thesis by (simp add: find_user_address_def erase_simps)
qed

lemma find_completed_erase [erase_simps]:
  "find_completed_request (erase_user u) x = find_completed_request u x"
  by (simp add: find_completed_request_def erase_simps)

lemma find_withdrawal_erase [erase_simps]:
  "find_withdrawal_by_tx_id (erase s) x = find_withdrawal_by_tx_id s x"
proof -
  have "find_map (\<lambda>(uid, u). find_completed_request u x) (hm_map (\<lambda>uid. erase_user) m) =
      find_map (\<lambda>(uid, u). find_completed_request u x) m" for m
    by (induction m) (auto simp: hm_map_def erase_simps split: option.splits)
  then show ?thesis by (simp add: find_withdrawal_by_tx_id_def erase_simps)
qed

lemma is_exchange_address_erase [erase_simps]:
  "is_exchange_address (erase s) a = is_exchange_address s a"
  by (simp add: is_exchange_address_def erase_simps)

lemma blind_btc_update: "blind (with_btc_tx_update i)"
  by (rule blindI)
    (auto simp: with_btc_tx_update_def Let_def erase_simps erase_eq_iff put_user_def
      split: option.splits)

lemma blind_cancel_deposit: "blind (cancel_deposit j)"
  by (rule blindI)
    (auto simp: cancel_deposit_def erase_simps erase_eq_iff put_user_def split: option.splits)

lemma find_withdrawal_cong:
  "erase s = erase s' \<Longrightarrow> find_withdrawal_by_tx_id s x = find_withdrawal_by_tx_id s' x"
  by (metis find_withdrawal_erase)

lemma map_accounts_cong: "erase s = erase s' \<Longrightarrow> erase (map_accounts f s) = erase (map_accounts f s')"
  by (metis erase_map_accounts)

lemma blind_btc_cancel: "blind (with_btc_tx_cancel j)"
proof (rule blindI)
  show "fst (with_btc_tx_cancel j (erase s)) = fst (with_btc_tx_cancel j s)" for s
    by (simp add: with_btc_tx_cancel_eq)
next
  fix s
  have *: "erase (snd (cancel_deposit j (erase s))) = erase (snd (cancel_deposit j s))"
    using blind_cancel_deposit [of j] by (simp add: blind_def)
  have "erase (reject_paid j (snd (cancel_deposit j (erase s)))) =
      erase (reject_paid j (snd (cancel_deposit j s)))"
    using find_withdrawal_cong [OF *] map_accounts_cong [OF *] *
    by (simp add: reject_paid_def split: option.splits)
  then show "erase (snd (with_btc_tx_cancel j (erase s))) = erase (snd (with_btc_tx_cancel j s))"
    by (simp add: with_btc_tx_cancel_eq erase_simps)
qed

lemma blind_exchange:
  "blind (add_exchange_request r)" "blind (apply_exchange_decision x)" "blind (add_incoming_exchange x)"
  "blind (set_exchange_address y)"
  by (rule blindI;
      auto simp: add_exchange_request_def apply_exchange_decision_def add_incoming_exchange_def
        set_exchange_address_def Let_def erase_simps erase_eq_iff put_user_def
        split: option.splits sum.splits prod.splits)+

fun erase_vote :: "limit_vote \<Rightarrow> limit_vote" where
  "erase_vote (LimitStays d) = LimitStays (erase_change d)"
| "erase_vote v = v"

lemma decide_limit_erase: "decide_limit lcd (erase_change req) = erase_vote (decide_limit lcd req)"
  by (cases "lc_status req"; cases "ld_decision_type lcd")
    (simp_all add: decide_limit_def erase_change_def Let_def lc_has_confirmed_def lc_has_rejected_def)

lemma grant_limit_erase [erase_simps]: "grant_limit c l (erase_user u) = erase_user (grant_limit c l u)"
  by (simp add: grant_limit_def erase_simps split: option.splits)

lemma drop_limit_change_erase [erase_simps]:
  "drop_limit_change c (erase_user u) = erase_user (drop_limit_change c u)"
  by (simp add: drop_limit_change_def erase_user_def hm_map_remove)

lemma blind_limit_decision: "blind (with_limit_change_decision lcd)"
proof -
  have "fst (with_limit_change_decision lcd (erase s)) = fst (with_limit_change_decision lcd s) \<and>
      erase (snd (with_limit_change_decision lcd (erase s))) =
      erase (snd (with_limit_change_decision lcd s))" for s
  proof (cases "hm_get (st_users s) (ld_user lcd)")
    case None
    then show ?thesis by (simp add: with_limit_change_decision_def Let_def erase_simps)
  next
    case (Some u)
    show ?thesis
    proof (cases "hm_get (ui_limit_changes u) (ld_currency lcd)")
      case None
      with Some show ?thesis by (simp add: with_limit_change_decision_def Let_def erase_simps)
    next
      case req: (Some req)
      from Some req show ?thesis
        by (cases "decide_limit lcd req")
          (simp_all add: with_limit_change_decision_def Let_def erase_simps decide_limit_erase
            erase_eq_iff put_user_def)
    qed
  qed
  then show ?thesis by (simp add: blind_def)
qed

lemma blind_sim:
  assumes "blind h" and "erase s = erase s'"
  shows "fst (h s) = fst (h s') \<and> erase (snd (h s)) = erase (snd (h s'))"
  using assms unfolding blind_def by metis

text \<open>The one handler that takes something from the machine puts it where it is forgotten.\<close>

lemma insert_limits_sim:
  assumes "erase s = erase s'"
  shows "fst (insert_limits_req i now r s) = fst (insert_limits_req i' now' r s')
    \<and> erase (snd (insert_limits_req i now r s)) = erase (snd (insert_limits_req i' now' r s'))"
proof -
  have "blind (insert_limits_req i now r)"
    by (rule blindI)
      (auto simp: insert_limits_req_def Let_def erase_simps erase_eq_iff put_user_def
        split: option.splits)
  note a = blind_sim [OF this assms]
  have "fst (insert_limits_req i now r s') = fst (insert_limits_req i' now' r s')
      \<and> erase (snd (insert_limits_req i now r s')) = erase (snd (insert_limits_req i' now' r s'))"
    by (auto simp: insert_limits_req_def Let_def erase_simps erase_eq_iff put_user_def
        erase_change_def split: option.splits)
  with a show ?thesis by simp
qed

lemma blind_quiet: "blind h \<Longrightarrow> blind (\<lambda>s. quiet (h s))"
proof -
  have "fst (quiet r) = (case fst r of Inl e \<Rightarrow> Inl e | Inr _ \<Rightarrow> Inr None)" for r
    by (simp add: quiet_def split: prod.splits sum.splits)
  then show "blind h \<Longrightarrow> blind (\<lambda>s. quiet (h s))" by (simp add: blind_def)
qed

lemma blind_exchange_decision: "blind (with_exchange_decision d)"
proof -
  have "fst (with_exchange_decision d (erase s)) = fst (with_exchange_decision d s)
      \<and> erase (snd (with_exchange_decision d (erase s))) = erase (snd (with_exchange_decision d s))"
    for s
  proof -
    have f: "fst (apply_exchange_decision d (erase s)) = fst (apply_exchange_decision d s)"
      and t: "erase (snd (apply_exchange_decision d (erase s)))
        = erase (snd (apply_exchange_decision d s))"
      using blind_exchange(2) [of d] by (simp_all add: blind_def)
    from blind_sim [OF blind_exchange(3) [of d] t] f t show ?thesis
      by (cases "apply_exchange_decision d (erase s)"; cases "apply_exchange_decision d s")
        (auto simp: with_exchange_decision_def split: sum.splits)
  qed
  then show ?thesis by (simp add: blind_def)
qed

lemmas blind_handlers = blind_signup blind_new_withdrawal blind_deposit_address blind_tokens
  blind_gen_invite blind_cancel_limit blind_settings blind_decision blind_maps blind_btc_update
  blind_btc_cancel blind_exchange blind_limit_decision blind_exchange_decision

lemma quiet_sim:
  "fst r1 = fst r2 \<and> erase (snd r1) = erase (snd r2)
    \<Longrightarrow> fst (quiet r1) = fst (quiet r2) \<and> erase (snd (quiet r1)) = erase (snd (quiet r2))"
  by (cases r1; cases r2) (simp add: quiet_def split: sum.splits)

lemma blind_quietI: "blind h \<Longrightarrow> (\<And>s. g s = quiet (h s)) \<Longrightarrow> blind g"
  using blind_quiet [of h] by (simp add: blind_def)

lemma blind_mapI: "blind h \<Longrightarrow> (\<And>s. fst (g s) = f (fst (h s))) \<Longrightarrow> (\<And>s. snd (g s) = snd (h s)) \<Longrightarrow> blind g"
  by (simp add: blind_def)

lemma handle_body_blind: "blind (handle_body env t b)" if "\<And>r. b \<noteq> LimitsChangeRequest r"
proof (cases b)
  case (WithdrawalRequestDecision d)
  show ?thesis
    by (rule blind_mapI [OF blind_decision [of d],
          where f = "\<lambda>x. case x of Inl e \<Rightarrow> Inl e | Inr r \<Rightarrow> Inr (map_option WithdrawConfirmed r)"])
      (simp_all add: handle_body_def WithdrawalRequestDecision split: prod.splits sum.splits)
next
  case (CreateWithdrawalRequest w)
  then have "handle_body env t b = with_new_withdrawal_request t w"
    by (intro ext) (simp add: handle_body_def)
  then show ?thesis by (simp add: blind_new_withdrawal)
next
  case (BestBtcBlock x)
  show ?thesis by (rule blindI) (simp_all add: handle_body_def BestBtcBlock erase_simps)
next
  case (Snapshot x)
  show ?thesis by (rule blindI) (simp_all add: handle_body_def Snapshot)
next
  case (LimitsChangeRequest r)
  with that show ?thesis by blast
qed (rule blind_quietI, rule blind_handlers, simp add: handle_body_def; fail)+

lemma handle_body_sim:
  assumes s: "erase s = erase s'"
  shows "fst (handle_body env t b s) = fst (handle_body env' t b s')
    \<and> erase (snd (handle_body env t b s)) = erase (snd (handle_body env' t b s'))"
proof (cases "\<exists>r. b = LimitsChangeRequest r")
  case True
  then obtain r where b: "b = LimitsChangeRequest r" by blast
  note sim = insert_limits_sim [OF s, where i = "fst env" and now = "snd env" and r = r
      and i' = "fst env'" and now' = "snd env'"]
  have hb: "handle_body e t b x = quiet (insert_limits_req (fst e) (snd e) r x)" for e x
    by (simp add: handle_body_def b)
  show ?thesis unfolding hb by (rule quiet_sim [OF sim])
next
  case False
  then have other: "\<And>r. b \<noteq> LimitsChangeRequest r" by blast
  from False have "handle_body env t b s' = handle_body env' t b s'"
    by (cases b) (simp_all add: handle_body_def)
  with blind_sim [OF handle_body_blind [OF other] s, of env t] show ?thesis by simp
qed

lemma apply_update_sim:
  assumes s: "erase s = erase s'"
  shows "fst (apply_update (env, u) s) = fst (apply_update (env', u) s')
    \<and> erase (snd (apply_update (env, u) s)) = erase (snd (apply_update (env', u) s'))"
proof -
  have "fst (touch t r) = fst r" "erase (snd (touch t r)) = erase (snd r)"
    for t and r :: "(state, state_update_err, update_result option) step_result"
    by (simp_all add: touch_def erase_simps split: prod.splits sum.splits)
  then show ?thesis
    using handle_body_sim [OF s, of env "su_created u" "su_body u" env']
    by (simp add: apply_update_def)
qed

lemma run_sim:
  assumes "erase s = erase s'" and "map snd eus = map snd eus'"
    and "run_all apply_update eus s = Inr t"
  shows "\<exists>t'. run_all apply_update eus' s' = Inr t' \<and> erase t = erase t'"
  using assms
proof (induction eus arbitrary: s s' eus')
  case Nil
  then show ?case by simp
next
  case (Cons eu eus)
  obtain env u where eu: "eu = (env, u)" by (cases eu)
  with Cons.prems(2) obtain env' rest where eus': "eus' = (env', u) # rest"
    and rest: "map snd eus = map snd rest" by (cases eus') auto
  from Cons.prems(3) eu obtain r s1 where s1: "apply_update (env, u) s = (Inr r, s1)"
    and run: "run_all apply_update eus s1 = Inr t"
    by (auto split: prod.splits sum.splits)
  from apply_update_sim [OF Cons.prems(1), of env u env'] s1
  obtain s1' where "apply_update (env', u) s' = (Inr r, s1')" and "erase s1 = erase s1'"
    by (cases "apply_update (env', u) s'") simp
  with Cons.IH [OF _ rest run] eus' show ?case by simp
qed

end
