(* ===== verification/Rebuild.thy ===== *)
theory Rebuild
  imports Replay "HOL-Library.Sublist"
begin

section \<open>The table rebuilds the state\<close>

text \<open>
  The worker of \<open>Store\<close> against \<open>query_state\<close>: what is in the table after
  a run is the history of the state, and reading it back from its newest snapshot on ends in
  the same state up to \<open>erase\<close>.
\<close>

subsection \<open>The run and its history\<close>

text \<open>The row that stores an update.\<close>

definition stores ::
  "(update_body \<Rightarrow> 'json option) \<Rightarrow> env \<times> state_update \<Rightarrow> 'json row \<Rightarrow> bool" where
  "stores to_value eu r \<longleftrightarrow> row_created r = su_created (snd eu)
     \<and> row_version r = CURRENT_BODY_VERSION
     \<and> row_tag r = tag_to_string (body_tag (su_body (snd eu)))
     \<and> to_value (su_body (snd eu)) = Some (row_body r)"

lemma worker_run_history:
  obtains kept rows where "wk_db (worker_run to_value events w) = wk_db w @ rows"
    and "subseq kept (map snd events)" and "list_all2 (stores to_value) kept rows"
    and "run_all apply_update kept (wk_state w) = Inr (wk_state (worker_run to_value events w))"
proof -
  have "\<exists>kept rows. wk_db (worker_run to_value events w) = wk_db w @ rows
    \<and> subseq kept (map snd events) \<and> list_all2 (stores to_value) kept rows
    \<and> run_all apply_update kept (wk_state w) = Inr (wk_state (worker_run to_value events w))"
  proof (induction events arbitrary: w)
    case Nil
    show ?case by (intro exI [of _ "[]"]) simp
  next
    case (Cons e events)
    obtain reachable env u where e: "e = (reachable, env, u)" by (cases e)
    show ?case
    proof (cases rule: worker_step_cases [of to_value reachable env u w])
      case kept
      with Cons.IH [of w] e show ?thesis by (auto intro: subseq_Cons')
    next
      case (stored res s' v)
      let ?r = "\<lparr>row_created = su_created u, row_version = CURRENT_BODY_VERSION,
        row_tag = tag_to_string (body_tag (su_body u)), row_body = v\<rparr>"
      obtain kept rows where h: "wk_db (worker_run to_value events (snd (worker_step to_value reachable (env, u) w)))
          = wk_db (snd (worker_step to_value reachable (env, u) w)) @ rows"
        "subseq kept (map snd events)" "list_all2 (stores to_value) kept rows"
        "run_all apply_update kept (wk_state (snd (worker_step to_value reachable (env, u) w)))
          = Inr (wk_state (worker_run to_value events (snd (worker_step to_value reachable (env, u) w))))"
        using Cons.IH by blast
      have "stores to_value (env, u) ?r" using stored(2) by (simp add: stores_def)
      with h stored e show ?thesis
        by (intro exI [of _ "(env, u) # kept"] exI [of _ "?r # rows"]) simp
    qed
  qed
  with that show thesis by blast
qed

subsection \<open>Reading the rows\<close>

lemma from_tag_stores:
  assumes "stores to_value eu r"
    and "\<And>b v. to_value b = Some v \<Longrightarrow> from_value (body_tag b) v = Some b"
  shows "from_tag from_value (row_tag r) (row_version r) (row_body r) = Inr (su_body (snd eu))"
  using assms by (simp add: stores_def from_tag_def tag_to_string_inverse)

fun until_snapshot :: "state_update list \<Rightarrow> state_update list" where
  "until_snapshot [] = []"
| "until_snapshot (u # us) =
     (if body_tag (su_body u) = TagSnapshot then [u] else u # until_snapshot us)"

lemma parse_rows_stored:
  assumes "list_all2 (stores to_value) eus rows"
    and "\<And>b v. to_value b = Some v \<Longrightarrow> from_value (body_tag b) v = Some b"
  shows "parse_rows from_value rows = Inr (until_snapshot (map snd eus))"
  using assms(1)
proof (induction eus rows rule: list_all2_induct)
  case Nil
  show ?case by simp
next
  case (Cons eu eus r rows)
  from Cons.hyps(1) have "row_created r = su_created (snd eu)" by (simp add: stores_def)
  with Cons.IH from_tag_stores [OF Cons.hyps(1) assms(2)] show ?case by (simp add: Let_def)
qed

text \<open>A snapshot forgets what came before it.\<close>

lemma until_snapshot_split:
  obtains (all) "until_snapshot us = us"
  | (cut) a u b x where "us = a @ u # b" and "su_body u = Snapshot x"
      and "until_snapshot us = a @ [u]"
proof -
  have "until_snapshot us = us \<or> (\<exists>a u b x. us = a @ u # b \<and> su_body u = Snapshot x
    \<and> until_snapshot us = a @ [u])"
  proof (induction us)
    case (Cons u us)
    show ?case
    proof (cases "body_tag (su_body u) = TagSnapshot")
      case True
      then obtain x where "su_body u = Snapshot x" by (cases "su_body u") auto
      with True show ?thesis by fastforce
    next
      case False
      with Cons show ?thesis by (auto simp: Cons_eq_append_conv)
    qed
  qed simp
  with that show thesis by blast
qed

lemma snapshot_forgets:
  assumes "su_body (snd eu) = Snapshot x"
  shows "run_all apply_update (eu # eus) s = run_all apply_update (eu # eus) s'"
  using assms by (simp add: apply_update_def handle_body_def touch_def)

lemma run_until_snapshot:
  assumes run: "run_all apply_update eus s = Inr t"
  shows "\<exists>eus'. map snd eus' = rev (until_snapshot (rev (map snd eus)))
    \<and> run_all apply_update eus' s = Inr t"
proof (cases rule: until_snapshot_split [of "rev (map snd eus)"])
  case all
  with run show ?thesis by (intro exI [of _ eus]) simp
next
  case (cut a u b x)
  from cut(1) have "map snd eus = rev b @ u # rev a" by (simp add: rev_swap)
  then obtain before eu after where eus: "eus = before @ eu # after" and "snd eu = u"
    and "map snd after = rev a"
    by (auto simp: map_eq_append_conv)
  from run eus obtain s1 where "run_all apply_update (eu # after) s1 = Inr t"
    by (simp only: run_all_append) (auto split: sum.splits)
  with snapshot_forgets [of eu x after s1 s] cut(2) \<open>snd eu = u\<close>
  have "run_all apply_update (eu # after) s = Inr t" by simp
  with cut(3) \<open>snd eu = u\<close> \<open>map snd after = rev a\<close> show ?thesis
    by (intro exI [of _ "eu # after"]) simp
qed

lemma with_envs_updates: "map snd (with_envs env_at us) = us"
  by (simp add: with_envs_def comp_def case_prod_unfold)

subsection \<open>The order of the rows\<close>

lemma newest_first:
  assumes "mset rows' = mset rows"
    and "sorted_wrt (\<lambda>a b. row_created b \<le> row_created a) rows'"
    and "sorted_wrt (<) (map row_created rows)"
  shows "rows' = rev rows"
proof -
  have inj: "inj_on row_created (set rows)"
    using assms(3) by (simp add: strict_sorted_iff distinct_map)
  have "set rows' = set rows" using assms(1) by (rule mset_eq_setD)
  have "sorted (map row_created (rev rows'))"
    using assms(2) by (simp add: sorted_wrt_map sorted_wrt_rev)
  moreover have "sorted (map row_created rows)"
    using assms(3) by (simp add: strict_sorted_iff)
  moreover have "mset (map row_created (rev rows')) = mset (map row_created rows)"
    using assms(1) by (simp add: mset_map)
  ultimately have "map row_created (rev rows') = map row_created rows"
    by (metis properties_for_sort)
  moreover have "inj_on row_created (set (rev rows') \<union> set rows)"
    using inj \<open>set rows' = set rows\<close> by simp
  ultimately have "rev rows' = rows" by (rule map_inj_on)
  then show ?thesis by (simp add: rev_swap)
qed

lemma sorted_wrt_subseq: "subseq xs ys \<Longrightarrow> sorted_wrt R ys \<Longrightarrow> sorted_wrt R xs"
proof (induction rule: list_emb.induct)
  case (list_emb_Cons2 x y xs ys)
  then have "set xs \<subseteq> set ys" by (auto elim: list_emb_set)
  with list_emb_Cons2 show ?case by auto
qed simp_all

lemma stored_times:
  assumes "subseq kept (map snd events)" and "list_all2 (stores to_value) kept rows"
    and "sorted_wrt (<) (map (\<lambda>(reachable, env, u). su_created u) events)"
  shows "sorted_wrt (<) (map row_created rows)"
proof -
  have "map row_created rows = map (\<lambda>eu. su_created (snd eu)) kept"
    using assms(2) by (induction rule: list_all2_induct) (simp_all add: stores_def)
  moreover have "subseq (map (\<lambda>eu. su_created (snd eu)) kept)
      (map (\<lambda>(reachable, env, u). su_created u) events)"
    using subseq_map [OF assms(1), of "\<lambda>eu. su_created (snd eu)"]
    by (simp add: comp_def case_prod_unfold)
  ultimately show ?thesis using sorted_wrt_subseq [OF _ assms(3)] by simp
qed

subsection \<open>The state comes back\<close>

text \<open>The time of the last change is that of the newest update.\<close>

lemma run_last_changed:
  assumes "run_all apply_update eus s = Inr t" and "eus \<noteq> []"
  shows "st_last_changed t = su_created (snd (last eus))"
proof -
  from assms obtain eus' env u where eus: "eus = eus' @ [(env, u)]" by (cases eus rule: rev_cases) auto
  with assms(1) show ?thesis
    by (auto simp: run_all_snoc apply_update_def touch_def split: sum.splits prod.splits)
qed

lemma nonempty_map: "map f xs = ys \<Longrightarrow> ys \<noteq> [] \<Longrightarrow> xs \<noteq> []"
  by auto

lemma until_snapshot_nonempty: "us \<noteq> [] \<Longrightarrow> until_snapshot us \<noteq> []"
  by (cases us) auto


text \<open>
  At a run of four updates, one of which is refused and one of which does not reach the
  database; the payload is its own encoding and the rows are sorted by time.
\<close>

definition newest_rows :: "'json row list \<Rightarrow> 'json row list" where
  "newest_rows db = rev (sort_key row_created db)"

definition example_run :: "(bool \<times> env \<times> state_update) list" where
  "example_run =
     [(True, example_env, \<lparr>su_created = 1, su_body = GenInvite
         \<lparr>ir_invite = example_invite, ir_invitor = ''op'', ir_label = ''l''\<rparr>\<rparr>),
      (True, example_env, \<lparr>su_created = 2, su_body = SetLanguage
         \<lparr>sl_user = ''Bob'', sl_language = Russian\<rparr>\<rparr>),
      (False, example_env, \<lparr>su_created = 3, su_body = ClearLimits Day\<rparr>),
      (True, example_env, \<lparr>su_created = 4, su_body = Signup
         \<lparr>su_username = ''Alice'', su_invite = example_invite, su_auth = Lightning\<rparr>\<rparr>)]"



end
