(* ===== verification/Sig.thy ===== *)
theory Sig
  imports Api_Types
begin

section \<open>Signed requests\<close>

text \<open>
  hexstody-sig/src/lib.rs, and the header \<open>Signature-Data\<close> that carries a signature
  (\<open>impl FromRequest for SignatureData\<close> in hexstody-api/src/types.rs). ECDSA verification
  and the decoders of base64 and DER are parameters.
\<close>

type_synonym verifier = "public_key \<Rightarrow> string \<Rightarrow> signature \<Rightarrow> bool"

record signature_verification_config =
  svc_domain :: string
  svc_operator_public_keys :: "public_key list"

datatype signature_error = SigInvalidPublicKey | SigInvalidSignature | SigInvalidDomain

record signature_verification_data =
  svd_url :: string
  svd_signature :: signature
  svd_nonce :: u64
  svd_public_key :: public_key
  svd_message :: "string option"

subsection \<open>What is signed\<close>

definition svd_text :: "signature_verification_data \<Rightarrow> string" where
  "svd_text d =
     (let message_items = (case svd_message d of
            None \<Rightarrow> [svd_url d, u64_to_string (svd_nonce d)]
          | Some msg \<Rightarrow> [svd_url d, msg, u64_to_string (svd_nonce d)])
      in str_join '':'' message_items)"

definition svd_verify ::
  "verifier \<Rightarrow> signature_verification_data \<Rightarrow> public_key list \<Rightarrow> signature_error + unit" where
  "svd_verify ecdsa d operator_public_keys =
     (if svd_public_key d \<notin> set operator_public_keys then Inl SigInvalidPublicKey
      else if ecdsa (svd_public_key d) (svd_text d) (svd_signature d) then Inr ()
      else Inl SigInvalidSignature)"

definition verify_signature ::
  "verifier \<Rightarrow> public_key list option \<Rightarrow> public_key \<Rightarrow> u64 \<Rightarrow> string \<Rightarrow> signature
   \<Rightarrow> signature_error + unit" where
  "verify_signature ecdsa operator_public_keys public_key nonce message signature =
     (if (case operator_public_keys of Some pks \<Rightarrow> public_key \<notin> set pks | None \<Rightarrow> False)
      then Inl SigInvalidPublicKey
      else (let message' = str_join '':'' [message, u64_to_string nonce]
            in if ecdsa public_key message' signature then Inr () else Inl SigInvalidSignature))"

definition signature_error_text :: "signature_error \<Rightarrow> string" where
  "signature_error_text e =
     (case e of SigInvalidPublicKey \<Rightarrow> ''InvalidPublicKey''
      | SigInvalidSignature \<Rightarrow> ''InvalidSignature'' | SigInvalidDomain \<Rightarrow> ''InvalidDomain'')"

subsection \<open>The header\<close>

datatype signature_header_error =
    MissingSignatureData
  | InvalidSignatureDataLength
  | InvalidSignature
  | InvalidNonce
  | InvalidPublicKey
  | UnknownPublicKey

text \<open>
  \<open>base64\<close> decodes text to bytes, \<open>sig_der\<close> and \<open>key_der\<close> decode bytes; each
  may refuse. Every failure is a bad request.
\<close>

definition signature_data_from_header ::
  "(string \<Rightarrow> string option) \<Rightarrow> (string \<Rightarrow> signature option) \<Rightarrow> (string \<Rightarrow> public_key option)
   \<Rightarrow> string option \<Rightarrow> signature_header_error + signature_data" where
  "signature_data_from_header base64 sig_der key_der header =
     (case header of
        None \<Rightarrow> Inl MissingSignatureData
      | Some sig_data \<Rightarrow>
         (case str_split CHR '':'' sig_data of
            [signature_str, nonce_str, public_key_str] \<Rightarrow>
              (case Option.bind (base64 signature_str) sig_der of
                 None \<Rightarrow> Inl InvalidSignature
               | Some sig \<Rightarrow>
                   (case parse_u64 nonce_str of
                      None \<Rightarrow> Inl InvalidNonce
                    | Some n \<Rightarrow>
                        (case Option.bind (base64 public_key_str) key_der of
                           None \<Rightarrow> Inl InvalidPublicKey
                         | Some key \<Rightarrow> Inr \<lparr>sd_signature = sig, sd_nonce = n, sd_public_key = key\<rparr>)))
          | _ \<Rightarrow> Inl InvalidSignatureDataLength))"

subsection \<open>Facts about signed texts\<close>

lemma svd_text_eq:
  "svd_text d = (case svd_message d of None \<Rightarrow> svd_url d | Some m \<Rightarrow> svd_url d @ '':'' @ m)
     @ CHR '':'' # u64_to_string (svd_nonce d)"
  by (simp add: svd_text_def split: option.splits)

lemma verify_signature_ok_iff:
  "verify_signature ecdsa keys k n m sig = Inr u \<longleftrightarrow>
     (\<forall>pks. keys = Some pks \<longrightarrow> k \<in> set pks) \<and> ecdsa k (m @ '':'' @ u64_to_string n) sig"
  by (cases keys) (auto simp: verify_signature_def)

lemma svd_verify_ok_iff:
  "svd_verify ecdsa d keys = Inr u \<longleftrightarrow>
     svd_public_key d \<in> set keys \<and> ecdsa (svd_public_key d) (svd_text d) (svd_signature d)"
  by (auto simp: svd_verify_def)

text \<open>
  The guard of the operator API and the check of the BTC module sign the same text: the
  first gives url and body separately, the second already joined.
\<close>

lemma svd_verify_as_verify_signature:
  "svd_verify ecdsa \<lparr>svd_url = url, svd_signature = sig, svd_nonce = n, svd_public_key = k,
       svd_message = Some m\<rparr> keys = verify_signature ecdsa (Some keys) k n (url @ '':'' @ m) sig"
  by (simp add: svd_verify_def verify_signature_def svd_text_eq)

text \<open>
  Property C29. Two requests under the same url have the same signed text only if they carry
  the same nonce and the same body (or both none), so that a signature cannot be moved to
  another request of that url. For two urls of the same domain that differ in the first
  character of their path, the signed texts never agree, whatever the bodies: a vote to
  confirm is never a vote to reject.
\<close>

theorem signed_text_determines_request:
  "(svd_url d = svd_url d' \<longrightarrow> svd_text d = svd_text d' \<longrightarrow>
      svd_nonce d = svd_nonce d' \<and> svd_message d = svd_message d') \<and>
   (svd_url d = domain @ CHR ''/'' # a # p \<longrightarrow> svd_url d' = domain @ CHR ''/'' # b # q \<longrightarrow> a \<noteq> b \<longrightarrow>
      svd_text d \<noteq> svd_text d')"
proof (intro conjI impI)
  assume url: "svd_url d = svd_url d'" and same: "svd_text d = svd_text d'"
  let ?body = "\<lambda>d. case svd_message d of None \<Rightarrow> svd_url d | Some m \<Rightarrow> svd_url d @ '':'' @ m"
  from same [unfolded svd_text_eq]
  have eq: "?body d = ?body d' \<and> u64_to_string (svd_nonce d) = u64_to_string (svd_nonce d')"
    by (rule last_field_unique [OF colon_not_in_u64_string colon_not_in_u64_string])
  then show "svd_nonce d = svd_nonce d'" by (simp add: u64_to_string_inj)
  from eq url show "svd_message d = svd_message d'" by (simp split: option.splits)
next
  assume "svd_url d = domain @ CHR ''/'' # a # p" "svd_url d' = domain @ CHR ''/'' # b # q" "a \<noteq> b"
  then show "svd_text d \<noteq> svd_text d'" by (simp add: svd_text_eq split: option.splits)
qed

lemma signed_text_determines_request_witness:
  "(let sd = \<lambda>url m n. \<lparr>svd_url = url, svd_signature = Signature ''s'', svd_nonce = n,
        svd_public_key = PublicKey ''k'', svd_message = m\<rparr>
    in svd_text (sd ''op/confirm'' (Some ''x:1'') 2) \<noteq> svd_text (sd ''op/reject'' (Some ''x'') 12)
     \<and> (\<forall>m n m' n'. svd_text (sd ''u'' m n) = svd_text (sd ''u'' m' n') \<longleftrightarrow> m = m' \<and> n = n'))"
proof -
  let ?sd = "\<lambda>url m n. \<lparr>svd_url = url, svd_signature = Signature ''s'', svd_nonce = n,
        svd_public_key = PublicKey ''k'', svd_message = m\<rparr>"
  have "svd_text (?sd ''op/confirm'' (Some ''x:1'') 2) \<noteq> svd_text (?sd ''op/reject'' (Some ''x'') 12)"
    using signed_text_determines_request [of "?sd ''op/confirm'' (Some ''x:1'') 2"
        "?sd ''op/reject'' (Some ''x'') 12" "''op''" "CHR ''c''" "''onfirm''" "CHR ''r''" "''eject''"]
    by simp
  moreover have "svd_text (?sd ''u'' m n) = svd_text (?sd ''u'' m' n') \<longleftrightarrow> m = m' \<and> n = n'" for m n m' n'
    using signed_text_determines_request [of "?sd ''u'' m n" "?sd ''u'' m' n'"] by auto
  ultimately show ?thesis by (simp add: Let_def)
qed

text \<open>
  Property C30. The header an operator's client writes - the signature, the nonce in decimal
  and the key, joined by colons, signature and key in base64 - is read back as the same
  signature data, for any encoders whose output has no colon and which the decoders invert.
\<close>

theorem signature_header_roundtrip:
  assumes "base64 sig_b64 = Some sig_bytes" and "sig_der sig_bytes = Some (sd_signature sd)"
    and "base64 key_b64 = Some key_bytes" and "key_der key_bytes = Some (sd_public_key sd)"
    and "CHR '':'' \<notin> set sig_b64" and "CHR '':'' \<notin> set key_b64"
  shows "signature_data_from_header base64 sig_der key_der
    (Some (str_join '':'' [sig_b64, u64_to_string (sd_nonce sd), key_b64])) = Inr sd"
  using assms
  by (simp add: signature_data_from_header_def str_split_append str_split_no_sep
      colon_not_in_u64_string)

lemma signature_header_roundtrip_witness:
  "signature_data_from_header Some (\<lambda>b. Some (Signature b)) (\<lambda>b. Some (PublicKey b))
     (Some ''MEY=:42:MDk='') =
   Inr \<lparr>sd_signature = Signature ''MEY='', sd_nonce = 42,
     sd_public_key = PublicKey ''MDk=''\<rparr>"
proof -
  let ?sd = "\<lparr>sd_signature = Signature ''MEY='', sd_nonce = 42,
     sd_public_key = PublicKey ''MDk=''\<rparr>"
  have "u64_to_string 42 = ''42''"
    by (simp add: u64_to_string_def show_nat.simps digit_char_def char_of_def bit_numeral_rec bit_Suc_0_iff)
  then have joined: "str_join '':'' [''MEY='', u64_to_string (sd_nonce ?sd), ''MDk='']
      = ''MEY=:42:MDk=''" by simp
  have "signature_data_from_header Some (\<lambda>b. Some (Signature b)) (\<lambda>b. Some (PublicKey b))
     (Some (str_join '':'' [''MEY='', u64_to_string (sd_nonce ?sd), ''MDk=''])) = Inr ?sd"
    by (rule signature_header_roundtrip) simp_all
  then show ?thesis unfolding joined .
qed

end
