(* ===== verification/Btc_Node.thy ===== *)
theory Btc_Node
  imports Sig Withdraw Update
begin

section \<open>The BTC module: scanning the node, paying withdrawals\<close>

text \<open>
  hexstody-btc: the scan state (state.rs), the scan of the node's wallet and the cold wallet
  worker (worker.rs), the errors (api/error.rs) and the handlers (api/public.rs). The node
  itself, reached over RPC, and the crate \<open>bitcoin\<close> are parameters: what a call answers,
  an error by its text. Addresses, hashes and transaction ids are carried by their text.
\<close>

subsection \<open>What the node answers\<close>

datatype tx_category = CatSend | CatReceive | CatGenerate | CatImmature | CatOrphan

text \<open>An entry of \<open>listsinceblock\<close>, as far as the scan reads it. Amounts are signed.\<close>

record list_transaction =
  lt_category :: tx_category
  lt_address :: "string option"
  lt_vout :: u32
  lt_amount :: i64
  lt_fee :: "i64 option"
  lt_confirmations :: "32 word"
  lt_txid :: string
  lt_timereceived :: u64
  lt_conflicts :: "string list"

record since_block =
  sb_transactions :: "list_transaction list"
  sb_removed :: "list_transaction list"
  sb_lastblock :: string

record tx_detail =
  td_category :: tx_category
  td_address :: "string option"

record wallet_tx =
  wt_fee :: "i64 option"
  wt_details :: "tx_detail list"
  wt_hex :: string

text \<open>The calls of the node and of the crate \<open>bitcoin\<close> that paying a withdrawal makes.\<close>

record btc_node =
  bn_parse_address :: "string \<Rightarrow> string option"
  bn_send_to_address :: "string \<Rightarrow> u64 \<Rightarrow> string \<Rightarrow> string + string"
  bn_get_transaction :: "string \<Rightarrow> string + wallet_tx"
  bn_decode_scripts :: "string \<Rightarrow> string + string list"
  bn_script_address :: "string \<Rightarrow> btc_network \<Rightarrow> string option"

subsection \<open>Scanning\<close>

record scan_state =
  sc_last_block :: string
  sc_last_height :: u64
  sc_network :: btc_network
  sc_events :: "btc_event list"

definition scan_state_new :: "(btc_network \<Rightarrow> string) \<Rightarrow> btc_network \<Rightarrow> scan_state" where
  "scan_state_new genesis_hash n =
     \<lparr>sc_last_block = genesis_hash n, sc_last_height = 0, sc_network = n, sc_events = []\<rparr>"

definition tx_direction_of :: "list_transaction \<Rightarrow> tx_direction option" where
  "tx_direction_of tx =
     (case lt_category tx of
        CatReceive \<Rightarrow> Some Deposit
      | CatSend \<Rightarrow> Some Withdraw
      | _ \<Rightarrow> None)"

text \<open>A non-negative \<open>i32\<close> read with \<open>as u64\<close>.\<close>

definition i32_as_u64 :: "32 word \<Rightarrow> u64" where
  "i32_as_u64 x = of_int (sint x)"

definition to_update_event :: "list_transaction \<Rightarrow> btc_event option" where
  "to_update_event tx =
     (case tx_direction_of tx of
        None \<Rightarrow> None
      | Some direction \<Rightarrow>
         (case lt_address tx of
            None \<Rightarrow> None
          | Some address \<Rightarrow>
             (if sint (lt_confirmations tx) < 0 then None
              else Some (EvUpdate
                \<lparr>tu_direction = direction, tu_txid = lt_txid tx, tu_vout = lt_vout tx,
                 tu_address = address, tu_amount = abs_u64 (lt_amount tx),
                 tu_confirmations = i32_as_u64 (lt_confirmations tx),
                 tu_timestamp = lt_timereceived tx, tu_conflicts = lt_conflicts tx,
                 tu_fee = map_option abs_u64 (lt_fee tx)\<rparr>))))"

definition to_remove_event :: "list_transaction \<Rightarrow> btc_event option" where
  "to_remove_event tx =
     (case tx_direction_of tx of
        None \<Rightarrow> None
      | Some direction \<Rightarrow>
         (case lt_address tx of
            None \<Rightarrow> None
          | Some address \<Rightarrow>
             (if sint (lt_amount tx) < 0 then None
              else Some (EvCancel
                \<lparr>tc_direction = direction, tc_txid = lt_txid tx, tc_vout = lt_vout tx,
                 tc_address = address, tc_amount = abs_u64 (lt_amount tx),
                 tc_timestamp = lt_timereceived tx, tc_conflicts = lt_conflicts tx\<rparr>))))"

definition scan_from ::
  "(string \<Rightarrow> string + since_block) \<Rightarrow> string \<Rightarrow> string + btc_event list \<times> string" where
  "scan_from list_since_block blockhash =
     (case list_since_block blockhash of
        Inl e \<Rightarrow> Inl e
      | Inr result \<Rightarrow>
         Inr (List.map_filter to_remove_event (sb_removed result)
                @ List.map_filter to_update_event (sb_transactions result),
              sb_lastblock result))"

text \<open>
  One turn of \<open>node_worker\<close>; the flag says whether it notifies the pollers and the cold
  wallet worker. \<open>block_count\<close> is what \<open>getblockcount\<close> answers.
\<close>

definition node_worker_turn ::
  "(string \<Rightarrow> string + since_block) \<Rightarrow> string + u64 \<Rightarrow> scan_state \<Rightarrow> bool \<times> scan_state" where
  "node_worker_turn list_since_block block_count st =
     (let old_block = sc_last_block st in
      case scan_from list_since_block old_block of
        Inl e \<Rightarrow> (False, st)
      | Inr (events, next_hash) \<Rightarrow>
         (if events \<noteq> [] \<or> old_block \<noteq> next_hash
          then (let height = (case block_count of Inr h \<Rightarrow> h | Inl _ \<Rightarrow> sc_last_height st)
                in (True, st\<lparr>sc_last_height := height, sc_last_block := next_hash,
                             sc_events := sc_events st @ events\<rparr>))
          else (False, st)))"

definition poll_events :: "scan_state \<Rightarrow> btc_events \<times> scan_state" where
  "poll_events st =
     (\<lparr>ev_height = sc_last_height st, ev_hash = sc_last_block st, ev_events = sc_events st\<rparr>,
      st\<lparr>sc_events := []\<rparr>)"

subsection \<open>The cold wallet\<close>

text \<open>
  \<open>Amount\<close> of the crate \<open>bitcoin\<close> panics on overflow; \<open>None\<close> is the panic,
  \<open>Some None\<close> a turn that sends nothing.
\<close>

definition amount_add :: "u64 \<Rightarrow> u64 \<Rightarrow> u64 option" where
  "amount_add a b = (if uint a + uint b < 2 ^ 64 then Some (a + b) else None)"

definition cold_wallet_dump :: "u64 \<Rightarrow> u64 \<Rightarrow> u64 option option" where
  "cold_wallet_dump cold_amount bal =
     (if cold_amount < bal
      then (case amount_add cold_amount cold_amount of
              None \<Rightarrow> None
            | Some twice \<Rightarrow> Some (Some (if twice < bal then bal - cold_amount else cold_amount)))
      else Some None)"

subsection \<open>Fees and errors\<close>

record fee_response =
  fr_fee_rate :: u64
  fr_block :: "i64 option"

record fee_estimate =
  fe_fee_rate :: "u64 option"
  fe_blocks :: i64

definition get_fees :: "string + fee_estimate \<Rightarrow> fee_response" where
  "get_fees est =
     (let res = \<lparr>fr_fee_rate = 5, fr_block = None\<rparr> in
      case est of
        Inl _ \<Rightarrow> res
      | Inr fe \<Rightarrow>
         (case fe_fee_rate fe of
            None \<Rightarrow> res
          | Some val \<Rightarrow> \<lparr>fr_fee_rate = val, fr_block = Some (fe_blocks fe)\<rparr>))"

datatype btc_api_error = NodeRpc string | DebugNotEnabled | AddressParse string

fun btc_error_text :: "btc_api_error \<Rightarrow> string" where
  "btc_error_text (NodeRpc e) = ''Failed to query BTC node: '' @ e"
| "btc_error_text DebugNotEnabled = ''Debug endpoints are enabled only for regtest''"
| "btc_error_text (AddressParse e) = ''Failed to parse address: '' @ e"

fun btc_error_code :: "btc_api_error \<Rightarrow> u16" where
  "btc_error_code (NodeRpc _) = 0"
| "btc_error_code DebugNotEnabled = 1"
| "btc_error_code (AddressParse _) = 2"

fun btc_error_status :: "btc_api_error \<Rightarrow> u16" where
  "btc_error_status (NodeRpc _) = 500"
| "btc_error_status DebugNotEnabled = 500"
| "btc_error_status (AddressParse _) = 400"

record btc_error_message =
  bem_message :: string
  bem_code :: u16

type_synonym btc_http_error = "u16 \<times> btc_error_message"

definition btc_http_error_of :: "btc_api_error \<Rightarrow> btc_http_error" where
  "btc_http_error_of e = (btc_error_status e, \<lparr>bem_message = btc_error_text e, bem_code = btc_error_code e\<rparr>)"

definition internal_error :: "string \<Rightarrow> btc_http_error" where
  "internal_error msg = (500, \<lparr>bem_message = msg, bem_code = 500\<rparr>)"

definition not_btc :: btc_http_error where
  "not_btc = (400, \<lparr>bem_message = ''Not BTC??'', bem_code = 500\<rparr>)"

definition get_hot_wallet_balance :: "string + u64 \<Rightarrow> btc_http_error + u64" where
  "get_hot_wallet_balance bal =
     (case bal of
        Inl e \<Rightarrow> Inl (internal_error (''Failed get the balance: '' @ e))
      | Inr a \<Rightarrow> Inr a)"

subsection \<open>Deposit addresses and the endpoints for tests\<close>

definition btc_get_deposit_address :: "string + string \<Rightarrow> btc_http_error + string" where
  "btc_get_deposit_address answer = map_sum (\<lambda>e. btc_http_error_of (NodeRpc e)) id answer"

text \<open>
  What the node is asked to do, in order, and the answer; \<open>None\<close> is the panic of a node
  that does not tell its chain.
\<close>

datatype regtest_effect = Generated string | SentTo string u64

record regtest_node =
  rn_chain :: "string option"
  rn_new_address :: "string + string"
  rn_generate :: "nat \<Rightarrow> string + unit"
  rn_parse_address :: "string \<Rightarrow> string + string"
  rn_send :: "string \<Rightarrow> u64 \<Rightarrow> string + unit"

type_synonym 'a regtest_handler = "regtest_effect list \<times> (btc_http_error + 'a) option"

definition regtest_error :: "btc_api_error \<Rightarrow> 'a regtest_handler" where
  "regtest_error e = ([], Some (Inl (btc_http_error_of e)))"

definition guard_regtest :: "regtest_node \<Rightarrow> 'a regtest_handler \<Rightarrow> 'a regtest_handler" where
  "guard_regtest node h =
     (case rn_chain node of
        None \<Rightarrow> ([], None)
      | Some chain \<Rightarrow> if chain = ''regtest'' then h else regtest_error DebugNotEnabled)"

text \<open>The loop of \<open>generate_blocks\<close>: \<open>k\<close> more blocks after \<open>n\<close>.\<close>

fun generate_loop :: "regtest_node \<Rightarrow> string \<Rightarrow> nat \<Rightarrow> nat \<Rightarrow> unit regtest_handler" where
  "generate_loop node address n 0 = ([], Some (Inr ()))"
| "generate_loop node address n (Suc k) =
     (case rn_generate node n of
        Inl e \<Rightarrow> ([Generated address], Some (Inl (btc_http_error_of (NodeRpc e))))
      | Inr _ \<Rightarrow> (case generate_loop node address (Suc n) k of
                   (effs, r) \<Rightarrow> (Generated address # effs, r)))"

definition generate_blocks :: "regtest_node \<Rightarrow> u16 option \<Rightarrow> unit regtest_handler" where
  "generate_blocks node blocks =
     guard_regtest node
       (let to_generate = (case blocks of Some n \<Rightarrow> n | None \<Rightarrow> 1) in
        case rn_new_address node of
          Inl e \<Rightarrow> regtest_error (NodeRpc e)
        | Inr address \<Rightarrow> generate_loop node address 0 (unat to_generate))"

definition new_address :: "regtest_node \<Rightarrow> string regtest_handler" where
  "new_address node =
     guard_regtest node
       (case rn_new_address node of
          Inl e \<Rightarrow> regtest_error (NodeRpc e) | Inr address \<Rightarrow> ([], Some (Inr address)))"

definition send_to_address :: "regtest_node \<Rightarrow> string \<Rightarrow> u64 \<Rightarrow> unit regtest_handler" where
  "send_to_address node address amount =
     guard_regtest node
       (case rn_parse_address node address of
          Inl e \<Rightarrow> regtest_error (AddressParse e)
        | Inr parsed_address \<Rightarrow>
           ([SentTo parsed_address amount],
            Some (map_sum (\<lambda>e. btc_http_error_of (NodeRpc e)) id (rn_send node parsed_address amount))))"

text \<open>Off regtest they do nothing; on it, no more blocks are generated than asked for.\<close>

lemma regtest_only:
  assumes "rn_chain node \<noteq> Some ''regtest''"
  shows "fst (generate_blocks node blocks) = []" "fst (new_address node) = []"
    "fst (send_to_address node address amount) = []"
  using assms
  by (auto simp: generate_blocks_def new_address_def send_to_address_def guard_regtest_def regtest_error_def
      split: option.splits)

lemma generate_loop_length: "length (fst (generate_loop node address n k)) \<le> k"
  by (induction node address n k rule: generate_loop.induct) (auto split: sum.splits prod.splits)

lemma generate_blocks_bound:
  "length (fst (generate_blocks node blocks)) \<le> unat (case blocks of Some n \<Rightarrow> n | None \<Rightarrow> 1)"
  using generate_loop_length
  by (auto simp: generate_blocks_def guard_regtest_def regtest_error_def Let_def split: option.splits sum.splits)

end
