(* ===== verification/Btc_Withdraw.thy ===== *)
theory Btc_Withdraw
  imports Btc_Node
begin

section \<open>The BTC module: the withdrawal endpoints\<close>

text \<open>
  \<open>withdraw_btc\<close> and \<open>withdraw_btc_under_limit\<close> of hexstody-btc/src/api/public.rs.
  A handler returns the payments it submitted to the node, in order, and its answer.
  \<open>to_json\<close> (serde_json on the data an operator signs) and \<open>show_uuid\<close> are
  parameters, as is ECDSA verification.
\<close>

record withdraw_cfg =
  wcfg_min_confirmations :: i16
  wcfg_op_public_keys :: "public_key list"
  wcfg_hot_domain :: string
  wcfg_network :: btc_network

abbreviation WITHDRAWAL_CONFIRM_URI :: string where "WITHDRAWAL_CONFIRM_URI \<equiv> ''/confirm''"
abbreviation WITHDRAWAL_REJECT_URI :: string where "WITHDRAWAL_REJECT_URI \<equiv> ''/reject''"

record payment =
  pay_address :: string
  pay_amount :: u64
  pay_comment :: string

subsection \<open>Counting signatures\<close>

definition signature_valid ::
  "verifier \<Rightarrow> public_key list \<Rightarrow> string \<Rightarrow> signature_data \<Rightarrow> bool" where
  "signature_valid ecdsa op_keys msg sd \<longleftrightarrow>
     verify_signature ecdsa (Some op_keys) (sd_public_key sd) (sd_nonce sd) msg (sd_signature sd) = Inr ()"

text \<open>The loop over the signatures; its counter is an \<open>i16\<close>.\<close>

definition count_valid ::
  "verifier \<Rightarrow> public_key list \<Rightarrow> string \<Rightarrow> signature_data list \<Rightarrow> i16" where
  "count_valid ecdsa op_keys msg sigs =
     fold (\<lambda>sd n. if signature_valid ecdsa op_keys msg sd then n + 1 else n) sigs 0"

definition confirmation_data_of :: "confirmed_withdrawal \<Rightarrow> confirmation_data" where
  "confirmation_data_of cw =
     \<lparr>cd_id = cw_id cw, cd_user = cw_user cw, cd_address = cw_address cw,
      cd_created_at = cw_created_at cw, cd_amount = cw_amount cw\<rparr>"

subsection \<open>Paying\<close>

definition input_address :: "tx_detail \<Rightarrow> string option" where
  "input_address x =
     (case td_category x of
        CatReceive \<Rightarrow> td_address x
      | CatGenerate \<Rightarrow> td_address x
      | CatImmature \<Rightarrow> td_address x
      | _ \<Rightarrow> None)"

abbreviation btc_currency_address :: "string \<Rightarrow> currency_address" where
  "btc_currency_address a \<equiv> AddrBTC \<lparr>addr = a\<rparr>"

definition pay ::
  "btc_node \<Rightarrow> (uuid \<Rightarrow> string) \<Rightarrow> btc_network \<Rightarrow> confirmed_withdrawal
   \<Rightarrow> payment list \<times> (btc_http_error + withdrawal_response)" where
  "pay node show_uuid network cw =
     (case cw_address cw of
        AddrBTC a \<Rightarrow>
         (case bn_parse_address node (addr a) of
            None \<Rightarrow> ([], Inl not_btc)
          | Some address \<Rightarrow>
             (let comment = show_uuid (cw_id cw);
                  submitted = [\<lparr>pay_address = address, pay_amount = cw_amount cw, pay_comment = comment\<rparr>]
              in case bn_send_to_address node address (cw_amount cw) comment of
                 Inl e \<Rightarrow> (submitted, Inl (internal_error (''Failed to post the tx: '' @ e)))
               | Inr txid \<Rightarrow>
                  (case bn_get_transaction node txid of
                     Inl e \<Rightarrow> (submitted, Inl (internal_error (''Tx not found: '' @ e)))
                   | Inr tx \<Rightarrow>
                      (case bn_decode_scripts node (wt_hex tx) of
                         Inl e \<Rightarrow> (submitted, Inl (internal_error (''Failed to deserialize tx: '' @ e)))
                       | Inr scripts \<Rightarrow>
                          (submitted, Inr
                            \<lparr>resp_id = cw_id cw, resp_txid = txid,
                             resp_fee = map_option abs_u64 (wt_fee tx),
                             resp_input_addresses =
                               map btc_currency_address (List.map_filter input_address (wt_details tx)),
                             resp_output_addresses =
                               map btc_currency_address
                                 (List.map_filter (\<lambda>out. bn_script_address node out network) scripts)\<rparr>)))))
      | _ \<Rightarrow> ([], Inl not_btc))"

definition withdraw_btc ::
  "verifier \<Rightarrow> (confirmation_data \<Rightarrow> string) \<Rightarrow> (uuid \<Rightarrow> string) \<Rightarrow> btc_node \<Rightarrow> withdraw_cfg
   \<Rightarrow> confirmed_withdrawal \<Rightarrow> payment list \<times> (btc_http_error + withdrawal_response)" where
  "withdraw_btc ecdsa to_json show_uuid node cfg cw =
     (let msg = to_json (confirmation_data_of cw);
          confirm_url = wcfg_hot_domain cfg @ WITHDRAWAL_CONFIRM_URI;
          reject_url = wcfg_hot_domain cfg @ WITHDRAWAL_REJECT_URI;
          confirm_msg = str_join '':'' [confirm_url, msg];
          reject_msg = str_join '':'' [reject_url, msg];
          op_keys = wcfg_op_public_keys cfg;
          valid_confirms = count_valid ecdsa op_keys confirm_msg (cw_confirmations cw);
          valid_rejections = count_valid ecdsa op_keys reject_msg (cw_rejections cw)
      in if sint valid_rejections < sint valid_confirms
            \<and> sint (wcfg_min_confirmations cfg) \<le> sint (valid_confirms - valid_rejections)
         then pay node show_uuid (wcfg_network cfg) cw
         else ([], Inl (403, \<lparr>bem_message = ''Signature verification failed'', bem_code = 403\<rparr>)))"

definition withdraw_btc_under_limit ::
  "(uuid \<Rightarrow> string) \<Rightarrow> btc_node \<Rightarrow> withdraw_cfg \<Rightarrow> confirmed_withdrawal
   \<Rightarrow> payment list \<times> (btc_http_error + withdrawal_response)" where
  "withdraw_btc_under_limit show_uuid node cfg cw = pay node show_uuid (wcfg_network cfg) cw"

subsection \<open>What the counter counts\<close>

lemma count_valid_length:
  "count_valid ecdsa keys msg sigs = of_nat (length (filter (signature_valid ecdsa keys msg) sigs))"
proof -
  have "fold (\<lambda>sd n. if signature_valid ecdsa keys msg sd then n + 1 else n) sigs n
      = n + of_nat (length (filter (signature_valid ecdsa keys msg) sigs))" for n :: i16
    by (induction sigs arbitrary: n) (auto simp: algebra_simps)
  then show ?thesis by (simp add: count_valid_def)
qed

lemma filter_shorter: "length xs < n \<Longrightarrow> length (filter P xs) < n"
  by (rule le_less_trans [OF length_filter_le])

lemma sint_count_valid:
  assumes "length sigs < 2 ^ 14"
  shows "sint (count_valid ecdsa keys msg sigs) =
    int (length (filter (signature_valid ecdsa keys msg) sigs))"
  unfolding count_valid_length
  by (rule sint_of_nat_i16) (use filter_shorter [OF assms, of "signature_valid ecdsa keys msg"] in simp)

lemma sint_count_diff:
  assumes "length sigs < 2 ^ 14" and "length sigs' < 2 ^ 14"
  shows "sint (count_valid ecdsa keys msg sigs - count_valid ecdsa keys msg' sigs') =
    int (length (filter (signature_valid ecdsa keys msg) sigs))
    - int (length (filter (signature_valid ecdsa keys msg') sigs'))"
proof -
  let ?a = "int (length (filter (signature_valid ecdsa keys msg) sigs))"
  let ?b = "int (length (filter (signature_valid ecdsa keys msg') sigs'))"
  have "count_valid ecdsa keys msg sigs - count_valid ecdsa keys msg' sigs' = of_int (?a - ?b)"
    by (simp add: count_valid_length)
  moreover have "?a < 2 ^ 14" and "?b < 2 ^ 14"
    using filter_shorter [OF assms(1), of "signature_valid ecdsa keys msg"]
      filter_shorter [OF assms(2), of "signature_valid ecdsa keys msg'"] by simp_all
  then have "- (2 ^ 15) \<le> ?a - ?b" and "?a - ?b < 2 ^ 15" by simp_all
  ultimately show ?thesis by (simp only: sint_of_int_i16)
qed

lemma pay_payments:
  "fst (pay node show_uuid n cw) =
     (case cw_address cw of
        AddrBTC a \<Rightarrow> (case bn_parse_address node (addr a) of
            None \<Rightarrow> []
          | Some address \<Rightarrow> [\<lparr>pay_address = address, pay_amount = cw_amount cw,
                              pay_comment = show_uuid (cw_id cw)\<rparr>])
      | _ \<Rightarrow> [])"
  by (simp add: pay_def Let_def split: currency_address.splits option.splits sum.splits)

lemma pay_member:
  assumes "p \<in> set (fst (pay node show_uuid n cw))"
  shows "pay_amount p = cw_amount cw
    \<and> (\<exists>a. cw_address cw = AddrBTC a \<and> bn_parse_address node (addr a) = Some (pay_address p))"
proof (cases "cw_address cw")
  case (AddrBTC a)
  with assms show ?thesis
    by (cases "bn_parse_address node (addr a)") (simp_all add: pay_payments)
qed (use assms in \<open>simp_all add: pay_payments\<close>)

subsection \<open>Who can make the node pay\<close>

text \<open>What a vote of an operator on a withdrawal is signed over.\<close>

definition vote_valid ::
  "verifier \<Rightarrow> (confirmation_data \<Rightarrow> string) \<Rightarrow> withdraw_cfg \<Rightarrow> string \<Rightarrow> confirmed_withdrawal
   \<Rightarrow> signature_data \<Rightarrow> bool" where
  "vote_valid ecdsa to_json cfg uri cw sd \<longleftrightarrow>
     sd_public_key sd \<in> set (wcfg_op_public_keys cfg) \<and>
     ecdsa (sd_public_key sd)
       (wcfg_hot_domain cfg @ uri @ '':'' @ to_json (confirmation_data_of cw) @ '':''
          @ u64_to_string (sd_nonce sd))
       (sd_signature sd)"

lemma signature_valid_vote:
  "signature_valid ecdsa (wcfg_op_public_keys cfg)
      (str_join '':'' [wcfg_hot_domain cfg @ uri, to_json (confirmation_data_of cw)])
    = vote_valid ecdsa to_json cfg uri cw"
  by (rule ext) (simp add: signature_valid_def vote_valid_def verify_signature_ok_iff)

lemma withdraw_btc_guard:
  assumes "length (cw_confirmations cw) < 2 ^ 14" and "length (cw_rejections cw) < 2 ^ 14"
    and "c = length (filter (vote_valid ecdsa to_json cfg WITHDRAWAL_CONFIRM_URI cw) (cw_confirmations cw))"
    and "r = length (filter (vote_valid ecdsa to_json cfg WITHDRAWAL_REJECT_URI cw) (cw_rejections cw))"
  shows "withdraw_btc ecdsa to_json show_uuid node cfg cw =
    (if r < c \<and> sint (wcfg_min_confirmations cfg) \<le> int c - int r
     then pay node show_uuid (wcfg_network cfg) cw
     else ([], Inl (403, \<lparr>bem_message = ''Signature verification failed'', bem_code = 403\<rparr>)))"
  using assms
  by (simp only: withdraw_btc_def Let_def signature_valid_vote sint_count_valid sint_count_diff
      of_nat_less_iff)


text \<open>
  The module counts signatures and not operators: the same valid signature of
  one operator, repeated as often as there are confirmations required, makes it pay.
\<close>

lemma repeated_signature_makes_quorum:
  assumes "vote_valid ecdsa to_json cfg WITHDRAWAL_CONFIRM_URI cw sd"
    and "sint (wcfg_min_confirmations cfg) \<le> int n" and "0 < n" and "n < 2 ^ 14"
    and "cw_confirmations cw = replicate n sd" and "cw_rejections cw = []"
  shows "withdraw_btc ecdsa to_json show_uuid node cfg cw = pay node show_uuid (wcfg_network cfg) cw"
proof -
  have c: "n = length (filter (vote_valid ecdsa to_json cfg WITHDRAWAL_CONFIRM_URI cw) (cw_confirmations cw))"
    using assms(1) by (simp add: assms(5))
  have r: "0 = length (filter (vote_valid ecdsa to_json cfg WITHDRAWAL_REJECT_URI cw) (cw_rejections cw))"
    by (simp add: assms(6))
  have "withdraw_btc ecdsa to_json show_uuid node cfg cw =
    (if 0 < n \<and> sint (wcfg_min_confirmations cfg) \<le> int n - int 0
     then pay node show_uuid (wcfg_network cfg) cw
     else ([], Inl (403, \<lparr>bem_message = ''Signature verification failed'', bem_code = 403\<rparr>)))"
    by (rule withdraw_btc_guard [OF _ _ c r]) (use assms(4) in \<open>simp_all add: assms(5,6)\<close>)
  with assms(2,3) show ?thesis by simp
qed

subsection \<open>An example\<close>

text \<open>
  Two operators, a verifier that accepts a signature which spells out key and message, and a
  node that knows one address.
\<close>

definition spelled :: verifier where
  "spelled k msg sig \<longleftrightarrow> signature_text sig = key_text k @ ''#'' @ msg"

definition example_cfg :: withdraw_cfg where
  "example_cfg = \<lparr>wcfg_min_confirmations = 2, wcfg_op_public_keys = [PublicKey ''A'', PublicKey ''B''],
     wcfg_hot_domain = ''hot'', wcfg_network = BtcRegtest\<rparr>"

definition example_node :: btc_node where
  "example_node = \<lparr>bn_parse_address = (\<lambda>a. if a = ''bcrt1'' then Some a else None),
     bn_send_to_address = (\<lambda>a n c. Inr ''txid''),
     bn_get_transaction = (\<lambda>t. Inr \<lparr>wt_fee = Some (- 7), wt_details = [], wt_hex = ''00''\<rparr>),
     bn_decode_scripts = (\<lambda>h. Inr [''out'']),
     bn_script_address = (\<lambda>s n. Some s)\<rparr>"

definition example_json :: "confirmation_data \<Rightarrow> string" where
  "example_json cd = cd_user cd @ address_text (cd_address cd)"

definition example_vote :: "string \<Rightarrow> string \<Rightarrow> signature_data" where
  "example_vote key uri =
     \<lparr>sd_signature = Signature (key @ ''#hot'' @ uri @ '':Alicebcrt1:1''), sd_nonce = 1,
      sd_public_key = PublicKey key\<rparr>"

definition example_withdrawal :: "signature_data list \<Rightarrow> signature_data list \<Rightarrow> confirmed_withdrawal" where
  "example_withdrawal cs rs =
     \<lparr>cw_id = 1, cw_user = ''Alice'', cw_address = AddrBTC \<lparr>addr = ''bcrt1''\<rparr>,
      cw_created_at = ''now'', cw_amount = 500, cw_confirmations = cs, cw_rejections = rs\<rparr>"

lemma u64_to_string_one: "u64_to_string 1 = ''1''"
  by (simp add: u64_to_string_def show_nat.simps digit_char_def char_of_def bit_numeral_rec
      bit_Suc_0_iff)

lemma example_vote_valid:
  "vote_valid spelled example_json example_cfg uri (example_withdrawal cs rs) (example_vote k uri)
    \<longleftrightarrow> k = ''A'' \<or> k = ''B''"
  by (simp add: vote_valid_def spelled_def example_cfg_def example_vote_def example_withdrawal_def
      example_json_def confirmation_data_of_def u64_to_string_one)


lemma repeated_signature_makes_quorum_witness:
  "fst (withdraw_btc spelled example_json (\<lambda>i. ''id'') example_node example_cfg
      (example_withdrawal (replicate 2 (example_vote ''A'' ''/confirm'')) []))
    = [\<lparr>pay_address = ''bcrt1'', pay_amount = 500, pay_comment = ''id''\<rparr>]"
proof -
  let ?cw = "example_withdrawal (replicate 2 (example_vote ''A'' ''/confirm'')) []"
  have "withdraw_btc spelled example_json (\<lambda>i. ''id'') example_node example_cfg ?cw
      = pay example_node (\<lambda>i. ''id'') (wcfg_network example_cfg) ?cw"
    by (rule repeated_signature_makes_quorum [where n = 2 and sd = "example_vote ''A'' ''/confirm''"])
      (simp_all add: example_vote_valid, simp_all add: example_cfg_def example_withdrawal_def)
  then show ?thesis by (simp add: pay_payments example_withdrawal_def example_node_def)
qed

end
