(* ===== verification/Hot_Worker.thy ===== *)
theory Hot_Worker
  imports Btc_Withdraw State_Properties
begin

section \<open>The hot wallet's workers\<close>

text \<open>
  hexstody-hot/src/worker.rs: \<open>update_results_worker\<close>, which turns a result of the state
  machine into a call of the BTC or ETH module and the module's answer into an event;
  \<open>process_btc_events\<close>, which turns the BTC module's reports into events; and the jobs of
  \<open>cron_workers\<close>. The clients' answers are a parameter, errors by their text, as are the
  current time and chrono's formatting. What a worker does is the list of its calls and the
  list of the events it sends.
\<close>

subsection \<open>Results of the state machine\<close>

datatype hot_call =
    CallWithdrawBtc confirmed_withdrawal
  | CallWithdrawUnderLimit confirmed_withdrawal
  | CallSendTx string string string
  | CallSendTxErc20 string string string string

record hot_clients =
  hc_withdraw_btc :: "confirmed_withdrawal \<Rightarrow> string + withdrawal_response"
  hc_withdraw_under_limit :: "confirmed_withdrawal \<Rightarrow> string + withdrawal_response"
  hc_send_tx :: "string \<Rightarrow> string \<Rightarrow> string \<Rightarrow> string + unit"
  hc_send_tx_erc20 :: "string \<Rightarrow> string \<Rightarrow> string \<Rightarrow> string \<Rightarrow> string + unit"

text \<open>The confirmed withdrawal built from a request; \<open>fmt\<close> is \<open>%Y-%m-%d %H:%M:%S\<close>.\<close>

definition confirmed_withdrawal_of ::
  "(datetime \<Rightarrow> string) \<Rightarrow> uuid \<Rightarrow> withdrawal_request \<Rightarrow> confirmed_withdrawal" where
  "confirmed_withdrawal_of fmt i req =
     \<lparr>cw_id = i, cw_user = wr_user req, cw_address = wr_address req,
      cw_created_at = fmt (wr_created_at req), cw_amount = wr_amount req,
      cw_confirmations = map signature_data_of_decision (wr_confirmations req),
      cw_rejections = map signature_data_of_decision (wr_rejections req)\<rparr>"

definition complete_body ::
  "datetime \<Rightarrow> withdrawal_request_type \<Rightarrow> withdrawal_response \<Rightarrow> update_body" where
  "complete_body now rt resp = WithdrawalRequestComplete
     \<lparr>wci_id = resp_id resp, wci_confirmed_at = now,
      wci_txid = TxBTC \<lparr>btc_txid_text = resp_txid resp\<rparr>, wci_fee = resp_fee resp,
      wci_input_addresses = resp_input_addresses resp,
      wci_output_addresses = resp_output_addresses resp, wci_request_type = rt\<rparr>"

definition rejected_body :: "uuid \<Rightarrow> string \<Rightarrow> update_body" where
  "rejected_body i e = WithdrawalRequestNodeRejected \<lparr>wrj_id = i, wrj_reason = e\<rparr>"

definition withdraw_confirmed ::
  "(datetime \<Rightarrow> string) \<Rightarrow> datetime \<Rightarrow> hot_clients \<Rightarrow> uuid \<Rightarrow> state
   \<Rightarrow> hot_call list \<times> update_body list" where
  "withdraw_confirmed fmt now clients i s =
     (case get_withdrawal_request s i of
        None \<Rightarrow> ([], [])
      | Some req \<Rightarrow>
         (let cw = confirmed_withdrawal_of fmt i req in
          case wr_address req of
            AddrBTC a \<Rightarrow>
              ([CallWithdrawBtc cw],
               (case hc_withdraw_btc clients cw of
                  Inr resp \<Rightarrow> [complete_body now OverLimit resp]
                | Inl e \<Rightarrow> [rejected_body i e]))
          | AddrETH a \<Rightarrow>
              ([CallSendTx (wr_user req) (account a) (u64_to_string (cw_amount cw))],
               (case hc_send_tx clients (wr_user req) (account a) (u64_to_string (cw_amount cw)) of
                  Inr _ \<Rightarrow> []
                | Inl e \<Rightarrow> [rejected_body i e]))
          | AddrERC20 a \<Rightarrow>
              ([CallSendTxErc20 (wr_user req) (account (erc20_account a)) (contract (erc20_of a))
                  (u64_to_string (cw_amount cw))],
               (case hc_send_tx_erc20 clients (wr_user req) (account (erc20_account a))
                       (contract (erc20_of a)) (u64_to_string (cw_amount cw)) of
                  Inr _ \<Rightarrow> []
                | Inl e \<Rightarrow> [rejected_body i e]))))"

text \<open>\<open>to_text\<close> is \<open>NaiveDateTime::to_string\<close>.\<close>

definition withdraw_under_limit ::
  "(datetime \<Rightarrow> string) \<Rightarrow> datetime \<Rightarrow> hot_clients \<Rightarrow> withdrawal_request
   \<Rightarrow> hot_call list \<times> update_body list" where
  "withdraw_under_limit to_text now clients wr =
     (let cw = \<lparr>cw_id = wr_id wr, cw_user = wr_user wr, cw_address = wr_address wr,
                cw_created_at = to_text (wr_created_at wr), cw_amount = wr_amount wr,
                cw_confirmations = [], cw_rejections = []\<rparr>
      in ([CallWithdrawUnderLimit cw],
          (case hc_withdraw_under_limit clients cw of
             Inr resp \<Rightarrow> [complete_body now UnderLimit resp]
           | Inl e \<Rightarrow> [rejected_body (wr_id wr) e])))"

fun update_results_step ::
  "(datetime \<Rightarrow> string) \<Rightarrow> (datetime \<Rightarrow> string) \<Rightarrow> datetime \<Rightarrow> hot_clients \<Rightarrow> update_result \<Rightarrow> state
   \<Rightarrow> hot_call list \<times> update_body list" where
  "update_results_step fmt to_text now clients (WithdrawConfirmed i) s =
     withdraw_confirmed fmt now clients i s"
| "update_results_step fmt to_text now clients (WithdrawalUnderlimit wr) s =
     withdraw_under_limit to_text now clients wr"

subsection \<open>Reports of the BTC module\<close>

text \<open>
  The events sent for a report, in order; the flag says whether the worker panics at the end
  (a time stamp chrono refuses).
\<close>

fun btc_event_bodies ::
  "(i64 \<Rightarrow> datetime option) \<Rightarrow> btc_event list \<Rightarrow> update_body list \<times> bool" where
  "btc_event_bodies from_timestamp [] = ([], False)"
| "btc_event_bodies from_timestamp (EvUpdate upd # evs) =
     (if tu_direction upd = Deposit
      then (case btc_transaction_of_update from_timestamp upd of
              None \<Rightarrow> ([], True)
            | Some tx \<Rightarrow> (let (bs, panic) = btc_event_bodies from_timestamp evs
                          in (UpdateBtcTx tx # bs, panic)))
      else btc_event_bodies from_timestamp evs)"
| "btc_event_bodies from_timestamp (EvCancel cnl # evs) =
     (let (bs, panic) = btc_event_bodies from_timestamp evs in (CancelBtcTx cnl # bs, panic))"

definition process_btc_events ::
  "(i64 \<Rightarrow> datetime option) \<Rightarrow> btc_events \<Rightarrow> state \<Rightarrow> update_body list \<times> bool" where
  "process_btc_events from_timestamp events s =
     (let block_hash = ev_hash events;
          best = (if bs_block_hash (st_btc_state s) \<noteq> block_hash
                  then [BestBtcBlock \<lparr>bb_height = ev_height events, bb_block_hash = block_hash\<rparr>]
                  else []);
          (bs, panic) = btc_event_bodies from_timestamp (ev_events events)
      in (best @ bs, panic))"

subsection \<open>Jobs\<close>

definition cron_jobs :: "(string \<times> update_body) list" where
  "cron_jobs =
     [(''0 0 0 * * *'', ClearLimits Day),
      (''0 0 0 * * Mon *'', ClearLimits Week),
      (''0 0 0 1 * * *'', ClearLimits Month)]"

subsection \<open>Following the chain\<close>

lemma find_user_address_Some:
  assumes "state_wf s" and "find_user_address s a = Some uid"
  shows "\<exists>u. hm_get (st_users s) uid = Some u \<and> user_wf uid u"
proof -
  from assms(2) obtain u where "(uid, u) \<in> set (st_users s)"
    by (auto simp: find_user_address_def find_Some_iff)
      (metis fst_conv nth_mem surj_pair)
  with assms(1) have "hm_get (st_users s) uid = Some u"
    by (simp add: state_wf_def hm_in_set_get)
  with user_of_wf [OF assms(1) this] show ?thesis by blast
qed

lemma btc_update_accepted:
  assumes "state_wf s"
  shows "\<exists>s'. with_btc_tx_update tx s = (Inr (), s') \<and> st_btc_state s' = st_btc_state s"
proof (cases "find_user_address s (AddrBTC \<lparr>addr = bt_address tx\<rparr>)")
  case None
  then show ?thesis by (simp add: with_btc_tx_update_def Let_def)
next
  case (Some uid)
  with find_user_address_Some [OF assms] obtain u where "hm_get (st_users s) uid = Some u" "user_wf uid u"
    by blast
  with Some show ?thesis
    by (auto simp: with_btc_tx_update_def Let_def user_wf_def hm_contains_key_iff)
qed

lemma btc_cancel_accepted:
  "\<exists>s'. with_btc_tx_cancel tx s = (Inr (), s') \<and> st_btc_state s' = st_btc_state s"
  by (auto simp: with_btc_tx_cancel_def Let_def set_withdrawal_request_node_rejected_def
      map_accounts_def split: prod.splits option.splits sum.splits)

text \<open>The events of a report, apart from the best block, are accepted and leave it alone.\<close>

definition chain_report :: "update_body \<Rightarrow> bool" where
  "chain_report b = (case b of UpdateBtcTx _ \<Rightarrow> True | CancelBtcTx _ \<Rightarrow> True | _ \<Rightarrow> False)"

lemma btc_event_bodies_reports: "b \<in> set (fst (btc_event_bodies ft evs)) \<Longrightarrow> chain_report b"
  by (induction ft evs rule: btc_event_bodies.induct)
    (auto simp: chain_report_def split: if_splits option.splits prod.splits)

lemma chain_report_accepted:
  assumes "state_wf s" and "chain_report b"
  shows "\<exists>s'. apply_update (env, \<lparr>su_created = t, su_body = b\<rparr>) s = (Inr None, s')
    \<and> st_btc_state s' = st_btc_state s \<and> state_wf s'"
proof -
  from assms(2) have ok: "event_ok (env, \<lparr>su_created = t, su_body = b\<rparr>)"
    by (cases b) (simp_all add: chain_report_def event_ok_def)
  have "\<exists>s'. apply_update (env, \<lparr>su_created = t, su_body = b\<rparr>) s = (Inr None, s')
      \<and> st_btc_state s' = st_btc_state s"
  proof (cases b)
    case (UpdateBtcTx tx)
    with btc_update_accepted [OF assms(1), of tx] show ?thesis
      by (auto simp: apply_update_def handle_body_def quiet_def touch_def)
  next
    case (CancelBtcTx tx)
    with btc_cancel_accepted [of tx s] show ?thesis
      by (auto simp: apply_update_def handle_body_def quiet_def touch_def)
  qed (use assms(2) in \<open>simp_all add: chain_report_def\<close>)
  with event.step_inv [OF assms(1) ok] show ?thesis by auto
qed

lemma chain_reports_accepted:
  assumes "state_wf s" and "\<forall>b\<in>set bs. chain_report b"
  shows "\<exists>s'. run_all apply_update (map (\<lambda>b. (env, \<lparr>su_created = t, su_body = b\<rparr>)) bs) s = Inr s'
    \<and> st_btc_state s' = st_btc_state s \<and> state_wf s'"
  using assms
proof (induction bs arbitrary: s)
  case Nil
  then show ?case by simp
next
  case (Cons b bs)
  with chain_report_accepted [of s b env t] obtain s1 where
    "apply_update (env, \<lparr>su_created = t, su_body = b\<rparr>) s = (Inr None, s1)"
    "st_btc_state s1 = st_btc_state s" "state_wf s1" by auto
  with Cons.IH [of s1] Cons.prems show ?case by simp
qed

lemma best_block_accepted:
  assumes "state_wf s"
  shows "\<exists>s'. apply_update (env, \<lparr>su_created = t, su_body = BestBtcBlock b\<rparr>) s = (Inr None, s')
    \<and> st_btc_state s' = \<lparr>bs_height = bb_height b, bs_block_hash = bb_block_hash b\<rparr> \<and> state_wf s'"
  using assms event.step_inv [OF assms, of "(env, \<lparr>su_created = t, su_body = BestBtcBlock b\<rparr>)"]
  by (simp add: apply_update_def handle_body_def touch_def event_ok_def)


text \<open>A deposit to the address of the exchange wallet or to nobody: Alice has no address yet.\<close>

definition example_report :: btc_events where
  "example_report = \<lparr>ev_height = 7, ev_hash = ''h7'', ev_events =
     [EvUpdate \<lparr>tu_direction = Deposit, tu_txid = ''t'', tu_vout = 0, tu_address = ''a'',
        tu_amount = 9, tu_confirmations = 1, tu_timestamp = 5, tu_conflicts = [], tu_fee = None\<rparr>]\<rparr>"


end
