(* ===== verification/Payment.thy ===== *)
theory Payment
  imports Hot_Worker Spending
begin

section \<open>From the state to the payment\<close>

text \<open>
  The path of a withdrawal through three processes: the state machine confirms it, the hot
  wallet's worker sends it to the BTC module with the votes the state recorded, the module
  checks the votes again and asks the node to pay, and the worker reports the outcome back to
  the state.
\<close>

text \<open>
  The worker's client of the BTC module: an answer of the module, with its errors turned
  into text by \<open>refusal\<close> (the HTTP client's).
\<close>

definition module_client ::
  "(btc_http_error \<Rightarrow> string) \<Rightarrow> btc_http_error + withdrawal_response \<Rightarrow> string + withdrawal_response" where
  "module_client refusal answer = (case answer of Inl e \<Rightarrow> Inl (refusal e) | Inr resp \<Rightarrow> Inr resp)"

lemma request_of_state:
  assumes "state_wf s" and "get_withdrawal_request s i = Some w"
  shows "wr_id w = i" and "votes_wf w"
proof -
  from assms(2) have "(i, w) \<in> set (all_withdrawal_entries s)"
    by (auto simp: get_withdrawal_request_def dest!: find_map_Some split: if_splits)
  with withdrawal_entry_wf [OF assms(1)] show "wr_id w = i" "votes_wf w" by simp_all
qed

text \<open>The keys whose recorded votes are valid signatures are as many as the votes.\<close>

lemma distinct_valid_keys:
  assumes "distinct (keys_of ds)"
  shows "card (sd_public_key ` set (filter P (map signature_data_of_decision ds)))
    = length (filter P (map signature_data_of_decision ds))"
proof -
  have "map sd_public_key (map signature_data_of_decision ds) = keys_of ds"
    by (simp add: keys_of_def signature_data_of_decision_def comp_def)
  with assms have "distinct (map sd_public_key (filter P (map signature_data_of_decision ds)))"
    by (metis distinct_map_filter)
  then show ?thesis by (metis distinct_card length_map set_map)
qed

lemma confirmed_call:
  assumes "CallWithdrawBtc cw \<in> set (fst (update_results_step fmt to_text now clients res s))"
  shows "\<exists>i w. res = WithdrawConfirmed i \<and> get_withdrawal_request s i = Some w
    \<and> cw = confirmed_withdrawal_of fmt i w"
  using assms
  by (cases res)
    (auto simp: withdraw_confirmed_def withdraw_under_limit_def Let_def
      split: option.splits currency_address.splits)


text \<open>The votes of the example history, as a verifier that knows the text they were to sign.\<close>

definition quorum_verifier :: verifier where
  "quorum_verifier k msg sig \<longleftrightarrow> msg = ''hot/confirm:Alicebc1q:0'' \<and> sig = Signature ''s''"

definition quorum_cfg :: withdraw_cfg where
  "quorum_cfg = \<lparr>wcfg_min_confirmations = 2,
     wcfg_op_public_keys = [PublicKey ''a'', PublicKey ''b''],
     wcfg_hot_domain = ''hot'', wcfg_network = BtcRegtest\<rparr>"

definition quorum_node :: btc_node where
  "quorum_node = example_node\<lparr>bn_parse_address := Some\<rparr>"

lemma quorum_lookup: "get_withdrawal_request quorum_state 7 = Some quorum_request"
  by (simp add: get_withdrawal_request_def all_withdrawal_entries_def quorum_state_def hm_values_def
      put_user_def put_account_def alice_state_def alice_def user_info_new_def default_currencies_eq
      hm_collect_def hm_empty_def token_defs)

lemma quorum_state_wf: "state_wf quorum_state"
proof -
  have "\<forall>eu\<in>set (example_history @ quorum_events). event_ok eu"
    by (auto simp: example_history_def quorum_events_def example_event_def event_ok_def)
  from event.run_inv [OF quorum_history_runs [unfolded collect_def] state_wf_new this] show ?thesis .
qed

definition quorum_withdrawal :: confirmed_withdrawal where
  "quorum_withdrawal = confirmed_withdrawal_of (\<lambda>t. ''now'') 7 quorum_request"

lemmas quorum_simps = quorum_withdrawal_def confirmed_withdrawal_of_def quorum_request_def
  withdrawal_request_of_def signature_data_of_decision_def decision_of_info_def
  example_decision_def

lemma u64_to_string_zero: "u64_to_string 0 = ''0''"
  by (simp add: u64_to_string_def show_nat.simps digit_char_def char_of_def bit_numeral_rec
      bit_Suc_0_iff)

lemma quorum_votes_valid:
  "d \<in> set (wr_confirmations quorum_request) \<Longrightarrow>
     vote_valid quorum_verifier example_json quorum_cfg WITHDRAWAL_CONFIRM_URI quorum_withdrawal
       (signature_data_of_decision d)"
  by (auto simp: vote_valid_def quorum_verifier_def quorum_cfg_def quorum_simps example_json_def
      confirmation_data_of_def u64_to_string_zero)




end
