(* ===== verification/Btc_Scan.thy ===== *)
theory Btc_Scan
  imports Btc_Node
begin

section \<open>What the scan delivers\<close>

text \<open>
  The workers and handlers of the BTC module that share the scan state, interleaved: turns of
  \<open>node_worker\<close> and calls of \<open>poll_events\<close>, each of which holds the lock, in any
  order. A run is a list of such actions; its trace has what the scans found and what the
  polls were given.
\<close>

datatype node_action =
    Scan "string + since_block" "string + u64"
  | Poll

text \<open>The events a scan that is not dropped adds.\<close>

definition scanned :: "string + since_block \<Rightarrow> btc_event list" where
  "scanned answer = (case scan_from (\<lambda>_. answer) [] of Inl _ \<Rightarrow> [] | Inr (events, _) \<Rightarrow> events)"

fun node_act :: "node_action \<Rightarrow> scan_state \<Rightarrow> btc_events option \<times> scan_state" where
  "node_act (Scan answer blocks) st = (None, snd (node_worker_turn (\<lambda>_. answer) blocks st))"
| "node_act Poll st = (let (evs, st') = poll_events st in (Some evs, st'))"

fun node_run :: "node_action list \<Rightarrow> scan_state \<Rightarrow> btc_events list \<times> scan_state" where
  "node_run [] st = ([], st)"
| "node_run (a # as) st =
     (let (out, st') = node_act a st; (outs, st'') = node_run as st'
      in (case out of Some evs \<Rightarrow> evs # outs | None \<Rightarrow> outs, st''))"

fun action_events :: "node_action \<Rightarrow> btc_event list" where
  "action_events (Scan answer blocks) = scanned answer"
| "action_events Poll = []"

text \<open>The last block and height of a poll are those of one and the same scan.\<close>

definition turn_events :: "string + since_block \<Rightarrow> scan_state \<Rightarrow> btc_event list" where
  "turn_events answer st = sc_events st @ scanned answer"

lemma node_worker_turn_events:
  "sc_events (snd (node_worker_turn (\<lambda>_. answer) blocks st)) = turn_events answer st"
  by (cases answer)
    (auto simp: node_worker_turn_def scan_from_def scanned_def turn_events_def Let_def)

lemma node_worker_turn_block:
  "sc_last_block (snd (node_worker_turn (\<lambda>_. answer) blocks st)) =
     (case answer of Inl _ \<Rightarrow> sc_last_block st | Inr r \<Rightarrow> sb_lastblock r)"
  by (cases answer) (auto simp: node_worker_turn_def scan_from_def Let_def)

text \<open>
  Property C32. No event is lost, repeated or reordered between the scan and the pollers:
  however scans and polls are interleaved, what the polls were given, followed by what is
  still waiting, is what was waiting at first followed by all the events the scans found, in
  the order of the scans. And a scan that fails changes nothing: it is tried again from the
  same block.
\<close>

theorem scanned_events_delivered_once:
  "concat (map ev_events (fst (node_run as st))) @ sc_events (snd (node_run as st))
     = sc_events st @ concat (map action_events as)
   \<and> snd (node_worker_turn (\<lambda>_. Inl e) blocks st) = st"
proof
  show "concat (map ev_events (fst (node_run as st))) @ sc_events (snd (node_run as st))
     = sc_events st @ concat (map action_events as)"
  proof (induction as arbitrary: st)
    case Nil
    then show ?case by simp
  next
    case (Cons a as)
    show ?case
    proof (cases a)
      case (Scan answer blocks)
      with Cons.IH [of "snd (node_worker_turn (\<lambda>_. answer) blocks st)"] show ?thesis
        by (simp add: node_worker_turn_events turn_events_def case_prod_unfold)
    next
      case Poll
      with Cons.IH [of "st\<lparr>sc_events := []\<rparr>"] show ?thesis
        by (simp add: poll_events_def case_prod_unfold Let_def)
    qed
  qed
  show "snd (node_worker_turn (\<lambda>_. Inl e) blocks st) = st"
    by (simp add: node_worker_turn_def scan_from_def)
qed

subsection \<open>Which events there are\<close>

lemma remove_event_direction:
  "to_remove_event tx = Some ev \<Longrightarrow>
     \<exists>c. ev = EvCancel c \<and> tc_txid c = lt_txid tx \<and> tc_vout c = lt_vout tx
       \<and> tx_direction_of tx = Some (tc_direction c)
       \<and> 0 \<le> sint (lt_amount tx)"
  by (auto simp: to_remove_event_def split: option.splits if_splits)

lemma update_event_not_cancel: "to_update_event tx \<noteq> Some (EvCancel c)"
  by (auto simp: to_update_event_def split: option.splits if_splits)

text \<open>
  A withdrawal that drops out of the chain is never reported: the node lists
  what it sends with negative amounts, and the scan skips removed transactions with a
  negative amount, so a cancellation is always one of a deposit. The code that would mark the
  withdrawal as rejected is never reached through it.
\<close>

lemma removed_withdrawals_are_not_reported:
  assumes "scan_from list_since_block b = Inr (events, next_hash)"
    and "list_since_block b = Inr result"
    and "\<forall>tx\<in>set (sb_removed result). lt_category tx = CatSend \<longrightarrow> sint (lt_amount tx) < 0"
  shows "EvCancel c \<in> set events \<longrightarrow> tc_direction c = Deposit
    \<and> (\<exists>tx\<in>set (sb_removed result). lt_category tx = CatReceive \<and> lt_txid tx = tc_txid c)"
proof
  assume "EvCancel c \<in> set events"
  with assms(1,2) update_event_not_cancel [of _ c] obtain tx where
    tx: "tx \<in> set (sb_removed result)" "to_remove_event tx = Some (EvCancel c)"
    by (auto simp: scan_from_def in_map_filter)
  from remove_event_direction [OF tx(2)] have id: "tc_txid c = lt_txid tx"
    and dir: "tx_direction_of tx = Some (tc_direction c)" and pos: "0 \<le> sint (lt_amount tx)" by auto
  from assms(3) tx(1) pos have "lt_category tx \<noteq> CatSend" by force
  with dir have "lt_category tx = CatReceive" "tc_direction c = Deposit"
    by (auto simp: tx_direction_of_def split: tx_category.splits)
  with id tx(1) show "tc_direction c = Deposit
    \<and> (\<exists>tx\<in>set (sb_removed result). lt_category tx = CatReceive \<and> lt_txid tx = tc_txid c)" by auto
qed

definition listed :: "tx_category \<Rightarrow> i64 \<Rightarrow> list_transaction" where
  "listed c n = \<lparr>lt_category = c, lt_address = Some ''a'', lt_vout = 0, lt_amount = n, lt_fee = None,
     lt_confirmations = 0, lt_txid = ''t'', lt_timereceived = 5, lt_conflicts = []\<rparr>"

lemma removed_withdrawals_are_not_reported_witness:
  "(let result = \<lparr>sb_transactions = [], sb_removed = [listed CatSend (- 9), listed CatReceive 9],
        sb_lastblock = ''b''\<rparr>
    in \<exists>c. scan_from (\<lambda>_. Inr result) ''a'' = Inr ([EvCancel c], ''b'') \<and> tc_direction c = Deposit)"
proof -
  let ?result = "\<lparr>sb_transactions = [], sb_removed = [listed CatSend (- 9), listed CatReceive 9],
        sb_lastblock = ''b''\<rparr>"
  obtain c where c: "scan_from (\<lambda>_. Inr ?result) ''a'' = Inr ([EvCancel c], ''b'')"
    by (simp add: scan_from_def to_remove_event_def listed_def tx_direction_of_def)
  from removed_withdrawals_are_not_reported [OF c, of ?result c] have "tc_direction c = Deposit"
    by (simp add: listed_def)
  with c show ?thesis by (auto simp: Let_def)
qed

subsection \<open>The cold wallet\<close>

text \<open>
  The cold wallet worker sends exactly when the hot wallet holds more than the
  configured amount, and what it sends is covered by the balance and leaves at most that
  amount behind - the amount itself when the balance is more than twice as large. It panics
  exactly when it has to compare with twice an amount that does not fit 64 bits.
\<close>

lemma cold_wallet_keeps_at_most_the_limit:
  "(cold_wallet_dump cold bal = None \<longleftrightarrow> cold < bal \<and> 2 ^ 64 \<le> 2 * uint cold)
   \<and> (cold_wallet_dump cold bal = Some None \<longleftrightarrow> bal \<le> cold)
   \<and> (\<forall>a. cold_wallet_dump cold bal = Some (Some a) \<longrightarrow>
        a \<le> bal \<and> cold \<le> a \<and> uint (bal - a) \<le> uint cold
        \<and> uint (bal - a) + uint a = uint bal
        \<and> (2 * uint cold < uint bal \<longrightarrow> bal - a = cold))"
proof -
  have sub: "uint (bal - x) = uint bal - uint x" if "x \<le> bal" for x
    using that by (simp add: uint_sub_if' word_le_def)
  have add: "uint (cold + cold) = 2 * uint cold" if "uint cold + uint cold < 2 ^ 64"
    using that uint_plus_if' [of cold cold] by simp
  show ?thesis
  proof (cases "cold < bal")
    case False
    then show ?thesis by (auto simp: cold_wallet_dump_def not_less)
  next
    case more: True
    then have le: "cold \<le> bal" by simp
    show ?thesis
    proof (cases "uint cold + uint cold < 2 ^ 64")
      case False
      with more show ?thesis by (simp add: cold_wallet_dump_def amount_add_def)
    next
      case True
      note twice = add [OF this]
      show ?thesis
      proof (cases "cold + cold < bal")
        case big: True
        with more True have d: "cold_wallet_dump cold bal = Some (Some (bal - cold))"
          by (simp add: cold_wallet_dump_def amount_add_def)
        from big twice have "2 * uint cold < uint bal" by (simp add: word_less_def)
        with sub [OF le] have "bal - cold \<le> bal" "cold \<le> bal - cold" by (simp_all add: word_le_def)
        with d more True sub [OF le] show ?thesis by simp
      next
        case small: False
        with more True have d: "cold_wallet_dump cold bal = Some (Some cold)"
          by (simp add: cold_wallet_dump_def amount_add_def)
        from small twice have "uint bal \<le> 2 * uint cold" by (simp add: word_less_def)
        with d more True sub [OF le] le show ?thesis by simp
      qed
    qed
  qed
qed

lemma cold_wallet_keeps_at_most_the_limit_example:
  "cold_wallet_dump 10 25 = Some (Some 15) \<and> 25 - 15 = (10 :: u64)"
proof -
  have d: "cold_wallet_dump 10 25 = Some (Some 15)" by (simp add: cold_wallet_dump_def amount_add_def)
  with cold_wallet_keeps_at_most_the_limit [of 10 25] show ?thesis by simp
qed

end
