(* ===== verification/Api_Error.thy ===== *)
theory Api_Error
  imports Api_Types
begin

section \<open>hexstody-api: errors of the HTTP interface\<close>

text \<open>
  hexstody-api/src/error.rs: the errors the handlers answer with, the code and the HTTP status
  of each, and the message sent to the client. The error of the crate \<open>pwhash\<close> is
  carried by its text.
\<close>

abbreviation MIN_USER_NAME_LEN :: nat where "MIN_USER_NAME_LEN \<equiv> 3"
abbreviation MAX_USER_NAME_LEN :: nat where "MAX_USER_NAME_LEN \<equiv> 320"
abbreviation MIN_USER_PASSWORD_LEN :: nat where "MIN_USER_PASSWORD_LEN \<equiv> 6"
abbreviation MAX_USER_PASSWORD_LEN :: nat where "MAX_USER_PASSWORD_LEN \<equiv> 1024"

datatype api_error =
    ErrSignupExistedUser
  | ErrUserNameTooShort
  | ErrUserNameTooLong
  | ErrUserPasswordTooShort
  | ErrUserPasswordTooLong
  | ErrPwhash string
  | ErrSigninFailed
  | ErrAuthRequired
  | ErrNoUserFound
  | ErrNoUserCurrency currency
  | ErrFailedGenAddress currency
  | ErrFailedGetFee currency
  | ErrInsufficientFunds currency
  | ErrFailedETHConnection string
  | ErrTokenAlreadyEnabled erc20_token
  | ErrTokenAlreadyDisabled erc20_token
  | ErrTokenNonZeroBalance erc20_token
  | ErrTokenActionFailed string
  | ErrInviteNotFound
  | ErrLimitsNoChanges
  | ErrLimChangeNotFound
  | ErrSignatureError string
  | ErrInternalServerError string
  | ErrGenericError string
  | ErrUnknownCurrency string
  | ErrLangNotChanged
  | ErrInvalidEmail
  | ErrInvalidPhoneNumber
  | ErrExchangeRateError currency

fun error_text :: "api_error \<Rightarrow> string" where
  "error_text ErrSignupExistedUser = ''Failed to sign up new user. The user already exists.''"
| "error_text ErrUserNameTooShort =
     ''Failed to signup user. The user name is too short. Need >= 3 symbols''"
| "error_text ErrUserNameTooLong =
     ''Failed to signup user. The user name is too long. Need <= 320 symbols''"
| "error_text ErrUserPasswordTooShort =
     ''Failed to signup user. The user password is too short. Need >= 6 symbols''"
| "error_text ErrUserPasswordTooLong =
     ''Failed to signup user. The user password is too long. Need <= 1024 symbols''"
| "error_text (ErrPwhash e) = ''Password hash failed: '' @ e"
| "error_text ErrSigninFailed = ''Username of password is invalid''"
| "error_text ErrAuthRequired = ''Action requires authentification''"
| "error_text ErrNoUserFound = ''Authed user is not found in state!''"
| "error_text (ErrNoUserCurrency c) =
     ''Authed user doesn't have required currency '' @ currency_to_string c @ ''!''"
| "error_text (ErrFailedGenAddress c) =
     ''Failed to generate new deposit address for currency '' @ currency_to_string c"
| "error_text (ErrFailedGetFee c) = ''Failed to get fee for currency '' @ currency_to_string c"
| "error_text (ErrInsufficientFunds c) = ''Not enough '' @ currency_to_string c @ ''!''"
| "error_text (ErrFailedETHConnection e) = ''Failed to connect to ETH node: '' @ e"
| "error_text (ErrTokenAlreadyEnabled t) = erc20_token_to_string t @ '' is already enabled''"
| "error_text (ErrTokenAlreadyDisabled t) = erc20_token_to_string t @ '' is already disabled''"
| "error_text (ErrTokenNonZeroBalance t) =
     erc20_token_to_string t @ '' has non-zero balance. Can not disable''"
| "error_text (ErrTokenActionFailed e) = ''Token action failed: '' @ e"
| "error_text ErrInviteNotFound = ''Invite does not exist''"
| "error_text ErrLimitsNoChanges = ''Limits are not changed by the update''"
| "error_text ErrLimChangeNotFound = ''Limit change not found''"
| "error_text (ErrSignatureError e) = ''Signature error: '' @ e"
| "error_text (ErrInternalServerError e) = ''Internal server error: '' @ e"
| "error_text (ErrGenericError e) = ''Error: '' @ e"
| "error_text (ErrUnknownCurrency e) = ''Unknown currency: '' @ e"
| "error_text ErrLangNotChanged = ''Language is not changed!''"
| "error_text ErrInvalidEmail = ''Invalid e-mail''"
| "error_text ErrInvalidPhoneNumber = ''Invalid phone number''"
| "error_text (ErrExchangeRateError c) =
     ''Failed to get '' @ currency_to_string c @ '' exchange rate''"

fun error_code :: "api_error \<Rightarrow> u16" where
  "error_code ErrSignupExistedUser = 0"
| "error_code ErrUserNameTooShort = 1"
| "error_code ErrUserNameTooLong = 2"
| "error_code ErrUserPasswordTooShort = 3"
| "error_code ErrUserPasswordTooLong = 4"
| "error_code (ErrPwhash _) = 5"
| "error_code ErrSigninFailed = 6"
| "error_code ErrAuthRequired = 7"
| "error_code ErrNoUserFound = 8"
| "error_code (ErrNoUserCurrency _) = 9"
| "error_code (ErrFailedGenAddress _) = 10"
| "error_code (ErrFailedGetFee _) = 11"
| "error_code (ErrInsufficientFunds _) = 12"
| "error_code (ErrFailedETHConnection _) = 13"
| "error_code (ErrTokenAlreadyEnabled _) = 14"
| "error_code (ErrTokenAlreadyDisabled _) = 15"
| "error_code (ErrTokenNonZeroBalance _) = 16"
| "error_code (ErrTokenActionFailed _) = 17"
| "error_code ErrInviteNotFound = 18"
| "error_code ErrLimitsNoChanges = 19"
| "error_code ErrLimChangeNotFound = 20"
| "error_code (ErrSignatureError _) = 21"
| "error_code (ErrUnknownCurrency _) = 22"
| "error_code (ErrInternalServerError _) = 23"
| "error_code (ErrGenericError _) = 24"
| "error_code ErrLangNotChanged = 25"
| "error_code ErrInvalidEmail = 26"
| "error_code ErrInvalidPhoneNumber = 27"
| "error_code (ErrExchangeRateError _) = 28"

fun error_status :: "api_error \<Rightarrow> u16" where
  "error_status ErrSignupExistedUser = 400"
| "error_status ErrUserNameTooShort = 400"
| "error_status ErrUserNameTooLong = 400"
| "error_status ErrUserPasswordTooShort = 400"
| "error_status ErrUserPasswordTooLong = 400"
| "error_status (ErrPwhash _) = 500"
| "error_status ErrSigninFailed = 401"
| "error_status ErrAuthRequired = 401"
| "error_status ErrNoUserFound = 417"
| "error_status (ErrNoUserCurrency _) = 500"
| "error_status (ErrFailedGenAddress _) = 500"
| "error_status (ErrFailedGetFee _) = 500"
| "error_status (ErrInsufficientFunds _) = 417"
| "error_status (ErrFailedETHConnection _) = 500"
| "error_status (ErrTokenAlreadyEnabled _) = 500"
| "error_status (ErrTokenAlreadyDisabled _) = 500"
| "error_status (ErrTokenNonZeroBalance _) = 500"
| "error_status (ErrTokenActionFailed _) = 500"
| "error_status ErrInviteNotFound = 400"
| "error_status ErrLimitsNoChanges = 500"
| "error_status ErrLimChangeNotFound = 400"
| "error_status (ErrSignatureError _) = 403"
| "error_status (ErrInternalServerError _) = 500"
| "error_status (ErrGenericError _) = 500"
| "error_status (ErrUnknownCurrency _) = 400"
| "error_status ErrLangNotChanged = 400"
| "error_status ErrInvalidEmail = 400"
| "error_status ErrInvalidPhoneNumber = 400"
| "error_status (ErrExchangeRateError _) = 404"

text \<open>What a handler answers when it fails: the status and the message.\<close>

record error_message =
  em_message :: string
  em_code :: u16

definition error_message_of :: "api_error \<Rightarrow> error_message" where
  "error_message_of e = \<lparr>em_message = error_text e, em_code = error_code e\<rparr>"

type_synonym http_error = "u16 \<times> error_message"

definition http_error_of :: "api_error \<Rightarrow> http_error" where
  "http_error_of e = (error_status e, error_message_of e)"

lemma em_code_http [simp]: "em_code (snd (http_error_of e)) = error_code e"
  by (simp add: http_error_of_def error_message_of_def)

text \<open>The two codes after which the pages send the client to the sign-in page.\<close>

lemma error_code_7_8:
  "error_code e = 8 \<or> error_code e = 7 \<longleftrightarrow> e = ErrNoUserFound \<or> e = ErrAuthRequired"
  by (cases e) simp_all

end
