(* ===== verification/Ticker.thy ===== *)
theory Ticker
  imports Api_Error
begin

section \<open>Exchange rates: the provider's client, the cache, the refresh worker\<close>

text \<open>
  hexstody-ticker-provider/src/client.rs, hexstody-runtime-db/src/lib.rs, and the handlers and
  the worker of hexstody-ticker. A rate is a value of type \<open>'f\<close> (an \<open>f64\<close>): the
  code only stores and copies it. The HTTP exchange is a parameter: \<open>fetch\<close> answers an
  endpoint with an object of rates by ticker, \<open>fetch_symbols\<close> with one by symbol.
\<close>

subsection \<open>The client\<close>

datatype ticker_error =
    TickerReqwest string
  | TickerJson string
  | TickerResponseMissing string
  | TickerGenericError string

fun ticker_error_text :: "ticker_error \<Rightarrow> string" where
  "ticker_error_text (TickerReqwest e) = ''Requesting server error: '' @ e"
| "ticker_error_text (TickerJson e) = ''JSON encoding/decoding error: '' @ e"
| "ticker_error_text (TickerResponseMissing s) = s @ '' not found in response''"
| "ticker_error_text (TickerGenericError e) = ''Generic error: '' @ e"

definition price_endpoint :: "string \<Rightarrow> symbol \<Rightarrow> string \<Rightarrow> string" where
  "price_endpoint server from tsyms =
     server @ ''/'' @ ''data/price'' @ ''?fsym='' @ symbol_text from @ ''&tsyms='' @ tsyms"

definition client_symbol_to_symbol ::
  "(string \<Rightarrow> ticker_error + (string, 'f) hash_map) \<Rightarrow> string \<Rightarrow> symbol \<Rightarrow> symbol
   \<Rightarrow> ticker_error + 'f" where
  "client_symbol_to_symbol fetch server from to =
     (case fetch (price_endpoint server from (symbol_text to)) of
        Inl e \<Rightarrow> Inl e
      | Inr response \<Rightarrow>
         (case hm_get response (symbol_text to) of
            None \<Rightarrow> Inl (TickerResponseMissing (symbol_text to))
          | Some rate \<Rightarrow> Inr rate))"

definition client_symbol_to_symbols ::
  "(string \<Rightarrow> ticker_error + (symbol, 'f) hash_map) \<Rightarrow> string \<Rightarrow> symbol \<Rightarrow> symbol list
   \<Rightarrow> ticker_error + (symbol, 'f) hash_map" where
  "client_symbol_to_symbols fetch_symbols server from to =
     fetch_symbols (price_endpoint server from (str_join '','' (map symbol_text to)))"

subsection \<open>The runtime state\<close>

record 'f runtime_state =
  rs_challenges :: "(string, string) hash_map"
  rs_cached_tickers :: "(symbol, (symbol, 'f) hash_map) hash_map"

definition runtime_state_new :: "'f runtime_state" where
  "runtime_state_new = \<lparr>rs_challenges = hm_empty, rs_cached_tickers = hm_empty\<rparr>"

text \<open>
  The methods of \<open>RuntimeState\<close>; \<open>client\<close> is the client's function of the same name.
  \<open>entry(from).and_modify(...)\<close> without \<open>or_insert\<close> changes a known key only.
\<close>

definition symbol_to_symbol ::
  "(symbol \<Rightarrow> symbol \<Rightarrow> 'e + 'f) \<Rightarrow> symbol \<Rightarrow> symbol \<Rightarrow> 'f runtime_state
   \<Rightarrow> ('f runtime_state, 'e, 'f) step_result" where
  "symbol_to_symbol client from to rs =
     (case Option.bind (hm_get (rs_cached_tickers rs) from) (\<lambda>sm. hm_get sm to) of
        Some rate \<Rightarrow> (Inr rate, rs)
      | None \<Rightarrow>
         (case client from to of
            Inl e \<Rightarrow> (Inl e, rs)
          | Inr rate \<Rightarrow>
             (Inr rate, rs\<lparr>rs_cached_tickers :=
                (case hm_get (rs_cached_tickers rs) from of
                   Some cm \<Rightarrow> hm_insert from (hm_insert to rate cm) (rs_cached_tickers rs)
                 | None \<Rightarrow> rs_cached_tickers rs)\<rparr>)))"

text \<open>One pass over the wanted symbols: those that are cached with their rates, and the rest.\<close>

definition split_cached ::
  "(symbol, 'f) hash_map \<Rightarrow> symbol list \<Rightarrow> (symbol, 'f) hash_map \<times> symbol list" where
  "split_cached submap to =
     (fold (\<lambda>t result. case hm_get submap t of None \<Rightarrow> result | Some rate \<Rightarrow> hm_insert t rate result)
        to hm_empty,
      filter (\<lambda>t. hm_get submap t = None) to)"

definition symbol_to_symbols ::
  "(symbol \<Rightarrow> symbol list \<Rightarrow> 'e + (symbol, 'f) hash_map) \<Rightarrow> symbol \<Rightarrow> symbol list
   \<Rightarrow> 'f runtime_state \<Rightarrow> ('f runtime_state, 'e, (symbol, 'f) hash_map) step_result" where
  "symbol_to_symbols client from to rs =
     (case hm_get (rs_cached_tickers rs) from of
        None \<Rightarrow>
         (case client from to of
            Inl e \<Rightarrow> (Inl e, rs)
          | Inr res \<Rightarrow> (Inr res, rs\<lparr>rs_cached_tickers := hm_insert from res (rs_cached_tickers rs)\<rparr>))
      | Some submap \<Rightarrow>
         (let (result, missing) = split_cached submap to in
          if missing \<noteq> []
          then (case client from missing of
                  Inl e \<Rightarrow> (Inl e, rs)
                | Inr res \<Rightarrow>
                   (Inr (fold (\<lambda>(k, v). hm_insert k v) res result),
                    rs\<lparr>rs_cached_tickers := hm_insert from res (rs_cached_tickers rs)\<rparr>))
          else (Inr result, rs)))"

text \<open>
  The generic variant collects a JSON object by ticker text and decodes it with serde, which
  is the parameter \<open>from_value\<close>.
\<close>

definition by_text :: "(symbol, 'f) hash_map \<Rightarrow> (string, 'f) hash_map" where
  "by_text m = hm_collect (map (\<lambda>(k, v). (symbol_text k, v)) m)"

definition symbol_to_symbols_generic ::
  "((string, 'f) hash_map \<Rightarrow> 'e + 't) \<Rightarrow> (symbol \<Rightarrow> symbol list \<Rightarrow> 'e + (symbol, 'f) hash_map)
   \<Rightarrow> symbol \<Rightarrow> symbol list \<Rightarrow> 'f runtime_state \<Rightarrow> ('f runtime_state, 'e, 't) step_result" where
  "symbol_to_symbols_generic from_value client from to rs =
     (case hm_get (rs_cached_tickers rs) from of
        None \<Rightarrow>
         (case client from to of
            Inl e \<Rightarrow> (Inl e, rs)
          | Inr res \<Rightarrow> (from_value (by_text res),
              rs\<lparr>rs_cached_tickers := hm_insert from res (rs_cached_tickers rs)\<rparr>))
      | Some submap \<Rightarrow>
         (let (cached, missing) = split_cached submap to in
          if missing \<noteq> []
          then (case client from missing of
                  Inl e \<Rightarrow> (Inl e, rs)
                | Inr res \<Rightarrow> (from_value (by_text res),
                    rs\<lparr>rs_cached_tickers := hm_insert from res (rs_cached_tickers rs)\<rparr>))
          else (from_value (by_text cached), rs)))"

definition tracked_pairs :: "'f runtime_state \<Rightarrow> (symbol, symbol list) hash_map" where
  "tracked_pairs rs = map (\<lambda>(k, v). (k, hm_keys v)) (rs_cached_tickers rs)"

subsection \<open>Handlers and worker\<close>

text \<open>One turn of \<open>ticker_worker\<close>: what cannot be refreshed is dropped.\<close>

definition ticker_refresh ::
  "(symbol \<Rightarrow> symbol list \<Rightarrow> 'e + (symbol, 'f) hash_map) \<Rightarrow> 'f runtime_state \<Rightarrow> 'f runtime_state" where
  "ticker_refresh client rs =
     rs\<lparr>rs_cached_tickers :=
        fold (\<lambda>(from, to) new_cache.
            case client from to of Inl e \<Rightarrow> new_cache | Inr vals \<Rightarrow> hm_insert from vals new_cache)
          (tracked_pairs rs) hm_empty\<rparr>"

record 'f ticker_eth =
  te_usd :: 'f
  te_rub :: 'f

definition ticker_eth_from_value :: "(string, 'f) hash_map \<Rightarrow> ticker_error + 'f ticker_eth" where
  "ticker_eth_from_value vals =
     (case (hm_get vals ''USD'', hm_get vals ''RUB'') of
        (Some u, Some r) \<Rightarrow> Inr \<lparr>te_usd = u, te_rub = r\<rparr>
      | (None, _) \<Rightarrow> Inl (TickerJson ''missing field `USD`'')
      | _ \<Rightarrow> Inl (TickerJson ''missing field `RUB`''))"

definition ticker_handler ::
  "(symbol \<Rightarrow> symbol list \<Rightarrow> ticker_error + (symbol, 'f) hash_map) \<Rightarrow> currency
   \<Rightarrow> 'f runtime_state \<Rightarrow> ('f runtime_state, api_error, 'f ticker_eth) step_result" where
  "ticker_handler client c rs =
     (case symbol_to_symbols_generic ticker_eth_from_value client (currency_symbol c) [SymUSD, SymRUB] rs of
        (Inl e, rs') \<Rightarrow> (Inl (ErrGenericError (ticker_error_text e)), rs')
      | (Inr t, rs') \<Rightarrow> (Inr t, rs'))"

definition ticker_pair ::
  "(symbol \<Rightarrow> symbol \<Rightarrow> ticker_error + 'f) \<Rightarrow> symbol \<Rightarrow> symbol \<Rightarrow> 'f runtime_state
   \<Rightarrow> ('f runtime_state, api_error, symbol \<times> symbol \<times> 'f) step_result" where
  "ticker_pair client from to rs =
     (case symbol_to_symbol client from to rs of
        (Inl e, rs') \<Rightarrow> (Inl (ErrGenericError (ticker_error_text e)), rs')
      | (Inr rate, rs') \<Rightarrow> (Inr (from, to, rate), rs'))"

subsection \<open>The cache against the provider\<close>

text \<open>
  A provider with the rates \<open>r\<close>: what it answers has exactly the symbols asked for, with
  their rates. A sound cache holds rates of \<open>r\<close> only.
\<close>

definition answers :: "(symbol \<Rightarrow> symbol \<Rightarrow> 'f) \<Rightarrow> (symbol \<Rightarrow> symbol list \<Rightarrow> 'e + (symbol, 'f) hash_map) \<Rightarrow> bool" where
  "answers r client \<longleftrightarrow> (\<forall>from to m. client from to = Inr m \<longrightarrow>
     hm_wf m \<and> (\<forall>t. hm_get m t = (if t \<in> set to then Some (r from t) else None)))"

definition cache_sound :: "(symbol \<Rightarrow> symbol \<Rightarrow> 'f) \<Rightarrow> 'f runtime_state \<Rightarrow> bool" where
  "cache_sound r rs \<longleftrightarrow> (\<forall>from sm t x. hm_get (rs_cached_tickers rs) from = Some sm \<longrightarrow>
     hm_get sm t = Some x \<longrightarrow> x = r from t)"

lemma split_cached_result:
  "hm_get (fst (split_cached sm to)) t = (if t \<in> set to then hm_get sm t else None)"
proof -
  have "hm_get (fold (\<lambda>t result. case hm_get sm t of None \<Rightarrow> result | Some rate \<Rightarrow> hm_insert t rate result) to m) t
      = (if t \<in> set to \<and> hm_get sm t \<noteq> None then hm_get sm t else hm_get m t)" for m
    by (induction to arbitrary: m) (auto split: option.splits)
  from this [of hm_empty] show ?thesis by (auto simp: split_cached_def)
qed

lemma hm_get_map_self:
  "hm_get (map (\<lambda>t. (t, f t)) ts) t = (if t \<in> set ts then Some (f t) else None)"
  by (induction ts) auto

lemma hm_get_fold_insert:
  "hm_wf m' \<Longrightarrow> hm_get (fold (\<lambda>(k, v). hm_insert k v) m' m) t =
     (case hm_get m' t of Some x \<Rightarrow> Some x | None \<Rightarrow> hm_get m t)"
proof (induction m' arbitrary: m)
  case Nil
  then show ?case by simp
next
  case (Cons kv m')
  obtain k v where kv: "kv = (k, v)" by (cases kv)
  from Cons.prems have wf: "hm_wf m'" and k: "hm_get m' k = None"
    by (simp_all add: kv hm_wf_def hm_get_None_iff)
  from Cons.IH [OF wf] k show ?case by (auto simp: kv split: option.splits)
qed

text \<open>
  Property C31. Asked for the rates of a symbol in several others, the runtime state answers,
  when the provider does, with exactly those symbols and the provider's rates - whether the
  cache had all of them, some or none - and a sound cache stays sound. The cached part of the
  answer is not lost; what is lost is the cache: after a partial miss it holds the missing
  symbols only.
\<close>

theorem cached_rates_are_the_providers:
  assumes "answers r client" and "cache_sound r rs"
    and "symbol_to_symbols client from to rs = (Inr res, rs')"
  shows "(\<forall>t. hm_get res t = (if t \<in> set to then Some (r from t) else None)) \<and> cache_sound r rs'
    \<and> (\<forall>sm t. hm_get (rs_cached_tickers rs) from = Some sm \<longrightarrow> t \<in> set to \<longrightarrow> hm_get sm t = None \<longrightarrow>
        (\<exists>sm'. hm_get (rs_cached_tickers rs') from = Some sm' \<and>
          (\<forall>t'. hm_get sm' t' \<noteq> None \<longleftrightarrow> t' \<in> set to \<and> hm_get sm t' = None)))"
proof (cases "hm_get (rs_cached_tickers rs) from")
  case None
  with assms(3) have c: "client from to = Inr res"
    and rs': "rs' = rs\<lparr>rs_cached_tickers := hm_insert from res (rs_cached_tickers rs)\<rparr>"
    by (auto simp: symbol_to_symbols_def split: sum.splits)
  from assms(1) c have res: "hm_get res t = (if t \<in> set to then Some (r from t) else None)" for t
    by (simp add: answers_def)
  with assms(2) rs' have "cache_sound r rs'" by (auto simp: cache_sound_def split: if_splits)
  with res None show ?thesis by simp
next
  case (Some sm)
  let ?missing = "filter (\<lambda>t. hm_get sm t = None) to"
  have sm: "hm_get sm t = Some x \<Longrightarrow> x = r from t" for t x
    using assms(2) Some unfolding cache_sound_def by blast
  show ?thesis
  proof (cases "?missing = []")
    case True
    with assms(3) Some have res: "res = fst (split_cached sm to)" and rs': "rs' = rs"
      by (auto simp: symbol_to_symbols_def split_cached_def split: prod.splits)
    from True have all: "t \<in> set to \<Longrightarrow> hm_get sm t \<noteq> None" for t
      by (simp add: filter_empty_conv)
    have "hm_get res t = (if t \<in> set to then Some (r from t) else None)" for t
      using all sm [of t] by (auto simp: res split_cached_result)
    with assms(2) rs' Some show ?thesis using all by (metis option.inject)
  next
    case False
    with assms(3) Some obtain new where c: "client from ?missing = Inr new"
      and res: "res = fold (\<lambda>(k, v). hm_insert k v) new (fst (split_cached sm to))"
      and rs': "rs' = rs\<lparr>rs_cached_tickers := hm_insert from new (rs_cached_tickers rs)\<rparr>"
      by (auto simp: symbol_to_symbols_def split_cached_def split: sum.splits)
    from assms(1) c have wf: "hm_wf new"
      and new: "hm_get new t = (if t \<in> set to \<and> hm_get sm t = None then Some (r from t) else None)" for t
      by (simp_all add: answers_def)
    have "hm_get res t = (if t \<in> set to then Some (r from t) else None)" for t
      using sm [of t] by (auto simp: res hm_get_fold_insert [OF wf] new split_cached_result)
    moreover have "cache_sound r rs'"
      using assms(2) new by (auto simp: cache_sound_def rs' split: if_splits)
    ultimately show ?thesis using Some new by (simp add: rs')
  qed
qed

lemma cached_rates_are_the_providers_witness:
  "(let client = \<lambda>from to. Inr (map (\<lambda>t. (t, length (symbol_text t))) (remdups to)) :: ticker_error + _;
        rs = \<lparr>rs_challenges = [], rs_cached_tickers = [(SymBTC, [(SymUSD, 3)])]\<rparr>
    in symbol_to_symbols client SymBTC [SymUSD, SymERC20 ''USDT''] rs =
         (Inr [(SymUSD, 3), (SymERC20 ''USDT'', 4)],
          \<lparr>rs_challenges = [], rs_cached_tickers = [(SymBTC, [(SymERC20 ''USDT'', 4)])]\<rparr>)
     \<and> cache_sound (\<lambda>from t. length (symbol_text t))
         \<lparr>rs_challenges = [], rs_cached_tickers = [(SymBTC, [(SymERC20 ''USDT'', 4)])]\<rparr>)"
proof -
  let ?client = "\<lambda>(from :: symbol) to. Inr (map (\<lambda>t. (t, length (symbol_text t))) (remdups to)) :: ticker_error + _"
  let ?rs = "\<lparr>rs_challenges = [], rs_cached_tickers = [(SymBTC, [(SymUSD, 3)])]\<rparr>"
  let ?r = "\<lambda>(from :: symbol) t. length (symbol_text t)"
  have run: "symbol_to_symbols ?client SymBTC [SymUSD, SymERC20 ''USDT''] ?rs =
         (Inr [(SymUSD, 3), (SymERC20 ''USDT'', 4)],
          \<lparr>rs_challenges = [], rs_cached_tickers = [(SymBTC, [(SymERC20 ''USDT'', 4)])]\<rparr>)"
    by (simp add: symbol_to_symbols_def split_cached_def hm_empty_def)
  have "answers ?r ?client" by (simp add: answers_def hm_wf_def comp_def hm_get_map_self)
  moreover have "cache_sound ?r ?rs" by (simp add: cache_sound_def)
  ultimately show ?thesis
    using cached_rates_are_the_providers [OF _ _ run, of ?r] run by (simp add: Let_def)
qed

text \<open>
  The rate page asks for dollars and roubles through the generic variant, which
  throws the cached part of its answer away: if the cache knows one of the two, the page
  fails, although cache and provider together have both.
\<close>

lemma half_cached_ticker_fails:
  assumes "answers r client" and "client (currency_symbol c) [SymRUB] = Inr m"
    and "hm_get (rs_cached_tickers rs) (currency_symbol c) = Some sm"
    and "hm_get sm SymUSD = Some x" and "hm_get sm SymRUB = None"
  shows "fst (ticker_handler client c rs) =
      Inl (ErrGenericError (ticker_error_text (TickerJson ''missing field `USD`'')))
    \<and> (\<exists>res. fst (symbol_to_symbols client (currency_symbol c) [SymUSD, SymRUB] rs) = Inr res
        \<and> hm_get res SymUSD = Some x \<and> hm_get res SymRUB = Some (r (currency_symbol c) SymRUB))"
proof -
  from assms(1,2) have wf: "hm_wf m"
    and m: "hm_get m t = (if t = SymRUB then Some (r (currency_symbol c) t) else None)" for t
    unfolding answers_def by fastforce+
  have only: "m = [(SymRUB, r (currency_symbol c) SymRUB)]"
  proof (cases m)
    case Nil
    with m [of SymRUB] show ?thesis by simp
  next
    case (Cons kv rest)
    obtain k v where kv: "kv = (k, v)" by (cases kv)
    with m [of k] Cons have k: "k = SymRUB" "v = r (currency_symbol c) SymRUB"
      by (simp_all split: if_splits)
    have "rest = []"
    proof (cases rest)
      case (Cons kv' rest')
      obtain k' v' where "kv' = (k', v')" by (cases kv')
      with wf kv k \<open>m = kv # rest\<close> Cons m [of k'] show ?thesis
        by (simp add: hm_wf_def split: if_splits)
    qed simp
    with Cons kv k show ?thesis by simp
  qed
  with assms(2-5) show ?thesis
    by (simp add: ticker_handler_def symbol_to_symbols_generic_def symbol_to_symbols_def
        split_cached_def by_text_def hm_collect_def hm_empty_def ticker_eth_from_value_def)
qed

lemma half_cached_ticker_fails_witness:
  "(let client = \<lambda>from to. Inr (map (\<lambda>t. (t, length (symbol_text t))) (remdups to)) :: ticker_error + _;
        rs = \<lparr>rs_challenges = [], rs_cached_tickers = [(SymBTC, [(SymUSD, 5)])]\<rparr>
    in fst (ticker_handler client BTC rs) =
      Inl (ErrGenericError ''JSON encoding/decoding error: missing field `USD`''))"
proof -
  let ?client = "\<lambda>(from :: symbol) to. Inr (map (\<lambda>t. (t, length (symbol_text t))) (remdups to)) :: ticker_error + _"
  let ?rs = "\<lparr>rs_challenges = [], rs_cached_tickers = [(SymBTC, [(SymUSD, 5)])]\<rparr>"
  let ?r = "\<lambda>(from :: symbol) t. length (symbol_text t)"
  have "answers ?r ?client" by (simp add: answers_def hm_wf_def comp_def hm_get_map_self)
  from half_cached_ticker_fails [OF this, where c = BTC and m = "[(SymRUB, 3)]" and rs = ?rs
      and sm = "[(SymUSD, 5)]" and x = 5]
  show ?thesis by (simp add: Let_def)
qed

end
