(* ===== verification/Http.thy ===== *)
theory Http
  imports Api_Error Sig Update
begin

section \<open>What a handler of the HTTP interfaces does\<close>

text \<open>
  The handlers of hexstody-public and hexstody-operator read the state, call the ETH and BTC
  modules, send events to the update worker and set cookies. A handler is modelled by the
  list of what it does, in order, and its outcome: an answer, one of the errors, or a panic
  (an \<open>unwrap\<close> that fails). Everything outside the process is a record of answers: the
  modules' (an error by its text), bcrypt's, fresh ids, the time, and whether the update
  worker still receives.
\<close>

datatype effect =
    SendUpdate update_body
  | EthCreateUser string
  | EthPostTokens string "erc20_token list"
  | EthAllocateAddress string
  | EthSendTx string string string
  | EthRemoveUser string
  | BtcDepositAddress
  | AddCookie string
  | RemoveCookie

datatype 'a outcome = Done 'a | Fail api_error | Panic

type_synonym 'a handler = "effect list \<times> 'a outcome"

definition ret :: "'a \<Rightarrow> 'a handler" where
  "ret a = ([], Done a)"

definition fail :: "api_error \<Rightarrow> 'a handler" where
  "fail e = ([], Fail e)"

definition panic :: "'a handler" where
  "panic = ([], Panic)"

definition perform :: "effect \<Rightarrow> unit handler" where
  "perform eff = ([eff], Done ())"

text \<open>Sequencing, with the operator \<open>?\<close>: an error or a panic ends the handler.\<close>

definition and_then :: "'a handler \<Rightarrow> ('a \<Rightarrow> 'b handler) \<Rightarrow> 'b handler" where
  "and_then m f =
     (case m of
        (effs, Done a) \<Rightarrow> (let (effs', r) = f a in (effs @ effs', r))
      | (effs, Fail e) \<Rightarrow> (effs, Fail e)
      | (effs, Panic) \<Rightarrow> (effs, Panic))"

definition map_handler :: "('a \<Rightarrow> 'b) \<Rightarrow> 'a handler \<Rightarrow> 'b handler" where
  "map_handler f m = and_then m (\<lambda>a. ret (f a))"

text \<open>\<open>map_err\<close>.\<close>

definition map_fail :: "(api_error \<Rightarrow> api_error) \<Rightarrow> 'a handler \<Rightarrow> 'a handler" where
  "map_fail f m = (case m of (effs, Fail e) \<Rightarrow> (effs, Fail (f e)) | _ \<Rightarrow> m)"

text \<open>A call whose answer is known: done, or the error the handler turns its text into.\<close>

definition call :: "effect \<Rightarrow> (string \<Rightarrow> api_error) \<Rightarrow> string + 'a \<Rightarrow> 'a handler" where
  "call eff err answer =
     (case answer of Inl e \<Rightarrow> ([eff], Fail (err e)) | Inr a \<Rightarrow> ([eff], Done a))"

text \<open>A query: it changes nothing outside.\<close>

definition query :: "(string \<Rightarrow> api_error) \<Rightarrow> string + 'a \<Rightarrow> 'a handler" where
  "query err answer = (case answer of Inl e \<Rightarrow> fail (err e) | Inr a \<Rightarrow> ret a)"

definition require :: "bool \<Rightarrow> api_error \<Rightarrow> unit handler" where
  "require b e = (if b then ret () else fail e)"

definition need :: "'a option \<Rightarrow> api_error \<Rightarrow> 'a handler" where
  "need x e = (case x of Some a \<Rightarrow> ret a | None \<Rightarrow> fail e)"

text \<open>The two ways of sending an event: unwrapping the result, or answering with an error.\<close>

definition send_unwrap :: "bool \<Rightarrow> update_body \<Rightarrow> unit handler" where
  "send_unwrap alive body = (if alive then perform (SendUpdate body) else panic)"

definition send_or :: "bool \<Rightarrow> api_error \<Rightarrow> update_body \<Rightarrow> unit handler" where
  "send_or alive e body = (if alive then perform (SendUpdate body) else fail e)"

text \<open>\<open>let _ = updater.send(...)\<close>.\<close>

definition send_ignore :: "bool \<Rightarrow> update_body \<Rightarrow> unit handler" where
  "send_ignore alive body = (if alive then perform (SendUpdate body) else ret ())"

subsection \<open>Reading off what a handler did\<close>

named_theorems handler_simps \<open>effects and outcomes of the handler combinators\<close>

definition sent :: "'a handler \<Rightarrow> update_body list" where
  "sent h = List.map_filter (\<lambda>eff. case eff of SendUpdate b \<Rightarrow> Some b | _ \<Rightarrow> None) (fst h)"

lemma and_then_simps [handler_simps]:
  "and_then (ret a) f = f a"
  "and_then (fail e) f = fail e"
  "and_then panic f = panic"
  "and_then (perform eff) g = (eff # fst (g ()), snd (g ()))"
  by (simp_all add: and_then_def ret_def fail_def panic_def perform_def split: prod.splits)

lemma and_then_Pair [handler_simps]:
  "and_then (effs, Done a) f = (effs @ fst (f a), snd (f a))"
  "and_then (effs, Fail e) f = (effs, Fail e)"
  "and_then (effs, Panic) f = (effs, Panic)"
  by (simp_all add: and_then_def split: prod.splits)

lemma handler_results [handler_simps]:
  "fst (ret a) = []" "snd (ret a) = Done a"
  "fst (fail e) = []" "snd (fail e) = Fail e"
  "fst panic = []" "snd panic = Panic"
  "fst (perform eff) = [eff]" "snd (perform eff) = Done ()"
  by (simp_all add: ret_def fail_def panic_def perform_def)

lemma sent_simps [handler_simps]:
  "sent (ret a) = []" "sent (fail e) = []" "sent panic = []"
  "sent ([], r) = []"
  "sent (eff # effs, r) = (case eff of SendUpdate b \<Rightarrow> b # sent (effs, r) | _ \<Rightarrow> sent (effs, r))"
  by (simp_all add: sent_def ret_def fail_def panic_def split: effect.splits)

lemma sent_append: "sent (effs @ effs', r) = sent (effs, r) @ sent (effs', r)"
  by (induction effs) (auto simp: handler_simps split: effect.splits)

lemma sent_result: "sent (effs, r) = sent (effs, r')"
  by (simp add: sent_def)

lemma sent_and_then:
  "sent (and_then m f) = sent m @ (case snd m of Done a \<Rightarrow> sent (f a) | _ \<Rightarrow> [])"
proof (cases m)
  case (Pair effs r)
  show ?thesis
  proof (cases r)
    case (Done a)
    have "sent (effs @ fst (f a), snd (f a)) = sent (effs, Done a) @ sent (f a)"
      unfolding sent_append by (simp add: sent_def)
    with Pair Done show ?thesis by (simp add: handler_simps)
  qed (simp_all add: Pair handler_simps sent_def)
qed

lemma call_simps [handler_simps]:
  "call eff err (Inr a) = ([eff], Done a)" "call eff err (Inl e) = ([eff], Fail (err e))"
  "query err (Inr b) = ret b" "query err (Inl e) = fail (err e)"
  by (simp_all add: call_def query_def)

lemma require_simps [handler_simps]:
  "require True e = ret ()" "require False e = fail e"
  "need (Some a) e' = ret a" "need None e' = fail e'"
  by (simp_all add: require_def need_def)

text \<open>An event a chain of steps sends is sent by one of its steps.\<close>

lemma sent_and_then_mem:
  "b \<in> set (sent (and_then m f)) \<longleftrightarrow>
     b \<in> set (sent m) \<or> (\<exists>a. snd m = Done a \<and> b \<in> set (sent (f a)))"
  by (auto simp: sent_and_then split: outcome.splits)

lemma sent_steps [simp]:
  "b \<in> set (sent (require c e)) \<longleftrightarrow> False"
  "b \<in> set (sent (need x e)) \<longleftrightarrow> False"
  "b \<in> set (sent (query err answer)) \<longleftrightarrow> False"
  "b \<in> set (sent (send_unwrap alive body)) \<longleftrightarrow> alive \<and> b = body"
  "b \<in> set (sent (send_or alive e body)) \<longleftrightarrow> alive \<and> b = body"
  "b \<in> set (sent (send_ignore alive body)) \<longleftrightarrow> alive \<and> b = body"
  by (simp_all add: require_def need_def query_def send_unwrap_def send_or_def send_ignore_def
      perform_def handler_simps split: option.splits sum.splits)

lemma step_outcomes [simp]:
  "snd (require c e) = Done u \<longleftrightarrow> c"
  "snd (need x e) = Done a \<longleftrightarrow> x = Some a"
  "snd (query err answer) = Done a \<longleftrightarrow> answer = Inr a"
  "snd (call eff err answer) = Done a \<longleftrightarrow> answer = Inr a"
  by (auto simp: require_def need_def query_def call_def handler_simps split: option.splits sum.splits)

lemma sent_call: "sent (call eff err answer) = sent ([eff], Done ())"
  by (simp add: call_def sent_def split: sum.splits)

subsection \<open>Sessions\<close>

text \<open>
  \<open>require_auth\<close> and \<open>require_auth_user\<close> of hexstody-public/src/api/auth.rs. The
  private cookie is authenticated by the framework; here it is the user name it holds.
\<close>

definition require_auth :: "string option \<Rightarrow> (string \<Rightarrow> 'a handler) \<Rightarrow> 'a handler" where
  "require_auth cookie future =
     (case cookie of Some c \<Rightarrow> future c | None \<Rightarrow> fail ErrAuthRequired)"

definition require_auth_user ::
  "string option \<Rightarrow> state \<Rightarrow> (user_info \<Rightarrow> 'a handler) \<Rightarrow> 'a handler" where
  "require_auth_user cookie s future =
     require_auth cookie (\<lambda>user_id.
       case hm_get (st_users s) user_id of
         Some user \<Rightarrow> future user
       | None \<Rightarrow> fail ErrNoUserFound)"

text \<open>
  The pages: an answer or an error, or a redirection to the sign-in page. Some redirect on
  every error, some only when the user is not known.
\<close>

datatype 'a page = Page 'a | ErrorPage api_error | GotoSignin | PagePanic

definition page_or_signin :: "'a handler \<Rightarrow> effect list \<times> 'a page" where
  "page_or_signin h =
     (fst h, (case snd h of Done a \<Rightarrow> Page a | Fail _ \<Rightarrow> GotoSignin | Panic \<Rightarrow> PagePanic))"

definition page_or_error :: "'a handler \<Rightarrow> effect list \<times> 'a page" where
  "page_or_error h =
     (fst h,
      (case snd h of
         Done a \<Rightarrow> Page a
       | Fail e \<Rightarrow>
          (let err = http_error_of e in
           if em_code (snd err) = 8 \<or> em_code (snd err) = 7 then GotoSignin else ErrorPage e)
       | Panic \<Rightarrow> PagePanic))"

lemma require_auth_user_sent:
  "b \<in> set (sent (require_auth_user cookie s f)) \<longleftrightarrow>
     (\<exists>uid u. cookie = Some uid \<and> hm_get (st_users s) uid = Some u \<and> b \<in> set (sent (f u)))"
  by (auto simp: require_auth_user_def require_auth_def handler_simps split: option.splits)

lemma require_auth_user_Some [handler_simps]:
  "hm_get (st_users s) uid = Some u \<Longrightarrow> require_auth_user (Some uid) s f = f u"
  by (simp add: require_auth_user_def require_auth_def)

subsection \<open>All a handler sends\<close>

text \<open>\<open>sends_only P h\<close>: every event \<open>h\<close> sends satisfies \<open>P\<close>; a rule for every way of building a handler.\<close>

definition sends_only :: "(update_body \<Rightarrow> bool) \<Rightarrow> 'a handler \<Rightarrow> bool" where
  "sends_only P h \<longleftrightarrow> (\<forall>b\<in>set (sent h). P b)"

named_theorems sends_intros \<open>what a handler sends, by its shape\<close>

lemma sends_only_steps [sends_intros]:
  "sends_only P (ret a)" "sends_only P (fail e)" "sends_only P panic"
  "sends_only P (require c e)" "sends_only P (need x e)" "sends_only P (query err ans)"
  by (simp_all add: sends_only_def require_def need_def query_def handler_simps
      split: option.splits sum.splits)

lemma sends_only_send [sends_intros]:
  "P b \<Longrightarrow> sends_only P (send_unwrap alive b)"
  "P b \<Longrightarrow> sends_only P (send_or alive e b)"
  "P b \<Longrightarrow> sends_only P (send_ignore alive b)"
  by (simp_all add: sends_only_def)

lemma sends_only_call [sends_intros]:
  "sends_only P (call (EthSendTx x y z) err ans)" "sends_only P (call (EthPostTokens x ts) err ans)"
  "sends_only P (call (EthAllocateAddress x) err ans)" "sends_only P (call BtcDepositAddress err ans)"
  "sends_only P (call (EthCreateUser x) err ans)"
  by (simp_all add: sends_only_def sent_call handler_simps)

lemma sends_only_and_then [sends_intros]:
  "sends_only P m \<Longrightarrow> (\<And>a. snd m = Done a \<Longrightarrow> sends_only P (f a)) \<Longrightarrow> sends_only P (and_then m f)"
  by (auto simp: sends_only_def sent_and_then_mem)

lemma sends_only_map [sends_intros]:
  "sends_only P h \<Longrightarrow> sends_only P (map_fail g h)"
  "sends_only P h \<Longrightarrow> sends_only P (map_handler f h)"
proof -
  show "sends_only P h \<Longrightarrow> sends_only P (map_fail g h)"
    by (cases h; cases "snd h") (simp_all add: map_fail_def sends_only_def sent_def)
  show "sends_only P h \<Longrightarrow> sends_only P (map_handler f h)"
    unfolding map_handler_def by (intro sends_intros)
qed

lemma sends_only_user [sends_intros]:
  "(\<And>uid u. cookie = Some uid \<Longrightarrow> hm_get (st_users s) uid = Some u \<Longrightarrow> sends_only P (f u)) \<Longrightarrow>
     sends_only P (require_auth_user cookie s f)"
  by (auto simp: sends_only_def require_auth_user_sent)

end
