(* ===== verification/Public_Data.thy ===== *)
theory Public_Data
  imports Http Btc_Node Ticker
begin

section \<open>What the public API receives, answers, and asks others\<close>

text \<open>
  The data of hexstody-api/src/types.rs that only the handlers of hexstody-public use: the
  requests, the balances and the history they answer, and what the ETH module tells about a
  user; the order in which lists are shown; and the record of answers the handlers get from
  outside the process.
\<close>

subsection \<open>Requests\<close>

record signup_email_req =
  se_user :: string
  se_invite :: invite
  se_password :: string

record signin_email_req =
  si_user :: string
  si_password :: string

record password_change_req =
  pcr_old_password :: string
  pcr_new_password :: string

record user_withdraw_request =
  uwr_address :: currency_address
  uwr_amount :: u64

record exchange_request =
  er_currency_from :: currency
  er_currency_to :: currency
  er_amount_from :: u64
  er_amount_to :: u64

record config_change_request =
  ccr_email :: "string option"
  ccr_phone :: "string option"
  ccr_tg_name :: "string option"

record challenge_response =
  chr_user :: string
  chr_challenge :: string

subsection \<open>What the ETH module tells about a user\<close>

record erc20_hist_unit_u =
  hu_block_number :: string
  hu_time_stamp :: string
  hu_hash :: string
  hu_from :: string
  hu_to :: string
  hu_value :: string
  hu_token_name :: string
  hu_gas :: string
  hu_gas_price :: string
  hu_contract_address :: string
  hu_confirmations :: string
  hu_addr :: string

record erc20_token_balance =
  tb_token_name :: string
  tb_token_balance :: string

record erc20_token_history =
  th_token :: erc20_token
  th_history :: "erc20_hist_unit_u list"

record user_data =
  ud_tokens :: "erc20_token list"
  ud_history_eth :: "erc20_hist_unit_u list"
  ud_history_tokens :: "erc20_token_history list"
  ud_balance_eth :: string
  ud_balance_tokens :: "erc20_token_balance list"

record user_eth =
  ue_login :: string
  ue_address :: string
  ue_data :: user_data

subsection \<open>Answers\<close>

record balance_item =
  bi_currency :: currency
  bi_value :: u64
  bi_limit_info :: limit_info

record deposit_history_item =
  dhi_currency :: currency
  dhi_date :: datetime
  dhi_value :: u64
  dhi_number_of_confirmations :: u64
  dhi_txid :: currency_tx_id
  dhi_to_address :: currency_address

record withdrawal_history_item =
  whi_currency :: currency
  whi_date :: datetime
  whi_value :: u64
  whi_status :: api_withdrawal_status
  whi_txid :: "currency_tx_id option"

datatype history_item =
    DepositItem deposit_history_item
  | WithdrawalItem withdrawal_history_item

fun history_item_time :: "history_item \<Rightarrow> datetime" where
  "history_item_time (DepositItem d) = dhi_date d"
| "history_item_time (WithdrawalItem w) = whi_date w"

record history =
  hist_target_number_of_confirmations :: i16
  hist_items :: "history_item list"

record token_info =
  ti_token :: erc20_token
  ti_balance :: u64
  ti_finalized_balance :: u64
  ti_is_active :: bool

record deposit_info =
  dpi_address :: string
  dpi_qr_code_base64 :: string
  dpi_tab :: string
  dpi_currency :: string

definition by_currency :: "balance_item list \<Rightarrow> currency \<Rightarrow> balance_item option" where
  "by_currency balances cur = List.find (\<lambda>i. bi_currency i = cur) balances"

subsection \<open>Sorting by currency\<close>

text \<open>
  \<open>BalanceItem\<close>, \<open>TokenInfo\<close> and \<open>LimitApiResp\<close> are ordered by their
  currency (or token) alone, and \<open>slice::sort\<close> is stable: it is sorting by the rank of
  the currency in the order of \<open>Currency\<close>.
\<close>

fun currency_rank :: "currency \<Rightarrow> nat" where
  "currency_rank BTC = 0"
| "currency_rank ETH = 1"
| "currency_rank (ERC20 t) = 2 + unat (erc20_index t)"

lemma currency_cmp_rank:
  "currency_cmp a b = (if currency_rank a < currency_rank b then Less
    else if currency_rank a = currency_rank b then Equal else Greater)"
  by (cases a; cases b)
    (simp_all add: erc20_cmp_def u16_cmp_def word_less_nat_alt word_unat_eq_iff)

definition sort_by_currency :: "('a \<Rightarrow> currency) \<Rightarrow> 'a list \<Rightarrow> 'a list" where
  "sort_by_currency cur xs = sort_key (\<lambda>x. currency_rank (cur x)) xs"

text \<open>\<open>sort_by(|a, b| time(b).cmp(time(a)))\<close>: newest first, stable.\<close>

definition newest_first :: "history_item list \<Rightarrow> history_item list" where
  "newest_first items = sort_key (\<lambda>h. - history_item_time h) items"

subsection \<open>Answers from outside\<close>

text \<open>
  One record for a handler's run: whether the update worker still receives, the fresh id and
  the time as text, bcrypt, base64 and the key format, serde_json on a challenge, the
  validation of emails and phone numbers (the crate regex), the ETH and the BTC module.
\<close>

record outside =
  out_alive :: bool
  out_uuid :: uuid
  out_now_text :: string
  out_show_uuid :: "uuid \<Rightarrow> string"
  out_bcrypt_hash :: "string \<Rightarrow> string + string"
  out_bcrypt_verify :: "string \<Rightarrow> string \<Rightarrow> bool"
  out_base64 :: "string \<Rightarrow> string + string"
  out_key_der :: "string \<Rightarrow> string + public_key"
  out_challenge_json :: "challenge_response \<Rightarrow> string"
  out_ecdsa :: verifier
  out_email_valid :: "string \<Rightarrow> bool"
  out_phone_valid :: "string \<Rightarrow> bool"
  out_from_timestamp :: "i64 \<Rightarrow> datetime option"
  eth_create_user :: "string \<Rightarrow> string + unit"
  eth_post_tokens :: "string \<Rightarrow> erc20_token list \<Rightarrow> string + unit"
  eth_user_data :: "string \<Rightarrow> string + user_eth"
  eth_allocate_address :: "string \<Rightarrow> string + string"
  eth_send_tx :: "string \<Rightarrow> string \<Rightarrow> string \<Rightarrow> string + unit"
  btc_get_fees :: "string + fee_response"
  btc_deposit_address :: "string + string"

definition email_from_str :: "outside \<Rightarrow> string \<Rightarrow> email option" where
  "email_from_str out value = (if out_email_valid out value then Some \<lparr>email_text = value\<rparr> else None)"

definition phone_from_str :: "outside \<Rightarrow> string \<Rightarrow> phone_number option" where
  "phone_from_str out value = (if out_phone_valid out value then Some \<lparr>number = value\<rparr> else None)"

text \<open>The text of a failed send on the channel of the update worker.\<close>

definition send_error :: string where
  "send_error = ''channel closed''"

text \<open>An outside in which everything works, for the examples.\<close>

definition example_outside :: outside where
  "example_outside =
     \<lparr>out_alive = True, out_uuid = 42, out_now_text = ''2022-06-08'', out_show_uuid = (\<lambda>_. ''42''),
      out_bcrypt_hash = (\<lambda>p. Inr (CHR ''#'' # p)), out_bcrypt_verify = (\<lambda>p h. h = CHR ''#'' # p),
      out_base64 = (\<lambda>t. Inr t), out_key_der = (\<lambda>t. Inr (PublicKey t)),
      out_challenge_json = (\<lambda>r. chr_user r @ '' '' @ chr_challenge r),
      out_ecdsa = (\<lambda>k m sig. sig = Signature (key_text k @ m)),
      out_email_valid = (\<lambda>t. CHR ''@'' \<in> set t), out_phone_valid = (\<lambda>t. CHR ''+'' \<in> set t),
      out_from_timestamp = (\<lambda>t. Some (sint t)),
      eth_create_user = (\<lambda>_. Inr ()), eth_post_tokens = (\<lambda>_ _. Inr ()),
      eth_user_data = (\<lambda>u. Inl ''no data''), eth_allocate_address = (\<lambda>u. Inr (''0x'' @ u)),
      eth_send_tx = (\<lambda>_ _ _. Inr ()),
      btc_get_fees = Inr \<lparr>fr_fee_rate = 5, fr_block = None\<rparr>,
      btc_deposit_address = Inr ''bcrt1q''\<rparr>"

end
