(* ===== verification/Public_Auth.thy ===== *)
theory Public_Auth
  imports Public_Data
begin

section \<open>Signing up, signing in, passwords\<close>

text \<open>
  hexstody-public/src/api/auth.rs. The length of a string is its number of bytes, as
  \<open>String::len\<close> counts.
\<close>

subsection \<open>Handlers\<close>

definition check_lengths :: "string \<Rightarrow> string \<Rightarrow> unit handler" where
  "check_lengths user password =
     and_then (require (MIN_USER_NAME_LEN \<le> length user) ErrUserNameTooShort) (\<lambda>_.
     and_then (require (length user \<le> MAX_USER_NAME_LEN) ErrUserNameTooLong) (\<lambda>_.
     and_then (require (MIN_USER_PASSWORD_LEN \<le> length password) ErrUserPasswordTooShort) (\<lambda>_.
       require (length password \<le> MAX_USER_PASSWORD_LEN) ErrUserPasswordTooLong)))"

abbreviation EXCHANGE_USER :: string where "EXCHANGE_USER \<equiv> ''hexstody-exchange''"

definition signup_email :: "outside \<Rightarrow> state \<Rightarrow> signup_email_req \<Rightarrow> unit handler" where
  "signup_email out s data =
     and_then (check_lengths (se_user data) (se_password data)) (\<lambda>_.
       (let user_exists = hm_contains_key (st_users s) (se_user data);
            invite_valid = hm_contains_key (st_invites s) (se_invite data)
        in if user_exists \<or> se_user data = EXCHANGE_USER then fail ErrSignupExistedUser
           else if \<not> invite_valid then fail ErrInviteNotFound
           else
             and_then (call (EthCreateUser (se_user data)) ErrFailedETHConnection
               (eth_create_user out (se_user data))) (\<lambda>_.
             and_then (call (EthPostTokens (se_user data) default_tokens) ErrFailedETHConnection
               (eth_post_tokens out (se_user data) default_tokens)) (\<lambda>_.
             and_then (query ErrPwhash (out_bcrypt_hash out (se_password data))) (\<lambda>pass_hash.
               send_unwrap (out_alive out) (Signup
                 \<lparr>su_username = se_user data, su_invite = se_invite data,
                  su_auth = Password pass_hash\<rparr>))))))"

text \<open>A wrong old password is answered with \<open>UserNameTooShort\<close>.\<close>

definition change_password_handler ::
  "outside \<Rightarrow> state \<Rightarrow> string option \<Rightarrow> password_change_req \<Rightarrow> unit handler" where
  "change_password_handler out s cookie data =
     require_auth_user cookie s (\<lambda>user.
       and_then
         (case ui_auth user of
            Password pass_hash \<Rightarrow>
              require (out_bcrypt_verify out (pcr_old_password data) pass_hash) ErrUserNameTooShort
          | Lightning \<Rightarrow> ret ()) (\<lambda>_.
       and_then (require (MIN_USER_PASSWORD_LEN \<le> length (pcr_new_password data))
         ErrUserPasswordTooShort) (\<lambda>_.
       and_then (require (length (pcr_new_password data) \<le> MAX_USER_PASSWORD_LEN)
         ErrUserPasswordTooLong) (\<lambda>_.
       and_then (query ErrPwhash (out_bcrypt_hash out (pcr_new_password data))) (\<lambda>new_pass_hash.
         send_unwrap (out_alive out) (PasswordChange
           \<lparr>pc_user = ui_username user, pc_new_password = new_pass_hash\<rparr>))))))"

definition signin_email :: "outside \<Rightarrow> state \<Rightarrow> signin_email_req \<Rightarrow> unit handler" where
  "signin_email out s data =
     and_then (check_lengths (si_user data) (si_password data)) (\<lambda>_.
       (case hm_get (st_users s) (si_user data) of
          Some user \<Rightarrow>
           (case ui_auth user of
              Password pass_hash \<Rightarrow>
                (if out_bcrypt_verify out (si_password data) pass_hash
                 then perform (AddCookie (si_user data)) else fail ErrSigninFailed)
            | Lightning \<Rightarrow> fail ErrSigninFailed)
        | None \<Rightarrow> fail ErrSigninFailed))"

text \<open>
  \<open>remove_user\<close> works on the state directly, in test deployments only; otherwise it
  redirects. The ETH module's answer is ignored.
\<close>

definition remove_user :: "bool \<Rightarrow> string \<Rightarrow> state \<Rightarrow> effect list \<times> unit page \<times> state" where
  "remove_user is_test user s =
     (if is_test
      then ([EthRemoveUser user], Page (), s\<lparr>st_users := hm_remove user (st_users s)\<rparr>)
      else ([], GotoSignin, s))"

subsection \<open>Challenges\<close>

definition get_challenge ::
  "outside \<Rightarrow> state \<Rightarrow> string \<Rightarrow> 'f runtime_state \<Rightarrow> string handler \<times> 'f runtime_state" where
  "get_challenge out s user rs =
     (if hm_contains_key (st_users s) user
      then (let challenge = out_show_uuid out (out_uuid out)
            in (ret challenge, rs\<lparr>rs_challenges := hm_insert user challenge (rs_challenges rs)\<rparr>))
      else (fail ErrNoUserFound, rs))"

abbreviation REDEEM_URI :: string where "REDEEM_URI \<equiv> ''/signin/challenge/redeem''"

definition redeem_message :: "outside \<Rightarrow> string \<Rightarrow> challenge_response \<Rightarrow> string" where
  "redeem_message out domain resp =
     str_join '':'' [domain @ REDEEM_URI, out_challenge_json out resp]"

definition redeem_challenge ::
  "outside \<Rightarrow> string \<Rightarrow> state \<Rightarrow> challenge_response \<Rightarrow> signature_data \<Rightarrow> 'f runtime_state
   \<Rightarrow> unit handler \<times> 'f runtime_state" where
  "redeem_challenge out domain s resp sd rs =
     (let user = chr_user resp; challenge = chr_challenge resp in
      if hm_contains_key (st_users s) user
      then (case verify_signature (out_ecdsa out) None (sd_public_key sd) (sd_nonce sd)
                   (redeem_message out domain resp) (sd_signature sd) of
              Inr _ \<Rightarrow>
               (case hm_get (rs_challenges rs) user of
                  Some stored_challenge \<Rightarrow>
                   (if stored_challenge = challenge
                    then (perform (AddCookie user),
                          rs\<lparr>rs_challenges := hm_remove user (rs_challenges rs)\<rparr>)
                    else (fail ErrNoUserFound, rs))
                | None \<Rightarrow> (fail ErrNoUserFound, rs))
            | Inl e \<Rightarrow> (fail (ErrSignatureError (signature_error_text e)), rs))
      else (fail ErrNoUserFound, rs))"

end
