(* ===== verification/Public_Wallet.thy ===== *)
theory Public_Wallet
  imports Public_Auth Isolation
begin

section \<open>Balances, history, withdrawals, deposits, tokens and exchanges\<close>

text \<open>hexstody-public/src/api/wallet.rs, one definition per handler.\<close>

subsection \<open>Balances\<close>

text \<open>
  The balance shown: the state machine's for BTC, the ETH module's for ETH and tokens. For
  ETH a text that is no number is a panic (\<open>None\<close>); for a token it counts as zero, and
  a token the module does not list keeps the state machine's balance.
\<close>

definition shown_balance :: "user_data \<Rightarrow> currency \<Rightarrow> user_currency_info \<Rightarrow> u64 option" where
  "shown_balance ud cur info =
     (case cur of
        BTC \<Rightarrow> Some (balance info)
      | ETH \<Rightarrow> parse_u64 (ud_balance_eth ud)
      | ERC20 token \<Rightarrow> Some (fold (\<lambda>tok bal.
          if tb_token_name tok = ticker token
          then (case parse_u64 (tb_token_balance tok) of Some v \<Rightarrow> v | None \<Rightarrow> 0) else bal)
          (ud_balance_tokens ud) (balance info)))"

definition get_balance :: "outside \<Rightarrow> state \<Rightarrow> string option \<Rightarrow> balance_item list handler" where
  "get_balance out s cookie =
     require_auth_user cookie s (\<lambda>user.
       and_then (query ErrFailedETHConnection (eth_user_data out (ui_username user))) (\<lambda>resp.
         case those (map (\<lambda>(cur, info). map_option
                (\<lambda>bal. \<lparr>bi_currency = cur, bi_value = bal, bi_limit_info = uci_limit_info info\<rparr>)
                (shown_balance (ue_data resp) cur info)) (ui_currencies user)) of
           None \<Rightarrow> panic
         | Some balances \<Rightarrow> ret (sort_by_currency bi_currency balances)))"

definition get_balance_by_currency ::
  "outside \<Rightarrow> state \<Rightarrow> string option \<Rightarrow> currency \<Rightarrow> balance_item handler" where
  "get_balance_by_currency out s cookie cur =
     map_handler (\<lambda>(value, info). \<lparr>bi_currency = cur, bi_value = value, bi_limit_info = info\<rparr>)
       (require_auth_user cookie s (\<lambda>user.
          case hm_get (ui_currencies user) cur of
            None \<Rightarrow> fail (ErrNoUserCurrency cur)
          | Some info \<Rightarrow>
              if cur = BTC then ret (balance info, uci_limit_info info)
              else and_then (query ErrFailedETHConnection (eth_user_data out (ui_username user)))
                (\<lambda>resp. case cur of
                   BTC \<Rightarrow> fail (ErrNoUserCurrency cur)
                 | ETH \<Rightarrow>
                    (case parse_u64 (ud_balance_eth (ue_data resp)) of
                       Some v \<Rightarrow> ret (v, uci_limit_info info) | None \<Rightarrow> panic)
                 | ERC20 token \<Rightarrow>
                    (case List.find (\<lambda>tok. tb_token_name tok = ticker token)
                            (ud_balance_tokens (ue_data resp)) of
                       None \<Rightarrow> fail (ErrNoUserCurrency cur)
                     | Some tok \<Rightarrow>
                        (case parse_u64 (tb_token_balance tok) of
                           Some v \<Rightarrow> ret (v, uci_limit_info info) | None \<Rightarrow> panic)))))"

definition get_user_data :: "outside \<Rightarrow> state \<Rightarrow> string option \<Rightarrow> user_eth handler" where
  "get_user_data out s cookie =
     require_auth_user cookie s (\<lambda>user.
       query ErrFailedETHConnection (eth_user_data out (ui_username user)))"

subsection \<open>Fees\<close>

abbreviation BTC_BYTES_PER_TRANSACTION :: u64 where "BTC_BYTES_PER_TRANSACTION \<equiv> 1024"

text \<open>The answer of \<open>get_fees\<close>, and the fee of a withdrawal; the product wraps.\<close>

definition fee_rate_of :: "outside \<Rightarrow> u64 handler" where
  "fee_rate_of out =
     (case btc_get_fees out of Inl e \<Rightarrow> fail (ErrFailedGetFee BTC) | Inr r \<Rightarrow> ret (fr_fee_rate r))"

definition btcfee :: "outside \<Rightarrow> string option \<Rightarrow> u64 handler" where
  "btcfee out cookie =
     require_auth cookie (\<lambda>_.
       and_then (fee_rate_of out) (\<lambda>btc_fee_per_byte.
         ret (btc_fee_per_byte * BTC_BYTES_PER_TRANSACTION)))"

subsection \<open>History\<close>

text \<open>Mapping an ETH deposit is a \<open>todo!\<close>, which panics.\<close>

fun to_deposit_history_item :: "transaction \<Rightarrow> history_item option" where
  "to_deposit_history_item (TrBtc t) = Some (DepositItem
     \<lparr>dhi_currency = BTC, dhi_date = bt_timestamp t, dhi_value = abs_u64 (bt_amount t),
      dhi_number_of_confirmations = bt_confirmations t,
      dhi_txid = TxBTC \<lparr>btc_txid_text = bt_txid t\<rparr>,
      dhi_to_address = AddrBTC \<lparr>addr = bt_address t\<rparr>\<rparr>)"
| "to_deposit_history_item (TrEth _) = None"

definition to_withdrawal_history_item :: "currency \<Rightarrow> withdrawal_request \<Rightarrow> history_item" where
  "to_withdrawal_history_item cur withdrawal = WithdrawalItem
     \<lparr>whi_currency = cur, whi_date = wr_created_at withdrawal, whi_value = wr_amount withdrawal,
      whi_status = api_status (wr_status withdrawal), whi_txid = None\<rparr>"

text \<open>
  A line of the ETH explorer's history. The name of the token and the time stamp are
  unwrapped; a value that is no \<open>u64\<close> is shown as the largest one. The addresses are hex
  texts, on which the two ways of capitalising agree.
\<close>

definition to_eth_history :: "outside \<Rightarrow> erc20_hist_unit_u \<Rightarrow> history_item option" where
  "to_eth_history out h =
     (case currency_from_str (hu_token_name h) of
        Inl _ \<Rightarrow> None
      | Inr cur \<Rightarrow>
         (case Option.bind (parse_i64 (hu_time_stamp h)) (out_from_timestamp out) of
            None \<Rightarrow> None
          | Some time \<Rightarrow>
             (let val = (case parse_u64 (hu_value h) of Some v \<Rightarrow> v | None \<Rightarrow> - 1);
                  txid = TxETH \<lparr>eth_txid_text = hu_hash h\<rparr>
              in if to_uppercase (hu_addr h) \<noteq> map ascii_upper (hu_from h)
                 then Some (DepositItem
                   \<lparr>dhi_currency = cur, dhi_date = time, dhi_value = val,
                    dhi_number_of_confirmations = 0, dhi_txid = txid,
                    dhi_to_address = AddrETH \<lparr>account = hu_addr h\<rparr>\<rparr>)
                 else Some (WithdrawalItem
                   \<lparr>whi_currency = cur, whi_date = time, whi_value = val,
                    whi_status = ApiInProgress 0, whi_txid = Some txid\<rparr>))))"

text \<open>The items of one account, a panic if a transaction cannot be mapped.\<close>

definition account_history ::
  "withdrawal_filter \<Rightarrow> currency \<Rightarrow> user_currency_info \<Rightarrow> history_item list option" where
  "account_history filt cur info =
     map_option (\<lambda>deposits.
         map (to_withdrawal_history_item cur)
           (filter (\<lambda>w. wr_matches_filter w filt) (hm_values (uci_withdrawals info))) @ deposits)
       (those (map to_deposit_history_item (unconfirmed_transactions info)))"

definition eth_history :: "outside \<Rightarrow> user_data \<Rightarrow> history_item list option" where
  "eth_history out ud =
     those (map (to_eth_history out)
       (concat (map th_history (ud_history_tokens ud)) @ ud_history_eth ud))"

definition get_history ::
  "outside \<Rightarrow> state \<Rightarrow> string option \<Rightarrow> nat \<Rightarrow> nat \<Rightarrow> withdrawal_filter option \<Rightarrow> history handler" where
  "get_history out s cookie skip tak filt =
     (let filt' = (case filt of Some f \<Rightarrow> f | None \<Rightarrow> FilterAll) in
      require_auth_user cookie s (\<lambda>user.
        case those (map (\<lambda>(cur, info). account_history filt' cur info) (ui_currencies user)) of
          None \<Rightarrow> panic
        | Some own \<Rightarrow>
           (case eth_user_data out (ui_username user) of
              Inl _ \<Rightarrow> panic
            | Inr resp \<Rightarrow>
               (case eth_history out (ue_data resp) of
                  None \<Rightarrow> panic
                | Some eth_and_tokens \<Rightarrow> ret
                    \<lparr>hist_target_number_of_confirmations = REQUIRED_NUMBER_OF_CONFIRMATIONS,
                     hist_items = take tak (drop skip
                       (newest_first (concat own @ eth_and_tokens)))\<rparr>))))"

subsection \<open>Withdrawals\<close>

text \<open>Whoever is signed in sends from the account \<open>testlogin\<close> of the ETH module.\<close>

definition withdraw_eth ::
  "outside \<Rightarrow> state \<Rightarrow> string option \<Rightarrow> string \<Rightarrow> string \<Rightarrow> unit handler" where
  "withdraw_eth out s cookie address amount =
     require_auth_user cookie s (\<lambda>_.
       call (EthSendTx ''testlogin'' address amount) ErrFailedETHConnection
         (eth_send_tx out ''testlogin'' address amount))"

definition withdrawal_info ::
  "outside \<Rightarrow> user_info \<Rightarrow> user_withdraw_request \<Rightarrow> withdrawal_request_type \<Rightarrow> update_body" where
  "withdrawal_info out user req req_type = CreateWithdrawalRequest
     \<lparr>wri_id = out_uuid out, wri_user = ui_username user, wri_address = uwr_address req,
      wri_amount = uwr_amount req, wri_request_type = req_type\<rparr>"

text \<open>
  ETH and token withdrawals are not checked here at all. For BTC the amount plus the fee must
  not exceed the finalized balance, and the remaining limit decides the kind of request; sum,
  product and difference are over \<open>u64\<close> and wrap.
\<close>

definition post_withdraw ::
  "outside \<Rightarrow> state \<Rightarrow> string option \<Rightarrow> user_withdraw_request \<Rightarrow> unit handler" where
  "post_withdraw out s cookie req =
     require_auth_user cookie s (\<lambda>user.
       case uwr_address req of
         AddrETH _ \<Rightarrow>
           send_or (out_alive out) ErrNoUserFound (withdrawal_info out user req OverLimit)
       | AddrERC20 _ \<Rightarrow>
           send_or (out_alive out) ErrNoUserFound (withdrawal_info out user req OverLimit)
       | AddrBTC _ \<Rightarrow>
           and_then (need (hm_get (ui_currencies user) BTC) (ErrNoUserCurrency BTC)) (\<lambda>btc_info.
           and_then (fee_rate_of out) (\<lambda>btc_fee_per_byte.
             (let btc_balance = finalized_balance btc_info;
                  spent = li_spent (uci_limit_info btc_info);
                  limit = limit_amount (li_limit (uci_limit_info btc_info));
                  required_amount = uwr_amount req + btc_fee_per_byte * BTC_BYTES_PER_TRANSACTION
              in if required_amount \<le> btc_balance
                 then (let req_type = (if required_amount \<le> limit - spent then UnderLimit else OverLimit)
                       in send_or (out_alive out) ErrNoUserFound
                            (withdrawal_info out user req req_type))
                 else fail (ErrInsufficientFunds BTC)))))"

subsection \<open>Deposit addresses\<close>

definition deposit_body :: "string \<Rightarrow> currency_address \<Rightarrow> update_body" where
  "deposit_body user_id address = DepositAddress \<lparr>da_user_id = user_id, da_address = address\<rparr>"

definition allocate_btc_address :: "outside \<Rightarrow> string \<Rightarrow> currency_address handler" where
  "allocate_btc_address out user_id =
     and_then (call BtcDepositAddress (\<lambda>_. ErrFailedGenAddress BTC) (btc_deposit_address out)) (\<lambda>address.
       (let packed_address = AddrBTC \<lparr>addr = address\<rparr> in
        and_then (send_unwrap (out_alive out) (deposit_body user_id packed_address))
          (\<lambda>_. ret packed_address)))"

definition allocate_eth_address :: "outside \<Rightarrow> string \<Rightarrow> currency_address handler" where
  "allocate_eth_address out user_id =
     and_then (call (EthAllocateAddress user_id) ErrFailedETHConnection
       (eth_allocate_address out user_id)) (\<lambda>address.
       (let packed_address = AddrETH \<lparr>account = address\<rparr> in
        and_then (send_unwrap (out_alive out) (deposit_body user_id packed_address))
          (\<lambda>_. ret packed_address)))"

definition allocate_erc20_address :: "outside \<Rightarrow> string \<Rightarrow> erc20_token \<Rightarrow> currency_address handler" where
  "allocate_erc20_address out user_id token =
     and_then (call (EthAllocateAddress user_id) ErrFailedETHConnection
       (eth_allocate_address out user_id)) (\<lambda>address.
       (let packed_address = AddrERC20 \<lparr>erc20_of = token, erc20_account = \<lparr>account = address\<rparr>\<rparr> in
        and_then (send_unwrap (out_alive out) (deposit_body user_id packed_address))
          (\<lambda>_. ret packed_address)))"

fun allocate_address :: "outside \<Rightarrow> string \<Rightarrow> currency \<Rightarrow> currency_address handler" where
  "allocate_address out user_id BTC = allocate_btc_address out user_id"
| "allocate_address out user_id ETH = allocate_eth_address out user_id"
| "allocate_address out user_id (ERC20 token) = allocate_erc20_address out user_id token"

definition get_deposit_address :: "outside \<Rightarrow> state \<Rightarrow> string \<Rightarrow> currency \<Rightarrow> currency_address handler" where
  "get_deposit_address out s user_id cur =
     (case cur of
        BTC \<Rightarrow> allocate_address out user_id cur
      | _ \<Rightarrow>
         and_then (need (hm_get (st_users s) user_id) ErrNoUserFound) (\<lambda>user.
         and_then (need (hm_get (ui_currencies user) cur) (ErrNoUserCurrency cur)) (\<lambda>info.
           case uci_deposit_info info of
             [] \<Rightarrow> allocate_address out user_id cur
           | address # _ \<Rightarrow> ret address)))"

definition get_deposit_address_handle ::
  "outside \<Rightarrow> state \<Rightarrow> string option \<Rightarrow> currency \<Rightarrow> currency_address handler" where
  "get_deposit_address_handle out s cookie cur =
     require_auth_user cookie s (\<lambda>user.
       map_fail (\<lambda>_. ErrNoUserCurrency cur) (get_deposit_address out s (ui_username user) cur))"

subsection \<open>Tokens\<close>

definition list_tokens :: "state \<Rightarrow> string option \<Rightarrow> token_info list handler" where
  "list_tokens s cookie =
     require_auth_user cookie s (\<lambda>user.
       ret (sort_by_currency (\<lambda>i. ERC20 (ti_token i)) (map (\<lambda>token.
         case hm_get (ui_currencies user) (ERC20 token) of
           Some c \<Rightarrow> \<lparr>ti_token = token, ti_balance = balance c,
                      ti_finalized_balance = finalized_balance c, ti_is_active = True\<rparr>
         | None \<Rightarrow> \<lparr>ti_token = token, ti_balance = 0, ti_finalized_balance = 0, ti_is_active = False\<rparr>)
         supported_tokens)))"

definition enable_token ::
  "outside \<Rightarrow> state \<Rightarrow> string option \<Rightarrow> erc20_token \<Rightarrow> unit handler" where
  "enable_token out s cookie token =
     require_auth_user cookie s (\<lambda>user.
       case hm_get (ui_currencies user) (ERC20 token) of
         Some _ \<Rightarrow> fail (ErrTokenAlreadyEnabled token)
       | None \<Rightarrow>
          and_then (send_or (out_alive out) (ErrTokenActionFailed send_error) (UpdateTokens
            \<lparr>tku_user = ui_username user, tku_token = token, tku_action = Enable\<rparr>)) (\<lambda>_.
            (let tokens = filter_tokens (hm_keys (ui_currencies user)) @ [token]
             in call (EthPostTokens (ui_username user) tokens) ErrFailedETHConnection
                  (eth_post_tokens out (ui_username user) tokens))))"

text \<open>
  The list that should hold the remaining tokens: every other token contributes
  \<open>token.clone()\<close>, the token being switched off, instead of itself.
\<close>

definition remaining_tokens :: "erc20_token \<Rightarrow> currency list \<Rightarrow> erc20_token list" where
  "remaining_tokens token keys =
     List.map_filter (\<lambda>c. case c of
         ERC20 tok \<Rightarrow> if ticker tok = ticker token then None else Some token
       | _ \<Rightarrow> None) keys"

definition disable_token ::
  "outside \<Rightarrow> state \<Rightarrow> string option \<Rightarrow> erc20_token \<Rightarrow> unit handler" where
  "disable_token out s cookie token =
     require_auth_user cookie s (\<lambda>user.
       case hm_get (ui_currencies user) (ERC20 token) of
         None \<Rightarrow> fail (ErrTokenAlreadyDisabled token)
       | Some info \<Rightarrow>
          if 0 < balance info then fail (ErrTokenNonZeroBalance token)
          else
            and_then (send_or (out_alive out) (ErrTokenActionFailed send_error) (UpdateTokens
              \<lparr>tku_user = ui_username user, tku_token = token, tku_action = Disable\<rparr>)) (\<lambda>_.
              (let tokens = remaining_tokens token (hm_keys (ui_currencies user))
               in call (EthPostTokens (ui_username user) tokens) ErrFailedETHConnection
                    (eth_post_tokens out (ui_username user) tokens))))"

subsection \<open>Exchanges\<close>

definition order_exchange ::
  "outside \<Rightarrow> state \<Rightarrow> string option \<Rightarrow> exchange_request \<Rightarrow> unit handler" where
  "order_exchange out s cookie req =
     require_auth_user cookie s (\<lambda>user.
       and_then (need (hm_get (ui_currencies user) (er_currency_from req))
         (ErrNoUserCurrency (er_currency_from req))) (\<lambda>cinfo.
         if balance cinfo < er_amount_from req
         then fail (ErrInsufficientFunds (er_currency_from req))
         else send_or (out_alive out) (ErrGenericError send_error) (ExchangeRequest
           \<lparr>eu_id = out_uuid out, eu_user = ui_username user,
            eu_currency_from = er_currency_from req, eu_currency_to = er_currency_to req,
            eu_amount_from = er_amount_from req, eu_amount_to = er_amount_to req,
            eu_created_at = out_now_text out\<rparr>)))"

definition list_my_orders ::
  "state \<Rightarrow> string option \<Rightarrow> exchange_filter \<Rightarrow> api_exchange_order list handler" where
  "list_my_orders s cookie filt =
     require_auth_user cookie s (\<lambda>user. ret (user_exchange_requests user filt))"

definition get_network :: "network \<Rightarrow> network" where
  "get_network n = n"

end
