(* ===== verification/Public_Profile.thy ===== *)
theory Public_Profile
  imports Public_Wallet
begin

section \<open>Limits, settings and keys of a user\<close>

text \<open>
  hexstody-public/src/api/profile.rs. Most of these handlers ignore whether sending the event
  succeeded (\<open>let _ = updater.send(...)\<close>) and answer with success all the same.
\<close>

subsection \<open>Limits\<close>

definition get_user_limits :: "state \<Rightarrow> string option \<Rightarrow> effect list \<times> limit_api_resp list page" where
  "get_user_limits s cookie = page_or_signin
     (require_auth_user cookie s (\<lambda>user.
        ret (sort_by_currency lapi_currency (map (\<lambda>cur_info.
          \<lparr>lapi_currency = uci_currency cur_info, lapi_limit_info = uci_limit_info cur_info\<rparr>)
          (hm_values (ui_currencies user))))))"

text \<open>The wanted limits that differ from the present ones, of the accounts the user has.\<close>

definition changed_limits :: "user_info \<Rightarrow> limit_change_req list \<Rightarrow> limit_change_upd list" where
  "changed_limits user new_limits =
     List.map_filter (\<lambda>l.
       case hm_get (ui_currencies user) (lcr_currency l) of
         None \<Rightarrow> None
       | Some ci \<Rightarrow>
          if li_limit (uci_limit_info ci) = lcr_limit l then None
          else Some \<lparr>lcu_user = ui_username user, lcu_currency = lcr_currency l,
                     lcu_limit = lcr_limit l\<rparr>) new_limits"

fun send_all_ignore :: "bool \<Rightarrow> update_body list \<Rightarrow> unit handler" where
  "send_all_ignore alive [] = ret ()"
| "send_all_ignore alive (b # bs) = and_then (send_ignore alive b) (\<lambda>_. send_all_ignore alive bs)"

definition new_limits_requests ::
  "outside \<Rightarrow> state \<Rightarrow> string option \<Rightarrow> limit_change_req list \<Rightarrow> unit handler" where
  "new_limits_requests out s cookie new_limits =
     require_auth_user cookie s (\<lambda>user.
       (let filtered_limits = changed_limits user new_limits
        in if filtered_limits = [] then fail ErrInviteNotFound
           else send_all_ignore (out_alive out) (map LimitsChangeRequest filtered_limits)))"

definition request_new_limits ::
  "outside \<Rightarrow> state \<Rightarrow> string option \<Rightarrow> limit_change_req list \<Rightarrow> effect list \<times> unit page" where
  "request_new_limits out s cookie new_limits =
     page_or_error (new_limits_requests out s cookie new_limits)"

definition get_user_limit_changes ::
  "state \<Rightarrow> string option \<Rightarrow> limit_change_filter option
   \<Rightarrow> effect list \<times> limit_change_response list page" where
  "get_user_limit_changes s cookie filt = page_or_signin
     (let filt' = (case filt of Some f \<Rightarrow> f | None \<Rightarrow> LimitAll) in
      require_auth_user cookie s (\<lambda>user.
        ret (List.map_filter (\<lambda>v.
          if lc_matches_filter v filt' then Some (limit_change_response_of v) else None)
          (hm_values (ui_limit_changes user)))))"

definition cancel_request :: "outside \<Rightarrow> state \<Rightarrow> string option \<Rightarrow> currency \<Rightarrow> unit handler" where
  "cancel_request out s cookie cur =
     require_auth_user cookie s (\<lambda>user.
       case hm_get (ui_limit_changes user) cur of
         Some v \<Rightarrow> send_ignore (out_alive out) (CancelLimitChange
           \<lparr>lcan_id = lc_id v, lcan_user = ui_username user, lcan_currency = cur\<rparr>)
       | None \<Rightarrow> fail ErrLimChangeNotFound)"

definition cancel_user_change ::
  "outside \<Rightarrow> state \<Rightarrow> string option \<Rightarrow> currency \<Rightarrow> effect list \<times> unit page" where
  "cancel_user_change out s cookie cur = page_or_error (cancel_request out s cookie cur)"

subsection \<open>Settings\<close>

definition set_language_handler ::
  "outside \<Rightarrow> state \<Rightarrow> string option \<Rightarrow> language \<Rightarrow> unit handler" where
  "set_language_handler out s cookie lang =
     require_auth_user cookie s (\<lambda>user.
       if ucf_language (ui_config user) = lang then fail ErrLimitsNoChanges
       else send_ignore (out_alive out) (SetLanguage
         \<lparr>sl_user = ui_username user, sl_language = lang\<rparr>))"

definition get_user_config :: "state \<Rightarrow> string option \<Rightarrow> user_config handler" where
  "get_user_config s cookie = require_auth_user cookie s (\<lambda>user. ret (ui_config user))"

text \<open>A setting: absent, cleared by an empty text, or a text that must parse.\<close>

definition setting ::
  "(string \<Rightarrow> 'a option) \<Rightarrow> api_error \<Rightarrow> string option \<Rightarrow> (unit + 'a) option handler" where
  "setting parse err value =
     (case value of
        None \<Rightarrow> ret None
      | Some txt \<Rightarrow>
         if txt \<noteq> []
         then (case parse txt of Some a \<Rightarrow> ret (Some (Inr a)) | None \<Rightarrow> fail err)
         else ret (Some (Inl ())))"

definition set_user_config ::
  "outside \<Rightarrow> state \<Rightarrow> string option \<Rightarrow> config_change_request \<Rightarrow> unit handler" where
  "set_user_config out s cookie req =
     require_auth_user cookie s (\<lambda>user.
       and_then (setting (email_from_str out) ErrInvalidEmail (ccr_email req)) (\<lambda>email.
       and_then (setting (phone_from_str out) ErrInvalidPhoneNumber (ccr_phone req)) (\<lambda>phone.
         send_ignore (out_alive out) (ConfigUpdate
           \<lparr>cu_user = ui_username user, cu_email = email, cu_phone = phone,
            cu_tg_name = map_option (\<lambda>tg. if tg = [] then Inl () else Inr \<lparr>tg_name_text = tg\<rparr>)
              (ccr_tg_name req)\<rparr>))))"

definition set_user_public_key_handler ::
  "outside \<Rightarrow> state \<Rightarrow> string option \<Rightarrow> string option \<Rightarrow> unit handler" where
  "set_user_public_key_handler out s cookie key_b64 =
     require_auth_user cookie s (\<lambda>user.
       and_then
         (case key_b64 of
            None \<Rightarrow> ret None
          | Some key_bytes \<Rightarrow>
             and_then (query ErrGenericError (out_base64 out key_bytes)) (\<lambda>key_der.
               map_handler Some (query ErrGenericError (out_key_der out key_der)))) (\<lambda>public_key.
         send_ignore (out_alive out) (SetPublicKey
           \<lparr>spk_user = ui_username user, spk_public_key = public_key\<rparr>)))"

end
