(* ===== verification/Public_Pages.thy ===== *)
theory Public_Pages
  imports Public_Profile
begin

section \<open>The pages\<close>

text \<open>
  hexstody-public/src/api/mod.rs: the dictionary of a page in the user's language, and what
  each page is rendered from. A template's context is a record of the values put into it;
  rendering is the template engine's. A dictionary is a value of type \<open>'json\<close>.
\<close>

datatype file_content = NotOpened string | NotRead string | Content string

record 'json files =
  f_static_path :: string
  f_read :: "string \<Rightarrow> file_content"
  f_parse :: "string \<Rightarrow> 'json option"

text \<open>A file that is no JSON is unwrapped: a panic.\<close>

definition get_dict_json :: "'json files \<Rightarrow> language \<Rightarrow> string \<Rightarrow> 'json handler" where
  "get_dict_json files lang path =
     (let file_path = f_static_path files @ ''/lang/'' @ to_alpha lang @ ''/'' @ path in
      case f_read files file_path of
        NotOpened e \<Rightarrow> fail (ErrGenericError (''Failed to open file: '' @ e))
      | NotRead e \<Rightarrow> fail (ErrGenericError (''Failed to read file: '' @ e))
      | Content data \<Rightarrow> (case f_parse files data of Some v \<Rightarrow> ret v | None \<Rightarrow> panic))"

record 'json page_context =
  pg_title :: string
  pg_username :: string
  pg_lang :: string
  pg_header :: 'json
  pg_dict :: "'json option"
  pg_tabs :: "string list"
  pg_selected :: string
  pg_deposits :: "deposit_info list"

definition page_context_of ::
  "string \<Rightarrow> user_info \<Rightarrow> 'json \<Rightarrow> 'json option \<Rightarrow> string list \<Rightarrow> string \<Rightarrow> deposit_info list
   \<Rightarrow> 'json page_context" where
  "page_context_of title user header dict tabs selected deposits =
     \<lparr>pg_title = title, pg_username = ui_username user,
      pg_lang = to_uppercase (to_alpha (ucf_language (ui_config user))),
      pg_header = header, pg_dict = dict, pg_tabs = tabs, pg_selected = selected,
      pg_deposits = deposits\<rparr>"

text \<open>
  The titles of a page in English and in Russian (its UTF-8 bytes). Both dictionaries of the
  overview and of the profile page are read before the errors are looked at, so that a panic
  of the second comes before an error of the first.
\<close>

definition title :: "string \<Rightarrow> string \<Rightarrow> user_info \<Rightarrow> string" where
  "title english russian user =
     (case ucf_language (ui_config user) of English \<Rightarrow> english | Russian \<Rightarrow> russian)"

definition both :: "'a handler \<Rightarrow> 'b handler \<Rightarrow> ('a \<times> 'b) handler" where
  "both h h' =
     (case (snd h, snd h') of
        (Panic, _) \<Rightarrow> panic
      | (_, Panic) \<Rightarrow> panic
      | _ \<Rightarrow> and_then h (\<lambda>a. and_then h' (\<lambda>b. ret (a, b))))"

definition TITLE_OVERVIEW_RU :: string where
  "TITLE_OVERVIEW_RU = map char_of [0xD0, 0x93, 0xD0, 0xBB, 0xD0, 0xB0, 0xD0, 0xB2, 0xD0, 0xBD,
     0xD0, 0xB0, 0xD1, 0x8F :: nat]"

definition TITLE_DEPOSIT_RU :: string where
  "TITLE_DEPOSIT_RU = map char_of [0xD0, 0x94, 0xD0, 0xB5, 0xD0, 0xBF, 0xD0, 0xBE, 0xD0, 0xB7,
     0xD0, 0xB8, 0xD1, 0x82 :: nat]"

definition TITLE_WITHDRAW_RU :: string where
  "TITLE_WITHDRAW_RU = map char_of [0xD0, 0x92, 0xD1, 0x8B, 0xD0, 0xB2, 0xD0, 0xBE, 0xD0, 0xB4 :: nat]"

definition TITLE_PROFILE_RU :: string where
  "TITLE_PROFILE_RU = map char_of [0xD0, 0x9F, 0xD1, 0x80, 0xD0, 0xBE, 0xD1, 0x84, 0xD0, 0xB8,
     0xD0, 0xBB, 0xD1, 0x8C :: nat]"

definition overview ::
  "'json files \<Rightarrow> state \<Rightarrow> string option \<Rightarrow> effect list \<times> 'json page_context page" where
  "overview files s cookie = page_or_signin (require_auth_user cookie s (\<lambda>user.
     (let lang = ucf_language (ui_config user) in
      and_then (both (get_dict_json files lang ''header.json'')
                     (get_dict_json files lang ''overview.json'')) (\<lambda>(header, dict).
        ret (page_context_of (title ''Overview'' TITLE_OVERVIEW_RU user) user header (Some dict)
               [] [] [])))))"

text \<open>The profile page looks at the tabs' error before it reads the header.\<close>

definition profile_page ::
  "'json files \<Rightarrow> state \<Rightarrow> string option \<Rightarrow> string option \<Rightarrow> effect list \<times> 'json page_context page" where
  "profile_page files s cookie tab = page_or_signin (require_auth_user cookie s (\<lambda>user.
     (let lang = ucf_language (ui_config user) in
      and_then (get_dict_json files lang ''profile-tabs.json'') (\<lambda>tabs.
      and_then (get_dict_json files lang ''header.json'') (\<lambda>header.
        ret (page_context_of (title ''Profile'' TITLE_PROFILE_RU user) user header (Some tabs)
               [] (case tab of Some t \<Rightarrow> t | None \<Rightarrow> ''tokens'') []))))))"

definition logout :: "string option \<Rightarrow> effect list \<times> unit page" where
  "logout cookie =
     (case page_or_error (require_auth cookie (\<lambda>_. perform RemoveCookie)) of
        (effs, Page _) \<Rightarrow> (effs, GotoSignin)
      | (effs, p) \<Rightarrow> (effs, p))"

text \<open>\<open>index\<close>: whether the visitor is sent to the overview.\<close>

definition index :: "string option \<Rightarrow> bool" where
  "index cookie = (case snd (require_auth cookie (\<lambda>_. ret ())) of Done _ \<Rightarrow> True | _ \<Rightarrow> False)"

subsection \<open>Tabs\<close>

text \<open>The first currency is indexed, so that a user without any is a panic.\<close>

definition selected_tab :: "currency list \<Rightarrow> string option \<Rightarrow> string handler" where
  "selected_tab user_currencies tab =
     (let tabs = map ticker_lowercase user_currencies;
          first_tab = (case user_currencies of c # _ \<Rightarrow> ret (ticker_lowercase c) | [] \<Rightarrow> panic)
      in case tab of
           None \<Rightarrow> first_tab
         | Some t \<Rightarrow> if t \<in> set tabs then ret t else first_tab)"

text \<open>\<open>qr\<close> is the QR code of a text in base64, or a failure that is unwrapped.\<close>

fun deposit_addresses ::
  "outside \<Rightarrow> (string \<Rightarrow> string option) \<Rightarrow> state \<Rightarrow> string \<Rightarrow> currency list \<Rightarrow> deposit_info list handler" where
  "deposit_addresses out qr s user_id [] = ret []"
| "deposit_addresses out qr s user_id (c # cs) =
     and_then (get_deposit_address out s user_id c) (\<lambda>deposit_address.
       case qr (address_text deposit_address) of
         None \<Rightarrow> panic
       | Some code \<Rightarrow>
          and_then (deposit_addresses out qr s user_id cs) (\<lambda>infos.
            ret (\<lparr>dpi_address = address_text deposit_address, dpi_qr_code_base64 = code,
                  dpi_tab = ticker_lowercase c, dpi_currency = currency_to_string c\<rparr> # infos)))"

definition deposit_page_content ::
  "outside \<Rightarrow> (string \<Rightarrow> string option) \<Rightarrow> 'json files \<Rightarrow> state \<Rightarrow> string option \<Rightarrow> string option
   \<Rightarrow> 'json page_context handler" where
  "deposit_page_content out qr files s cookie tab = require_auth_user cookie s (\<lambda>user.
     (let lang = ucf_language (ui_config user); user_currencies = hm_keys (ui_currencies user) in
      and_then (get_dict_json files lang ''header.json'') (\<lambda>header.
      and_then (get_dict_json files lang ''deposit.json'') (\<lambda>dict.
      and_then (selected_tab user_currencies tab) (\<lambda>selected.
      and_then (deposit_addresses out qr s (ui_username user) user_currencies) (\<lambda>infos.
        ret (page_context_of (title ''Deposit'' TITLE_DEPOSIT_RU user) user header (Some dict)
               (map ticker_lowercase user_currencies) selected infos)))))))"

definition deposit_page ::
  "outside \<Rightarrow> (string \<Rightarrow> string option) \<Rightarrow> 'json files \<Rightarrow> state \<Rightarrow> string option \<Rightarrow> string option
   \<Rightarrow> effect list \<times> 'json page_context page" where
  "deposit_page out qr files s cookie tab =
     page_or_error (deposit_page_content out qr files s cookie tab)"

definition withdraw_page ::
  "'json files \<Rightarrow> state \<Rightarrow> string option \<Rightarrow> string option \<Rightarrow> effect list \<times> 'json page_context page" where
  "withdraw_page files s cookie tab = page_or_error (require_auth_user cookie s (\<lambda>user.
     (let lang = ucf_language (ui_config user); user_currencies = hm_keys (ui_currencies user) in
      and_then (get_dict_json files lang ''header.json'') (\<lambda>header.
      and_then (get_dict_json files lang ''withdraw.json'') (\<lambda>dict.
      and_then (selected_tab user_currencies tab) (\<lambda>selected.
        ret (page_context_of (title ''Withdraw'' TITLE_WITHDRAW_RU user) user header (Some dict)
               (map ticker_lowercase user_currencies) selected [])))))))"

definition get_dict :: "'json files \<Rightarrow> state \<Rightarrow> string option \<Rightarrow> string \<Rightarrow> 'json handler" where
  "get_dict files s cookie path =
     require_auth_user cookie s (\<lambda>user. get_dict_json files (ucf_language (ui_config user)) path)"

definition swap_page ::
  "'json files \<Rightarrow> state \<Rightarrow> string option \<Rightarrow> effect list \<times> 'json page_context page" where
  "swap_page files s cookie = page_or_signin (require_auth_user cookie s (\<lambda>user.
     and_then (get_dict_json files (ucf_language (ui_config user)) ''header.json'') (\<lambda>header.
       ret (page_context_of ''swap'' user header None [] [] []))))"

end
