(* ===== verification/Public_Sessions.thy ===== *)
theory Public_Sessions
  imports Public_Pages
begin

section \<open>What a session can do\<close>

text \<open>
  The requests of a signed-in visitor that send events, as one type, and what they send. A
  session speaks for its own user only, and never as an operator.
\<close>

datatype session_request =
    ReqPassword password_change_req
  | ReqWithdraw user_withdraw_request
  | ReqWithdrawEth string string
  | ReqDepositAddress currency
  | ReqDepositPage "string option"
  | ReqEnableToken erc20_token
  | ReqDisableToken erc20_token
  | ReqExchange exchange_request
  | ReqLimits "limit_change_req list"
  | ReqCancelLimits currency
  | ReqLanguage language
  | ReqConfig config_change_request
  | ReqKey "string option"

fun session_events ::
  "outside \<Rightarrow> (string \<Rightarrow> string option) \<Rightarrow> 'json files \<Rightarrow> session_request \<Rightarrow> state \<Rightarrow> string option
   \<Rightarrow> update_body list" where
  "session_events out qr files (ReqPassword data) s cookie = sent (change_password_handler out s cookie data)"
| "session_events out qr files (ReqWithdraw req) s cookie = sent (post_withdraw out s cookie req)"
| "session_events out qr files (ReqWithdrawEth a n) s cookie = sent (withdraw_eth out s cookie a n)"
| "session_events out qr files (ReqDepositAddress c) s cookie =
     sent (get_deposit_address_handle out s cookie c)"
| "session_events out qr files (ReqDepositPage tab) s cookie =
     sent (deposit_page_content out qr files s cookie tab)"
| "session_events out qr files (ReqEnableToken t) s cookie = sent (enable_token out s cookie t)"
| "session_events out qr files (ReqDisableToken t) s cookie = sent (disable_token out s cookie t)"
| "session_events out qr files (ReqExchange req) s cookie = sent (order_exchange out s cookie req)"
| "session_events out qr files (ReqLimits ls) s cookie = sent (new_limits_requests out s cookie ls)"
| "session_events out qr files (ReqCancelLimits c) s cookie = sent (cancel_request out s cookie c)"
| "session_events out qr files (ReqLanguage l) s cookie = sent (set_language_handler out s cookie l)"
| "session_events out qr files (ReqConfig req) s cookie = sent (set_user_config out s cookie req)"
| "session_events out qr files (ReqKey k) s cookie = sent (set_user_public_key_handler out s cookie k)"

subsection \<open>Events of the user's own\<close>

fun user_event :: "update_body \<Rightarrow> bool" where
  "user_event (CreateWithdrawalRequest _) = True"
| "user_event (DepositAddress _) = True"
| "user_event (UpdateTokens _) = True"
| "user_event (LimitsChangeRequest _) = True"
| "user_event (CancelLimitChange _) = True"
| "user_event (SetLanguage _) = True"
| "user_event (ConfigUpdate _) = True"
| "user_event (PasswordChange _) = True"
| "user_event (SetPublicKey _) = True"
| "user_event (ExchangeRequest _) = True"
| "user_event _ = False"

text \<open>Sending a sequence of events: each is applied, and a refused one changes nothing.\<close>

definition apply_events :: "env \<Rightarrow> datetime \<Rightarrow> update_body list \<Rightarrow> state \<Rightarrow> state" where
  "apply_events env t bodies s =
     fold (\<lambda>b s. snd (apply_update (env, \<lparr>su_created = t, su_body = b\<rparr>) s)) bodies s"

lemma only_user_events:
  assumes "\<forall>b\<in>set bodies. event_user b = Some uid \<and> user_event b"
  shows "only_user uid False False s (apply_events env t bodies s)"
  using assms
proof (induction bodies arbitrary: s)
  case Nil
  then show ?case by (simp add: apply_events_def)
next
  case (Cons b bs)
  let ?s = "snd (apply_update (env, \<lparr>su_created = t, su_body = b\<rparr>) s)"
  have none: "(\<exists>a. b = Signup a) = False" "(\<exists>d. b = ExchangeDecision d) = False"
    using Cons.prems by (cases b; simp)+
  have "only_user uid False False s ?s"
    unfolding apply_update_def Let_def snd_conv fst_conv
    using only_user_handle_body [of b uid s env t] Cons.prems none
    by (intro only_user_touch) simp
  moreover have "only_user uid False False ?s (apply_events env t bs ?s)"
    using Cons.IH [of ?s] Cons.prems by simp
  ultimately show ?case
    by (auto simp: apply_events_def intro: only_user_trans)
qed

text \<open>
  The interface of a user-facing API: what it sends for a request names the session's user.
  Whatever satisfies it isolates the users.
\<close>

locale user_api =
  fixes events :: "'r \<Rightarrow> state \<Rightarrow> string option \<Rightarrow> update_body list"
  assumes own: "state_wf s \<Longrightarrow> b \<in> set (events r s cookie) \<Longrightarrow>
    \<exists>uid. cookie = Some uid \<and> hm_contains_key (st_users s) uid \<and> event_user b = Some uid \<and> user_event b"
begin

lemma needs_session:
  assumes "state_wf s" and "cookie = None \<or> (\<exists>uid. cookie = Some uid \<and> \<not> hm_contains_key (st_users s) uid)"
  shows "events r s cookie = []"
  using own [OF assms(1), of _ r cookie] assms(2) by (cases "events r s cookie") fastforce+

lemma only_own:
  assumes "state_wf s"
  shows "only_user uid False False s' (apply_events env t (events r s (Some uid)) s')"
  by (rule only_user_events) (use own [OF assms, of _ r "Some uid"] in auto)

end

subsection \<open>The public API is one\<close>

lemma username_of: "state_wf s \<Longrightarrow> hm_get (st_users s) uid = Some u \<Longrightarrow> ui_username u = uid"
  by (auto dest: user_of_wf simp: user_wf_def)

lemma sends_deposit_address [sends_intros]:
  "(\<And>a. P (deposit_body uid a)) \<Longrightarrow> sends_only P (get_deposit_address out s uid c)"
  by (cases c)
    (auto simp: get_deposit_address_def allocate_btc_address_def allocate_eth_address_def
      allocate_erc20_address_def Let_def intro!: sends_intros split: list.splits)

lemma sends_deposit_addresses [sends_intros]:
  "(\<And>a. P (deposit_body uid a)) \<Longrightarrow> sends_only P (deposit_addresses out qr s uid cs)"
  by (induction cs) (auto intro!: sends_intros split: option.splits)

lemma sends_dict [sends_intros]: "sends_only P (get_dict_json files lang path)"
  by (auto simp: get_dict_json_def Let_def intro!: sends_intros split: file_content.splits option.splits)

lemma sends_selected_tab [sends_intros]: "sends_only P (selected_tab cs tab)"
  by (auto simp: selected_tab_def Let_def intro!: sends_intros split: option.splits list.splits)

lemma sends_all_ignore [sends_intros]:
  "(\<And>b. b \<in> set bs \<Longrightarrow> P b) \<Longrightarrow> sends_only P (send_all_ignore alive bs)"
  by (induction bs) (auto intro!: sends_intros)

lemma sends_setting [sends_intros]: "sends_only P (setting parse err v)"
  by (auto simp: setting_def intro!: sends_intros split: option.splits)

lemma sends_fee_rate [sends_intros]: "sends_only P (fee_rate_of out)"
  by (auto simp: fee_rate_of_def intro!: sends_intros split: sum.splits)

lemma changed_limits_user: "l \<in> set (changed_limits u ls) \<Longrightarrow> lcu_user l = ui_username u"
  by (auto simp: changed_limits_def in_map_filter split: option.splits if_splits)

lemmas session_handlers = change_password_handler_def post_withdraw_def withdrawal_info_def
  withdraw_eth_def get_deposit_address_handle_def deposit_page_content_def enable_token_def
  disable_token_def order_exchange_def new_limits_requests_def cancel_request_def
  set_language_handler_def set_user_config_def set_user_public_key_handler_def

definition own_event :: "string option \<Rightarrow> state \<Rightarrow> update_body \<Rightarrow> bool" where
  "own_event cookie s b \<longleftrightarrow> (\<exists>uid u. cookie = Some uid \<and> hm_get (st_users s) uid = Some u
     \<and> event_user b = Some (ui_username u) \<and> user_event b)"

lemma session_events_own: "\<forall>b\<in>set (session_events out qr files r s cookie). own_event cookie s b"
  by (cases r)
    (auto simp: session_handlers Let_def deposit_body_def own_event_def sends_only_def [symmetric]
      intro!: sends_intros changed_limits_user
      split: currency_address.splits option.splits signup_auth.splits)

interpretation public_api: user_api "session_events out qr files" for out qr files
proof
  fix s :: state and b r cookie
  assume "state_wf s" and "b \<in> set (session_events out qr files r s cookie)"
  then show "\<exists>uid. cookie = Some uid \<and> hm_contains_key (st_users s) uid \<and> event_user b = Some uid
      \<and> user_event b"
    using session_events_own [of out qr files r s cookie]
    by (fastforce dest: username_of simp: hm_contains_key_def own_event_def)
qed

lemma session_only_own:
  assumes "state_wf s" and "\<forall>uid'. cookie = Some uid' \<longrightarrow> uid' = uid"
  shows "only_user uid False False s' (apply_events env t (session_events out qr files r s cookie) s')"
proof (cases cookie)
  case None
  then have "session_events out qr files r s cookie = []"
    by (intro public_api.needs_session [OF assms(1)] disjI1)
  then show ?thesis by (simp add: apply_events_def)
next
  case (Some uid')
  with assms(2) have "cookie = Some uid" by simp
  then show ?thesis by (simp add: public_api.only_own [OF assms(1)])
qed



end
