(* ===== verification/Public_Withdraw.thy ===== *)
theory Public_Withdraw
  imports Public_Sessions
begin

section \<open>What the withdrawal handler guarantees, and what it does not\<close>

subsection \<open>A withdrawal without overflow is covered\<close>

lemma post_withdraw_btc:
  assumes "uwr_address req = AddrBTC a" and "b \<in> set (sent (post_withdraw out s cookie req))"
  shows "\<exists>uid u ci fees. cookie = Some uid \<and> hm_get (st_users s) uid = Some u
    \<and> hm_get (ui_currencies u) BTC = Some ci \<and> btc_get_fees out = Inr fees
    \<and> uwr_amount req + fr_fee_rate fees * 1024 \<le> finalized_balance ci
    \<and> b = withdrawal_info out u req
        (if uwr_amount req + fr_fee_rate fees * 1024
              \<le> limit_amount (li_limit (uci_limit_info ci)) - li_spent (uci_limit_info ci)
         then UnderLimit else OverLimit)"
  using assms
  by (auto simp: post_withdraw_def require_auth_user_sent sent_and_then_mem fee_rate_of_def Let_def
      handler_simps split: sum.splits if_splits)

lemma covered_amount:
  fixes a f b :: u64
  assumes "uint a + 1024 * uint f < 2 ^ 64" and "a + f * 1024 \<le> b"
  shows "uint a + 1024 * uint f \<le> uint b"
proof -
  have f: "uint (f * 1024) = 1024 * uint f"
  proof -
    have "0 \<le> uint a" by simp
    with assms(1) have "uint f * 1024 < 2 ^ 64" by linarith
    then show ?thesis by (simp add: uint_word_ariths)
  qed
  have "uint (a + f * 1024) = uint a + 1024 * uint f"
    using assms(1) f by (simp add: uint_plus_if')
  with assms(2) show ?thesis by (simp add: word_le_def)
qed

lemma within_limit:
  fixes a f lim spent :: u64
  assumes "uint a + 1024 * uint f < 2 ^ 64" and "a + f * 1024 \<le> lim - spent" and "spent \<le> lim"
  shows "\<not> lim < spent + a"
proof -
  have "uint (lim - spent) = uint lim - uint spent"
    using assms(3) by (simp add: uint_sub_if' word_le_def)
  moreover have "0 \<le> uint f" by simp
  ultimately have "uint spent + uint a \<le> uint lim"
    using covered_amount [OF assms(1,2)] by linarith
  moreover from this have "uint (spent + a) = uint spent + uint a"
    using uint_lt2p [of lim] by (simp add: uint_plus_if')
  ultimately show ?thesis by (simp add: word_less_def)
qed

text \<open>
  Property C16. When the amount and the fee of a BTC withdrawal do not overflow 64 bits, a
  withdrawal the public API lets through is covered, fee included, by the finalized balance
  of the session's user, and the state it was checked against accepts the event: a request
  over the limit waits for the operators, one under the limit is handed out for payment at
  once.
\<close>

theorem withdrawal_is_covered:
  assumes "state_wf s" and "uwr_address req = AddrBTC a"
    and "CreateWithdrawalRequest info \<in> set (sent (post_withdraw out s cookie req))"
    and "btc_get_fees out = Inr fees"
    and "uint (uwr_amount req) + 1024 * uint (fr_fee_rate fees) < 2 ^ 64"
  shows "\<exists>u ci. cookie = Some (wri_user info) \<and> hm_get (st_users s) (wri_user info) = Some u
    \<and> hm_get (ui_currencies u) BTC = Some ci \<and> wri_amount info = uwr_amount req
    \<and> uint (wri_amount info) + 1024 * uint (fr_fee_rate fees) \<le> uint (finalized_balance ci)
    \<and> (li_spent (uci_limit_info ci) \<le> limit_amount (li_limit (uci_limit_info ci)) \<longrightarrow>
        fst (with_new_withdrawal_request t info s) =
          Inr (case wri_request_type info of
                 UnderLimit \<Rightarrow> Some (WithdrawalUnderlimit (withdrawal_request_of t info))
               | OverLimit \<Rightarrow> None))"
proof -
  let ?req = "uwr_amount req + fr_fee_rate fees * 1024"
  from post_withdraw_btc [OF assms(2,3)] assms(4) obtain uid u ci where
    u: "cookie = Some uid" "hm_get (st_users s) uid = Some u" "hm_get (ui_currencies u) BTC = Some ci"
    and bal: "?req \<le> finalized_balance ci"
    and info: "CreateWithdrawalRequest info = withdrawal_info out u req
      (if ?req \<le> limit_amount (li_limit (uci_limit_info ci)) - li_spent (uci_limit_info ci)
       then UnderLimit else OverLimit)" by auto
  note name = username_of [OF assms(1) u(2)]
  have accepted: "fst (with_new_withdrawal_request t info s) =
      Inr (case wri_request_type info of
             UnderLimit \<Rightarrow> Some (WithdrawalUnderlimit (withdrawal_request_of t info))
           | OverLimit \<Rightarrow> None)"
    if "li_spent (uci_limit_info ci) \<le> limit_amount (li_limit (uci_limit_info ci))"
    using within_limit [OF assms(5) _ that] u info name assms(2)
    by (auto simp: with_new_withdrawal_request_def withdrawal_request_of_def withdrawal_info_def Let_def
        split: if_splits)
  show ?thesis
    using u info name accepted covered_amount [OF assms(5) bal]
    by (auto simp: withdrawal_info_def)
qed

subsection \<open>With overflow it is not\<close>

lemma hm_insert_fresh: "hm_get m k = None \<Longrightarrow> hm_insert k v m = m @ [(k, v)]"
  by (induction k v m rule: hm_insert.induct) (auto split: if_splits)

text \<open>A new request that is not covered changes the finalized balance by its amount, wrapping.\<close>

lemma finalized_balance_new_request:
  assumes "hm_get (uci_withdrawals ci) i = None" and "0 < finalized_balance ci"
    and "wr_status w = InProgress 0" and "wr_amount w = r - fee"
    and "r < fee" and "r \<le> finalized_balance ci"
    and "uint (finalized_balance ci) + uint fee < 2 ^ 63"
  shows "uint (finalized_balance (ci\<lparr>uci_withdrawals := hm_insert i w (uci_withdrawals ci)\<rparr>))
    = uint (finalized_balance ci) + uint fee - uint r"
proof -
  let ?ci = "ci\<lparr>uci_withdrawals := hm_insert i w (uci_withdrawals ci)\<rparr>"
  let ?tx = "sum_list (List.map_filter
    (\<lambda>t. if is_finalized t then Some (tx_amount t) else None) (uci_transactions ci))"
  let ?x = "?tx + (incoming_exchanges ci - pending_withdrawals ci - outgoing_exchanges ci)"
  have fin: "finalized_balance ci = max_zero_i64 ?x"
    by (simp add: finalized_balance_def)
  with assms(2) have x: "finalized_balance ci = ?x" and "0 \<le> sint ?x"
    by (auto simp: max_zero_i64_def split: if_splits)
  have pend: "pending_withdrawals ?ci = pending_withdrawals ci + (r - fee)"
    using assms(1,3,4)
    by (simp add: pending_withdrawals_def hm_insert_fresh wr_is_rejected_def wr_fee_def)
  have "finalized_balance ?ci = max_zero_i64 (?x + (fee - r))"
    by (simp add: finalized_balance_def pend incoming_exchanges_def outgoing_exchanges_def)
      (simp add: algebra_simps)
  then have new: "finalized_balance ?ci = max_zero_i64 (finalized_balance ci + (fee - r))"
    using x by simp
  have diff: "uint (fee - r) = uint fee - uint r"
    using assms(5) by (simp add: uint_sub_if' word_less_def)
  have "0 \<le> uint r" by simp
  with assms(7) have small: "uint (finalized_balance ci) + (uint fee - uint r) < 2 ^ 63" by linarith
  then have sum: "uint (finalized_balance ci + (fee - r)) = uint (finalized_balance ci) + uint fee - uint r"
    using diff by (simp add: uint_plus_if')
  have "\<not> sint (finalized_balance ci + (fee - r)) < 0"
  proof -
    have "sint (finalized_balance ci + (fee - r)) = uint (finalized_balance ci + (fee - r))"
      by (rule sint_small) (use sum small in simp)
    moreover have "0 \<le> uint (finalized_balance ci + (fee - r))" by simp
    ultimately show ?thesis by linarith
  qed
  with new sum show ?thesis by (simp add: max_zero_i64_def)
qed

text \<open>
  Property C17. The sum of amount and fee is not checked for overflow. A user whose finalized
  balance is positive and whose limit is used up (by default it is zero) can ask for an
  amount just below \<open>2 ^ 64\<close>, such that with the fee it wraps to a covered one: the public
  API lets it through, the state accepts it, and the request, whose amount counts as a
  negative one, raises the finalized balance. Each further request raises it again.
\<close>

theorem overflowing_withdrawal_raises_balance:
  assumes "state_wf s" and "hm_get (st_users s) uid = Some u"
    and "hm_get (ui_currencies u) BTC = Some ci" and "hm_get (uci_withdrawals ci) (out_uuid out) = None"
    and "out_alive out" and "btc_get_fees out = Inr fees"
    and "0 < r" and "r < fr_fee_rate fees * 1024" and "r \<le> finalized_balance ci"
    and "limit_amount (li_limit (uci_limit_info ci)) - li_spent (uci_limit_info ci) < r"
    and "uint (finalized_balance ci) + uint (fr_fee_rate fees * 1024) < 2 ^ 63"
    and "req = \<lparr>uwr_address = AddrBTC a, uwr_amount = r - fr_fee_rate fees * 1024\<rparr>"
  shows "\<exists>info ci'. post_withdraw out s (Some uid) req
        = ([SendUpdate (CreateWithdrawalRequest info)], Done ())
    \<and> with_new_withdrawal_request t info s
        = (Inr None, put_user uid (put_account BTC ci' u) s)
    \<and> uint (finalized_balance ci')
        = uint (finalized_balance ci) + uint (fr_fee_rate fees * 1024) - uint r"
proof -
  let ?info = "\<lparr>wri_id = out_uuid out, wri_user = uid, wri_address = AddrBTC a,
    wri_amount = r - fr_fee_rate fees * 1024, wri_request_type = OverLimit\<rparr>"
  let ?w = "withdrawal_request_of t ?info"
  let ?ci = "ci\<lparr>uci_withdrawals := hm_insert (out_uuid out) ?w (uci_withdrawals ci)\<rparr>"
  note name = username_of [OF assms(1,2)]
  have sent: "post_withdraw out s (Some uid) req = ([SendUpdate (CreateWithdrawalRequest ?info)], Done ())"
    using assms(2,3,5,6,9,10,12) name
    by (simp add: post_withdraw_def handler_simps need_def fee_rate_of_def send_or_def withdrawal_info_def
        perform_def not_le Let_def)
  moreover have "with_new_withdrawal_request t ?info s = (Inr None, put_user uid (put_account BTC ?ci u) s)"
    using assms(2,3) by (simp add: with_new_withdrawal_request_def withdrawal_request_of_def Let_def)
  moreover have "0 < finalized_balance ci" using assms(7,9) by (rule less_le_trans)
  then have "uint (finalized_balance ?ci) = uint (finalized_balance ci) + uint (fr_fee_rate fees * 1024) - uint r"
    by (intro finalized_balance_new_request assms(4,8,9,11)) (simp_all add: withdrawal_request_of_def)
  ultimately show ?thesis by blast
qed

text \<open>Alice owns 6000 satoshi; at the default rate a withdrawal costs 5120.\<close>

definition funded_account :: user_currency_info where
  "funded_account = (user_currency_info_new BTC)\<lparr>uci_transactions := [TrBtc (example_deposit 5 6000)]\<rparr>"

definition funded_state :: state where
  "funded_state = put_user ''Alice'' (put_account BTC funded_account alice) alice_state"

lemma funded_state_wf: "state_wf funded_state"
  unfolding funded_state_def
  by (rule state_wf_account [OF alice_state_wf, of _ _ _ "user_currency_info_new BTC"])
    (simp_all add: alice_account alice_btc account_wf_def funded_account_def user_currency_info_new_def
      example_deposit_def)

lemma funded_alice:
  "hm_get (st_users funded_state) ''Alice'' = Some (put_account BTC funded_account alice)"
  "hm_get (ui_currencies (put_account BTC funded_account alice)) BTC = Some funded_account"
  by (simp_all add: funded_state_def put_user_def put_account_def)

lemma funded_balance: "finalized_balance funded_account = 6000"
  by (simp add: finalized_balance_def funded_account_def user_currency_info_new_def
      example_deposit_def incoming_exchanges_def pending_withdrawals_def outgoing_exchanges_def
      hm_values_def hm_empty_def List.map_filter_def max_zero_i64_def)

lemma example_fees: "btc_get_fees example_outside = Inr \<lparr>fr_fee_rate = 5, fr_block = None\<rparr>"
  by (simp add: example_outside_def)

theorem overflowing_withdrawal_raises_balance_witness:
  "\<exists>info ci'. post_withdraw example_outside funded_state (Some ''Alice'')
        \<lparr>uwr_address = AddrBTC \<lparr>addr = ''bc1q''\<rparr>, uwr_amount = - 5119\<rparr>
      = ([SendUpdate (CreateWithdrawalRequest info)], Done ())
    \<and> with_new_withdrawal_request 100 info funded_state
        = (Inr None, put_user ''Alice'' (put_account BTC ci' (put_account BTC funded_account alice)) funded_state)
    \<and> uint (finalized_balance ci') = 6000 + 5119"
  using overflowing_withdrawal_raises_balance [OF funded_state_wf funded_alice _ _ example_fees _ _ _ _ _ refl,
      where r = 1 and t = 100 and a = "\<lparr>addr = ''bc1q''\<rparr>"]
  by (simp add: funded_balance, simp add: funded_account_def user_currency_info_new_def
      example_outside_def limit_info_default_def hm_empty_def)

lemma funded_withdrawal:
  "CreateWithdrawalRequest
      \<lparr>wri_id = 42, wri_user = ''Alice'', wri_address = AddrBTC \<lparr>addr = ''bc1q''\<rparr>, wri_amount = 500,
       wri_request_type = OverLimit\<rparr>
    \<in> set (sent (post_withdraw example_outside funded_state (Some ''Alice'')
         \<lparr>uwr_address = AddrBTC \<lparr>addr = ''bc1q''\<rparr>, uwr_amount = 500\<rparr>))"
proof -
  have "ui_username (put_account BTC funded_account alice) = ''Alice''"
    by (simp add: put_account_def alice_def user_info_new_def)
  moreover have "uci_limit_info funded_account = limit_info_default"
    by (simp add: funded_account_def user_currency_info_new_def)
  moreover have "out_alive example_outside" "out_uuid example_outside = 42"
    by (simp_all add: example_outside_def)
  ultimately show ?thesis
    using funded_alice funded_balance example_fees
    by (simp add: post_withdraw_def handler_simps need_def fee_rate_of_def send_or_def
        withdrawal_info_def perform_def limit_info_default_def Let_def sent_def List.map_filter_def)
qed

theorem withdrawal_is_covered_witness:
  "uint (500 :: u64) + 1024 * 5 \<le> uint (finalized_balance funded_account)
   \<and> fst (with_new_withdrawal_request 100
        \<lparr>wri_id = 42, wri_user = ''Alice'', wri_address = AddrBTC \<lparr>addr = ''bc1q''\<rparr>, wri_amount = 500,
         wri_request_type = OverLimit\<rparr> funded_state) = Inr None"
proof -
  have limit: "uci_limit_info funded_account = limit_info_default"
    by (simp add: funded_account_def user_currency_info_new_def)
  from withdrawal_is_covered [OF funded_state_wf _ funded_withdrawal example_fees, of _ 100]
  show ?thesis
    by (simp add: funded_alice limit limit_info_default_def)
qed

end
