(* ===== verification/Public_Login.thy ===== *)
theory Public_Login
  imports Public_Auth Isolation
begin

section \<open>Signing up leads to signing in; challenges and keys\<close>

subsection \<open>From sign-up to sign-in\<close>

lemma check_lengths_ok:
  "MIN_USER_NAME_LEN \<le> length user \<Longrightarrow> length user \<le> MAX_USER_NAME_LEN \<Longrightarrow>
   MIN_USER_PASSWORD_LEN \<le> length password \<Longrightarrow> length password \<le> MAX_USER_PASSWORD_LEN \<Longrightarrow>
   check_lengths user password = ret ()"
  by (simp add: check_lengths_def handler_simps)

lemma check_lengths_Done:
  "snd (check_lengths user password) = Done u \<longleftrightarrow>
     MIN_USER_NAME_LEN \<le> length user \<and> length user \<le> MAX_USER_NAME_LEN \<and>
     MIN_USER_PASSWORD_LEN \<le> length password \<and> length password \<le> MAX_USER_PASSWORD_LEN"
  by (auto simp: check_lengths_def require_def handler_simps)

lemma sent_check_lengths [simp]: "sent (check_lengths user password) = []"
  by (simp add: check_lengths_def require_def handler_simps)

lemma signup_email_sent:
  assumes "b \<in> set (sent (signup_email out s data))"
  obtains h where "MIN_USER_NAME_LEN \<le> length (se_user data)" "length (se_user data) \<le> MAX_USER_NAME_LEN"
    "MIN_USER_PASSWORD_LEN \<le> length (se_password data)" "length (se_password data) \<le> MAX_USER_PASSWORD_LEN"
    "\<not> hm_contains_key (st_users s) (se_user data)" "se_user data \<noteq> EXCHANGE_USER"
    "hm_contains_key (st_invites s) (se_invite data)"
    "eth_create_user out (se_user data) = Inr ()" "eth_post_tokens out (se_user data) default_tokens = Inr ()"
    "out_bcrypt_hash out (se_password data) = Inr h" "out_alive out"
  using assms that
  by (auto simp: signup_email_def sent_and_then_mem check_lengths_Done Let_def sent_call
      handler_simps split: if_splits)

text \<open>
  Property C33. A sign-up the public API lets through - which needs lengths in range, a new
  name that is not the exchange's, and an open invite - creates the user at the ETH module,
  posts the default tokens, and sends one event; the state it was checked against accepts it,
  and afterwards the same name and password sign in, for any password hash that accepts the
  password it was computed from.
\<close>

theorem signup_then_signin:
  assumes "sent (signup_email out s data) \<noteq> []"
    and "\<forall>p h. out_bcrypt_hash out p = Inr h \<longrightarrow> out_bcrypt_verify out p h"
  shows "\<exists>info s'. signup_email out s data =
      ([EthCreateUser (se_user data), EthPostTokens (se_user data) default_tokens,
        SendUpdate (Signup info)], Done ())
    \<and> with_signup t info s = (Inr (), s')
    \<and> \<not> hm_contains_key (st_users s) (se_user data) \<and> se_user data \<noteq> EXCHANGE_USER
    \<and> signin_email out s' \<lparr>si_user = se_user data, si_password = se_password data\<rparr>
        = perform (AddCookie (se_user data))"
proof -
  from assms(1) obtain b where "b \<in> set (sent (signup_email out s data))"
    by (cases "sent (signup_email out s data)") auto
  then obtain h where *: "MIN_USER_NAME_LEN \<le> length (se_user data)"
    "length (se_user data) \<le> MAX_USER_NAME_LEN"
    "MIN_USER_PASSWORD_LEN \<le> length (se_password data)"
    "length (se_password data) \<le> MAX_USER_PASSWORD_LEN"
    "\<not> hm_contains_key (st_users s) (se_user data)" "se_user data \<noteq> EXCHANGE_USER"
    "hm_contains_key (st_invites s) (se_invite data)"
    "eth_create_user out (se_user data) = Inr ()" "eth_post_tokens out (se_user data) default_tokens = Inr ()"
    "out_bcrypt_hash out (se_password data) = Inr h" "out_alive out"
    by (rule signup_email_sent)
  let ?info = "\<lparr>su_username = se_user data, su_invite = se_invite data, su_auth = Password h\<rparr>"
  let ?u = "user_info_of_signup t ?info"
  let ?s = "(put_user (se_user data) ?u s)\<lparr>st_invites := hm_remove (se_invite data) (st_invites s)\<rparr>"
  have name: "ui_username ?u = se_user data" and auth: "ui_auth ?u = Password h"
    by (simp_all add: user_info_of_signup_def user_info_new_def)
  have "signup_email out s data = ([EthCreateUser (se_user data), EthPostTokens (se_user data) default_tokens,
      SendUpdate (Signup ?info)], Done ())"
    using * by (simp add: signup_email_def check_lengths_ok handler_simps send_unwrap_def)
  moreover have "with_signup t ?info s = (Inr (), ?s)"
    using * name by (simp add: with_signup_def put_user_def Let_def)
  moreover have "signin_email out ?s \<lparr>si_user = se_user data, si_password = se_password data\<rparr>
      = perform (AddCookie (se_user data))"
    using * assms(2) auth by (simp add: signin_email_def check_lengths_ok handler_simps put_user_def)
  ultimately show ?thesis using *(5,6) by blast
qed

theorem signup_then_signin_witness:
  "\<exists>s'. signin_email example_outside s' \<lparr>si_user = ''Dave'', si_password = ''secret''\<rparr>
      = perform (AddCookie ''Dave'')
    \<and> hm_contains_key (st_users s') ''Dave''"
proof -
  let ?data = "\<lparr>se_user = ''Dave'', se_invite = example_invite, se_password = ''secret''\<rparr>"
  have st: "st_users invited_state = st_users alice_state"
    "\<exists>y. hm_get (st_invites invited_state) example_invite = Some y"
    by (simp_all add: invited_state_def gen_invite_def alice_state_def state_new_def hm_contains_key_def
        hm_empty_def)
  have sent: "sent (signup_email example_outside invited_state ?data) \<noteq> []"
    by (simp add: signup_email_def check_lengths_ok handler_simps st hm_contains_key_def alice_account
        example_outside_def send_unwrap_def perform_def)
  have law: "\<forall>p h. out_bcrypt_hash example_outside p = Inr h \<longrightarrow> out_bcrypt_verify example_outside p h"
    by (simp add: example_outside_def)
  from signup_then_signin [OF sent law, of 100] obtain info s' where
    ok: "with_signup 100 info invited_state = (Inr (), s')"
    and signin: "signin_email example_outside s' \<lparr>si_user = ''Dave'', si_password = ''secret''\<rparr>
      = perform (AddCookie ''Dave'')" by auto
  have "hm_contains_key (st_users s') ''Dave''"
    using signin by (auto simp: signin_email_def check_lengths_ok handler_simps hm_contains_key_def
        fail_def perform_def split: option.splits)
  with signin show ?thesis by blast
qed

subsection \<open>Challenges\<close>

text \<open>
  Property C34. The sign-in by challenge does not look at the user's key. It sets the cookie
  exactly when the user exists, the challenge is the one last handed out for the name, and
  the signature is valid under the key that comes with the request itself; which keys the
  users have registered makes no difference. A challenge works once.
\<close>

theorem challenge_login_ignores_stored_keys:
  assumes "hm_wf (rs_challenges rs)"
  shows "(AddCookie c \<in> set (fst (fst (redeem_challenge out domain s resp sd rs))) \<longleftrightarrow>
       c = chr_user resp \<and> hm_contains_key (st_users s) (chr_user resp)
       \<and> hm_get (rs_challenges rs) (chr_user resp) = Some (chr_challenge resp)
       \<and> out_ecdsa out (sd_public_key sd)
           (redeem_message out domain resp @ '':'' @ u64_to_string (sd_nonce sd)) (sd_signature sd))
    \<and> ((\<forall>uid. hm_contains_key (st_users s') uid = hm_contains_key (st_users s) uid) \<longrightarrow>
       redeem_challenge out domain s' resp sd rs = redeem_challenge out domain s resp sd rs)
    \<and> (AddCookie c \<in> set (fst (fst (redeem_challenge out domain s resp sd rs))) \<longrightarrow>
       fst (fst (redeem_challenge out domain s resp sd'
         (snd (redeem_challenge out domain s resp sd rs)))) = [])"
proof -
  have gone: "hm_get (hm_remove u (rs_challenges rs)) u = None" for u
    using assms by simp
  have cookie: "AddCookie c \<in> set (fst (fst (redeem_challenge out domain s resp sd rs))) \<longleftrightarrow>
       c = chr_user resp \<and> hm_contains_key (st_users s) (chr_user resp)
       \<and> hm_get (rs_challenges rs) (chr_user resp) = Some (chr_challenge resp)
       \<and> verify_signature (out_ecdsa out) None (sd_public_key sd) (sd_nonce sd)
           (redeem_message out domain resp) (sd_signature sd) = Inr ()"
    by (auto simp: redeem_challenge_def Let_def handler_simps split: sum.splits option.splits)
  have once: "fst (fst (redeem_challenge out domain s resp sd' (snd (redeem_challenge out domain s resp sd rs)))) = []"
    if "AddCookie c \<in> set (fst (fst (redeem_challenge out domain s resp sd rs)))"
    using that [unfolded cookie] gone
    by (auto simp: redeem_challenge_def Let_def handler_simps split: sum.splits option.splits)
  show ?thesis
    using cookie once by (auto simp: verify_signature_ok_iff redeem_challenge_def)
qed

text \<open>Mallory, whose key nobody registered, signs in as Alice.\<close>

definition mallory :: signature_data where
  "mallory = (let k = PublicKey ''Mallory'' in
     \<lparr>sd_signature = Signature (key_text k @ redeem_message example_outside ''d''
         \<lparr>chr_user = ''Alice'', chr_challenge = ''42''\<rparr> @ '':'' @ u64_to_string 1),
      sd_nonce = 1, sd_public_key = k\<rparr>)"

theorem challenge_login_ignores_stored_keys_witness:
  "AddCookie ''Alice'' \<in> set (fst (fst (redeem_challenge example_outside ''d'' alice_state
     \<lparr>chr_user = ''Alice'', chr_challenge = ''42''\<rparr> mallory
     (snd (get_challenge example_outside alice_state ''Alice'' (runtime_state_new :: nat runtime_state))))))"
proof -
  let ?rs = "snd (get_challenge example_outside alice_state ''Alice'' (runtime_state_new :: nat runtime_state))"
  have rs: "rs_challenges ?rs = [(''Alice'', ''42'')]"
    by (simp add: get_challenge_def hm_contains_key_def alice_account runtime_state_new_def hm_empty_def
        example_outside_def Let_def)
  have "hm_wf (rs_challenges ?rs)" unfolding rs by (simp add: hm_wf_def)
  note login = challenge_login_ignores_stored_keys [OF this, where c = "''Alice''" and out = example_outside
      and domain = "''d''" and s = alice_state and sd = mallory
      and resp = "\<lparr>chr_user = ''Alice'', chr_challenge = ''42''\<rparr>", THEN conjunct1, THEN iffD2]
  have ecdsa: "out_ecdsa example_outside k m sig = (sig = Signature (key_text k @ m))" for k m sig
    by (simp add: example_outside_def)
  have "out_ecdsa example_outside (sd_public_key mallory)
      (redeem_message example_outside ''d'' \<lparr>chr_user = ''Alice'', chr_challenge = ''42''\<rparr> @ '':''
        @ u64_to_string (sd_nonce mallory)) (sd_signature mallory)"
    unfolding ecdsa by (simp only: mallory_def Let_def signature_data.select_convs)
  moreover have "hm_contains_key (st_users alice_state) ''Alice''"
    by (simp add: hm_contains_key_def alice_account)
  moreover have "hm_get (rs_challenges ?rs) ''Alice'' = Some ''42''" unfolding rs by simp
  ultimately show ?thesis
    by (intro login) (simp only: challenge_response.select_convs simp_thms)
qed

end
