(* ===== verification/Eth_Node.thy ===== *)
theory Eth_Node
  imports Public_Data
begin

section \<open>The ETH module\<close>

text \<open>
  hexstody-eth: the table of users (db_functions.rs), the worker that refreshes it
  (worker.rs), and the handlers for accounts, balances and payments (handlers/). The Ethereum
  node, the block explorer and the crates web3 and ethereum-types are parameters. Answers of
  the database are only ever unwrapped, so a failed query is a panic of its handler.
\<close>

subsection \<open>Numbers as text\<close>

text \<open>
  \<open>(1000000000000000000.0 * volume.parse::<f64>()) as u64\<close>. A text of digits is read as
  the nearest \<open>f64\<close>, ties to even, and so is the product; the cast saturates. The range of
  exponents plays no role: what is too large saturates as infinity does. For other texts
  (fractions, exponents, signs, the names of infinity) the result is a parameter, \<open>None\<close>
  where the text is no number.
\<close>

fun bit_length :: "nat \<Rightarrow> nat" where
  "bit_length n = (if n = 0 then 0 else Suc (bit_length (n div 2)))"

declare bit_length.simps [simp del]

definition f64_of_nat :: "nat \<Rightarrow> nat" where
  "f64_of_nat n =
     (let d = 2 ^ (bit_length n - 53); q = n div d; r = n mod d
      in (if d < 2 * r \<or> d = 2 * r \<and> odd q then q + 1 else q) * d)"

definition as_u64 :: "nat \<Rightarrow> u64" where
  "as_u64 n = (if n < 2 ^ 64 then of_nat n else - 1)"

fun nat_of_digits :: "nat \<Rightarrow> string \<Rightarrow> nat option" where
  "nat_of_digits acc [] = Some acc"
| "nat_of_digits acc (c # cs) =
     (case digit_value c of None \<Rightarrow> None | Some d \<Rightarrow> nat_of_digits (acc * 10 + d) cs)"

definition scaled_volume :: "(string \<Rightarrow> u64 option) \<Rightarrow> string \<Rightarrow> u64 option" where
  "scaled_volume other volume =
     (case (if volume = [] then None else nat_of_digits 0 volume) of
        Some n \<Rightarrow> Some (as_u64 (f64_of_nat (10 ^ 18 * f64_of_nat n)))
      | None \<Rightarrow> other volume)"

text \<open>\<open>&s[2..]\<close>: a panic when the text is shorter.\<close>

definition from_2 :: "string \<Rightarrow> string option" where
  "from_2 s = (if length s < 2 then None else Some (drop 2 s))"

text \<open>\<open>&s[2..n]\<close>.\<close>

definition slice_2 :: "nat \<Rightarrow> string \<Rightarrow> string option" where
  "slice_2 n s = (if n < 2 \<or> length s < n then None else Some (drop 2 (take n s)))"

definition hex_value :: "char \<Rightarrow> nat option" where
  "hex_value c =
     (let v = of_char c :: nat in
      if 48 \<le> v \<and> v \<le> 57 then Some (v - 48)
      else if 97 \<le> v \<and> v \<le> 102 then Some (v - 87)
      else if 65 \<le> v \<and> v \<le> 70 then Some (v - 55) else None)"

text \<open>\<open>i128::from_str_radix(s, 16)\<close> of a text without a sign.\<close>

fun parse_hex :: "nat \<Rightarrow> string \<Rightarrow> nat option" where
  "parse_hex acc [] = Some acc"
| "parse_hex acc (c # cs) =
     (case hex_value c of
        None \<Rightarrow> None
      | Some d \<Rightarrow> if acc * 16 + d < 2 ^ 127 then parse_hex (acc * 16 + d) cs else None)"

subsection \<open>The table of users\<close>

text \<open>
  A row of \<open>users_eth\<close>; the login is the primary key. The data are \<open>None\<close> where the
  column is null or no \<open>UserData\<close>.
\<close>

record users_eth_row =
  ea_address :: string
  ea_data :: "user_data option"

type_synonym eth_users = "(string, users_eth_row) hash_map"

definition pg_query_user :: "bool \<Rightarrow> string \<Rightarrow> eth_users \<Rightarrow> users_eth_row option" where
  "pg_query_user up login us = (if up then hm_get us login else None)"

definition pg_insert_user :: "bool \<Rightarrow> string \<Rightarrow> string \<Rightarrow> user_data \<Rightarrow> eth_users \<Rightarrow> eth_users option" where
  "pg_insert_user up login address data us =
     (if up \<and> \<not> hm_contains_key us login
      then Some (hm_insert login \<lparr>ea_address = address, ea_data = Some data\<rparr> us) else None)"

definition pg_remove_user :: "bool \<Rightarrow> string \<Rightarrow> eth_users \<Rightarrow> eth_users option" where
  "pg_remove_user up login us = (if up then Some (hm_remove login us) else None)"

text \<open>An update changes the row of the login, if there is one.\<close>

definition update_row :: "string \<Rightarrow> (users_eth_row \<Rightarrow> users_eth_row) \<Rightarrow> eth_users \<Rightarrow> eth_users" where
  "update_row login f us = hm_map (\<lambda>k row. if k = login then f row else row) us"

definition pg_update_user_tokens ::
  "bool \<Rightarrow> string \<Rightarrow> erc20_token list \<Rightarrow> eth_users \<Rightarrow> eth_users option" where
  "pg_update_user_tokens up login tokens us =
     (if up then Some (update_row login
        (\<lambda>row. row\<lparr>ea_data := map_option (\<lambda>d. d\<lparr>ud_tokens := tokens\<rparr>) (ea_data row)\<rparr>) us)
      else None)"

definition pg_get_user_tokens :: "bool \<Rightarrow> string \<Rightarrow> eth_users \<Rightarrow> erc20_token list option" where
  "pg_get_user_tokens up login us =
     (case pg_query_user up login us of
        None \<Rightarrow> None
      | Some row \<Rightarrow> map_option ud_tokens (ea_data row))"

definition pg_update_user :: "bool \<Rightarrow> string \<Rightarrow> user_data \<Rightarrow> eth_users \<Rightarrow> eth_users option" where
  "pg_update_user up login data us =
     (if up then Some (update_row login (\<lambda>row. row\<lparr>ea_data := Some data\<rparr>) us) else None)"

definition pg_query_total_eth :: "bool \<Rightarrow> eth_users \<Rightarrow> string list option" where
  "pg_query_total_eth up us =
     (if up then those (map (\<lambda>row. map_option ud_balance_eth (ea_data row)) (hm_values us)) else None)"

definition pg_query_total_tokens :: "bool \<Rightarrow> eth_users \<Rightarrow> erc20_token_balance list list option" where
  "pg_query_total_tokens up us =
     (if up then those (map (\<lambda>row. map_option ud_balance_tokens (ea_data row)) (hm_values us)) else None)"

subsection \<open>The node\<close>

type_synonym h160 = "160 word"

text \<open>What \<open>eth_sendTransaction\<close> is called with; \<open>et_data\<close> is absent for a plain payment.\<close>

record eth_tx_params =
  et_from :: string
  et_to :: string
  et_value :: string
  et_data :: "string option"

text \<open>A request to sign; the data are bytes.\<close>

record transaction_request =
  tr_from :: h160
  tr_to :: h160
  tr_value :: nat
  tr_gas :: nat
  tr_gas_price :: nat
  tr_nonce :: nat
  tr_data :: "string option"

datatype endpoint = OwnNode | Infura

record eth_node =
  en_new_account :: "string \<Rightarrow> string option"
  en_accounts :: "string + string list"
  en_send_tx :: "eth_tx_params \<Rightarrow> string + string"
  en_unlock :: "string \<Rightarrow> string \<Rightarrow> string + string"
  en_balance :: "string \<Rightarrow> string + string option"
  en_call :: "string \<Rightarrow> string \<Rightarrow> string + string option"
  en_url :: bool
  en_tx_count :: "endpoint \<Rightarrow> h160 \<Rightarrow> nat option"
  en_sign :: "transaction_request \<Rightarrow> string \<Rightarrow> string + string"
  en_sign_key :: "h160 \<Rightarrow> nat \<Rightarrow> string \<Rightarrow> string + string"
  en_send_raw :: "endpoint \<Rightarrow> string \<Rightarrow> string + string"
  en_h160 :: "string \<Rightarrow> h160 option"
  en_h160_text :: "h160 \<Rightarrow> string"
  en_u256 :: "string \<Rightarrow> nat option"
  en_u256_text :: "nat \<Rightarrow> string"
  en_hex :: "nat \<Rightarrow> string"
  en_f64 :: "string \<Rightarrow> u64 option"
  en_show_f64 :: "nat \<Rightarrow> string"

subsection \<open>What the block explorer tells\<close>

record eth_hist_unit =
  eh_block_number :: string
  eh_time_stamp :: string
  eh_hash :: string
  eh_nonce :: string
  eh_block_hash :: string
  eh_transaction_index :: string
  eh_from :: string
  eh_to :: string
  eh_value :: string
  eh_gas :: string
  eh_gas_price :: string
  eh_is_error :: string
  eh_txreceipt_status :: string
  eh_input :: string
  eh_contract_address :: string
  eh_cumulative_gas_used :: string
  eh_gas_used :: string
  eh_confirmations :: string
  eh_method_id :: string
  eh_function_name :: string

record erc20_hist_unit =
  t20_block_number :: string
  t20_time_stamp :: string
  t20_hash :: string
  t20_nonce :: string
  t20_block_hash :: string
  t20_from :: string
  t20_contract_address :: string
  t20_to :: string
  t20_value :: string
  t20_token_name :: string
  t20_token_symbol :: string
  t20_token_decimal :: string
  t20_transaction_index :: string
  t20_gas :: string
  t20_gas_price :: string
  t20_gas_used :: string
  t20_cumulative_gas_used :: string
  t20_input :: string
  t20_confirmations :: string

subsection \<open>Handlers\<close>

text \<open>
  A handler asks the node and answers with a value, with the node's error (status 500), or
  panics. What it makes the node sign or send is recorded, in order.
\<close>

datatype eth_effect =
    SignedTx transaction_request string
  | KeySignedTx h160 nat string
  | SentRaw endpoint string
  | SentTx eth_tx_params
  | Unlocked string string

datatype 'a eth_answer = EthOk 'a | EthFailed string | EthPanic

type_synonym 'a eth_handler = "eth_effect list \<times> 'a eth_answer"

definition eth_ret :: "'a \<Rightarrow> 'a eth_handler" where
  "eth_ret a = ([], EthOk a)"

definition eth_panic :: "'a eth_handler" where
  "eth_panic = ([], EthPanic)"

definition eth_then :: "'a eth_handler \<Rightarrow> ('a \<Rightarrow> 'b eth_handler) \<Rightarrow> 'b eth_handler" where
  "eth_then m f =
     (case m of
        (effs, EthOk a) \<Rightarrow> (case f a of (effs', r) \<Rightarrow> (effs @ effs', r))
      | (effs, EthFailed e) \<Rightarrow> (effs, EthFailed e)
      | (effs, EthPanic) \<Rightarrow> (effs, EthPanic))"

text \<open>\<open>unwrap\<close>, and a call of the node whose error ends the handler.\<close>

definition eth_unwrap :: "'a option \<Rightarrow> 'a eth_handler" where
  "eth_unwrap x = (case x of None \<Rightarrow> eth_panic | Some a \<Rightarrow> eth_ret a)"

definition eth_ask :: "eth_effect list \<Rightarrow> string + 'a \<Rightarrow> 'a eth_handler" where
  "eth_ask effs x = (effs, (case x of Inl e \<Rightarrow> EthFailed e | Inr a \<Rightarrow> EthOk a))"

named_theorems eth_simps \<open>what handlers of the ETH module do\<close>

lemma eth_then_simps [eth_simps]:
  "eth_then (eth_ret a) f = f a"
  "eth_then eth_panic f = eth_panic"
  by (simp_all add: eth_then_def eth_ret_def eth_panic_def)

lemma eth_unwrap_simps [eth_simps]:
  "eth_unwrap (Some a) = eth_ret a" "eth_unwrap None = eth_panic"
  by (simp_all add: eth_unwrap_def)

lemma eth_then_ask [eth_simps]:
  "eth_then (eth_ask effs (Inr b)) f = (effs @ fst (f b), snd (f b))"
  "eth_then (eth_ask effs (Inl e)) f = (effs, EthFailed e)"
  by (simp_all add: eth_then_def eth_ask_def split: prod.splits)

lemma eth_results [eth_simps]:
  "fst (eth_ret a) = []" "snd (eth_ret a) = EthOk a" "fst eth_panic = []" "snd eth_panic = EthPanic"
  by (simp_all add: eth_ret_def eth_panic_def)

lemma eth_then_mem: "e \<in> set (fst (eth_then m f)) \<longleftrightarrow>
    e \<in> set (fst m) \<or> (\<exists>a. snd m = EthOk a \<and> e \<in> set (fst (f a)))"
  by (auto simp: eth_then_def split: prod.splits eth_answer.splits)

lemma eth_step_effects [simp]:
  "fst (eth_unwrap x) = []" "fst (eth_ask effs y) = effs" "fst (eth_ret a) = []"
  by (simp_all add: eth_unwrap_def eth_ask_def eth_ret_def eth_panic_def split: option.splits)

lemma eth_step_outcomes [simp]:
  "snd (eth_unwrap x) = EthOk a \<longleftrightarrow> x = Some a" "snd (eth_ask effs y) = EthOk b \<longleftrightarrow> y = Inr b"
  "snd (eth_ret c) = EthOk d \<longleftrightarrow> d = c"
  by (auto simp: eth_unwrap_def eth_ask_def eth_ret_def eth_panic_def split: option.splits sum.splits)

end
