(* ===== verification/Eth_Module.thy ===== *)
theory Eth_Module
  imports Eth_Node
begin

section \<open>The handlers of the ETH module\<close>

text \<open>
  handlers/accounts.rs, handlers/balance.rs, handlers/sending.rs, worker.rs and utils.rs of
  hexstody-eth. \<open>up\<close> says whether the database answers; the table is the state.
\<close>

subsection \<open>Volumes\<close>

definition to_hex_str_clean :: "eth_node \<Rightarrow> string \<Rightarrow> string option" where
  "to_hex_str_clean node volume =
     (case scaled_volume (en_f64 node) volume of
        None \<Rightarrow> None
      | Some v \<Rightarrow> map_option (en_hex node) (en_u256 node (u64_to_string v)))"

definition to_hex_str :: "eth_node \<Rightarrow> string \<Rightarrow> string option" where
  "to_hex_str node volume = map_option (\<lambda>h. ''0x'' @ h) (to_hex_str_clean node volume)"

text \<open>\<open>hxt_str_to_f64\<close>, formatted.\<close>

definition hxt_str_to_f64 :: "eth_node \<Rightarrow> string \<Rightarrow> string option" where
  "hxt_str_to_f64 node volume =
     (case map_option (dropWhile (\<lambda>c. c = CHR ''0'')) (from_2 volume) of
        None \<Rightarrow> None
      | Some [] \<Rightarrow> Some (en_show_f64 node 0)
      | Some (c # cs) \<Rightarrow> map_option (en_show_f64 node) (parse_hex 0 (c # cs)))"

subsection \<open>Accounts\<close>

definition empty_user_data :: user_data where
  "empty_user_data =
     \<lparr>ud_tokens = [], ud_history_eth = [], ud_history_tokens = [], ud_balance_eth = ''0'',
      ud_balance_tokens = []\<rparr>"

text \<open>A new account at the node is paired with the table it leaves; \<open>None\<close> is a panic.\<close>

definition user_create :: "bool \<Rightarrow> eth_node \<Rightarrow> string \<Rightarrow> eth_users \<Rightarrow> (string \<times> eth_users) option" where
  "user_create up node login us =
     (case en_new_account node login of
        None \<Rightarrow> None
      | Some address \<Rightarrow>
          map_option (Pair address) (pg_insert_user up login address empty_user_data us))"

definition user_remove :: "bool \<Rightarrow> string \<Rightarrow> eth_users \<Rightarrow> eth_users option" where
  "user_remove up login us = pg_remove_user up login us"

definition user_get :: "bool \<Rightarrow> string \<Rightarrow> eth_users \<Rightarrow> (string \<times> users_eth_row) option" where
  "user_get up login us = map_option (Pair login) (pg_query_user up login us)"

definition eth_allocate :: "eth_node \<Rightarrow> string \<Rightarrow> string option" where
  "eth_allocate node login = en_new_account node login"

definition check_address :: "bool \<Rightarrow> string \<Rightarrow> eth_users \<Rightarrow> string option" where
  "check_address up login us = map_option ea_address (pg_query_user up login us)"

definition accounts_get :: "eth_node \<Rightarrow> string list eth_handler" where
  "accounts_get node = eth_ask [] (en_accounts node)"

definition tokens_get :: "bool \<Rightarrow> string \<Rightarrow> eth_users \<Rightarrow> erc20_token list option" where
  "tokens_get up login us = pg_get_user_tokens up login us"

definition tokens_post :: "bool \<Rightarrow> string \<Rightarrow> erc20_token list \<Rightarrow> eth_users \<Rightarrow> eth_users option" where
  "tokens_post up login tokens us = pg_update_user_tokens up login tokens us"

subsection \<open>Balances\<close>

text \<open>The sums are over \<open>u64\<close> and wrap; a balance that does not fit one is a panic.\<close>

definition balance_eth_total :: "bool \<Rightarrow> eth_users \<Rightarrow> u64 option" where
  "balance_eth_total up us =
     (case pg_query_total_eth up us of
        None \<Rightarrow> None
      | Some texts \<Rightarrow> map_option sum_list (those (map parse_u64 texts)))"

record erc20_token_balance_u64 =
  tbu_token_name :: string
  tbu_token_balance :: u64

text \<open>Adding a user's balance of a token: to every entry of that name, or as a new entry.\<close>

definition add_token_balance ::
  "string \<Rightarrow> u64 \<Rightarrow> erc20_token_balance_u64 list \<Rightarrow> erc20_token_balance_u64 list" where
  "add_token_balance name v totals =
     (if \<exists>t\<in>set totals. tbu_token_name t = name
      then map (\<lambda>t. if tbu_token_name t = name
                    then t\<lparr>tbu_token_balance := tbu_token_balance t + v\<rparr> else t) totals
      else totals @ [\<lparr>tbu_token_name = name, tbu_token_balance = v\<rparr>])"

fun add_token_balances ::
  "erc20_token_balance list \<Rightarrow> erc20_token_balance_u64 list \<Rightarrow> erc20_token_balance_u64 list option" where
  "add_token_balances [] totals = Some totals"
| "add_token_balances (tkn # tkns) totals =
     (case parse_u64 (tb_token_balance tkn) of
        None \<Rightarrow> None
      | Some v \<Rightarrow> add_token_balances tkns (add_token_balance (tb_token_name tkn) v totals))"

definition balance_erc20_total :: "bool \<Rightarrow> eth_users \<Rightarrow> erc20_token_balance_u64 list option" where
  "balance_erc20_total up us =
     (case pg_query_total_tokens up us of
        None \<Rightarrow> None
      | Some balances \<Rightarrow> add_token_balances (concat balances) [])"

definition node_balance :: "eth_node \<Rightarrow> string + string option \<Rightarrow> string eth_handler" where
  "node_balance node answer =
     eth_then (eth_ask [] answer) (\<lambda>res.
       case res of
         None \<Rightarrow> ([], EthFailed ''No result error'')
       | Some res_str \<Rightarrow> eth_unwrap (hxt_str_to_f64 node res_str))"

definition balance_eth_address :: "eth_node \<Rightarrow> string \<Rightarrow> string eth_handler" where
  "balance_eth_address node address = node_balance node (en_balance node address)"

definition balance_eth_login :: "bool \<Rightarrow> eth_node \<Rightarrow> string \<Rightarrow> eth_users \<Rightarrow> string eth_handler" where
  "balance_eth_login up node login us =
     eth_then (eth_unwrap (pg_query_user up login us)) (\<lambda>user.
       node_balance node (en_balance node (ea_address user)))"

definition balance_erc20_address :: "eth_node \<Rightarrow> string \<Rightarrow> string \<Rightarrow> string eth_handler" where
  "balance_erc20_address node address token_address =
     eth_then (eth_unwrap (from_2 address)) (\<lambda>a.
       node_balance node (en_call node token_address (''0x70a08231000000000000000000000000'' @ a)))"

definition balance_erc20_login ::
  "bool \<Rightarrow> eth_node \<Rightarrow> string \<Rightarrow> string \<Rightarrow> eth_users \<Rightarrow> string eth_handler" where
  "balance_erc20_login up node login token_address us =
     eth_then (eth_unwrap (pg_query_user up login us)) (\<lambda>user.
     eth_then (eth_unwrap (from_2 (ea_address user))) (\<lambda>a.
       node_balance node (en_call node token_address (''0x70a08231000000000000000000000000'' @ a))))"

subsection \<open>Payments the node signs and sends itself\<close>

definition query_user_data :: "bool \<Rightarrow> string \<Rightarrow> eth_users \<Rightarrow> (users_eth_row \<times> user_data) eth_handler" where
  "query_user_data up login us =
     eth_then (eth_unwrap (pg_query_user up login us)) (\<lambda>user.
     eth_then (eth_unwrap (ea_data user)) (\<lambda>data. eth_ret (user, data)))"

definition send_eth_tx :: "eth_node \<Rightarrow> eth_tx_params \<Rightarrow> string eth_handler" where
  "send_eth_tx node tx = eth_ask [SentTx tx] (en_send_tx node tx)"

definition send_eth_from_address ::
  "eth_node \<Rightarrow> string \<Rightarrow> string \<Rightarrow> string \<Rightarrow> string eth_handler" where
  "send_eth_from_address node address recipient volume =
     eth_then (eth_unwrap (to_hex_str node volume)) (\<lambda>value.
       send_eth_tx node \<lparr>et_from = address, et_to = recipient, et_value = value, et_data = None\<rparr>)"

definition send_eth_from_login ::
  "bool \<Rightarrow> eth_node \<Rightarrow> string \<Rightarrow> string \<Rightarrow> string \<Rightarrow> eth_users \<Rightarrow> string eth_handler" where
  "send_eth_from_login up node login recipient volume us =
     eth_then (query_user_data up login us) (\<lambda>(user, _).
       send_eth_from_address node (ea_address user) recipient volume)"

definition senddummy_eth_from_address ::
  "eth_node \<Rightarrow> string \<Rightarrow> string \<Rightarrow> string \<Rightarrow> string eth_handler" where
  "senddummy_eth_from_address node address recipient volume =
     eth_then (eth_unwrap (to_hex_str node volume)) (\<lambda>_. eth_ret (''Sending eth '' @ address))"

text \<open>Called a dummy, it sends all the same.\<close>

definition senddummy_eth_from_login ::
  "bool \<Rightarrow> eth_node \<Rightarrow> string \<Rightarrow> string \<Rightarrow> string \<Rightarrow> eth_users \<Rightarrow> string eth_handler" where
  "senddummy_eth_from_login up node login recipient volume us =
     eth_then (query_user_data up login us) (\<lambda>(user, _).
     eth_then (eth_unwrap (to_hex_str node volume)) (\<lambda>value.
       send_eth_tx node
         \<lparr>et_from = ea_address user, et_to = recipient, et_value = value, et_data = None\<rparr>))"

definition unlock_eth :: "bool \<Rightarrow> eth_node \<Rightarrow> string \<Rightarrow> eth_users \<Rightarrow> string eth_handler" where
  "unlock_eth up node login us =
     eth_then (query_user_data up login us) (\<lambda>(user, _).
       eth_ask [Unlocked (ea_address user) login] (en_unlock node (ea_address user) login))"

text \<open>
  The call \<open>transfer(recipient, volume)\<close> of a token: the selector, then the two arguments in
  64 digits each. The recipient is cut out up to the position \<open>up_to\<close>.
\<close>

definition transfer_data :: "nat \<Rightarrow> string \<Rightarrow> string \<Rightarrow> string option" where
  "transfer_data up_to recipient hex_volume =
     (case slice_2 up_to recipient of
        None \<Rightarrow> None
      | Some r \<Rightarrow>
         (if 64 < length hex_volume then None
          else Some (''0xa9059cbb000000000000000000000000'' @ r @
            replicate (64 - length hex_volume) (CHR ''0'') @ hex_volume)))"

definition send_erc20_from_address ::
  "eth_node \<Rightarrow> string \<Rightarrow> string \<Rightarrow> string \<Rightarrow> string \<Rightarrow> string eth_handler" where
  "send_erc20_from_address node address token_address recipient volume =
     eth_then (eth_unwrap (if en_url node then Some () else None)) (\<lambda>_.
     eth_then (eth_unwrap (en_h160 node address)) (\<lambda>_.
     eth_then (eth_unwrap (en_h160 node recipient)) (\<lambda>_.
     eth_then (eth_unwrap (to_hex_str_clean node volume)) (\<lambda>hex_volume.
     eth_then (eth_unwrap (transfer_data (length address) recipient hex_volume)) (\<lambda>tx_data.
     eth_then (eth_unwrap (to_hex_str node ''0'')) (\<lambda>zero.
       send_eth_tx node
         \<lparr>et_from = address, et_to = token_address, et_value = zero, et_data = Some tx_data\<rparr>))))))"

subsection \<open>Payments signed at the node and sent raw\<close>

record send_tx_data =
  sd_to :: string
  sd_val :: string
  sd_hash :: string

definition sign_and_send ::
  "eth_node \<Rightarrow> endpoint \<Rightarrow> transaction_request \<Rightarrow> string \<Rightarrow> h160 \<Rightarrow> nat \<Rightarrow> send_tx_data eth_handler" where
  "sign_and_send node ep tx login to val_u =
     eth_then (eth_ask [SignedTx tx login] (en_sign node tx login)) (\<lambda>raw.
     eth_then (eth_ask [SentRaw ep raw] (en_send_raw node ep raw)) (\<lambda>tx_hash.
       eth_ret \<lparr>sd_to = en_h160_text node to, sd_val = en_u256_text node val_u, sd_hash = tx_hash\<rparr>))"

definition signsend ::
  "bool \<Rightarrow> eth_node \<Rightarrow> string \<Rightarrow> string \<Rightarrow> string \<Rightarrow> eth_users \<Rightarrow> send_tx_data eth_handler" where
  "signsend up node login recipient volume us =
     eth_then (query_user_data up login us) (\<lambda>(user, _).
     eth_then (eth_unwrap (en_h160 node (ea_address user))) (\<lambda>from_addr.
     eth_then (eth_unwrap (en_h160 node recipient)) (\<lambda>to_addr.
     eth_then (eth_unwrap (if en_url node then Some () else None)) (\<lambda>_.
     eth_then (eth_unwrap (en_u256 node volume)) (\<lambda>val_u.
     eth_then (eth_unwrap (en_tx_count node Infura from_addr)) (\<lambda>nonce.
       sign_and_send node Infura
         \<lparr>tr_from = from_addr, tr_to = to_addr, tr_value = val_u, tr_gas = 21000,
          tr_gas_price = 45000000000, tr_nonce = nonce, tr_data = None\<rparr> login to_addr val_u))))))"

text \<open>The bytes of the call's data are the bytes of its text: \<open>tx_data.into_bytes()\<close>.\<close>

definition signsend_erc20 ::
  "bool \<Rightarrow> eth_node \<Rightarrow> string \<Rightarrow> string \<Rightarrow> string \<Rightarrow> string \<Rightarrow> eth_users \<Rightarrow> send_tx_data eth_handler" where
  "signsend_erc20 up node login recipient token_address volume us =
     eth_then (query_user_data up login us) (\<lambda>(user, _).
     eth_then (eth_unwrap (en_h160 node (ea_address user))) (\<lambda>from_addr.
     eth_then (eth_unwrap (en_h160 node recipient)) (\<lambda>_.
     eth_then (eth_unwrap (en_h160 node token_address)) (\<lambda>to_addr.
     eth_then (eth_unwrap (to_hex_str_clean node volume)) (\<lambda>hex_volume.
     eth_then (eth_unwrap (transfer_data (length recipient) recipient hex_volume)) (\<lambda>tx_data.
     eth_then (eth_unwrap (if en_url node then Some () else None)) (\<lambda>_.
     eth_then (eth_unwrap (en_u256 node volume)) (\<lambda>val_u.
     eth_then (eth_unwrap (en_tx_count node OwnNode from_addr)) (\<lambda>nonce.
       sign_and_send node OwnNode
         \<lparr>tr_from = from_addr, tr_to = to_addr, tr_value = 0, tr_gas = 520000,
          tr_gas_price = 1800000000, tr_nonce = nonce, tr_data = Some tx_data\<rparr> login to_addr val_u)))))))))"

text \<open>A payment from an account whose private key is part of the program.\<close>

definition OLDSEND_KEY :: string where
  "OLDSEND_KEY = ''0x61079623c42a616efbc9b2f27f42b1c73f08cfd898c60e89589cf15f7bab8b57''"

definition oldsend ::
  "bool \<Rightarrow> eth_node \<Rightarrow> string \<Rightarrow> string \<Rightarrow> string \<Rightarrow> eth_users \<Rightarrow> send_tx_data eth_handler" where
  "oldsend up node login recipient volume us =
     eth_then (query_user_data up login us) (\<lambda>_.
     eth_then (eth_unwrap (if en_url node then Some () else None)) (\<lambda>_.
     eth_then (eth_unwrap (en_h160 node recipient)) (\<lambda>to_addr.
     eth_then (eth_unwrap (scaled_volume (en_f64 node) volume)) (\<lambda>v.
     eth_then (eth_unwrap (en_u256 node (u64_to_string v))) (\<lambda>val_u.
     eth_then (eth_ask [KeySignedTx to_addr val_u OLDSEND_KEY] (en_sign_key node to_addr val_u OLDSEND_KEY))
       (\<lambda>raw.
     eth_then (eth_ask [SentRaw OwnNode raw] (en_send_raw node OwnNode raw)) (\<lambda>tx_hash.
       eth_ret \<lparr>sd_to = en_h160_text node to_addr, sd_val = en_u256_text node val_u, sd_hash = tx_hash\<rparr>)))))))"

subsection \<open>The worker\<close>

text \<open>What the block explorer answers; \<open>None\<close> where the worker's unwraps panic.\<close>

record explorer =
  ex_balance :: "string \<Rightarrow> string option"
  ex_history :: "string \<Rightarrow> eth_hist_unit list option"
  ex_token_balance :: "string \<Rightarrow> string \<Rightarrow> string option"
  ex_token_history :: "string \<Rightarrow> string \<Rightarrow> erc20_hist_unit list option"

definition get_history_eth :: "explorer \<Rightarrow> string \<Rightarrow> erc20_hist_unit_u list option" where
  "get_history_eth ex acc =
     map_option (map (\<lambda>x.
       \<lparr>hu_block_number = eh_block_number x, hu_time_stamp = eh_time_stamp x, hu_hash = eh_hash x,
        hu_from = eh_from x, hu_to = eh_to x, hu_value = eh_value x, hu_token_name = ''ETH'',
        hu_gas = eh_gas x, hu_gas_price = eh_gas_price x, hu_contract_address = eh_contract_address x,
        hu_confirmations = eh_confirmations x, hu_addr = acc\<rparr>)) (ex_history ex acc)"

definition get_history_token ::
  "explorer \<Rightarrow> string \<Rightarrow> string \<Rightarrow> string \<Rightarrow> erc20_token_history option" where
  "get_history_token ex acc token tick =
     map_option (\<lambda>hist_list.
       \<lparr>th_token = \<lparr>ticker = tick, token_name = tick, contract = token\<rparr>,
        th_history = map (\<lambda>x.
          \<lparr>hu_block_number = t20_block_number x, hu_time_stamp = t20_time_stamp x, hu_hash = t20_hash x,
           hu_from = t20_from x, hu_to = t20_to x, hu_value = t20_value x,
           hu_token_name = t20_token_symbol x,
           hu_gas = t20_gas x, hu_gas_price = t20_gas_price x,
           hu_contract_address = t20_contract_address x,
           hu_confirmations = t20_confirmations x, hu_addr = acc\<rparr>) hist_list\<rparr>)
       (ex_token_history ex acc token)"

definition get_balance_token ::
  "explorer \<Rightarrow> string \<Rightarrow> string \<Rightarrow> string \<Rightarrow> erc20_token_balance option" where
  "get_balance_token ex acc token tick =
     map_option (\<lambda>b. \<lparr>tb_token_name = tick, tb_token_balance = b\<rparr>) (ex_token_balance ex acc token)"

fun token_stage ::
  "explorer \<Rightarrow> string \<Rightarrow> erc20_token list
   \<Rightarrow> (erc20_token_history list \<times> erc20_token_balance list) option" where
  "token_stage ex address [] = Some ([], [])"
| "token_stage ex address (t # ts) =
     (case (get_history_token ex address (contract t) (ticker t),
            get_balance_token ex address (contract t) (ticker t)) of
        (Some h, Some b) \<Rightarrow> map_option (\<lambda>(hs, bs). (h # hs, b # bs)) (token_stage ex address ts)
      | _ \<Rightarrow> None)"

text \<open>
  What one user's row is replaced by. \<open>row\<close> is the row as it was read when the stage
  began; \<open>us\<close> is the table by the time of the update.
\<close>

definition refresh_user ::
  "bool \<Rightarrow> explorer \<Rightarrow> string \<Rightarrow> users_eth_row \<Rightarrow> eth_users \<Rightarrow> eth_users option" where
  "refresh_user up ex login row us =
     (case ea_data row of
        None \<Rightarrow> None
      | Some sdata \<Rightarrow>
         (case (ex_balance ex (ea_address row), get_history_eth ex (ea_address row),
                token_stage ex (ea_address row) (ud_tokens sdata)) of
            (Some b, Some h, Some (hist_tokens, bal_tokens)) \<Rightarrow>
              pg_update_user up login
                \<lparr>ud_tokens = ud_tokens sdata, ud_history_eth = h, ud_history_tokens = hist_tokens,
                 ud_balance_eth = b, ud_balance_tokens = bal_tokens\<rparr> us
          | _ \<Rightarrow> None))"

text \<open>
  A stage over the rows read at its beginning. Between two users other handlers may change
  the table: \<open>meanwhile n\<close> is what they do before the n-th update. The flag says whether
  the worker panicked.
\<close>

fun update_stage ::
  "bool \<Rightarrow> explorer \<Rightarrow> (nat \<Rightarrow> eth_users \<Rightarrow> eth_users) \<Rightarrow> nat \<Rightarrow> (string \<times> users_eth_row) list \<Rightarrow> eth_users
   \<Rightarrow> eth_users \<times> bool" where
  "update_stage up ex meanwhile n [] us = (us, False)"
| "update_stage up ex meanwhile n ((login, row) # rows) us =
     (let us1 = meanwhile n us in
      case refresh_user up ex login row us1 of
        None \<Rightarrow> (us1, True)
      | Some us2 \<Rightarrow> update_stage up ex meanwhile (Suc n) rows us2)"

end
