(* ===== verification/Operator_Api.thy ===== *)
theory Operator_Api
  imports Public_Auth State
begin

section \<open>The operators' API\<close>

text \<open>
  hexstody-operator/src/api: the guard every handler starts with (helpers.rs) and the
  handlers (mod.rs). A handler sees the configuration and the signature data of the request's
  header. \<open>uri!(...)\<close> of a handler is its path, with arguments percent-encoded.
\<close>

record op_outside =
  op_alive :: bool
  op_send_error :: string
  op_fresh :: "nat \<Rightarrow> uuid"
  op_ecdsa :: verifier
  op_uri_encode :: "string \<Rightarrow> string"
  op_debug :: "string \<Rightarrow> string"
  op_key_to_string :: "public_key \<Rightarrow> string"
  op_format_time :: "datetime \<Rightarrow> string"
  op_confirmation_json :: "confirmation_data \<Rightarrow> string"
  op_limit_json :: "limit_confirmation_data \<Rightarrow> string"
  op_exchange_json :: "exchange_confirmation_data \<Rightarrow> string"
  op_label_json :: "string \<Rightarrow> string"
  op_currency_json :: "currency \<Rightarrow> string"
  op_btc_hot_balance :: "string + u64"
  op_eth_hot_balance :: "currency \<Rightarrow> string + u64"
  op_btc_deposit_address :: "string + string"
  op_user_data :: "string \<Rightarrow> string + user_eth"
  op_qr :: "string \<Rightarrow> string option"

subsection \<open>The guard\<close>

definition guard_verify ::
  "op_outside \<Rightarrow> signature_verification_config \<Rightarrow> string \<Rightarrow> signature_data \<Rightarrow> string option \<Rightarrow> unit handler" where
  "guard_verify out config uri sd message =
     (case svd_verify (op_ecdsa out)
             \<lparr>svd_url = svc_domain config @ uri, svd_signature = sd_signature sd,
              svd_nonce = sd_nonce sd, svd_public_key = sd_public_key sd, svd_message = message\<rparr>
             (svc_operator_public_keys config) of
        Inl e \<Rightarrow> fail (ErrSignatureError (signature_error_text e))
      | Inr _ \<Rightarrow> ret ())"

definition guard_op_signature ::
  "op_outside \<Rightarrow> signature_verification_config \<Rightarrow> string \<Rightarrow> signature_data \<Rightarrow> string \<Rightarrow> unit handler" where
  "guard_op_signature out config uri sd body_json = guard_verify out config uri sd (Some body_json)"

definition guard_op_signature_nomsg ::
  "op_outside \<Rightarrow> signature_verification_config \<Rightarrow> string \<Rightarrow> signature_data \<Rightarrow> unit handler" where
  "guard_op_signature_nomsg out config uri sd = guard_verify out config uri sd None"

definition send_internal :: "op_outside \<Rightarrow> update_body \<Rightarrow> unit handler" where
  "send_internal out body = send_or (op_alive out) (ErrInternalServerError (op_send_error out)) body"

subsection \<open>Queries\<close>

definition get_supported_currencies ::
  "op_outside \<Rightarrow> signature_verification_config \<Rightarrow> signature_data \<Rightarrow> currency list handler" where
  "get_supported_currencies out config sd =
     and_then (guard_op_signature_nomsg out config ''/currencies'' sd) (\<lambda>_. ret supported)"

definition get_required_confirmations ::
  "op_outside \<Rightarrow> signature_verification_config \<Rightarrow> signature_data \<Rightarrow> i16 handler" where
  "get_required_confirmations out config sd =
     and_then (guard_op_signature_nomsg out config ''/confirmations'' sd)
       (\<lambda>_. ret REQUIRED_NUMBER_OF_CONFIRMATIONS)"

record api_user_info =
  aui_first_name :: "string option"
  aui_last_name :: "string option"
  aui_email :: "email option"
  aui_phone :: "phone_number option"
  aui_tg_name :: "tg_name option"

definition get_user_info ::
  "op_outside \<Rightarrow> signature_verification_config \<Rightarrow> state \<Rightarrow> signature_data \<Rightarrow> string \<Rightarrow> api_user_info handler" where
  "get_user_info out config s sd user_id =
     and_then (guard_op_signature_nomsg out config (''/user/info/'' @ op_uri_encode out user_id) sd) (\<lambda>_.
     and_then (need (get_user_by_id s user_id) ErrNoUserFound) (\<lambda>user.
       ret \<lparr>aui_first_name = None, aui_last_name = None, aui_email = ucf_email (ui_config user),
            aui_phone = ucf_phone (ui_config user), aui_tg_name = ucf_tg_name (ui_config user)\<rparr>))"

definition operator_hot_balance ::
  "op_outside \<Rightarrow> signature_verification_config \<Rightarrow> signature_data \<Rightarrow> string \<Rightarrow> u64 handler" where
  "operator_hot_balance out config sd currency_name =
     and_then (guard_op_signature_nomsg out config
       (''/hot-wallet-balance/'' @ op_uri_encode out currency_name) sd) (\<lambda>_.
     and_then (need (get_by_name currency_name) (ErrUnknownCurrency (op_debug out currency_name))) (\<lambda>c.
       if c = BTC then query ErrInternalServerError (op_btc_hot_balance out)
       else query ErrInternalServerError (op_eth_hot_balance out c)))"

text \<open>\<open>impl Into<WithdrawalRequestApi> for WithdrawalRequest\<close> of state/withdraw.rs.\<close>

record withdrawal_request_api =
  wra_id :: uuid
  wra_user :: string
  wra_address :: currency_address
  wra_created_at :: string
  wra_amount :: u64
  wra_confirmation_status :: api_withdrawal_status

definition withdrawal_request_api_of :: "(datetime \<Rightarrow> string) \<Rightarrow> withdrawal_request \<Rightarrow> withdrawal_request_api" where
  "withdrawal_request_api_of fmt w =
     \<lparr>wra_id = wr_id w, wra_user = wr_user w, wra_address = wr_address w,
      wra_created_at = fmt (wr_created_at w), wra_amount = wr_amount w,
      wra_confirmation_status = api_status (wr_status w)\<rparr>"

definition list_requests ::
  "op_outside \<Rightarrow> signature_verification_config \<Rightarrow> state \<Rightarrow> signature_data \<Rightarrow> string \<Rightarrow> withdrawal_filter
   \<Rightarrow> withdrawal_request_api list handler" where
  "list_requests out config s sd currency_name filt =
     and_then (guard_op_signature_nomsg out config (''/request/'' @ op_uri_encode out currency_name
         @ ''?filter='' @ withdrawal_filter_to_string filt) sd) (\<lambda>_.
       ret (List.map_filter (\<lambda>x.
         if ticker_lowercase (address_currency (wr_address x)) = currency_name
            \<and> wr_matches_filter x filt
         then Some (withdrawal_request_api_of (op_format_time out) x) else None)
         (hm_values (withdrawal_requests s))))"

definition get_all_changes ::
  "op_outside \<Rightarrow> signature_verification_config \<Rightarrow> state \<Rightarrow> signature_data \<Rightarrow> limit_change_filter
   \<Rightarrow> limit_change_op_response list handler" where
  "get_all_changes out config s sd filt =
     and_then (guard_op_signature_nomsg out config
         (''/changes?filter='' @ limit_change_filter_to_string filt) sd) (\<lambda>_.
       case those (concat (map (\<lambda>uinfo. map (\<lambda>req.
              map_option (\<lambda>ci.
                \<lparr>lop_id = lc_id req, lop_user = lc_user req, lop_created_at = lc_created_at req,
                 lop_currency = lc_currency req,
                 lop_current_limit = li_limit (uci_limit_info ci),
                 lop_requested_limit = lc_limit req, lop_status = lc_status req\<rparr>)
                (hm_get (ui_currencies uinfo) (lc_currency req)))
              (hm_values (ui_limit_changes uinfo))) (hm_values (st_users s)))) of
         None \<Rightarrow> panic
       | Some changes \<Rightarrow> ret changes)"

definition get_exchange_requests ::
  "op_outside \<Rightarrow> signature_verification_config \<Rightarrow> state \<Rightarrow> signature_data \<Rightarrow> exchange_filter
   \<Rightarrow> api_exchange_order list handler" where
  "get_exchange_requests out config s sd filt =
     and_then (guard_op_signature_nomsg out config
         (''/exchange/list?filter='' @ exchange_filter_to_string filt) sd)
       (\<lambda>_. ret (state_exchange_requests s filt))"

record exchange_balance_item =
  ebi_currency :: currency
  ebi_balance :: i64

definition get_exchange_balances ::
  "op_outside \<Rightarrow> signature_verification_config \<Rightarrow> state \<Rightarrow> signature_data \<Rightarrow> exchange_balance_item list handler" where
  "get_exchange_balances out config s sd =
     and_then (guard_op_signature_nomsg out config ''/exchange/balances'' sd) (\<lambda>_.
       ret (map (\<lambda>(k, v). \<lparr>ebi_currency = k, ebi_balance = v\<rparr>) (es_balances (st_exchange s))))"

subsection \<open>Decisions\<close>

definition operator_confirm ::
  "op_outside \<Rightarrow> signature_verification_config \<Rightarrow> signature_data \<Rightarrow> confirmation_data \<Rightarrow> unit handler" where
  "operator_confirm out config sd data =
     and_then (guard_op_signature out config ''/confirm'' sd (op_confirmation_json out data)) (\<lambda>_.
       send_internal out (WithdrawalRequestDecision
         (decision_info_of data sd Confirm (svc_domain config @ ''/confirm''))))"

definition operator_reject ::
  "op_outside \<Rightarrow> signature_verification_config \<Rightarrow> signature_data \<Rightarrow> confirmation_data \<Rightarrow> unit handler" where
  "operator_reject out config sd data =
     and_then (guard_op_signature out config ''/reject'' sd (op_confirmation_json out data)) (\<lambda>_.
       send_internal out (WithdrawalRequestDecision
         (decision_info_of data sd Reject (svc_domain config @ ''/reject''))))"

definition confirm_limits ::
  "op_outside \<Rightarrow> signature_verification_config \<Rightarrow> signature_data \<Rightarrow> limit_confirmation_data \<Rightarrow> unit handler" where
  "confirm_limits out config sd data =
     and_then (guard_op_signature out config ''/limits/confirm'' sd (op_limit_json out data)) (\<lambda>_.
       send_internal out (LimitChangeDecision
         (limit_change_decision_of data sd LimitConfirm (svc_domain config @ ''/limits/confirm''))))"

definition reject_limits ::
  "op_outside \<Rightarrow> signature_verification_config \<Rightarrow> signature_data \<Rightarrow> limit_confirmation_data \<Rightarrow> unit handler" where
  "reject_limits out config sd data =
     and_then (guard_op_signature out config ''/limits/reject'' sd (op_limit_json out data)) (\<lambda>_.
       send_internal out (LimitChangeDecision
         (limit_change_decision_of data sd LimitReject (svc_domain config @ ''/limits/reject''))))"

definition confirm_exchange ::
  "op_outside \<Rightarrow> signature_verification_config \<Rightarrow> signature_data \<Rightarrow> exchange_confirmation_data \<Rightarrow> unit handler" where
  "confirm_exchange out config sd data =
     and_then (guard_op_signature out config ''/exchange/confirm'' sd (op_exchange_json out data)) (\<lambda>_.
       send_internal out (ExchangeDecision
         (exchange_decision_of data sd ExConfirm (svc_domain config @ ''/exchange/confirm''))))"

definition reject_exchange ::
  "op_outside \<Rightarrow> signature_verification_config \<Rightarrow> signature_data \<Rightarrow> exchange_confirmation_data \<Rightarrow> unit handler" where
  "reject_exchange out config sd data =
     and_then (guard_op_signature out config ''/exchange/reject'' sd (op_exchange_json out data)) (\<lambda>_.
       send_internal out (ExchangeDecision
         (exchange_decision_of data sd ExReject (svc_domain config @ ''/exchange/reject''))))"

subsection \<open>Invites\<close>

record invite_resp =
  ivr_invite :: invite
  ivr_label :: string

text \<open>
  The loop of \<open>gen_invite\<close> draws ids until one is not the id of an open invite. The
  n-th id drawn is \<open>fresh n\<close>; \<open>None\<close> is a loop that does not end.
\<close>

partial_function (option) draw_invite :: "(nat \<Rightarrow> uuid) \<Rightarrow> (invite, invite_rec) hash_map \<Rightarrow> nat \<Rightarrow> invite option" where
  "draw_invite fresh invites n =
     (case hm_get invites \<lparr>invite_id = fresh n\<rparr> of
        Some _ \<Rightarrow> draw_invite fresh invites (Suc n)
      | None \<Rightarrow> Some \<lparr>invite_id = fresh n\<rparr>)"

text \<open>The handler: \<open>None\<close> when the loop does not end.\<close>

definition operator_gen_invite ::
  "op_outside \<Rightarrow> signature_verification_config \<Rightarrow> state \<Rightarrow> signature_data \<Rightarrow> string \<Rightarrow> invite_resp handler option" where
  "operator_gen_invite out config s sd label =
     (case snd (guard_op_signature out config ''/invite/generate'' sd (op_label_json out label)) of
        Done _ \<Rightarrow>
         (case draw_invite (op_fresh out) (st_invites s) 0 of
            None \<Rightarrow> None
          | Some invt \<Rightarrow> Some (
             and_then (send_internal out (GenInvite
                 \<lparr>ir_invite = invt, ir_invitor = op_key_to_string out (sd_public_key sd), ir_label = label\<rparr>))
               (\<lambda>_. ret \<lparr>ivr_invite = invt, ivr_label = label\<rparr>)))
      | Fail e \<Rightarrow> Some (fail e)
      | Panic \<Rightarrow> Some panic)"

definition list_ops_invites ::
  "op_outside \<Rightarrow> signature_verification_config \<Rightarrow> state \<Rightarrow> signature_data \<Rightarrow> invite_resp list handler" where
  "list_ops_invites out config s sd =
     and_then (guard_op_signature_nomsg out config ''/invite/listmy'' sd) (\<lambda>_.
       (let invitor = op_key_to_string out (sd_public_key sd) in
        ret (List.map_filter (\<lambda>v.
          if ir_invitor v = invitor then Some \<lparr>ivr_invite = ir_invite v, ivr_label = ir_label v\<rparr> else None)
          (hm_values (st_invites s)))))"

subsection \<open>Addresses of the exchange wallet\<close>

definition exchange_address_body :: "op_outside \<Rightarrow> currency_address \<Rightarrow> currency_address handler" where
  "exchange_address_body out packed_address =
     and_then (send_or (op_alive out) (ErrGenericError send_error) (ExchangeAddress packed_address))
       (\<lambda>_. ret packed_address)"

definition op_allocate_btc_address :: "op_outside \<Rightarrow> currency_address handler" where
  "op_allocate_btc_address out =
     and_then (call BtcDepositAddress (\<lambda>_. ErrFailedGenAddress BTC) (op_btc_deposit_address out)) (\<lambda>address.
       exchange_address_body out (AddrBTC \<lparr>addr = address\<rparr>))"

definition op_allocate_eth_address :: "op_outside \<Rightarrow> currency_address handler" where
  "op_allocate_eth_address out =
     and_then (query ErrFailedETHConnection (op_user_data out EXCHANGE_USER)) (\<lambda>user_data.
       exchange_address_body out (AddrETH \<lparr>account = ue_address user_data\<rparr>))"

definition op_allocate_erc20_address :: "op_outside \<Rightarrow> erc20_token \<Rightarrow> currency_address handler" where
  "op_allocate_erc20_address out token =
     and_then (query ErrFailedETHConnection (op_user_data out EXCHANGE_USER)) (\<lambda>user_data.
       exchange_address_body out
         (AddrERC20 \<lparr>erc20_of = token, erc20_account = \<lparr>account = ue_address user_data\<rparr>\<rparr>))"

fun op_allocate_address :: "op_outside \<Rightarrow> currency \<Rightarrow> currency_address handler" where
  "op_allocate_address out BTC = op_allocate_btc_address out"
| "op_allocate_address out ETH = op_allocate_eth_address out"
| "op_allocate_address out (ERC20 token) = op_allocate_erc20_address out token"

definition op_get_deposit_address :: "op_outside \<Rightarrow> state \<Rightarrow> currency \<Rightarrow> currency_address handler" where
  "op_get_deposit_address out s cur =
     (case cur of
        BTC \<Rightarrow> op_allocate_address out cur
      | _ \<Rightarrow>
         and_then (need (hm_get (st_users s) EXCHANGE_USER) ErrNoUserFound) (\<lambda>user.
         and_then (need (hm_get (ui_currencies user) cur) (ErrNoUserCurrency cur)) (\<lambda>info.
           case uci_deposit_info info of
             [] \<Rightarrow> op_allocate_address out cur
           | address # _ \<Rightarrow> ret address)))"

record exchange_address_resp =
  ear_currency :: string
  ear_address :: string
  ear_qr_code_base64 :: string

definition get_exchange_address ::
  "op_outside \<Rightarrow> signature_verification_config \<Rightarrow> state \<Rightarrow> signature_data \<Rightarrow> currency
   \<Rightarrow> exchange_address_resp handler" where
  "get_exchange_address out config s sd cur =
     and_then (guard_op_signature out config ''/exchange/address'' sd (op_currency_json out cur)) (\<lambda>_.
     and_then
       (case hm_get (es_addresses (st_exchange s)) cur of
          Some address \<Rightarrow> ret address
        | None \<Rightarrow> map_fail (\<lambda>_. ErrFailedGenAddress cur) (op_get_deposit_address out s cur)) (\<lambda>address.
       case op_qr out (address_text address) of
         None \<Rightarrow> panic
       | Some code \<Rightarrow> ret
          \<lparr>ear_currency = ticker_lowercase cur, ear_address = address_text address,
           ear_qr_code_base64 = code\<rparr>))"

end
