(* ===== verification/Operator_Properties.thy ===== *)
theory Operator_Properties
  imports Operator_Api Public_Sessions Btc_Withdraw
begin

section \<open>What operators can do, and only they\<close>

subsection \<open>The guard\<close>

lemma guard_outcome:
  "snd (guard_op_signature out config uri sd body) = Done u \<longleftrightarrow>
     sd_public_key sd \<in> set (svc_operator_public_keys config) \<and>
     op_ecdsa out (sd_public_key sd)
       (svc_domain config @ uri @ '':'' @ body @ '':'' @ u64_to_string (sd_nonce sd)) (sd_signature sd)"
  by (auto simp: guard_op_signature_def guard_verify_def handler_simps svd_verify_def svd_text_eq
      split: sum.splits if_splits)

lemma sends_guard [sends_intros]: "sends_only P (guard_op_signature out config uri sd body)"
  by (auto simp: guard_op_signature_def guard_verify_def intro!: sends_intros split: sum.splits)

lemma sent_guard [simp]: "sent (guard_op_signature out config uri sd body) = []"
  using sends_guard [of "\<lambda>_. False"] by (auto simp: sends_only_def)

lemma guard_effects [simp]: "fst (guard_op_signature out config uri sd body) = []"
  by (simp add: guard_op_signature_def guard_verify_def handler_simps split: sum.splits)

subsection \<open>Requests that send events\<close>

datatype operator_request =
    OpConfirm confirmation_data
  | OpReject confirmation_data
  | OpConfirmLimits limit_confirmation_data
  | OpRejectLimits limit_confirmation_data
  | OpConfirmExchange exchange_confirmation_data
  | OpRejectExchange exchange_confirmation_data
  | OpExchangeAddress currency
  | OpGenInvite string

fun operator_events ::
  "op_outside \<Rightarrow> signature_verification_config \<Rightarrow> state \<Rightarrow> signature_data \<Rightarrow> operator_request \<Rightarrow> update_body list" where
  "operator_events out config s sd (OpConfirm data) = sent (operator_confirm out config sd data)"
| "operator_events out config s sd (OpReject data) = sent (operator_reject out config sd data)"
| "operator_events out config s sd (OpConfirmLimits data) = sent (confirm_limits out config sd data)"
| "operator_events out config s sd (OpRejectLimits data) = sent (reject_limits out config sd data)"
| "operator_events out config s sd (OpConfirmExchange data) = sent (confirm_exchange out config sd data)"
| "operator_events out config s sd (OpRejectExchange data) = sent (reject_exchange out config sd data)"
| "operator_events out config s sd (OpExchangeAddress c) = sent (get_exchange_address out config s sd c)"
| "operator_events out config s sd (OpGenInvite label) =
     (case operator_gen_invite out config s sd label of Some h \<Rightarrow> sent h | None \<Rightarrow> [])"

text \<open>The path of the request and the body that is signed.\<close>

fun operator_uri :: "operator_request \<Rightarrow> string" where
  "operator_uri (OpConfirm _) = ''/confirm''"
| "operator_uri (OpReject _) = ''/reject''"
| "operator_uri (OpConfirmLimits _) = ''/limits/confirm''"
| "operator_uri (OpRejectLimits _) = ''/limits/reject''"
| "operator_uri (OpConfirmExchange _) = ''/exchange/confirm''"
| "operator_uri (OpRejectExchange _) = ''/exchange/reject''"
| "operator_uri (OpExchangeAddress _) = ''/exchange/address''"
| "operator_uri (OpGenInvite _) = ''/invite/generate''"

fun operator_body :: "op_outside \<Rightarrow> operator_request \<Rightarrow> string" where
  "operator_body out (OpConfirm data) = op_confirmation_json out data"
| "operator_body out (OpReject data) = op_confirmation_json out data"
| "operator_body out (OpConfirmLimits data) = op_limit_json out data"
| "operator_body out (OpRejectLimits data) = op_limit_json out data"
| "operator_body out (OpConfirmExchange data) = op_exchange_json out data"
| "operator_body out (OpRejectExchange data) = op_exchange_json out data"
| "operator_body out (OpExchangeAddress c) = op_currency_json out c"
| "operator_body out (OpGenInvite label) = op_label_json out label"

text \<open>Who an event says it is from.\<close>

fun event_signer :: "update_body \<Rightarrow> signature_data option" where
  "event_signer (WithdrawalRequestDecision d) =
     Some \<lparr>sd_signature = wdi_signature d, sd_nonce = wdi_nonce d, sd_public_key = wdi_public_key d\<rparr>"
| "event_signer (LimitChangeDecision d) =
     Some \<lparr>sd_signature = ld_signature d, sd_nonce = ld_nonce d, sd_public_key = ld_public_key d\<rparr>"
| "event_signer (ExchangeDecision d) =
     Some \<lparr>sd_signature = ed_signature d, sd_nonce = ed_nonce d, sd_public_key = ed_public_key d\<rparr>"
| "event_signer _ = None"

fun operator_event :: "update_body \<Rightarrow> bool" where
  "operator_event (WithdrawalRequestDecision _) = True"
| "operator_event (LimitChangeDecision _) = True"
| "operator_event (ExchangeDecision _) = True"
| "operator_event (GenInvite _) = True"
| "operator_event (ExchangeAddress _) = True"
| "operator_event _ = False"

lemma sends_exchange_address [sends_intros]:
  "(\<And>a. P (ExchangeAddress a)) \<Longrightarrow> sends_only P (op_get_deposit_address out s c)"
  by (cases c)
    (auto simp: op_get_deposit_address_def op_allocate_btc_address_def op_allocate_eth_address_def
      op_allocate_erc20_address_def exchange_address_body_def intro!: sends_intros split: list.splits)

lemmas operator_handlers = operator_confirm_def operator_reject_def confirm_limits_def
  reject_limits_def confirm_exchange_def reject_exchange_def get_exchange_address_def send_internal_def

text \<open>An event passes the guard of its request, and carries the signature that did.\<close>

definition signed_event :: "op_outside \<Rightarrow> signature_verification_config \<Rightarrow> signature_data \<Rightarrow> operator_request \<Rightarrow> update_body \<Rightarrow> bool" where
  "signed_event out config sd r b \<longleftrightarrow>
     snd (guard_op_signature out config (operator_uri r) sd (operator_body out r)) = Done ()
     \<and> operator_event b \<and> (event_signer b \<noteq> None \<longrightarrow> event_signer b = Some sd)"

lemma operator_events_signed: "\<forall>b\<in>set (operator_events out config s sd r). signed_event out config sd r b"
proof (cases r)
  case (OpGenInvite label)
  then show ?thesis
    by (auto simp: operator_gen_invite_def signed_event_def sent_and_then_mem send_internal_def
        handler_simps split: outcome.splits option.splits)
qed (auto simp: operator_handlers signed_event_def decision_info_of_def limit_change_decision_of_def
      exchange_decision_of_def sends_only_def [symmetric] intro!: sends_intros split: option.splits)

text \<open>
  Property C7. Nothing gets past the operators' guard: every event a request to the
  operators' API makes it send is one of the operators' events, the key in the request is a
  configured operator's, and that operator signed the domain, the path of the request, its
  body and the nonce; a decision carries this very key, signature and nonce into the state.
\<close>

theorem operator_events_are_signed:
  assumes "b \<in> set (operator_events out config s sd r)"
  shows "operator_event b \<and> sd_public_key sd \<in> set (svc_operator_public_keys config)
    \<and> op_ecdsa out (sd_public_key sd)
        (svc_domain config @ operator_uri r @ '':'' @ operator_body out r @ '':''
          @ u64_to_string (sd_nonce sd)) (sd_signature sd)
    \<and> event_signer b \<in> {None, Some sd}"
  using operator_events_signed [of out config s sd r] assms
  by (auto simp: signed_event_def guard_outcome)

text \<open>Two operators, and an outside in which a signature spells what it signs.\<close>

definition example_op_outside :: op_outside where
  "example_op_outside =
     \<lparr>op_alive = True, op_send_error = ''SendError'', op_fresh = of_nat,
      op_ecdsa = (\<lambda>k m sig. sig = Signature (key_text k @ m)), op_uri_encode = (\<lambda>t. t),
      op_debug = (\<lambda>t. t), op_key_to_string = key_text, op_format_time = (\<lambda>_. ''2022-06-08''),
      op_confirmation_json = cd_user, op_limit_json = lcd_user, op_exchange_json = ecd_user,
      op_label_json = (\<lambda>l. l), op_currency_json = ticker_lowercase,
      op_btc_hot_balance = Inr 0, op_eth_hot_balance = (\<lambda>_. Inr 0),
      op_btc_deposit_address = Inr ''bcrt1q'',
      op_user_data = (\<lambda>_. Inl ''no data''), op_qr = (\<lambda>t. Some t)\<rparr>"

definition example_op_config :: signature_verification_config where
  "example_op_config = \<lparr>svc_domain = ''d'', svc_operator_public_keys = [PublicKey ''op'', PublicKey ''po'']\<rparr>"

definition example_op_signature :: "string \<Rightarrow> string \<Rightarrow> string \<Rightarrow> signature_data" where
  "example_op_signature k uri body =
     \<lparr>sd_signature = Signature (k @ ''d'' @ uri @ '':'' @ body @ '':'' @ u64_to_string 7),
      sd_nonce = 7, sd_public_key = PublicKey k\<rparr>"

lemma example_guard:
  "k \<in> {''op'', ''po''} \<Longrightarrow>
    snd (guard_op_signature example_op_outside example_op_config uri (example_op_signature k uri body) body) = Done ()"
  by (auto simp: guard_outcome example_op_outside_def example_op_config_def example_op_signature_def)

lemma guard_Done: "snd (guard_op_signature out config uri sd body) = Done u \<Longrightarrow>
    guard_op_signature out config uri sd body = ret ()"
  by (simp add: prod_eq_iff handler_simps)

lemma example_op_outside_simps [simp]:
  "op_alive example_op_outside" "op_label_json example_op_outside label = label"
  "op_key_to_string example_op_outside = key_text" "op_fresh example_op_outside = of_nat"
  by (simp_all add: example_op_outside_def)

lemma gen_invite_answer:
  assumes "snd (guard_op_signature out config ''/invite/generate'' sd (op_label_json out label)) = Done ()"
    and "op_alive out" "draw_invite (op_fresh out) (st_invites s) 0 = Some invt"
  shows "operator_gen_invite out config s sd label =
      Some ([SendUpdate (GenInvite \<lparr>ir_invite = invt,
               ir_invitor = op_key_to_string out (sd_public_key sd), ir_label = label\<rparr>)],
        Done \<lparr>ivr_invite = invt, ivr_label = label\<rparr>)"
  using assms by (simp add: operator_gen_invite_def send_internal_def send_or_def perform_def handler_simps)

lemma example_gen_invite:
  "GenInvite \<lparr>ir_invite = \<lparr>invite_id = 0\<rparr>, ir_invitor = ''op'', ir_label = ''l''\<rparr>
      \<in> set (operator_events example_op_outside example_op_config (state_new (\<lambda>_. ''g'') 0 Regtest)
          (example_op_signature ''op'' ''/invite/generate'' ''l'') (OpGenInvite ''l''))"
proof -
  let ?s = "state_new (\<lambda>_. ''g'') 0 Regtest"
  have draw: "draw_invite (op_fresh example_op_outside) (st_invites ?s) 0 = Some \<lparr>invite_id = 0\<rparr>"
    by (subst draw_invite.simps) (simp add: state_new_def hm_empty_def)
  have key: "key_text (sd_public_key (example_op_signature k uri body)) = k" for k uri body
    by (simp add: example_op_signature_def)
  show ?thesis
    using gen_invite_answer [OF _ _ draw, of example_op_config
        "example_op_signature ''op'' ''/invite/generate'' ''l''" "''l''"]
    by (simp add: example_guard key sent_def)
qed

theorem operator_events_are_signed_witness:
  "sd_public_key (example_op_signature ''op'' ''/invite/generate'' ''l'') \<in> set (svc_operator_public_keys example_op_config)
   \<and> operator_event (GenInvite \<lparr>ir_invite = \<lparr>invite_id = 0\<rparr>, ir_invitor = ''op'', ir_label = ''l''\<rparr>)"
  using operator_events_are_signed [OF example_gen_invite] by simp

subsection \<open>The guard and the BTC module agree\<close>

text \<open>
  Property C35. A vote the operators' API lets through is a vote the BTC module counts, and
  the other way round. Given the same operators and domain, the API sends the confirmation of
  a withdrawal's data exactly when the module counts the operator's signature on it, and
  likewise for rejections; and what the state records of the vote is turned back into exactly
  the signature data the operator sent.
\<close>

theorem guard_agrees_with_module:
  "sent (operator_confirm out config sd (confirmation_data_of cw)) =
     (if op_alive out \<and> signature_valid (op_ecdsa out) (svc_operator_public_keys config)
            (str_join '':'' [svc_domain config @ WITHDRAWAL_CONFIRM_URI,
               op_confirmation_json out (confirmation_data_of cw)]) sd
      then [WithdrawalRequestDecision (decision_info_of (confirmation_data_of cw) sd Confirm
              (svc_domain config @ WITHDRAWAL_CONFIRM_URI))]
      else [])
   \<and> sent (operator_reject out config sd (confirmation_data_of cw)) =
     (if op_alive out \<and> signature_valid (op_ecdsa out) (svc_operator_public_keys config)
            (str_join '':'' [svc_domain config @ WITHDRAWAL_REJECT_URI,
               op_confirmation_json out (confirmation_data_of cw)]) sd
      then [WithdrawalRequestDecision (decision_info_of (confirmation_data_of cw) sd Reject
              (svc_domain config @ WITHDRAWAL_REJECT_URI))]
      else [])
   \<and> signature_data_of_decision (decision_of_info (decision_info_of data sd dt url)) = sd"
proof -
  have valid: "signature_valid (op_ecdsa out) (svc_operator_public_keys config)
      (str_join '':'' [svc_domain config @ uri, body]) sd \<longleftrightarrow>
    snd (guard_op_signature out config uri sd body) = Done ()" for uri body
    by (auto simp: signature_valid_def verify_signature_ok_iff guard_outcome)
  have sent: "sent (and_then (guard_op_signature out config uri sd body) (\<lambda>_. send_internal out b)) =
      (if op_alive out \<and> snd (guard_op_signature out config uri sd body) = Done () then [b] else [])"
    for uri body b
    by (cases "snd (guard_op_signature out config uri sd body)")
      (simp_all add: sent_and_then send_internal_def send_or_def perform_def handler_simps)
  show ?thesis
    unfolding operator_confirm_def operator_reject_def sent valid
    by (simp add: signature_data_of_decision_def decision_of_info_def decision_info_of_def)
qed

subsection \<open>Invites\<close>

lemma draw_invite_returns:
  assumes "hm_get invites \<lparr>invite_id = fresh (n + k)\<rparr> = None"
    and "\<forall>j<k. hm_get invites \<lparr>invite_id = fresh (n + j)\<rparr> \<noteq> None"
  shows "draw_invite fresh invites n = Some \<lparr>invite_id = fresh (n + k)\<rparr>"
  using assms
proof (induction k arbitrary: n)
  case 0
  then show ?case by (subst draw_invite.simps) simp
next
  case (Suc k)
  from Suc.prems(2) have "hm_get invites \<lparr>invite_id = fresh n\<rparr> \<noteq> None" by (metis add_0_right zero_less_Suc)
  moreover have "\<forall>j<k. hm_get invites \<lparr>invite_id = fresh (Suc n + j)\<rparr> \<noteq> None"
    using Suc.prems(2) by (metis add_Suc_shift Suc_less_eq)
  ultimately show ?case
    using Suc.IH [of "Suc n"] Suc.prems(1) by (subst draw_invite.simps) (auto split: option.splits)
qed

text \<open>
  Property C18. The loop that looks for an unused invite id ends: among ids that do not repeat
  it draws at most one more than there are open invites. The invite it finds is not in use,
  so a signed request to generate one is answered, and the state it was drawn for accepts the
  event.
\<close>

theorem gen_invite_terminates:
  assumes "inj_on (op_fresh out) {..length (st_invites s)}"
    and "snd (guard_op_signature out config ''/invite/generate'' sd (op_label_json out label)) = Done ()"
    and "op_alive out"
  shows "\<exists>k\<le>length (st_invites s). \<exists>inv_rec s'.
      draw_invite (op_fresh out) (st_invites s) 0 = Some \<lparr>invite_id = op_fresh out k\<rparr>
    \<and> operator_gen_invite out config s sd label = Some ([SendUpdate (GenInvite inv_rec)],
        Done \<lparr>ivr_invite = \<lparr>invite_id = op_fresh out k\<rparr>, ivr_label = label\<rparr>)
    \<and> gen_invite inv_rec s = (Inr (), s')
    \<and> hm_get (st_invites s') \<lparr>invite_id = op_fresh out k\<rparr> = Some inv_rec"
proof -
  let ?id = "\<lambda>k. \<lparr>invite_id = op_fresh out k\<rparr>" and ?n = "length (st_invites s)"
  have "\<exists>k\<le>?n. hm_get (st_invites s) (?id k) = None"
  proof (rule ccontr)
    assume "\<not> ?thesis"
    then have "?id ` {..?n} \<subseteq> fst ` set (st_invites s)"
      by (auto simp: hm_get_None_iff)
    then have "card (?id ` {..?n}) \<le> card (fst ` set (st_invites s))" by (intro card_mono) simp_all
    also have "\<dots> \<le> ?n" by (rule order_trans [OF card_image_le card_length]) simp
    finally have "card (?id ` {..?n}) \<le> ?n" .
    moreover have "inj_on ?id {..?n}" using assms(1) by (auto simp: inj_on_def)
    ultimately show False by (simp add: card_image)
  qed
  then obtain m where m: "m \<le> ?n" "hm_get (st_invites s) (?id m) = None" by blast
  define k where "k = (LEAST k. hm_get (st_invites s) (?id k) = None)"
  have k: "k \<le> ?n" "hm_get (st_invites s) (?id k) = None"
    using Least_le [of "\<lambda>k. hm_get (st_invites s) (?id k) = None" m]
      LeastI [of "\<lambda>k. hm_get (st_invites s) (?id k) = None" m] m
    unfolding k_def by simp_all
  have "\<forall>j<k. hm_get (st_invites s) (?id j) \<noteq> None"
    unfolding k_def by (blast dest: not_less_Least)
  with k(2) have draw: "draw_invite (op_fresh out) (st_invites s) 0 = Some (?id k)"
    using draw_invite_returns [of "st_invites s" "op_fresh out" 0 k] by simp
  let ?rec = "\<lparr>ir_invite = ?id k, ir_invitor = op_key_to_string out (sd_public_key sd), ir_label = label\<rparr>"
  have "operator_gen_invite out config s sd label =
      Some ([SendUpdate (GenInvite ?rec)], Done \<lparr>ivr_invite = ?id k, ivr_label = label\<rparr>)"
    using gen_invite_answer assms(2,3) draw by blast
  moreover have "gen_invite ?rec s = (Inr (), s\<lparr>st_invites := hm_insert (?id k) ?rec (st_invites s)\<rparr>)"
    using k(2) by (simp add: gen_invite_def Let_def)
  ultimately show ?thesis using k(1) draw by fastforce
qed

theorem gen_invite_terminates_witness:
  "\<exists>inv_rec s'. operator_gen_invite example_op_outside example_op_config
        (state_new (\<lambda>_. ''g'') 0 Regtest) (example_op_signature ''op'' ''/invite/generate'' ''l'') ''l''
      = Some ([SendUpdate (GenInvite inv_rec)], Done \<lparr>ivr_invite = \<lparr>invite_id = 0\<rparr>, ivr_label = ''l''\<rparr>)
    \<and> gen_invite inv_rec (state_new (\<lambda>_. ''g'') 0 Regtest) = (Inr (), s')"
proof -
  let ?s = "state_new (\<lambda>_. ''g'') 0 Regtest"
  have none: "length (st_invites ?s) = 0" by (simp add: state_new_def hm_empty_def)
  have "inj_on (op_fresh example_op_outside) {..length (st_invites ?s)}"
    unfolding none by (simp add: inj_on_def)
  from gen_invite_terminates [OF this, of example_op_config
      "example_op_signature ''op'' ''/invite/generate'' ''l''" "''l''"]
  show ?thesis by (simp add: example_guard none) metis
qed

end
