(* ===== verification/Vote_Origin.thy ===== *)
theory Vote_Origin
  imports State_Properties
begin

section \<open>Where recorded votes come from\<close>

text \<open>
  The votes recorded on withdrawal requests are those of decisions, and nothing else writes
  one. What holds of every decision that reaches the state (\<open>P\<close>, of the user, currency and id
  it names, its kind and the record of it) holds of every vote in every later state.
\<close>

type_synonym vote_law =
  "string \<Rightarrow> currency \<Rightarrow> uuid \<Rightarrow> withdrawal_request_decision_type \<Rightarrow> withdrawal_request_decision \<Rightarrow> bool"

definition request_votes :: "vote_law \<Rightarrow> string \<Rightarrow> currency \<Rightarrow> uuid \<Rightarrow> withdrawal_request \<Rightarrow> bool" where
  "request_votes P n c i w \<longleftrightarrow>
     (\<forall>d\<in>set (wr_confirmations w). P n c i Confirm d) \<and> (\<forall>d\<in>set (wr_rejections w). P n c i Reject d)"

definition account_votes :: "vote_law \<Rightarrow> string \<Rightarrow> currency \<Rightarrow> user_currency_info \<Rightarrow> bool" where
  "account_votes P n c ci = hm_all (request_votes P n c) (uci_withdrawals ci)"

definition user_votes :: "vote_law \<Rightarrow> string \<Rightarrow> user_info \<Rightarrow> bool" where
  "user_votes P n u = hm_all (account_votes P n) (ui_currencies u)"

definition state_votes :: "vote_law \<Rightarrow> state \<Rightarrow> bool" where
  "state_votes P s = hm_all (user_votes P) (st_users s)"

subsection \<open>Replacing a user or an account\<close>

lemma votes_user: "state_votes P s \<Longrightarrow> hm_get (st_users s) uid = Some u \<Longrightarrow> user_votes P uid u"
  by (auto simp: state_votes_def dest: hm_all_get)

lemma votes_put_user: "state_votes P s \<Longrightarrow> user_votes P uid u \<Longrightarrow> state_votes P (put_user uid u s)"
  by (simp add: state_votes_def put_user_def hm_all_insert)

lemma votes_account_of: "user_votes P n u \<Longrightarrow> hm_get (ui_currencies u) c = Some ci \<Longrightarrow> account_votes P n c ci"
  by (auto simp: user_votes_def dest: hm_all_get)

lemma votes_put_account: "user_votes P n u \<Longrightarrow> account_votes P n c ci \<Longrightarrow> user_votes P n (put_account c ci u)"
  by (simp add: user_votes_def put_account_def hm_all_insert)

lemma votes_account:
  assumes "state_votes P s" and "hm_get (st_users s) uid = Some u"
    and "hm_get (ui_currencies u) c = Some ci"
    and "account_votes P uid c ci \<Longrightarrow> account_votes P uid c ci'"
  shows "state_votes P (put_user uid (put_account c ci' u) s)"
  using votes_user [OF assms(1,2)] assms
  by (blast intro: votes_put_user votes_put_account votes_account_of)

lemma votes_map_accounts:
  assumes "state_votes P s" and "\<And>n c ci. account_votes P n c ci \<Longrightarrow> account_votes P n c (f ci)"
  shows "state_votes P (map_accounts f s)"
  using assms by (auto simp: state_votes_def user_votes_def map_accounts_def elim!: hm_all_mono)

lemma account_votes_new: "account_votes P n c (user_currency_info_new c')"
  by (simp add: account_votes_def user_currency_info_new_def)

lemma user_votes_new: "user_votes P n (user_info_new m i a t)"
  by (auto simp: user_votes_def user_info_new_def account_votes_new intro!: hm_all_collect)

lemma account_votes_kept [simp]:
  "account_votes P n c (ci\<lparr>uci_deposit_info := a\<rparr>) = account_votes P n c ci"
  "account_votes P n c (ci\<lparr>uci_transactions := b\<rparr>) = account_votes P n c ci"
  "account_votes P n c (ci\<lparr>uci_exchanges := d\<rparr>) = account_votes P n c ci"
  "account_votes P n c (ci\<lparr>uci_incoming := e\<rparr>) = account_votes P n c ci"
  "account_votes P n c (ci\<lparr>uci_limit_info := l\<rparr>) = account_votes P n c ci"
  by (simp_all add: account_votes_def)

lemma account_votes_tx:
  "account_votes P n c ci \<Longrightarrow> account_votes P n c (update_btc_tx tx ci)"
  "account_votes P n c ci \<Longrightarrow> account_votes P n c (user_cancel_btc_tx cnl ci)"
  by (simp_all add: update_btc_tx_def user_cancel_btc_tx_def Let_def split: option.splits)

lemma account_votes_set_status:
  "account_votes P n c ci \<Longrightarrow> account_votes P n c (set_withdrawal_status i st ci)"
  by (auto simp: account_votes_def set_withdrawal_status_def request_votes_def elim!: hm_all_mono)

lemma user_votes_kept [simp]:
  "user_votes P n (u\<lparr>ui_limit_changes := a\<rparr>) = user_votes P n u"
  "user_votes P n (u\<lparr>ui_config := b\<rparr>) = user_votes P n u"
  "user_votes P n (u\<lparr>ui_auth := d\<rparr>) = user_votes P n u"
  "user_votes P n (u\<lparr>ui_public_key := e\<rparr>) = user_votes P n u"
  by (simp_all add: user_votes_def)

lemma state_votes_kept [simp]:
  "state_votes P (s\<lparr>st_invites := a\<rparr>) = state_votes P s"
  "state_votes P (s\<lparr>st_exchange := b\<rparr>) = state_votes P s"
  "state_votes P (s\<lparr>st_btc_state := d\<rparr>) = state_votes P s"
  "state_votes P (s\<lparr>st_last_changed := t\<rparr>) = state_votes P s"
  by (simp_all add: state_votes_def)

subsection \<open>The handlers\<close>

lemma decide_request_votes:
  assumes "request_votes P n c i w" and "P n c i (wdi_decision_type d) (decision_of_info d)"
  shows "request_votes P n c i (snd (decide_request d w))"
  using assms
  by (auto simp: decide_request_def Let_def request_votes_def retain_other_keys_def
      split: withdrawal_request_status.splits withdrawal_request_decision_type.splits)

lemma votes_decision:
  assumes "state_votes P s"
    and "P (wdi_user_id d) (wdi_currency d) (wdi_request_id d) (wdi_decision_type d) (decision_of_info d)"
  shows "state_votes P (snd (with_withdrawal_request_decision d s))"
proof (cases "get_withdrawal_request_by_decision_info d s")
  case (Inr p)
  obtain u ci w where p: "p = (u, ci, w)" by (cases p) auto
  have "state_votes P (put_user (wdi_user_id d) (put_account (wdi_currency d)
      (ci\<lparr>uci_withdrawals := hm_insert (wdi_request_id d) (snd (decide_request d w))
         (uci_withdrawals ci)\<rparr>) u) s)"
  proof (rule votes_account [OF assms(1)])
    show "hm_get (st_users s) (wdi_user_id d) = Some u"
      and "hm_get (ui_currencies u) (wdi_currency d) = Some ci"
      using Inr p by (auto simp: get_withdrawal_request_by_decision_info_def split: option.splits)
    have w: "hm_get (uci_withdrawals ci) (wdi_request_id d) = Some w"
      using Inr p by (auto simp: get_withdrawal_request_by_decision_info_def split: option.splits)
    assume "account_votes P (wdi_user_id d) (wdi_currency d) ci"
    with w show "account_votes P (wdi_user_id d) (wdi_currency d) (ci\<lparr>uci_withdrawals :=
        hm_insert (wdi_request_id d) (snd (decide_request d w)) (uci_withdrawals ci)\<rparr>)"
      unfolding account_votes_def
      by (auto intro!: hm_all_insert decide_request_votes assms(2) dest: hm_all_get)
  qed
  with Inr p assms(1) show ?thesis
    by (cases "decide_request d w")
      (auto simp: with_withdrawal_request_decision_def Let_def split: sum.splits)
qed (use assms(1) in \<open>simp add: with_withdrawal_request_decision_def\<close>)

lemma votes_signup: "state_votes P s \<Longrightarrow> state_votes P (snd (with_signup t info s))"
  by (auto simp: with_signup_def Let_def user_info_of_signup_def intro!: votes_put_user user_votes_new)

lemma votes_new_withdrawal:
  assumes "state_votes P s"
  shows "state_votes P (snd (with_new_withdrawal_request t info s))"
proof -
  have "account_votes P n c (ci\<lparr>uci_withdrawals := hm_insert i (withdrawal_request_of t info) m\<rparr>)"
    if "account_votes P n c ci" "m = uci_withdrawals ci" for n c ci i m
    using that
    by (auto simp: account_votes_def request_votes_def withdrawal_request_of_def intro!: hm_all_insert)
  with assms show ?thesis
    by (auto simp: with_new_withdrawal_request_def Let_def intro!: votes_account
        split: option.splits withdrawal_request_type.splits)
qed

lemma votes_btc:
  assumes "state_votes P s"
  shows "state_votes P (snd (with_btc_tx_update tx s))" "state_votes P (snd (with_btc_tx_cancel cnl s))"
  using assms
  by (auto simp: with_btc_tx_update_def with_btc_tx_cancel_def set_withdrawal_request_node_rejected_def
      Let_def intro!: votes_map_accounts account_votes_set_status
      intro: votes_account account_votes_tx split: option.splits prod.splits)

lemma votes_grant: "user_votes P n u \<Longrightarrow> user_votes P n (grant_limit c l u)"
  by (auto simp: grant_limit_def intro!: votes_put_account dest: votes_account_of split: option.splits)

lemma votes_users:
  assumes "state_votes P s"
  shows "state_votes P (snd (with_deposit_address dep s))"
    "state_votes P (snd (update_tokens upd s))"
    "state_votes P (snd (insert_limits_req i now req s))"
    "state_votes P (snd (cancel_limit_change cnl s))"
    "state_votes P (snd (with_limit_change_decision lcd s))"
    "state_votes P (snd (set_language a s))" "state_votes P (snd (update_user_config b s))"
    "state_votes P (snd (change_password p s))" "state_votes P (snd (set_user_public_key k s))"
proof -
  note u = votes_user [OF assms]
  have drop: "user_votes P n (drop_limit_change c u) = user_votes P n u" for n c u
    by (simp add: drop_limit_change_def)
  have off: "user_votes P n (u\<lparr>ui_currencies := hm_remove c (ui_currencies u), ui_limit_changes := m\<rparr>)"
    if "user_votes P n u" for n u c m
    using that by (simp add: user_votes_def hm_all_remove)
  show "state_votes P (snd (with_deposit_address dep s))"
    using assms by (auto simp: with_deposit_address_def Let_def intro!: votes_account split: option.splits)
  show "state_votes P (snd (update_tokens upd s))"
    using assms by (auto simp: update_tokens_def Let_def intro!: votes_put_user votes_put_account
        account_votes_new off intro: u split: option.splits token_action.splits)
  show "state_votes P (snd (insert_limits_req i now req s))" "state_votes P (snd (cancel_limit_change cnl s))"
    using assms by (auto simp: insert_limits_req_def cancel_limit_change_def Let_def
        intro!: votes_put_user intro: u split: option.splits)
  show "state_votes P (snd (with_limit_change_decision lcd s))"
    using assms by (auto simp: with_limit_change_decision_def Let_def drop
        intro!: votes_put_user votes_grant intro: u split: option.splits limit_vote.splits)
  show "state_votes P (snd (set_language a s))" "state_votes P (snd (update_user_config b s))"
    "state_votes P (snd (change_password p s))" "state_votes P (snd (set_user_public_key k s))"
    using assms by (auto simp: set_language_def update_user_config_def change_password_def
        set_user_public_key_def with_user_info_def intro!: votes_put_user intro: u split: option.splits)
qed

lemma votes_exchange:
  assumes "state_votes P s"
  shows "state_votes P (snd (add_exchange_request r s))"
    "state_votes P (snd (apply_exchange_decision q s))"
    "state_votes P (snd (add_incoming_exchange q s))"
  using assms
  by (auto simp: add_exchange_request_def apply_exchange_decision_def add_incoming_exchange_def Let_def
      intro!: votes_account split: option.splits sum.splits prod.splits)

lemma votes_exchange_decision:
  assumes "state_votes P s"
  shows "state_votes P (snd (with_exchange_decision q s))"
  using votes_exchange(2) [OF assms, of q] votes_exchange(3)
  by (auto simp: with_exchange_decision_def split: prod.splits sum.splits)

lemma votes_rest:
  assumes "state_votes P s"
  shows "state_votes P (snd (gen_invite g s))" "state_votes P (snd (clear_limits span s))"
    "state_votes P (snd (set_exchange_address a s))"
    "state_votes P (snd (set_withdrawal_request_completed ci s))"
    "state_votes P (snd (set_withdrawal_request_node_rejected ri s))"
  using assms
  by (auto simp: gen_invite_def clear_limits_def set_exchange_address_def Let_def clear_spent_def
      set_withdrawal_request_completed_def set_withdrawal_request_node_rejected_def
      intro!: votes_map_accounts account_votes_set_status split: option.splits)

text \<open>What a decision must satisfy; a snapshot brings votes of its own.\<close>

definition event_votes :: "vote_law \<Rightarrow> update_body \<Rightarrow> bool" where
  "event_votes P b = (case b of
      WithdrawalRequestDecision d \<Rightarrow>
        P (wdi_user_id d) (wdi_currency d) (wdi_request_id d) (wdi_decision_type d) (decision_of_info d)
    | Snapshot s \<Rightarrow> state_votes P s
    | _ \<Rightarrow> True)"

lemma votes_handle_body:
  assumes "state_votes P s" and "event_votes P b"
  shows "state_votes P (snd (handle_body env t b s))"
proof (cases b)
  case (WithdrawalRequestDecision d)
  have "snd (handle_body env t b s) = snd (with_withdrawal_request_decision d s)"
    by (simp add: handle_body_def WithdrawalRequestDecision split: prod.splits sum.splits)
  with votes_decision [OF assms(1)] assms(2) show ?thesis
    by (simp add: WithdrawalRequestDecision event_votes_def)
qed (use assms in \<open>simp_all add: handle_body_def event_votes_def votes_signup votes_new_withdrawal
      votes_btc votes_users votes_exchange votes_exchange_decision votes_rest\<close>)

lemma votes_apply_update:
  assumes "state_votes P s" and "event_votes P (su_body u)"
  shows "state_votes P (snd (apply_update (env, u) s))"
  using votes_handle_body [OF assms, of env "su_created u"]
  by (auto simp: apply_update_def touch_def Let_def split: prod.splits sum.splits)

interpretation votes: guarded_steps apply_update "state_votes P" "\<lambda>eu. event_votes P (su_body (snd eu))" for P
  by unfold_locales (metis prod.collapse votes_apply_update)

lemma state_votes_new: "state_votes P (state_new g now n)"
  by (simp add: state_votes_def state_new_def)

lemma collect_votes:
  assumes "collect genesis_hash now n us = Inr s" and "\<forall>eu\<in>set us. event_votes P (su_body (snd eu))"
  shows "state_votes P s"
  using votes.run_inv [OF _ state_votes_new assms(2)] assms(1) by (simp add: collect_def)

lemma votes_of_request:
  assumes "state_wf s" and "state_votes P s" and "get_withdrawal_request s i = Some w"
  shows "request_votes P (wr_user w) (address_currency (wr_address w)) i w"
proof -
  from assms(3) have "(i, w) \<in> set (all_withdrawal_entries s)"
    by (auto simp: get_withdrawal_request_def dest!: find_map_Some split: if_splits)
  then obtain uid u c ci where "(uid, u) \<in> set (st_users s)" and ci: "(c, ci) \<in> set (ui_currencies u)"
    and w: "(i, w) \<in> set (uci_withdrawals ci)"
    by (auto simp: all_withdrawal_entries_def hm_values_def)
  with assms(1,2) have "user_wf uid u" "user_votes P uid u"
    by (auto simp: state_wf_def state_votes_def hm_all_in_set)
  with ci have "account_wf uid c ci" "account_votes P uid c ci"
    by (auto simp: user_wf_def user_votes_def hm_all_in_set)
  with w show ?thesis by (auto simp: account_wf_def account_votes_def hm_all_in_set)
qed

end
