(* ===== verification/System_Steps.thy ===== *)
theory System_Steps
  imports Operator_Properties Public_Login Payment Vote_Origin Store
begin

section \<open>The services together\<close>

text \<open>
  The public API, the operators' API and the hot wallet's workers all send events to the one
  update worker, each having looked at some state of it. The events that can be submitted by
  a service that sees a state, the states the worker runs through, and what holds of all of
  them.
\<close>

inductive submitted ::
  "op_outside \<Rightarrow> signature_verification_config \<Rightarrow> state \<Rightarrow> update_body \<Rightarrow> bool" for opo config s where
  session: "b \<in> set (session_events out qr (files :: string files) r s cookie) \<Longrightarrow> submitted opo config s b"
| signup: "b \<in> set (sent (signup_email out s data)) \<Longrightarrow> submitted opo config s b"
| operator: "b \<in> set (operator_events opo config s sd req) \<Longrightarrow> submitted opo config s b"
| chain: "b \<in> set (fst (process_btc_events from_timestamp evs s)) \<Longrightarrow> submitted opo config s b"
| outcome: "b \<in> set (snd (update_results_step fmt to_text now clients res s)) \<Longrightarrow> submitted opo config s b"
| job: "(schedule, b) \<in> set cron_jobs \<Longrightarrow> submitted opo config s b"

text \<open>
  A turn of the worker takes one submitted event; the state its sender saw is any the worker
  has been in, so events may be late and arrive in any order.
\<close>

inductive running :: "op_outside \<Rightarrow> signature_verification_config \<Rightarrow> state \<Rightarrow> bool" for opo config where
  start: "running opo config (state_new genesis_hash now n)"
| turn: "running opo config s \<Longrightarrow> running opo config seen \<Longrightarrow> submitted opo config seen b \<Longrightarrow>
    w' = snd (worker_step to_value reachable (env, \<lparr>su_created = t, su_body = b\<rparr>)
               \<lparr>wk_state = s, wk_db = (db :: string row list)\<rparr>) \<Longrightarrow>
    running opo config (wk_state w')"

lemma worker_state:
  "wk_state (snd (worker_step to_value reachable (env, u) w))
     \<in> {wk_state w, snd (apply_update (env, u) (wk_state w))}"
  by (cases rule: worker_step_cases [of to_value reachable env u w]) auto

text \<open>A property every applied event keeps holds of all running states.\<close>

lemma running_induct [consumes 1, case_names start turn]:
  assumes "running opo config s"
    and "\<And>g now n. I (state_new g now n)"
    and "\<And>s seen b env t. I s \<Longrightarrow> I seen \<Longrightarrow> submitted opo config seen b \<Longrightarrow>
      I (snd (apply_update (env, \<lparr>su_created = t, su_body = b\<rparr>) s))"
  shows "I s"
  using assms(1)
proof induction
  case (turn s seen b w' to_value reachable env t db)
  let ?u = "\<lparr>su_created = t, su_body = b\<rparr>"
  have "wk_state w' \<in> {s, snd (apply_update (env, ?u) s)}"
    using worker_state [of to_value reachable env ?u "\<lparr>wk_state = s, wk_db = db\<rparr>"] turn.hyps(4) by simp
  with assms(3) [OF turn.IH turn.hyps(3), of env t] turn.IH(1) show ?case by auto
qed (rule assms(2))

text \<open>An event that is accepted makes a turn.\<close>

lemma running_accepted:
  assumes "running opo config s" and "submitted opo config s b"
    and "apply_update (env, \<lparr>su_created = t, su_body = b\<rparr>) s = (Inr r, s')"
  shows "running opo config s'"
proof -
  let ?w = "\<lparr>wk_state = s, wk_db = ([] :: string row list)\<rparr>"
  have "wk_state (snd (worker_step (\<lambda>_. Some []) True (env, \<lparr>su_created = t, su_body = b\<rparr>) ?w)) = s'"
    using assms(3) by (simp add: worker_step_def insert_update_def Let_def)
  with running.turn [OF assms(1,1,2) refl, of "\<lambda>_. Some []" True env t "[]"] show ?thesis by simp
qed

subsection \<open>What the services send\<close>

text \<open>A vote of an operator on exactly this user's request in this currency.\<close>

definition operator_vote :: "op_outside \<Rightarrow> signature_verification_config \<Rightarrow> vote_law" where
  "operator_vote opo config n c i dt d \<longleftrightarrow>
     wd_public_key d \<in> set (svc_operator_public_keys config) \<and>
     (\<exists>data. cd_user data = n \<and> address_currency (cd_address data) = c \<and> cd_id data = i \<and>
       op_ecdsa opo (wd_public_key d)
         (svc_domain config @ (case dt of Confirm \<Rightarrow> ''/confirm'' | Reject \<Rightarrow> ''/reject'') @ '':''
           @ op_confirmation_json opo data @ '':'' @ u64_to_string (wd_nonce d)) (wd_signature d))"

lemma operator_sends_votes:
  assumes "b \<in> set (operator_events opo config s sd r)"
  shows "event_votes (operator_vote opo config) b"
proof (cases r)
  case (OpConfirm data)
  with assms show ?thesis
    by (auto simp: operator_confirm_def send_internal_def sent_and_then_mem guard_outcome event_votes_def
        operator_vote_def decision_info_of_def decision_of_info_def)
next
  case (OpReject data)
  with assms show ?thesis
    by (auto simp: operator_reject_def send_internal_def sent_and_then_mem guard_outcome event_votes_def
        operator_vote_def decision_info_of_def decision_of_info_def)
next
  case (OpGenInvite label)
  with assms show ?thesis
    by (auto simp: operator_gen_invite_def send_internal_def sent_and_then_mem event_votes_def handler_simps
        split: outcome.splits option.splits)
next
  case (OpExchangeAddress c)
  have "\<forall>b\<in>set (sent (get_exchange_address opo config s sd c)). event_votes (operator_vote opo config) b"
    by (auto simp: get_exchange_address_def event_votes_def sends_only_def [symmetric]
        intro!: sends_intros split: option.splits)
  with OpExchangeAddress assms show ?thesis by simp
qed (use assms in \<open>auto simp: operator_handlers sent_and_then_mem event_votes_def\<close>)

text \<open>The name of the exchange's own user stays free, and only BTC gets an exchange address.\<close>

definition reserved :: "state \<Rightarrow> bool" where
  "reserved s \<longleftrightarrow> hm_get (st_users s) EXCHANGE_USER = None
     \<and> (\<forall>c. c \<noteq> BTC \<longrightarrow> hm_get (es_addresses (st_exchange s)) c = None)"

definition keeps_reserved :: "update_body \<Rightarrow> bool" where
  "keeps_reserved b = (case b of
      Signup a \<Rightarrow> su_username a \<noteq> EXCHANGE_USER
    | ExchangeAddress a \<Rightarrow> address_currency a = BTC
    | Snapshot _ \<Rightarrow> False
    | _ \<Rightarrow> True)"

lemma no_exchange_address:
  assumes "hm_get (st_users s) EXCHANGE_USER = None" and "c \<noteq> BTC"
  shows "op_get_deposit_address opo s c = fail ErrNoUserFound"
  using assms by (cases c) (simp_all add: op_get_deposit_address_def handler_simps)

lemma sends_btc_address:
  "sends_only (\<lambda>b. \<exists>a. b = ExchangeAddress (AddrBTC a)) (op_get_deposit_address opo s BTC)"
  by (auto simp: op_get_deposit_address_def op_allocate_btc_address_def exchange_address_body_def
      intro!: sends_intros)

lemma operator_keeps_reserved:
  assumes "b \<in> set (operator_events opo config s sd r)" and "reserved s"
  shows "keeps_reserved b"
proof (cases r)
  case (OpExchangeAddress c)
  have "sends_only keeps_reserved (op_get_deposit_address opo s c)"
  proof (cases "c = BTC")
    case True
    with sends_btc_address [of opo s] show ?thesis by (auto simp: sends_only_def keeps_reserved_def)
  next
    case False
    with assms(2) show ?thesis by (auto simp: reserved_def no_exchange_address intro!: sends_intros)
  qed
  then have "\<forall>b\<in>set (sent (get_exchange_address opo config s sd c)). keeps_reserved b"
    by (auto simp: get_exchange_address_def sends_only_def [symmetric]
        intro!: sends_intros split: option.splits)
  with OpExchangeAddress assms(1) show ?thesis by simp
next
  case (OpGenInvite label)
  with assms show ?thesis
    by (auto simp: operator_gen_invite_def send_internal_def sent_and_then_mem keeps_reserved_def handler_simps
        split: outcome.splits option.splits)
qed (use assms(1) in \<open>auto simp: operator_handlers sent_and_then_mem keeps_reserved_def\<close>)

lemma quiet_services:
  assumes "submitted opo config s b"
    and "\<And>sd r. b \<notin> set (operator_events opo config s sd r)"
    and "\<And>out data. b \<notin> set (sent (signup_email out s data))"
  shows "event_votes P b \<and> keeps_reserved b"
  using assms(1)
proof cases
  case (session out qr files r cookie)
  then have "user_event b"
    using session_events_own [of out qr files r s cookie] by (auto simp: own_event_def)
  then show ?thesis by (auto simp: event_votes_def keeps_reserved_def split: update_body.splits)
next
  case (chain from_timestamp evs)
  then have "chain_report b \<or> (\<exists>best. b = BestBtcBlock best)"
    by (auto simp: process_btc_events_def Let_def split: prod.splits if_splits
        intro: btc_event_bodies_reports [of _ from_timestamp "ev_events evs"])
  then show ?thesis
    by (auto simp: event_votes_def keeps_reserved_def chain_report_def split: update_body.splits)
next
  case (outcome fmt to_text now clients res)
  then show ?thesis
    by (cases res) (auto simp: withdraw_confirmed_def withdraw_under_limit_def complete_body_def
        rejected_body_def event_votes_def keeps_reserved_def Let_def
        split: option.splits currency_address.splits sum.splits)
next
  case (job schedule)
  then show ?thesis by (auto simp: cron_jobs_def event_votes_def keeps_reserved_def)
qed (use assms(2,3) in auto)

lemma signup_sends:
  assumes "b \<in> set (sent (signup_email out s data))"
  shows "event_votes P b \<and> keeps_reserved b"
proof -
  from assms have "se_user data \<noteq> EXCHANGE_USER" by (rule signup_email_sent)
  with assms show ?thesis
    by (auto simp: signup_email_def sent_and_then_mem Let_def sent_call handler_simps event_votes_def
        keeps_reserved_def split: if_splits)
qed

lemma submitted_votes: "submitted opo config s b \<Longrightarrow> event_votes (operator_vote opo config) b"
  using quiet_services operator_sends_votes signup_sends by metis

lemma submitted_reserved: "submitted opo config s b \<Longrightarrow> reserved s \<Longrightarrow> keeps_reserved b"
  using quiet_services operator_keeps_reserved signup_sends by metis

subsection \<open>What stays true of the worker's state\<close>

lemma es_addresses_kept [simp]:
  "es_addresses (process_order r es) = es_addresses es"
  "es_addresses (process_incoming_btc_tx tx es) = es_addresses es"
  "es_addresses (exchange_cancel_btc_tx cnl es) = es_addresses es"
  by (simp_all add: process_order_def process_incoming_btc_tx_def exchange_cancel_btc_tx_def Let_def
      split: option.splits)

lemma no_user_stays:
  assumes "hm_get (st_users s) uid = None" and "\<And>a. b = Signup a \<Longrightarrow> su_username a \<noteq> uid"
    and "\<And>x. b \<noteq> Snapshot x"
  shows "hm_get (st_users (snd (handle_body env t b s))) uid = None"
proof (cases "event_user b = Some uid")
  case True
  with assms show ?thesis
    by (cases b) (auto simp: handle_body_def with_new_withdrawal_request_def withdrawal_request_of_def
        with_withdrawal_request_decision_def get_withdrawal_request_by_decision_info_def
        with_deposit_address_def update_tokens_def insert_limits_req_def cancel_limit_change_def
        with_limit_change_decision_def set_language_def update_user_config_def change_password_def
        set_user_public_key_def with_user_info_def add_exchange_request_def with_exchange_decision_def
        apply_exchange_decision_def Let_def)
next
  case other: False
  show ?thesis
  proof (cases "event_user b")
    case None
    with assms show ?thesis
      by (cases b) (auto simp: handle_body_def set_withdrawal_request_completed_def
          set_withdrawal_request_node_rejected_def map_accounts_def with_btc_tx_update_def
          with_btc_tx_cancel_def gen_invite_def clear_limits_def set_exchange_address_def Let_def
          put_user_def split: option.splits)
  next
    case (Some uid')
    with other only_user_handle_body [OF Some, of s env t] assms(1) show ?thesis
      by (auto simp: only_user_def)
  qed
qed

lemma exchange_addresses_stay:
  assumes "\<And>x. b \<noteq> Snapshot x" and "\<And>a. b \<noteq> ExchangeAddress a"
  shows "es_addresses (st_exchange (snd (handle_body env t b s))) = es_addresses (st_exchange s)"
proof (cases "event_user b")
  case None
  with assms show ?thesis
    by (cases b) (auto simp: handle_body_def set_withdrawal_request_completed_def
        set_withdrawal_request_node_rejected_def map_accounts_def with_btc_tx_update_def
        with_btc_tx_cancel_def gen_invite_def clear_limits_def Let_def put_user_def split: option.splits)
next
  case (Some uid)
  show ?thesis
  proof (cases "\<exists>d. b = ExchangeDecision d")
    case True
    then show ?thesis
      by (auto simp: handle_body_def with_exchange_decision_def apply_exchange_decision_def
          add_incoming_exchange_def put_user_def Let_def split: option.splits sum.splits prod.splits)
  next
    case False
    with only_user_handle_body [OF Some, of s env t] show ?thesis by (auto simp: only_user_def)
  qed
qed

lemma reserved_stays:
  assumes "reserved s" and "keeps_reserved b"
  shows "reserved (snd (apply_update (env, \<lparr>su_created = t, su_body = b\<rparr>) s))"
proof -
  have touched: "reserved (snd (touch t r)) = reserved (snd r)" for r :: "(state, state_update_err, 'x) step_result"
    by (auto simp: touch_def reserved_def split: prod.splits sum.splits)
  have "hm_get (st_users (snd (handle_body env t b s))) EXCHANGE_USER = None"
    by (rule no_user_stays) (use assms in \<open>auto simp: reserved_def keeps_reserved_def\<close>)
  moreover have "hm_get (es_addresses (st_exchange (snd (handle_body env t b s)))) c = None" if "c \<noteq> BTC" for c
  proof (cases "\<exists>a. b = ExchangeAddress a")
    case True
    with assms that show ?thesis
      by (auto simp: handle_body_def set_exchange_address_def reserved_def keeps_reserved_def)
  next
    case False
    then have "es_addresses (st_exchange (snd (handle_body env t b s))) = es_addresses (st_exchange s)"
      by (intro exchange_addresses_stay) (use assms(2) in \<open>auto simp: keeps_reserved_def\<close>)
    with assms(1) that show ?thesis by (simp add: reserved_def)
  qed
  ultimately show ?thesis by (simp add: apply_update_def Let_def touched) (simp add: reserved_def)
qed

interpretation reserved: guarded_steps apply_update reserved "\<lambda>eu. keeps_reserved (su_body (snd eu))"
  by unfold_locales
    (metis prod.collapse reserved_stays state_update.surjective unit.exhaust)

lemma submitted_no_snapshot:
  assumes "submitted opo config s b"
  shows "b \<noteq> Snapshot x"
proof (cases "\<exists>sd r. b \<in> set (operator_events opo config s sd r)")
  case True
  then obtain sd r where "b \<in> set (operator_events opo config s sd r)" by blast
  with operator_events_signed [of opo config s sd r] have "operator_event b"
    by (simp add: signed_event_def)
  then show ?thesis by auto
next
  case False
  with assms have "keeps_reserved b"
    using quiet_services [OF assms] signup_sends by metis
  then show ?thesis by (auto simp: keeps_reserved_def)
qed

lemma running_invariant:
  assumes "running opo config s"
  shows "state_wf s \<and> state_votes (operator_vote opo config) s \<and> reserved s"
  using assms
proof (induction rule: running_induct)
  case (start g now n)
  show ?case
    by (simp add: state_wf_new state_votes_new)
      (simp add: reserved_def state_new_def exchange_state_new_def)
next
  case (turn s seen b env t)
  let ?u = "\<lparr>su_created = t, su_body = b\<rparr>"
  have "event_ok (env, ?u)"
    using submitted_no_snapshot [OF turn(3)] by (auto simp: event_ok_def split: update_body.splits)
  moreover have "state_votes (operator_vote opo config) (snd (apply_update (env, ?u) s))"
    by (rule votes_apply_update) (use turn submitted_votes in auto)
  ultimately show ?case
    using turn by (auto intro: event.step_inv reserved_stays submitted_reserved)
qed

lemma confirmed_by_operators:
  assumes "running opo config s" and "get_withdrawal_request s i = Some w"
    and "wr_status w = Confirmed" and "total_votes w < 2 ^ 15"
  shows "\<exists>K \<subseteq> set (svc_operator_public_keys config). 2 \<le> card K \<and>
    (\<forall>k\<in>K. \<exists>data nonce sig.
        cd_id data = i \<and> cd_user data = wr_user w
      \<and> address_currency (cd_address data) = address_currency (wr_address w)
      \<and> op_ecdsa opo k (svc_domain config @ ''/confirm:'' @ op_confirmation_json opo data
          @ '':'' @ u64_to_string nonce) sig)"
proof -
  from running_invariant [OF assms(1)] have wf: "state_wf s"
    and votes: "state_votes (operator_vote opo config) s" by simp_all
  let ?K = "set (keys_of (wr_confirmations w)) - set (keys_of (wr_rejections w))"
  have two: "2 \<le> card ?K"
    using confirmed_by_two_keys [OF request_of_state(2) [OF wf assms(2)] assms(3,4)] by simp
  have signed: "\<exists>d. wd_public_key d = k \<and>
      operator_vote opo config (wr_user w) (address_currency (wr_address w)) i Confirm d" if "k \<in> ?K" for k
    using that votes_of_request [OF wf votes assms(2)] by (auto simp: request_votes_def keys_of_def)
  then have "?K \<subseteq> set (svc_operator_public_keys config)"
    by (fastforce simp: operator_vote_def)
  moreover have "\<exists>data nonce sig. cd_id data = i \<and> cd_user data = wr_user w
      \<and> address_currency (cd_address data) = address_currency (wr_address w)
      \<and> op_ecdsa opo k (svc_domain config @ ''/confirm:'' @ op_confirmation_json opo data
          @ '':'' @ u64_to_string nonce) sig" if "k \<in> ?K" for k
  proof -
    from signed [OF that] obtain d where "wd_public_key d = k"
      and d: "operator_vote opo config (wr_user w) (address_currency (wr_address w)) i Confirm d" by blast
    moreover from d obtain data where "cd_user data = wr_user w"
      "address_currency (cd_address data) = address_currency (wr_address w)" "cd_id data = i"
      "op_ecdsa opo (wd_public_key d) (svc_domain config @ ''/confirm'' @ '':''
         @ op_confirmation_json opo data @ '':'' @ u64_to_string (wd_nonce d)) (wd_signature d)"
      unfolding operator_vote_def withdrawal_request_decision_type.case by blast
    ultimately show ?thesis
      by (intro exI [of _ data] exI [of _ "wd_nonce d"] exI [of _ "wd_signature d"]) simp
  qed
  ultimately show ?thesis using two by (intro exI [of _ ?K] conjI ballI)
qed

text \<open>
  Property C2. End to end: in every state the services bring the worker to, a withdrawal that
  is confirmed was confirmed by at least two different configured operators. Each of them
  signed, under the service's domain and the confirmation path, data that name this request's
  id, user and currency - though not necessarily its amount or address, which the state never
  compares.
\<close>

theorem confirmed_withdrawals_were_signed:
  assumes "running opo config s" and "get_withdrawal_request s i = Some w"
    and "wr_status w = Confirmed" and "total_votes w < 2 ^ 15"
  shows "\<exists>K \<subseteq> set (svc_operator_public_keys config). 2 \<le> card K \<and>
    (\<forall>k\<in>K. \<exists>data nonce sig.
        cd_id data = i \<and> cd_user data = wr_user w
      \<and> address_currency (cd_address data) = address_currency (wr_address w)
      \<and> op_ecdsa opo k (svc_domain config @ ''/confirm:'' @ op_confirmation_json opo data
          @ '':'' @ u64_to_string nonce) sig)"
  by (rule confirmed_by_operators [OF assms])

text \<open>
  A run: an operator gives an invite away, Alice signs up with it and asks for a withdrawal,
  and two operators confirm.
\<close>

definition run_invite :: invite_rec where
  "run_invite = \<lparr>ir_invite = \<lparr>invite_id = 0\<rparr>, ir_invitor = ''op'', ir_label = ''l''\<rparr>"

definition run_user :: user_info where
  "run_user = user_info_new ''Alice'' \<lparr>invite_id = 0\<rparr> (Password ''#secret'') 1"

definition run_state :: "(string, user_info) hash_map \<Rightarrow> (invite, invite_rec) hash_map \<Rightarrow> state" where
  "run_state users invites = (state_new (\<lambda>_. ''g'') 0 Regtest)
     \<lparr>st_users := users, st_invites := invites, st_last_changed := 1\<rparr>"

definition run_request :: "withdrawal_request_status \<Rightarrow> withdrawal_request_decision list \<Rightarrow> withdrawal_request" where
  "run_request st votes = (withdrawal_request_of 1
     \<lparr>wri_id = 42, wri_user = ''Alice'', wri_address = AddrETH \<lparr>account = ''0x''\<rparr>, wri_amount = 9,
      wri_request_type = OverLimit\<rparr>)\<lparr>wr_status := st, wr_confirmations := votes\<rparr>"

definition run_requested :: "withdrawal_request \<Rightarrow> state" where
  "run_requested w = run_state [(''Alice'', put_account ETH
     ((user_currency_info_new ETH)\<lparr>uci_withdrawals := [(42, w)]\<rparr>) run_user)] []"

definition run_data :: confirmation_data where
  "run_data = \<lparr>cd_id = 42, cd_user = ''Alice'', cd_address = AddrETH \<lparr>account = ''0x''\<rparr>,
     cd_created_at = ''now'', cd_amount = 9\<rparr>"

definition run_vote :: "string \<Rightarrow> withdrawal_request_decision_info" where
  "run_vote k = decision_info_of run_data (example_op_signature k ''/confirm'' ''Alice'') Confirm ''d/confirm''"

abbreviation example_running :: "state \<Rightarrow> bool" where
  "example_running \<equiv> running example_op_outside example_op_config"

lemma run_state_simps [simp]:
  "st_users (run_state us is) = us" "st_invites (run_state us is) = is"
  "(run_state us is)\<lparr>st_users := us'\<rparr> = run_state us' is"
  "(run_state us is)\<lparr>st_invites := is'\<rparr> = run_state us is'"
  "(run_state us is)\<lparr>st_last_changed := 1\<rparr> = run_state us is"
  "put_user uid u (run_state us is) = run_state (hm_insert uid u us) is"
  by (simp_all add: run_state_def put_user_def)

lemma run_account: "hm_get (ui_currencies run_user) ETH = Some (user_currency_info_new ETH)"
  by (simp add: run_user_def default_account default_currencies_eq)

lemma run_user_name [simp]: "ui_username run_user = ''Alice''"
  by (simp add: run_user_def user_info_new_def)

lemma run_invited: "example_running (run_state [] [(\<lparr>invite_id = 0\<rparr>, run_invite)])"
proof -
  let ?s = "state_new (\<lambda>_. ''g'') 0 Regtest"
  have "GenInvite run_invite \<in> set (operator_events example_op_outside example_op_config ?s
      (example_op_signature ''op'' ''/invite/generate'' ''l'') (OpGenInvite ''l''))"
    using example_gen_invite by (simp add: run_invite_def)
  moreover have "apply_update (example_env, \<lparr>su_created = 1, su_body = GenInvite run_invite\<rparr>) ?s
      = (Inr None, run_state [] [(\<lparr>invite_id = 0\<rparr>, run_invite)])"
    by (simp add: apply_update_def handle_body_def gen_invite_def quiet_def touch_def run_invite_def
        run_state_def state_new_def hm_empty_def)
  ultimately show ?thesis by (rule running_accepted [OF running.start submitted.operator])
qed

lemma run_signed_up: "example_running (run_state [(''Alice'', run_user)] [])"
proof -
  let ?s = "run_state [] [(\<lparr>invite_id = 0\<rparr>, run_invite)]"
  let ?b = "Signup \<lparr>su_username = ''Alice'', su_invite = \<lparr>invite_id = 0\<rparr>, su_auth = Password ''#secret''\<rparr>"
  have "?b \<in> set (sent (signup_email example_outside ?s
      \<lparr>se_user = ''Alice'', se_invite = \<lparr>invite_id = 0\<rparr>, se_password = ''secret''\<rparr>))"
    by (simp add: signup_email_def check_lengths_ok handler_simps hm_contains_key_def
        example_outside_def send_unwrap_def perform_def)
  moreover have "apply_update (example_env, \<lparr>su_created = 1, su_body = ?b\<rparr>) ?s
      = (Inr None, run_state [(''Alice'', run_user)] [])"
    by (simp add: apply_update_def handle_body_def with_signup_def quiet_def touch_def
        hm_contains_key_def user_info_of_signup_def run_user_def user_info_new_def Let_def)
  ultimately show ?thesis by (rule running_accepted [OF run_invited submitted.signup])
qed

lemma run_asked: "example_running (run_requested (run_request (InProgress 0) []))"
proof -
  let ?s = "run_state [(''Alice'', run_user)] []"
  let ?b = "CreateWithdrawalRequest \<lparr>wri_id = 42, wri_user = ''Alice'',
    wri_address = AddrETH \<lparr>account = ''0x''\<rparr>, wri_amount = 9, wri_request_type = OverLimit\<rparr>"
  have "?b \<in> set (session_events example_outside (\<lambda>_. None)
      \<lparr>f_static_path = [], f_read = NotRead, f_parse = \<lambda>_. Some []\<rparr>
      (ReqWithdraw \<lparr>uwr_address = AddrETH \<lparr>account = ''0x''\<rparr>, uwr_amount = 9\<rparr>) ?s (Some ''Alice''))"
    by (simp add: post_withdraw_def require_auth_user_def require_auth_def withdrawal_info_def send_or_def
        example_outside_def perform_def handler_simps)
  moreover have "apply_update (example_env, \<lparr>su_created = 1, su_body = ?b\<rparr>) ?s
      = (Inr None, run_requested (run_request (InProgress 0) []))"
    by (simp add: apply_update_def handle_body_def with_new_withdrawal_request_def touch_def Let_def
        withdrawal_request_of_def run_account run_request_def run_requested_def
        user_currency_info_new_def hm_empty_def)
  ultimately show ?thesis by (rule running_accepted [OF run_signed_up submitted.session])
qed

lemma run_decision:
  assumes "k \<in> {''op'', ''po''}" and "decide_request (run_vote k) w = (Inr r, w')"
    and "example_running (run_requested w)"
  shows "example_running (run_requested w')"
proof -
  let ?b = "WithdrawalRequestDecision (run_vote k)"
  have json: "op_confirmation_json example_op_outside run_data = ''Alice''"
    by (simp add: example_op_outside_def run_data_def)
  have "?b \<in> set (operator_events example_op_outside example_op_config (run_requested w)
      (example_op_signature k ''/confirm'' ''Alice'') (OpConfirm run_data))"
    using assms(1) by (simp add: operator_confirm_def sent_and_then_mem json example_guard send_internal_def)
      (simp add: run_vote_def example_op_config_def)
  moreover have "get_withdrawal_request_by_decision_info (run_vote k) (run_requested w) =
      Inr (put_account ETH ((user_currency_info_new ETH)\<lparr>uci_withdrawals := [(42, w)]\<rparr>) run_user,
        (user_currency_info_new ETH)\<lparr>uci_withdrawals := [(42, w)]\<rparr>, w)"
    by (simp add: get_withdrawal_request_by_decision_info_def run_vote_def decision_info_of_def
        run_data_def run_requested_def put_account_def)
  then have "apply_update (example_env, \<lparr>su_created = 1, su_body = ?b\<rparr>) (run_requested w)
      = (Inr (map_option WithdrawConfirmed r), run_requested w')"
    using assms(2)
    by (simp add: apply_update_def handle_body_def with_withdrawal_request_decision_def touch_def Let_def
        run_requested_def run_vote_def decision_info_of_def run_data_def put_account_def)
  ultimately show ?thesis by (rule running_accepted [OF assms(3) submitted.operator])
qed

lemma run_confirmed:
  "example_running (run_requested (run_request Confirmed
     [decision_of_info (run_vote ''op''), decision_of_info (run_vote ''po'')]))"
proof -
  let ?w1 = "run_request (InProgress 1) [decision_of_info (run_vote ''op'')]"
  have "decide_request (run_vote ''op'') (run_request (InProgress 0) []) = (Inr None, ?w1)"
    by (simp add: decide_request_def run_request_def withdrawal_request_of_def run_vote_def
        decision_info_of_def keys_of_def)
  then have one: "example_running (run_requested ?w1)"
    by (rule run_decision [rotated]) (simp_all add: run_asked)
  have "decide_request (run_vote ''po'') ?w1 = (Inr (Some 42), run_request Confirmed
      [decision_of_info (run_vote ''op''), decision_of_info (run_vote ''po'')])"
    by (simp add: decide_request_def run_request_def withdrawal_request_of_def run_vote_def
        decision_info_of_def decision_of_info_def keys_of_def example_op_signature_def)
  then show ?thesis by (rule run_decision [rotated]) (simp_all add: one)
qed

abbreviation run_paid_request :: withdrawal_request where
  "run_paid_request \<equiv> run_request Confirmed [decision_of_info (run_vote ''op''), decision_of_info (run_vote ''po'')]"

lemma run_found: "get_withdrawal_request (run_requested run_paid_request) 42 = Some run_paid_request"
proof -
  have "all_withdrawal_entries (run_requested run_paid_request) = [(42, run_paid_request)]"
    by (simp add: all_withdrawal_entries_def run_requested_def hm_values_def put_account_def run_user_def
        user_info_new_def default_currencies_eq hm_collect_def hm_empty_def token_defs
        user_currency_info_new_def)
  then show ?thesis by (simp add: get_withdrawal_request_def)
qed

lemma run_paid:
  "wr_status run_paid_request = Confirmed" "total_votes run_paid_request < 2 ^ 15"
  "wr_user run_paid_request = ''Alice''" "wr_address run_paid_request = AddrETH \<lparr>account = ''0x''\<rparr>"
  "wr_amount run_paid_request = 9"
  by (simp_all add: run_request_def withdrawal_request_of_def total_votes_def)

theorem confirmed_withdrawals_were_signed_witness:
  "\<exists>K \<subseteq> {PublicKey ''op'', PublicKey ''po''}. 2 \<le> card K"
  using confirmed_withdrawals_were_signed [OF run_confirmed run_found run_paid(1,2)]
  by (auto simp: example_op_config_def)

text \<open>
  Property C36. The exchange wallet never gets an address of its own for ETH or a token: in
  every state the services bring the worker to, an operator's signed request for one is
  answered with an error and nothing is sent, since the handler looks for the deposit
  addresses of a user whose name no visitor can sign up with.
\<close>

theorem exchange_address_only_for_btc:
  assumes "running opo config s" and "c \<noteq> BTC"
    and "snd (guard_op_signature opo config ''/exchange/address'' sd (op_currency_json opo c)) = Done ()"
  shows "get_exchange_address opo config s sd c = fail (ErrFailedGenAddress c)"
proof -
  have "hm_get (st_users s) EXCHANGE_USER = None" "hm_get (es_addresses (st_exchange s)) c = None"
    using running_invariant [OF assms(1)] assms(2) by (auto simp: reserved_def)
  with assms(2) no_exchange_address [of s c opo] guard_Done [OF assms(3)] show ?thesis
    by (simp add: get_exchange_address_def handler_simps map_fail_def fail_def)
qed

theorem exchange_address_only_for_btc_witness:
  "get_exchange_address example_op_outside example_op_config (state_new (\<lambda>_. ''g'') 0 Regtest)
     (example_op_signature ''op'' ''/exchange/address'' ''eth'') ETH = fail (ErrFailedGenAddress ETH)"
proof -
  have json: "op_currency_json example_op_outside ETH = ''eth''"
    by (simp add: example_op_outside_def)
  show ?thesis
    by (rule exchange_address_only_for_btc [OF running.start]) (simp_all add: example_guard json)
qed

end
