(* ===== verification/Eth_Payment.thy ===== *)
theory Eth_Payment
  imports Eth_Module System_Steps
begin

section \<open>Ethereum and token withdrawals\<close>

text \<open>
  The client of the ETH module (hexstody-eth-client/src/client.rs) and the path of an ETH or
  token withdrawal from the state machine to the transaction the node is made to sign. Unlike
  the BTC module, the ETH module sees no votes.
\<close>

subsection \<open>The client\<close>

text \<open>
  An error status, or a panic (which the server answers with status 500), is an error of the
  client; \<open>refusal\<close> is its text.
\<close>

definition client_result :: "string \<Rightarrow> 'a eth_answer \<Rightarrow> string + 'a" where
  "client_result refusal answer = (case answer of EthOk a \<Rightarrow> Inr a | _ \<Rightarrow> Inl refusal)"

definition client_of :: "string \<Rightarrow> 'a option \<Rightarrow> string + 'a" where
  "client_of refusal x = (case x of Some a \<Rightarrow> Inr a | None \<Rightarrow> Inl refusal)"

definition client_send_tx ::
  "string \<Rightarrow> bool \<Rightarrow> eth_node \<Rightarrow> eth_users \<Rightarrow> string \<Rightarrow> string \<Rightarrow> string \<Rightarrow> string + unit" where
  "client_send_tx refusal up node us user address amount =
     map_sum id (\<lambda>_. ()) (client_result refusal (snd (signsend up node user address amount us)))"

definition client_send_tx_erc20 ::
  "string \<Rightarrow> bool \<Rightarrow> eth_node \<Rightarrow> eth_users \<Rightarrow> string \<Rightarrow> string \<Rightarrow> string \<Rightarrow> string \<Rightarrow> string + unit" where
  "client_send_tx_erc20 refusal up node us user address token_addr amount =
     map_sum id (\<lambda>_. ()) (client_result refusal (snd (signsend_erc20 up node user address token_addr amount us)))"

datatype eth_client_error =
    ClientRefused string
  | InvalidCurrency currency
  | CurrencyNotFound currency

definition client_hot_wallet_balance ::
  "string \<Rightarrow> bool \<Rightarrow> eth_users \<Rightarrow> currency \<Rightarrow> eth_client_error + u64" where
  "client_hot_wallet_balance refusal up us cur =
     (case cur of
        BTC \<Rightarrow> Inl (InvalidCurrency BTC)
      | ETH \<Rightarrow> (case balance_eth_total up us of
                  None \<Rightarrow> Inl (ClientRefused refusal) | Some v \<Rightarrow> Inr v)
      | ERC20 token \<Rightarrow>
         (case balance_erc20_total up us of
            None \<Rightarrow> Inl (ClientRefused refusal)
          | Some entries \<Rightarrow>
             (case List.find (\<lambda>x. tbu_token_name x = ticker token) entries of
                None \<Rightarrow> Inl (CurrencyNotFound cur)
              | Some b \<Rightarrow> Inr (tbu_token_balance b))))"

subsection \<open>Rounding\<close>

lemma bit_length_bounds: "0 < n \<Longrightarrow> 2 ^ (bit_length n - 1) \<le> n \<and> n < 2 ^ bit_length n"
proof (induction n rule: bit_length.induct)
  case (1 n)
  show ?case
  proof (cases "n = 1")
    case True
    then show ?thesis by (simp add: bit_length.simps)
  next
    case False
    with 1 have "2 ^ (bit_length (n div 2) - 1) \<le> n div 2" "n div 2 < 2 ^ bit_length (n div 2)"
      and l: "0 < bit_length (n div 2)" by (simp_all add: bit_length.simps [of "n div 2"])
    moreover have "bit_length n = Suc (bit_length (n div 2))"
      using 1(2) by (subst bit_length.simps) simp
    moreover from l obtain m where "bit_length (n div 2) = Suc m" by (cases "bit_length (n div 2)") auto
    moreover have "n = 2 * (n div 2) + n mod 2" "n mod 2 < 2" by simp_all
    ultimately show ?thesis by (simp del: mult_div_mod_eq) linarith
  qed
qed

lemma bit_length_less: "n < 2 ^ k \<Longrightarrow> bit_length n \<le> k"
proof (cases "n = 0")
  case False
  assume "n < 2 ^ k"
  with False bit_length_bounds [of n] have "(2::nat) ^ (bit_length n - 1) < 2 ^ k" by linarith
  then show ?thesis by simp
qed (simp add: bit_length.simps)

lemma f64_exact: "n < 2 ^ 53 \<Longrightarrow> f64_of_nat n = n"
  using bit_length_less [of n 53] by (simp add: f64_of_nat_def)

text \<open>Rounding never goes below a power of two.\<close>

lemma f64_ge_power:
  assumes "2 ^ k \<le> n"
  shows "2 ^ k \<le> f64_of_nat n"
proof (cases "bit_length n \<le> 53")
  case True
  with assms show ?thesis by (simp add: f64_of_nat_def)
next
  case False
  let ?d = "2 ^ (bit_length n - 53) :: nat"
  have "0 < n" using False by (cases "n = 0") (simp_all add: bit_length.simps)
  then have b: "2 ^ (bit_length n - 1) \<le> n" "n < 2 ^ bit_length n" using bit_length_bounds by simp_all
  with assms have "(2::nat) ^ k < 2 ^ bit_length n" by linarith
  then have k: "k \<le> bit_length n - 1" by simp
  have split: "(2::nat) ^ (bit_length n - 1) = 2 ^ 52 * ?d"
  proof -
    obtain j where "bit_length n = j + 53" using False by (metis le_add_diff_inverse2 nat_le_linear)
    then show ?thesis by (simp add: power_add)
  qed
  with b(1) have "2 ^ 52 \<le> n div ?d" by (simp add: less_eq_div_iff_mult_less_eq)
  then have "2 ^ 52 * ?d \<le> f64_of_nat n"
    unfolding f64_of_nat_def Let_def by (intro mult_right_mono) auto
  moreover have "(2::nat) ^ k \<le> 2 ^ (bit_length n - 1)" using k by (simp add: power_increasing)
  ultimately show ?thesis unfolding split by linarith
qed

lemma f64_ge_19: "19 \<le> n \<Longrightarrow> 19 \<le> f64_of_nat n"
proof (cases "n < 2 ^ 53")
  case False
  then have "2 ^ 53 \<le> f64_of_nat n" by (intro f64_ge_power) simp
  then show ?thesis by simp
qed (simp add: f64_exact)

text \<open>Nineteen or more are scaled to the greatest number of 64 bits.\<close>

lemma nat_of_digits_show: "nat_of_digits acc (show_nat n @ cs) = nat_of_digits (acc * 10 ^ length (show_nat n) + n) cs"
proof (induction n arbitrary: cs rule: show_nat.induct)
  case (1 n)
  show ?case
  proof (cases "n < 10")
    case True
    then show ?thesis by (subst (1 2) show_nat.simps) (simp add: digit_value_char)
  next
    case False
    have "(acc * 10 ^ length (show_nat (n div 10)) + n div 10) * 10 + n mod 10
        = acc * 10 ^ Suc (length (show_nat (n div 10))) + n"
      by (simp add: algebra_simps)
    with False 1 show ?thesis
      by (subst (1 2) show_nat.simps) (simp add: digit_value_char ac_simps)
  qed
qed

lemma scaled_volume_u64: "scaled_volume other (u64_to_string v) = Some (as_u64 (f64_of_nat (10 ^ 18 * f64_of_nat (unat v))))"
  using nat_of_digits_show [of 0 "unat v" "[]"] show_nat_nonempty [of "unat v"]
  by (simp add: scaled_volume_def u64_to_string_def)

lemma scaled_volume_saturates:
  assumes "19 \<le> unat v"
  shows "scaled_volume other (u64_to_string v) = Some (- 1)"
proof -
  have "2 ^ 64 \<le> 10 ^ 18 * (19::nat)" by simp
  also have "\<dots> \<le> 10 ^ 18 * f64_of_nat (unat v)" by (rule mult_le_mono2 [OF f64_ge_19 [OF assms]])
  finally have "2 ^ 64 \<le> f64_of_nat (10 ^ 18 * f64_of_nat (unat v))" by (rule f64_ge_power)
  then show ?thesis by (simp add: scaled_volume_u64 as_u64_def)
qed

subsection \<open>What the node is made to sign\<close>

lemma query_user_data_Ok [simp]:
  "fst (query_user_data up login us) = []"
  "snd (query_user_data up login us) = EthOk (row, d) \<longleftrightarrow>
     pg_query_user up login us = Some row \<and> ea_data row = Some d"
  by (auto simp: query_user_data_def eth_then_def eth_unwrap_def eth_ret_def eth_panic_def
      split: option.splits prod.splits)

lemma signs_only_tx:
  "SignedTx tx login \<in> set (fst (sign_and_send node ep tx' login' to v)) \<longleftrightarrow> tx = tx' \<and> login = login'"
  by (auto simp: sign_and_send_def eth_then_mem)

lemma signsend_signs:
  assumes "SignedTx tx login \<in> set (fst (signsend up node user recipient volume us))"
  shows "login = user \<and> en_h160 node recipient = Some (tr_to tx) \<and> en_u256 node volume = Some (tr_value tx)
    \<and> tr_data tx = None
    \<and> (\<exists>row. pg_query_user up user us = Some row \<and> en_h160 node (ea_address row) = Some (tr_from tx))"
  using assms by (auto simp: signsend_def eth_then_mem signs_only_tx split: prod.splits if_splits)

lemma signsend_erc20_signs:
  assumes "SignedTx tx login \<in> set (fst (signsend_erc20 up node user recipient token volume us))"
  shows "login = user \<and> tr_value tx = 0 \<and> en_h160 node token = Some (tr_to tx)
    \<and> (\<exists>row. pg_query_user up user us = Some row \<and> en_h160 node (ea_address row) = Some (tr_from tx))
    \<and> (\<exists>hex data. to_hex_str_clean node volume = Some hex
         \<and> transfer_data (length recipient) recipient hex = Some data \<and> tr_data tx = Some data)"
  using assms by (auto simp: signsend_erc20_def eth_then_mem signs_only_tx split: prod.splits if_splits)

lemma confirmed_eth_call:
  assumes "get_withdrawal_request s i = Some w" and "wr_address w = AddrETH a"
    and "CallSendTx u dest amount \<in> set (fst (update_results_step fmt to_text now clients (WithdrawConfirmed i) s))"
  shows "u = wr_user w \<and> dest = account a \<and> amount = u64_to_string (wr_amount w)"
  using assms by (auto simp: withdraw_confirmed_def confirmed_withdrawal_of_def Let_def)


definition example_eth_node :: eth_node where
  "example_eth_node =
     \<lparr>en_new_account = (\<lambda>l. Some (''0x'' @ l)), en_accounts = Inr [], en_send_tx = (\<lambda>tx. Inr ''ok''),
      en_unlock = (\<lambda>a p. Inr ''ok''), en_balance = (\<lambda>a. Inr None), en_call = (\<lambda>t d. Inr None),
      en_url = True, en_tx_count = (\<lambda>ep a. Some 3), en_sign = (\<lambda>tx l. Inr ''raw''),
      en_sign_key = (\<lambda>t v k. Inr ''raw''), en_send_raw = (\<lambda>ep r. Inr ''hash''),
      en_h160 = (\<lambda>t. Some (of_nat (length t))), en_h160_text = (\<lambda>a. ''0x''), en_u256 = (\<lambda>t. map_option unat (parse_u64 t)),
      en_u256_text = show_nat, en_hex = (\<lambda>n. ''ffffffffffffffff''), en_f64 = (\<lambda>t. None),
      en_show_f64 = show_nat\<rparr>"

definition example_eth_users :: eth_users where
  "example_eth_users = [(''Alice'', \<lparr>ea_address = ''0xA11CE'', ea_data = Some empty_user_data\<rparr>)]"

lemmas example_eth = example_eth_node_def example_eth_users_def pg_query_user_def query_user_data_def
  eth_simps eth_then_mem signs_only_tx


text \<open>
  Property C37. A token withdrawal does not transfer the token. The data the node is made to
  sign are the letters of the call in hexadecimal, not its bytes, so they do not begin with
  the selector of \<open>transfer\<close>; and whatever amount of nineteen or more is asked for, they
  name the greatest number of 64 bits, since the amount is scaled by \<open>10 ^ 18\<close> once more.
\<close>

theorem token_withdrawal_is_garbled:
  assumes "SignedTx tx login \<in> set (fst (signsend_erc20 up node user recipient token (u64_to_string amount) us))"
    and "19 \<le> unat amount" and "en_u256 node (u64_to_string (- 1)) = Some (2 ^ 64 - 1)"
  shows "\<exists>data hex. tr_data tx = Some data \<and> hex = en_hex node (2 ^ 64 - 1)
    \<and> data = ''0xa9059cbb000000000000000000000000'' @ drop 2 recipient
        @ replicate (64 - length hex) (CHR ''0'') @ hex
    \<and> take 4 data \<noteq> [CHR 0xA9, CHR 0x05, CHR 0x9C, CHR 0xBB]"
proof -
  have hex: "to_hex_str_clean node (u64_to_string amount) = Some (en_hex node (2 ^ 64 - 1))"
    unfolding to_hex_str_clean_def scaled_volume_saturates [OF assms(2)]
    using assms(3) by simp
  from signsend_erc20_signs [OF assms(1)] hex obtain data where
    "tr_data tx = Some data"
    "transfer_data (length recipient) recipient (en_hex node (2 ^ 64 - 1)) = Some data" by auto
  then show ?thesis
    by (auto simp: transfer_data_def slice_2_def split: if_splits)
qed

theorem token_withdrawal_is_garbled_witness:
  "\<exists>tx data. SignedTx tx ''Alice'' \<in> set (fst (signsend_erc20 True example_eth_node ''Alice'' ''0xB0B'' ''0xT''
       (u64_to_string 20) example_eth_users)) \<and> tr_data tx = Some data \<and> take 4 data = ''0xa9''"
proof -
  let ?v = "u64_to_string 20"
  have u256: "en_u256 example_eth_node (u64_to_string (- 1)) = Some (2 ^ 64 - 1)"
    by (simp add: example_eth_node_def unsigned_minus_1_eq_mask mask_eq_exp_minus_1)
  have hex: "to_hex_str_clean example_eth_node ?v = Some ''ffffffffffffffff''"
    unfolding to_hex_str_clean_def by (subst scaled_volume_saturates) (simp_all add: example_eth_node_def)
  obtain tx where signed: "SignedTx tx ''Alice'' \<in> set (fst (signsend_erc20 True example_eth_node ''Alice'' ''0xB0B'' ''0xT'' ?v
      example_eth_users))"
    unfolding signsend_erc20_def hex by (simp add: example_eth transfer_data_def slice_2_def)
  moreover from token_withdrawal_is_garbled [OF signed _ u256] obtain data where
    "tr_data tx = Some data" "take 4 data = ''0xa9''" by auto
  ultimately show ?thesis by blast
qed

subsection \<open>Balances of the hot wallet\<close>

definition token_entry :: "erc20_token_balance_u64 list \<Rightarrow> string \<Rightarrow> u64 option" where
  "token_entry totals name =
     map_option tbu_token_balance (List.find (\<lambda>x. tbu_token_name x = name) totals)"

lemma find_map_entry:
  "List.find (\<lambda>x. tbu_token_name x = m) (map (\<lambda>t. if tbu_token_name t = n then t\<lparr>tbu_token_balance := g t\<rparr> else t) ts)
    = map_option (\<lambda>t. if m = n then t\<lparr>tbu_token_balance := g t\<rparr> else t) (List.find (\<lambda>x. tbu_token_name x = m) ts)"
  by (induction ts) auto

lemma find_none_entry: "List.find (\<lambda>x. tbu_token_name x = n) ts = None \<longleftrightarrow> (\<forall>t\<in>set ts. tbu_token_name t \<noteq> n)"
  by (auto simp: find_None_iff)

lemma find_append: "List.find P (xs @ ys) = (case List.find P xs of Some x \<Rightarrow> Some x | None \<Rightarrow> List.find P ys)"
  by (induction xs) auto

lemma token_entry_add:
  "token_entry (add_token_balance n v totals) m =
     (if m = n then Some ((case token_entry totals n of Some x \<Rightarrow> x | None \<Rightarrow> 0) + v) else token_entry totals m)"
proof (cases "\<exists>t\<in>set totals. tbu_token_name t = n")
  case True
  then obtain t where t: "List.find (\<lambda>x. tbu_token_name x = n) totals = Some t"
    using find_none_entry [of n totals] by fastforce
  with True show ?thesis
    by (auto simp: token_entry_def add_token_balance_def find_map_entry option.map_comp o_def)
next
  case False
  then have "List.find (\<lambda>x. tbu_token_name x = n) totals = None" by (auto simp: find_none_entry)
  with False show ?thesis
    by (auto simp: token_entry_def add_token_balance_def find_append split: option.splits)
qed

definition balance_value :: "erc20_token_balance \<Rightarrow> u64" where
  "balance_value b = (case parse_u64 (tb_token_balance b) of Some v \<Rightarrow> v | None \<Rightarrow> 0)"

lemma add_token_balances_entry:
  assumes "add_token_balances bs totals = Some totals'"
  shows "token_entry totals' name =
    (let own = filter (\<lambda>b. tb_token_name b = name) bs in
     if own = [] then token_entry totals name
     else Some ((case token_entry totals name of Some x \<Rightarrow> x | None \<Rightarrow> 0) + sum_list (map balance_value own)))"
  using assms
proof (induction bs totals rule: add_token_balances.induct)
  case (2 tkn tkns totals)
  from 2(2) obtain v where v: "parse_u64 (tb_token_balance tkn) = Some v"
    and rest: "add_token_balances tkns (add_token_balance (tb_token_name tkn) v totals) = Some totals'"
    by (auto split: option.splits)
  have tkn: "balance_value tkn = v" by (simp add: balance_value_def v)
  from 2(1) [OF v rest] show ?case
    by (auto simp: token_entry_add tkn Let_def add.assoc split: if_splits)
qed simp



subsection \<open>The worker against the handlers\<close>

text \<open>
  The refresh writes back the tokens it read when its stage began: tokens posted in the
  meantime are lost.
\<close>

lemma refresh_loses_posted_tokens:
  assumes "hm_get us login = Some row" and "ea_data row = Some d"
    and "tokens_post True login tokens us = Some us1" and "refresh_user True ex login row us1 = Some us2"
  shows "tokens_get True login us1 = Some tokens" and "tokens_get True login us2 = Some (ud_tokens d)"
  using assms
  by (auto simp: tokens_get_def tokens_post_def pg_update_user_tokens_def pg_get_user_tokens_def
      pg_query_user_def refresh_user_def pg_update_user_def update_row_def
      split: option.splits prod.splits)

end
