(* ===== verification/Spec2Isabelle.thy ===== *)
theory Spec2Isabelle
  imports Conservation Rebuild Payment Btc_Scan Ticker Public_Withdraw Public_Login Eth_Payment Start_Up
begin

text \<open>
  hexstody keeps the money of its users in wallets of its own and lets a group of operators
  decide, by signed votes, on what leaves them. This development models its services in the
  order the code has them and proves what makes them correct, and where they are not, what
  they do instead.

  The parts, and how they interact.
  \<^item> The state machine (hexstody-db). One state holds all users, their accounts, requests
    and orders, the open invites, the BTC chain state and the exchange wallet. It changes only
    by events (\<open>StateUpdate\<close>): \<open>apply_update\<close> runs one, and may return a result that
    somebody has to act on, for example a withdrawal that has just been confirmed.
  \<^item> The update worker (\<open>update_worker\<close> in hexstody-db/src/lib.rs, with queries.rs). It takes events from a
    channel, applies each to a copy of the state, stores it as a row of a table, and only then
    replaces the state. At the start the state is rebuilt from the table.
  \<^item> The hot wallet's workers (hexstody-hot/src/worker.rs). One turns results into calls of
    the node modules and reports back with events, one turns what the BTC module reports about
    the chain into events, and jobs reset the spent limits.
  \<^item> The public API (hexstody-public) serves users with a session cookie, the operators' API
    (hexstody-operator) serves operators whose requests are signed. Both look at the state and
    send events to the worker; neither changes the state.
  \<^item> The BTC module (hexstody-btc) scans the node for transactions, keeps them until they are
    polled, moves what exceeds a limit to the cold wallet, and pays withdrawals after it has
    checked the operators' signatures itself. The ETH module (hexstody-eth) keeps a table of
    users with their addresses and balances and has the node sign transactions; it sees no
    signatures.
  \<^item> The rates (hexstody-ticker, hexstody-ticker-provider, hexstody-runtime-db) come from a
    provider through a cache.

  Which theory models what.
  \<^item> Prelude, Rust_String, Hash_Map: machine integers, strings and their decimal numbers,
    \<open>HashMap\<close> as a list with distinct keys. The locale \<open>entry_map\<close> is the contract of
    the maps, interpreted on that list as \<open>hm\<close>; \<open>guarded_steps\<close> lifts an invariant of
    one event to runs and is interpreted for each invariant of the state machine.
  \<^item> Currency, Api_Types, Api_Error: hexstody-api/src/domain, types.rs and error.rs. Sig:
    hexstody-sig and the signature header of hexstody-api.
  \<^item> Transaction, Withdraw, Limit_Change, Exchange, User: the records of
    hexstody-db/src/state with their operations. Update: \<open>State\<close>, \<open>UpdateBody\<close> and
    the tags. State: every handler of state/mod.rs, \<open>apply_update\<close> and \<open>collect\<close>.
  \<^item> State_Invariants, State_Properties, Vote_Origin: well-formedness (\<open>state_wf\<close>) and that
    every event keeps it, quorums, errors, and that recorded votes come from decisions.
    Isolation, Conservation, Spending: who an event can touch, what an exchange moves, limits,
    tokens and deposits.
  \<^item> Store, Replay, Rebuild: queries.rs and lib.rs, and that the table gives back the state.
  \<^item> Btc_Node, Btc_Withdraw, Btc_Scan: hexstody-btc. Hot_Worker: hexstody-hot/src/worker.rs.
    Payment: the way from the state to a BTC payment. Ticker: the three crates of the rates.
  \<^item> Http, Public_Data, Public_Auth, Public_Wallet, Public_Profile, Public_Pages: the
    public API; a handler is the list of its effects (events, calls, cookies) and an outcome.
    Public_Sessions: the locale \<open>user_api\<close> of what a session may send, interpreted on the
    handlers; Public_Withdraw and Public_Login: withdrawals, sign-up and sign-in.
  \<^item> Operator_Api, Operator_Properties: the operators' API. System_Steps: all services
    around the one worker (\<open>submitted\<close>, \<open>running\<close>), where an event may have been sent
    after a look at any earlier state.
  \<^item> Eth_Node, Eth_Module, Eth_Payment: hexstody-eth and what hexstody-eth-client calls.
  \<^item> Start_Up: hexstody-hot/src/main.rs and runner.rs, hexstody-btc/src/main.rs,
    hexstody-eth/src/conf.rs.
\<close>

text \<open>
  What the properties show.
  \<^item> Who can make money leave: every BTC payment for a request of the state was signed by
    operators (Payment, Btc_Withdraw), in every state of the running services a confirmed
    withdrawal was confirmed by two configured operators (System_Steps) whose keys are in two
    files named at the start (Start_Up), the operators' API and the BTC module check the same
    signatures (Operator_Properties), and an ETH withdrawal is signed for the address and amount of the
    request (Eth_Payment).
  \<^item> The vote: the code of a vote on a withdrawal refines an abstract poll
    (\<open>decide_request_refines_poll\<close>), and how it differs from what a reader may expect
    (\<open>quorum_overshoot\<close>).
  \<^item> The state: invariants of every collected state, isolation of users, conservation of
    value by exchanges, exactness of the balance computed with wrapping words, what errors
    leave behind, and that the table of updates rebuilds the state.
  \<^item> The edges: what sessions and operators can send, that a request covered by the balance is
    accepted and one that overflows is not caught, sign-up and sign-in, invites, challenges,
    the events of a scan, the rates, the end of the loops.

  Conventions. A Rust method that may fail and changes the state is a function to a pair of a
  sum and the state it leaves. A panic is an outcome of its own or None. u64, i64 and i16 are
  words, so sums wrap as in the release build; a property that needs no wrap-around says so:
  fewer than 2^15 votes on a request (the counter is an i16), fewer than 2^14 signatures in a
  call of the BTC module, the worth of an account within an i64. An f64 is a natural number
  rounded to 53 bits (\<open>f64_of_nat\<close>). Iterations over a HashMap take the order of the list;
  where a result could depend on it, the property is about any order. The only loops that may
  not end are \<open>draw_invite\<close> and \<open>btc_loop\<close>, partial functions whose ends are proved:
  the first draws at most one id more than there are open invites when the ids do not repeat,
  the second ends in its second turn. All other recursion is structural or has a measure, and no
  definition takes fuel.

  Parameters of the model are the code that is not in the repository: ECDSA, bcrypt, base64,
  DER and serde_json encodings, regular expressions, the template and QR engines, the Bitcoin
  and Ethereum nodes with their client crates, the block explorer, the provider of rates, the
  files, the database as a list of rows that may be unreachable, the command line and the
  layered configuration, and what the clock and the generator of ids return. What a
  property needs of them is a hypothesis of it.

  Not modelled.
  \<^item> The mounting of routes (\<open>serve_api\<close> of the two APIs, \<open>serve_public_api\<close>), the
    generated OpenAPI schemas, static files and pages without a session: no logic of the
    program. \<open>ethfee\<close> only decodes the answer of an external site.
  \<^item> The HTTP clients beyond hexstody-eth-client's payments and balances: each sends one
    request and decodes the answer. The wire types of hexstody-btc-api only wrap types of
    the crate bitcoin.
  \<^item> The handlers of the ETH module that are not mounted (createtest, updatetokens,
    send_erc20, the fee estimate), and getversion.
  \<^item> Test harnesses, the key generator, and logging.
\<close>

end
